(* ===== verification/Prelude.thy ===== *)
theory Prelude
  imports Main
begin

text \<open>
  Shared ground of the development: the error values of the Go code, computations that
  thread a state and may return an error (a Go function with result \<open>(T, error)\<close>), the
  rewrite rules that execute them, and the generic lemmas on lists that the tables and the
  loops of the components use.

  A Go function \<open>func (s *S) F(ctx, x) (T, error)\<close> is a function
  \<open>F :: S \<Rightarrow> x \<Rightarrow> ('w, T) comp\<close>: it takes the state \<open>'w\<close> of everything outside
  the function (database, Redis, counters) and returns the result, \<open>Inl\<close> an error or
  \<open>Inr\<close> a value, with the new state. The context argument carries only deadlines and
  cancellation; a call that a deadline cuts off is a call that returns an error.
\<close>

named_theorems comp_simps \<open>execution of the state and error combinators\<close>

section \<open>Errors\<close>

text \<open>
  The sentinel errors of package \<open>service\<close>, the numbered errors of the MySQL driver
  (the code tests for 1062, duplicate entry), and every other error, which the code only
  passes on.
\<close>

datatype err =
    ErrNotFound
  | ErrForbidden
  | ErrConflict
  | ErrBadRequest
  | ErrUnavailable
  | ErrInvalidCredentials
  | ErrInvalidToken
  | ErrTokenReuse
  | MySQLError nat
  | OtherError string

type_synonym 'a result = "err + 'a"

type_synonym ('w, 'a) comp = "'w \<Rightarrow> 'a result \<times> 'w"

section \<open>Computations with errors\<close>

definition returnE :: "'a \<Rightarrow> ('w, 'a) comp" where
  "returnE a w = (Inr a, w)"

definition raiseE :: "err \<Rightarrow> ('w, 'a) comp" where
  "raiseE e w = (Inl e, w)"

text \<open>
  \<open>bindR m k\<close> runs \<open>m\<close> and hands its result, error or value, to \<open>k\<close>. \<open>bindE m k\<close>
  is the idiom \<open>x, err := m; if err != nil { return err }; k(x)\<close>.
\<close>

definition bindR :: "('w, 'a) comp \<Rightarrow> ('a result \<Rightarrow> 'w \<Rightarrow> 'b) \<Rightarrow> 'w \<Rightarrow> 'b" where
  "bindR m k w = k (fst (m w)) (snd (m w))"

definition bindE :: "('w, 'a) comp \<Rightarrow> ('a \<Rightarrow> ('w, 'b) comp) \<Rightarrow> ('w, 'b) comp" where
  "bindE m k = bindR m (\<lambda>r. case r of Inl e \<Rightarrow> raiseE e | Inr a \<Rightarrow> k a)"

fun mapE :: "('a \<Rightarrow> ('w, 'b) comp) \<Rightarrow> 'a list \<Rightarrow> ('w, 'b list) comp" where
  "mapE f [] = returnE []"
| "mapE f (x # xs) = bindE (f x) (\<lambda>y. bindE (mapE f xs) (\<lambda>ys. returnE (y # ys)))"

lemma returnE_apply: "returnE a w = (Inr a, w)"
  by (simp add: returnE_def)

lemma raiseE_apply: "raiseE e w = (Inl e, w)"
  by (simp add: raiseE_def)

lemma returnE_sel [simp, comp_simps]: "fst (returnE a w) = Inr a" "snd (returnE a w) = w"
  by (simp_all add: returnE_def)

lemma raiseE_sel [simp, comp_simps]: "fst (raiseE e w) = Inl e" "snd (raiseE e w) = w"
  by (simp_all add: raiseE_def)

lemma bindR_apply [comp_simps]: "bindR m k w = k (fst (m w)) (snd (m w))"
  by (simp add: bindR_def)

lemma bindE_apply [comp_simps]:
  "bindE m k w = (case fst (m w) of Inl e \<Rightarrow> (Inl e, snd (m w)) | Inr a \<Rightarrow> k a (snd (m w)))"
  by (simp add: bindE_def bindR_def raiseE_def split: sum.split)

lemma bindE_Inr:
  "bindE m k w = (Inr b, w'') \<longleftrightarrow> (\<exists>a w'. m w = (Inr a, w') \<and> k a w' = (Inr b, w''))"
  by (cases "m w") (auto simp: bindE_apply split: sum.splits)

lemma bindE_Inl:
  "bindE m k w = (Inl e, w'') \<longleftrightarrow>
     m w = (Inl e, w'') \<or> (\<exists>a w'. m w = (Inr a, w') \<and> k a w' = (Inl e, w''))"
  by (cases "m w") (auto simp: bindE_apply split: sum.splits)

lemma bindE_returnE [simp]: "bindE (returnE a) k = k a"
  by (rule ext) (simp add: bindE_apply)

lemma bindE_raiseE [simp]: "bindE (raiseE e) k = raiseE e"
  by (rule ext) (simp add: bindE_apply raiseE_def)

lemma returnE_eq [simp]: "returnE a w = (r, w') \<longleftrightarrow> r = Inr a \<and> w' = w"
  by (auto simp: returnE_def)

lemma raiseE_eq [simp]: "raiseE e w = (r, w') \<longleftrightarrow> r = Inl e \<and> w' = w"
  by (auto simp: raiseE_def)

lemma run_result: "fst (m w) = r \<Longrightarrow> m w = (r, snd (m w))"
  by (metis prod.collapse)

text \<open>Inversion of a computation that succeeded: one fact per call, in the order of the calls.\<close>

lemmas success = bindE_Inr returnE_eq raiseE_eq

lemma mapE_Inr:
  "mapE f xs w = (Inr ys, w') \<Longrightarrow> length ys = length xs"
  by (induction xs arbitrary: ys w) (auto simp: success)

section \<open>Invariants of computations\<close>

text \<open>
  \<open>keeps P m\<close>: whatever \<open>m\<close> returns, it leaves \<open>P\<close> true. The rules follow the
  combinators, so that an invariant of every call is an invariant of the handler.
\<close>

definition keeps :: "('w \<Rightarrow> bool) \<Rightarrow> ('w, 'a) comp \<Rightarrow> bool" where
  "keeps P m \<longleftrightarrow> (\<forall>w. P w \<longrightarrow> P (snd (m w)))"

named_theorems keeps_intros \<open>invariants of computations\<close>

lemma keepsI: "(\<And>w. P w \<Longrightarrow> P (snd (m w))) \<Longrightarrow> keeps P m"
  by (simp add: keeps_def)

lemma keepsD: "keeps P m \<Longrightarrow> P w \<Longrightarrow> P (snd (m w))"
  by (simp add: keeps_def)

lemma keepsE: "keeps P m \<Longrightarrow> m w = (r, w') \<Longrightarrow> P w \<Longrightarrow> P w'"
  by (metis keeps_def snd_conv)

lemma keeps_returnE [keeps_intros]: "keeps P (returnE a)"
  by (simp add: keeps_def)

lemma keeps_raiseE [keeps_intros]: "keeps P (raiseE e)"
  by (simp add: keeps_def)

lemma keeps_bindR [keeps_intros]:
  "keeps P m \<Longrightarrow> (\<And>r. keeps P (k r)) \<Longrightarrow> keeps P (bindR m k)"
  by (simp add: keeps_def bindR_def)

lemma keeps_bindE [keeps_intros]:
  "keeps P m \<Longrightarrow> (\<And>a. keeps P (k a)) \<Longrightarrow> keeps P (bindE m k)"
  by (auto simp: keeps_def bindE_apply split: sum.split)

lemma keeps_if [keeps_intros]:
  "(b \<Longrightarrow> keeps P m) \<Longrightarrow> (\<not> b \<Longrightarrow> keeps P n) \<Longrightarrow> keeps P (if b then m else n)"
  by simp

lemma keeps_case_option [keeps_intros]:
  "(x = None \<Longrightarrow> keeps P m) \<Longrightarrow> (\<And>a. x = Some a \<Longrightarrow> keeps P (k a)) \<Longrightarrow>
   keeps P (case x of None \<Rightarrow> m | Some a \<Rightarrow> k a)"
  by (cases x) simp_all

lemma keeps_case_sum [keeps_intros]:
  "(\<And>e. x = Inl e \<Longrightarrow> keeps P (f e)) \<Longrightarrow> (\<And>a. x = Inr a \<Longrightarrow> keeps P (g a)) \<Longrightarrow>
   keeps P (case x of Inl e \<Rightarrow> f e | Inr a \<Rightarrow> g a)"
  by (cases x) simp_all

lemma keeps_case_prod [keeps_intros]:
  "(\<And>a b. x = (a, b) \<Longrightarrow> keeps P (f a b)) \<Longrightarrow> keeps P (case x of (a, b) \<Rightarrow> f a b)"
  by (cases x) simp

lemma keeps_mapE [keeps_intros]: "(\<And>x. keeps P (f x)) \<Longrightarrow> keeps P (mapE f xs)"
  by (induction xs) (auto intro: keeps_intros)

text \<open>
  \<open>fails_to P Q m\<close>: started in \<open>P\<close>, \<open>m\<close> fails only into \<open>Q\<close>, which follows
  from \<open>P\<close>. The last call of a handler may end \<open>P\<close> by succeeding (a commit).
\<close>

definition fails_to :: "('w \<Rightarrow> bool) \<Rightarrow> ('w \<Rightarrow> bool) \<Rightarrow> ('w, 'a) comp \<Rightarrow> bool" where
  "fails_to P Q m \<longleftrightarrow>
     (\<forall>w. P w \<longrightarrow> Q w) \<and> (\<forall>w e w'. P w \<longrightarrow> m w = (Inl e, w') \<longrightarrow> Q w')"

named_theorems fails_intros \<open>where failing computations end\<close>

lemma fails_toD: "fails_to P Q m \<Longrightarrow> m w = (Inl e, w') \<Longrightarrow> P w \<Longrightarrow> Q w'"
  by (auto simp: fails_to_def)

lemma keeps_fails: "keeps P m \<Longrightarrow> (\<And>w. P w \<Longrightarrow> Q w) \<Longrightarrow> fails_to P Q m"
  by (auto simp: fails_to_def dest: keepsE)

lemma fails_returnE [fails_intros]: "(\<And>w. P w \<Longrightarrow> Q w) \<Longrightarrow> fails_to P Q (returnE a)"
  by (simp add: keeps_fails keeps_returnE)

lemma fails_raiseE [fails_intros]: "(\<And>w. P w \<Longrightarrow> Q w) \<Longrightarrow> fails_to P Q (raiseE e)"
  by (simp add: keeps_fails keeps_raiseE)

lemma fails_bindE [fails_intros]:
  "keeps P m \<Longrightarrow> (\<And>a. fails_to P Q (k a)) \<Longrightarrow> fails_to P Q (bindE m k)"
  unfolding fails_to_def bindE_Inl by (blast dest: keepsE)

lemma fails_bindE_returnE:
  "fails_to P Q m \<Longrightarrow> fails_to P Q (bindE m (\<lambda>a. returnE (f a)))"
  by (auto simp: fails_to_def bindE_Inl)

lemma fails_if [fails_intros]:
  "(b \<Longrightarrow> fails_to P Q m) \<Longrightarrow> (\<not> b \<Longrightarrow> fails_to P Q n) \<Longrightarrow> fails_to P Q (if b then m else n)"
  by simp

lemma fails_case_option [fails_intros]:
  "(x = None \<Longrightarrow> fails_to P Q m) \<Longrightarrow> (\<And>a. x = Some a \<Longrightarrow> fails_to P Q (k a)) \<Longrightarrow>
   fails_to P Q (case x of None \<Rightarrow> m | Some a \<Rightarrow> k a)"
  by (cases x) simp_all

lemma fails_case_prod [fails_intros]:
  "(\<And>a b. x = (a, b) \<Longrightarrow> fails_to P Q (f a b)) \<Longrightarrow> fails_to P Q (case x of (a, b) \<Rightarrow> f a b)"
  by (cases x) simp

section \<open>Lists as tables\<close>

lemma find_Some_iff_unique:
  assumes "distinct (map f xs)"
  shows "find (\<lambda>x. f x = k) xs = Some x \<longleftrightarrow> x \<in> set xs \<and> f x = k"
  using assms
  by (induction xs) (auto simp: image_iff)

lemma find_SomeD: "find P xs = Some x \<Longrightarrow> x \<in> set xs \<and> P x"
  by (metis find_Some_iff nth_mem)

lemma find_None_iff_ball: "find P xs = None \<longleftrightarrow> (\<forall>x \<in> set xs. \<not> P x)"
  by (auto simp: find_None_iff)

lemma find_is_Some: "find P xs \<noteq> None \<longleftrightarrow> (\<exists>x \<in> set xs. P x)"
  by (auto simp: find_None_iff)

lemma find_append:
  "find P (xs @ ys) = (case find P xs of None \<Rightarrow> find P ys | Some x \<Rightarrow> Some x)"
  by (induction xs) simp_all

lemma find_map_update:
  assumes "\<And>x. P (f x) \<longleftrightarrow> P x"
  shows "find P (map f xs) = map_option f (find P xs)"
  by (induction xs) (simp_all add: assms)

lemma find_filter:
  assumes "\<And>x. P x \<Longrightarrow> Q x"
  shows "find P (filter Q xs) = find P xs"
  using assms by (induction xs) auto

lemma distinct_map_filterI: "distinct (map f xs) \<Longrightarrow> distinct (map f (filter P xs))"
  by (simp add: distinct_map_filter)

lemma map_map_cong_key:
  assumes "\<And>x. f (g x) = f x"
  shows "map f (map g xs) = map f xs"
  by (simp add: assms)

lemma filter_eq_singleton_distinct:
  assumes "distinct (map f xs)" and "x \<in> set xs"
  shows "filter (\<lambda>y. f y = f x) xs = [x]"
  using assms
proof (induction xs)
  case (Cons y ys)
  then show ?case
    by (cases "x = y") (auto simp: filter_empty_conv image_iff)
qed simp

end
