(* ===== verification/GoStd.thy ===== *)
theory GoStd
  imports Prelude "HOL-Library.Char_ord" "HOL-Library.List_Lexorder"
begin

text \<open>
  The parts of Go's standard library that the program's logic depends on, as functions on
  byte strings: \<open>strings\<close> (trimming, case, splitting, joining), \<open>strconv\<close>
  (decimal integers of 64 bits), the date layout \<open>2006-01-02\<close> of package \<open>time\<close>,
  durations in nanoseconds, and JSON values as \<open>encoding/json\<close> decodes them.
\<close>

section \<open>Package strings\<close>

text \<open>
  \<open>strings.TrimSpace\<close> removes the runes of \<open>unicode.IsSpace\<close> from both ends. A Go
  string is a sequence of bytes in UTF-8; \<open>space_runes\<close> lists the encodings of those
  runes: six in ASCII, then U+0085, U+00A0, U+1680, U+2000 to U+200A, U+2028, U+2029,
  U+202F, U+205F and U+3000.
\<close>

definition bytes :: "nat list \<Rightarrow> string" where
  "bytes ns = map char_of ns"

definition space_runes :: "string list" where
  "space_runes =
     map bytes ([[9], [10], [11], [12], [13], [32], [194, 133], [194, 160], [225, 154, 128]]
       @ map (\<lambda>b. [226, 128, b]) [128, 129, 130, 131, 132, 133, 134, 135, 136, 137, 138, 168, 169, 175]
       @ [[226, 129, 159], [227, 128, 128]])"

definition starts_with :: "string \<Rightarrow> string \<Rightarrow> bool" where
  "starts_with p s \<longleftrightarrow> take (length p) s = p"

function trim_left :: "string list \<Rightarrow> string \<Rightarrow> string" where
  "trim_left rs s =
     (case find (\<lambda>r. r \<noteq> [] \<and> starts_with r s) rs of
        None \<Rightarrow> s
      | Some r \<Rightarrow> trim_left rs (drop (length r) s))"
  by pat_completeness auto
termination
proof (relation "measure (\<lambda>(rs, s). length s)", goal_cases)
  case (2 rs s r)
  then have "r \<noteq> []" "starts_with r s" by (auto dest: find_SomeD)
  then have "r \<noteq> []" "s \<noteq> []" by (auto simp: starts_with_def)
  then show ?case by simp
qed simp

declare trim_left.simps [simp del]

definition TrimSpace :: "string \<Rightarrow> string" where
  "TrimSpace s = rev (trim_left (map rev space_runes) (rev (trim_left space_runes s)))"

text \<open>
  \<open>strings.ToLower\<close> and \<open>strings.ToUpper\<close> on ASCII strings. On other strings they
  apply the Unicode case tables, here the arguments \<open>lower\<close> and \<open>upper\<close>.
\<close>

definition is_ascii :: "string \<Rightarrow> bool" where
  "is_ascii s \<longleftrightarrow> list_all (\<lambda>c. of_char c < (128 :: nat)) s"

definition char_in :: "char \<Rightarrow> char \<Rightarrow> char \<Rightarrow> bool" where
  "char_in lo hi c \<longleftrightarrow> of_char lo \<le> (of_char c :: nat) \<and> of_char c \<le> (of_char hi :: nat)"

definition ascii_lower :: "char \<Rightarrow> char" where
  "ascii_lower c = (if char_in CHR ''A'' CHR ''Z'' c then char_of (of_char c + (32 :: nat)) else c)"

definition ascii_upper :: "char \<Rightarrow> char" where
  "ascii_upper c = (if char_in CHR ''a'' CHR ''z'' c then char_of (of_char c - (32 :: nat)) else c)"

definition ToLower :: "(string \<Rightarrow> string) \<Rightarrow> string \<Rightarrow> string" where
  "ToLower lower s = (if is_ascii s then map ascii_lower s else lower s)"

definition ToUpper :: "(string \<Rightarrow> string) \<Rightarrow> string \<Rightarrow> string" where
  "ToUpper upper s = (if is_ascii s then map ascii_upper s else upper s)"

text \<open>\<open>strings.Split\<close> at a one-byte separator, and \<open>strings.Join\<close>.\<close>

fun Split :: "char \<Rightarrow> string \<Rightarrow> string list" where
  "Split c [] = [[]]"
| "Split c (x # xs) =
     (if x = c then [] # Split c xs
      else (case Split c xs of [] \<Rightarrow> [[x]] | y # ys \<Rightarrow> (x # y) # ys))"

fun Join :: "string list \<Rightarrow> string \<Rightarrow> string" where
  "Join [] sep = []"
| "Join [s] sep = s"
| "Join (s # t # ss) sep = s @ sep @ Join (t # ss) sep"

section \<open>Package strconv\<close>

definition digit_char :: "nat \<Rightarrow> char" where
  "digit_char n = char_of (48 + n)"

fun nat_digits :: "nat \<Rightarrow> string" where
  "nat_digits n = (if n < 10 then [digit_char n] else nat_digits (n div 10) @ [digit_char (n mod 10)])"

declare nat_digits.simps [simp del]

text \<open>\<open>strconv.FormatInt(v, 10)\<close>, also called \<open>itoa\<close> and \<open>intToString\<close> in the code.\<close>

definition FormatInt :: "int \<Rightarrow> string" where
  "FormatInt i = (if i < 0 then CHR ''-'' # nat_digits (nat (- i)) else nat_digits (nat i))"

definition digit_val :: "char \<Rightarrow> nat option" where
  "digit_val c = (if char_in CHR ''0'' CHR ''9'' c then Some (of_char c - 48) else None)"

fun parse_digits :: "nat \<Rightarrow> string \<Rightarrow> nat option" where
  "parse_digits acc [] = Some acc"
| "parse_digits acc (c # cs) =
     (case digit_val c of None \<Rightarrow> None | Some d \<Rightarrow> parse_digits (10 * acc + d) cs)"

definition parse_nat :: "string \<Rightarrow> nat option" where
  "parse_nat s = (if s = [] then None else parse_digits 0 s)"

definition int64_min :: int where "int64_min = - (2 ^ 63)"
definition int64_max :: int where "int64_max = 2 ^ 63 - 1"

text \<open>Arithmetic on \<open>int64\<close>, and so on \<open>time.Duration\<close>, wraps around.\<close>

definition wrap64 :: "int \<Rightarrow> int" where
  "wrap64 i = (i - int64_min) mod 2 ^ 64 + int64_min"

text \<open>
  \<open>strconv.ParseInt(s, 10, 64)\<close> and, on a 64-bit platform, \<open>strconv.Atoi\<close>: an optional
  sign, then at least one digit and nothing else, within 64 bits. \<open>None\<close> is an error.
\<close>

definition ParseInt :: "string \<Rightarrow> int option" where
  "ParseInt s =
     (let neg = (take 1 s = ''-''); body = (if take 1 s = ''-'' \<or> take 1 s = ''+'' then drop 1 s else s)
      in case parse_nat body of
           None \<Rightarrow> None
         | Some n \<Rightarrow> (let v = (if neg then - int n else int n)
                      in if int64_min \<le> v \<and> v \<le> int64_max then Some v else None))"

lemma digit_val_digit_char [simp]:
  assumes "n < 10"
  shows "digit_val (digit_char n) = Some n"
  using assms by (simp add: digit_val_def digit_char_def char_in_def)

lemma parse_digits_append:
  "parse_digits acc (xs @ ys) =
     (case parse_digits acc xs of None \<Rightarrow> None | Some a \<Rightarrow> parse_digits a ys)"
  by (induction xs arbitrary: acc) (auto split: option.splits)

lemma parse_digits_nat_digits: "parse_digits 0 (nat_digits n) = Some n"
proof (induction n rule: nat_digits.induct)
  case (1 n)
  then show ?case
    by (cases "n < 10") (simp_all add: nat_digits.simps [of n] parse_digits_append)
qed

lemma nat_digits_not_Nil [simp]: "nat_digits n \<noteq> []"
  by (subst nat_digits.simps) simp

lemma parse_nat_nat_digits [simp]: "parse_nat (nat_digits n) = Some n"
  by (simp add: parse_nat_def parse_digits_nat_digits)

lemma parse_digits_Some_digits:
  "parse_digits acc s = Some n \<Longrightarrow> c \<in> set s \<Longrightarrow> digit_val c \<noteq> None"
  by (induction s arbitrary: acc) (auto split: option.splits)

lemma nat_digits_digits: "c \<in> set (nat_digits n) \<Longrightarrow> digit_val c \<noteq> None"
  using parse_digits_Some_digits [OF parse_digits_nat_digits] .

lemma digit_val_sign [simp]: "digit_val CHR ''-'' = None" "digit_val CHR ''+'' = None"
    "digit_val CHR '':'' = None"
  by (simp_all add: digit_val_def char_in_def)

lemma take1_nat_digits: "take 1 (nat_digits n) \<noteq> ''-''" "take 1 (nat_digits n) \<noteq> ''+''"
proof -
  obtain c cs where s: "nat_digits n = c # cs" by (cases "nat_digits n") auto
  then have "digit_val c \<noteq> None" using nat_digits_digits [of c n] by simp
  then show "take 1 (nat_digits n) \<noteq> ''-''" "take 1 (nat_digits n) \<noteq> ''+''"
    using s by auto
qed

lemma ParseInt_FormatInt:
  assumes "int64_min \<le> i" and "i \<le> int64_max"
  shows "ParseInt (FormatInt i) = Some i"
  using assms take1_nat_digits [of "nat i"]
  by (auto simp: ParseInt_def FormatInt_def Let_def)

lemma FormatInt_sign: "take 1 (FormatInt k) = ''-'' \<longleftrightarrow> k < 0"
  using take1_nat_digits(1) [of "nat k"] by (simp add: FormatInt_def)

lemma nat_digits_inject [simp]: "nat_digits m = nat_digits n \<longleftrightarrow> m = n"
  by (metis option.inject parse_nat_nat_digits)

lemma FormatInt_inject [simp]: "FormatInt i = FormatInt j \<longleftrightarrow> i = j"
proof
  assume eq: "FormatInt i = FormatInt j"
  then have "(i < 0) = (j < 0)" by (metis FormatInt_sign)
  with eq show "i = j" by (cases "i < 0") (simp_all add: FormatInt_def)
qed simp

section \<open>Evaluation\<close>

text \<open>Code equations that compute on the bits of characters and on integers instead of unary numbers.\<close>

lemma space_runes_code [code]:
  "space_runes =
     [[CHR 0x09], [CHR 0x0A], [CHR 0x0B], [CHR 0x0C], [CHR 0x0D], [CHR 0x20], [CHR 0xC2, CHR 0x85], [CHR 0xC2, CHR 0xA0],
      [CHR 0xE1, CHR 0x9A, CHR 0x80], [CHR 0xE2, CHR 0x80, CHR 0x80], [CHR 0xE2, CHR 0x80, CHR 0x81],
      [CHR 0xE2, CHR 0x80, CHR 0x82], [CHR 0xE2, CHR 0x80, CHR 0x83], [CHR 0xE2, CHR 0x80, CHR 0x84],
      [CHR 0xE2, CHR 0x80, CHR 0x85], [CHR 0xE2, CHR 0x80, CHR 0x86], [CHR 0xE2, CHR 0x80, CHR 0x87],
      [CHR 0xE2, CHR 0x80, CHR 0x88], [CHR 0xE2, CHR 0x80, CHR 0x89], [CHR 0xE2, CHR 0x80, CHR 0x8A],
      [CHR 0xE2, CHR 0x80, CHR 0xA8], [CHR 0xE2, CHR 0x80, CHR 0xA9], [CHR 0xE2, CHR 0x80, CHR 0xAF],
      [CHR 0xE2, CHR 0x81, CHR 0x9F], [CHR 0xE3, CHR 0x80, CHR 0x80]]"
  by (simp add: space_runes_def bytes_def char_of_def bit_0)

lemma starts_with_code [code]:
  "starts_with [] s = True" "starts_with (x # p) [] = False" "starts_with (x # p) (y # s) = (x = y \<and> starts_with p s)"
  by (auto simp: starts_with_def)

lemma is_ascii_code [code]: "is_ascii s = list_all (\<lambda>c. \<not> digit7 c) s"
proof -
  have "of_char c < (128 :: nat) \<longleftrightarrow> \<not> digit7 c" for c
    by (cases c) (simp add: of_char_def horner_sum_simps split: if_splits)
  then show ?thesis by (simp add: is_ascii_def)
qed

lemma char_in_code [code]: "char_in lo hi c \<longleftrightarrow> of_char lo \<le> (of_char c :: int) \<and> of_char c \<le> (of_char hi :: int)"
  by (simp add: char_in_def flip: of_nat_of_char [where ?'a = int])

lemma ascii_lower_code [code]:
  "ascii_lower (Char b0 b1 b2 b3 b4 b5 b6 b7) =
     (if char_in CHR ''A'' CHR ''Z'' (Char b0 b1 b2 b3 b4 b5 b6 b7) then Char b0 b1 b2 b3 b4 True b6 b7
      else Char b0 b1 b2 b3 b4 b5 b6 b7)"
  by (cases b0; cases b1; cases b2; cases b3; cases b4; cases b5; cases b6; cases b7)
     (simp_all add: ascii_lower_def char_in_def char_of_def bit_0)

lemma ascii_upper_code [code]:
  "ascii_upper (Char b0 b1 b2 b3 b4 b5 b6 b7) =
     (if char_in CHR ''a'' CHR ''z'' (Char b0 b1 b2 b3 b4 b5 b6 b7) then Char b0 b1 b2 b3 b4 False b6 b7
      else Char b0 b1 b2 b3 b4 b5 b6 b7)"
  by (cases b0; cases b1; cases b2; cases b3; cases b4; cases b5; cases b6; cases b7)
     (simp_all add: ascii_upper_def char_in_def char_of_def bit_0)
lemma newline_code [code_unfold]: "bytes [10] = [CHR 0x0A]"
  by (simp add: bytes_def char_of_def bit_0)

lemma digit_val_code [code]:
  "digit_val c = (if char_in CHR ''0'' CHR ''9'' c then Some (nat (of_char c - 48 :: int)) else None)"
proof -
  have "of_char c - (48 :: nat) = nat (of_char c - 48 :: int)"
    using nat_diff_distrib' [of "of_char c :: int" 48] by (simp flip: of_nat_of_char [where ?'a = int])
  then show ?thesis by (simp only: digit_val_def)
qed

function int_digits :: "int \<Rightarrow> string" where
  "int_digits n = (if n < 10 then [''0123456789'' ! nat n] else int_digits (n div 10) @ [''0123456789'' ! nat (n mod 10)])"
  by pat_completeness auto
termination by (relation "measure nat") auto

declare int_digits.simps [simp del]

lemma digit_nth: "n < 10 \<Longrightarrow> ''0123456789'' ! n = digit_char n"
proof -
  assume "n < 10"
  then have "n \<in> {0, 1, 2, 3, 4, 5, 6, 7, 8, 9}" by auto
  then show ?thesis by (auto simp: digit_char_def char_of_def bit_0)
qed

lemma int_digits_nat: "0 \<le> n \<Longrightarrow> int_digits n = nat_digits (nat n)"
proof (induction n rule: int_digits.induct)
  case (1 n)
  show ?case
  proof (cases "n < 10")
    case True
    with 1 show ?thesis by (simp add: int_digits.simps [of n] nat_digits.simps [of "nat n"] digit_nth nat_less_iff)
  next
    case False
    have nat: "nat (n div 10) = nat n div 10" "nat (n mod 10) = nat n mod 10"
      using 1(2) by (simp_all add: nat_div_distrib nat_mod_distrib)
    have "int_digits (n div 10) = nat_digits (nat (n div 10))" using 1 False by (simp add: pos_imp_zdiv_nonneg_iff)
    then show ?thesis
      using False 1(2) by (simp add: int_digits.simps [of n] nat_digits.simps [of "nat n"] digit_nth nat nat_less_iff)
  qed
qed

lemma FormatInt_code [code]: "FormatInt i = (if i < 0 then CHR ''-'' # int_digits (- i) else int_digits i)"
  by (simp add: FormatInt_def int_digits_nat)

section \<open>Calendar dates\<close>

text \<open>
  The values of type \<open>time.Time\<close> that flow through a due date are midnights in UTC: they
  come from \<open>time.Parse("2006-01-02", v)\<close> or from a column of type \<open>DATE\<close>. They are
  modelled by their calendar date.
\<close>

datatype date = Date (date_year: nat) (date_month: nat) (date_day: nat)

instantiation date :: linorder
begin

definition less_eq_date :: "date \<Rightarrow> date \<Rightarrow> bool" where
  "less_eq_date a b \<longleftrightarrow>
     date_year a < date_year b \<or> date_year a = date_year b \<and>
     (date_month a < date_month b \<or> date_month a = date_month b \<and> date_day a \<le> date_day b)"

definition less_date :: "date \<Rightarrow> date \<Rightarrow> bool" where
  "less_date a b \<longleftrightarrow> a \<le> b \<and> \<not> b \<le> (a :: date)"

instance
  by standard (auto simp: less_eq_date_def less_date_def intro: date.expand)

end

definition is_leap :: "nat \<Rightarrow> bool" where
  "is_leap y \<longleftrightarrow> y mod 4 = 0 \<and> (y mod 100 \<noteq> 0 \<or> y mod 400 = 0)"

definition days_in :: "nat \<Rightarrow> nat \<Rightarrow> nat" where
  "days_in m y =
     (if m = 2 then (if is_leap y then 29 else 28)
      else if m \<in> {4, 6, 9, 11} then 30 else 31)"

definition valid_date :: "date \<Rightarrow> bool" where
  "valid_date d \<longleftrightarrow>
     date_year d < 10000 \<and> 1 \<le> date_month d \<and> date_month d \<le> 12 \<and>
     1 \<le> date_day d \<and> date_day d \<le> days_in (date_month d) (date_year d)"

text \<open>\<open>time.Parse("2006-01-02", v)\<close>: four, two and two digits, in range. \<open>None\<close> is an error.\<close>

definition ParseDate :: "string \<Rightarrow> date option" where
  "ParseDate v =
     (if length v = 10 \<and> v ! 4 = CHR ''-'' \<and> v ! 7 = CHR ''-''
      then (case (parse_nat (take 4 v), parse_nat (take 2 (drop 5 v)), parse_nat (drop 8 v)) of
              (Some y, Some m, Some d) \<Rightarrow>
                if valid_date (Date y m d) then Some (Date y m d) else None
            | _ \<Rightarrow> None)
      else None)"

definition two_digits :: "nat \<Rightarrow> string" where
  "two_digits n = [digit_char (n div 10), digit_char (n mod 10)]"

definition four_digits :: "nat \<Rightarrow> string" where
  "four_digits n = [digit_char (n div 1000), digit_char (n div 100 mod 10),
     digit_char (n div 10 mod 10), digit_char (n mod 10)]"

text \<open>\<open>t.Format("2006-01-02")\<close> for a year below 10000, which every parsed or stored date has.\<close>

definition FormatDate :: "date \<Rightarrow> string" where
  "FormatDate d = four_digits (date_year d) @ ''-'' @ two_digits (date_month d) @ ''-'' @ two_digits (date_day d)"

lemma parse_nat_two_digits: "n < 100 \<Longrightarrow> parse_nat (two_digits n) = Some n"
  by (simp add: two_digits_def parse_nat_def)

lemma parse_nat_four_digits:
  assumes "n < 10000"
  shows "parse_nat (four_digits n) = Some n"
proof -
  have "n div 100 = n div 10 div 10" "n div 1000 = n div 10 div 10 div 10"
    by (simp_all add: div_mult2_eq [symmetric])
  then have "10 * (10 * (10 * (n div 1000) + n div 100 mod 10) + n div 10 mod 10) + n mod 10 = n"
    by simp
  with assms show ?thesis
    by (simp add: four_digits_def parse_nat_def div_less_iff_less_mult)
qed

lemma valid_date_bounds:
  assumes "valid_date d"
  shows "date_year d < 10000" "date_month d < 100" "date_day d < 100"
  using assms by (auto simp: valid_date_def days_in_def split: if_splits)

lemma ParseDate_FormatDate:
  assumes "valid_date d"
  shows "ParseDate (FormatDate d) = Some d"
proof -
  let ?s = "FormatDate d"
  have len: "length ?s = 10" "?s ! 4 = CHR ''-''" "?s ! 7 = CHR ''-''"
    by (simp_all add: FormatDate_def four_digits_def two_digits_def)
  have parts: "take 4 ?s = four_digits (date_year d)" "take 2 (drop 5 ?s) = two_digits (date_month d)"
    "drop 8 ?s = two_digits (date_day d)"
    by (simp_all add: FormatDate_def four_digits_def two_digits_def)
  show ?thesis
    unfolding ParseDate_def parts
    using assms len valid_date_bounds [OF assms]
    by (simp add: parse_nat_four_digits parse_nat_two_digits)
qed

lemma ParseDate_valid: "ParseDate v = Some d \<Longrightarrow> valid_date d"
  by (auto simp: ParseDate_def split: if_splits option.splits)

lemma FormatDate_inject:
  assumes "valid_date d" and "valid_date d'"
  shows "FormatDate d = FormatDate d' \<longleftrightarrow> d = d'"
  by (metis ParseDate_FormatDate assms option.inject)

section \<open>Durations\<close>

text \<open>
  A \<open>time.Duration\<close> is a number of nanoseconds and a \<open>time.Time\<close> the nanoseconds since
  the Unix epoch. \<open>ceil_seconds\<close> is \<open>math.Ceil(d.Seconds())\<close>.
\<close>

type_synonym duration = int
type_synonym time = int

definition second :: duration where "second = 1000000000"
definition minute :: duration where "minute = 60 * second"

definition ceil_seconds :: "duration \<Rightarrow> int" where
  "ceil_seconds d = - ((- d) div second)"

text \<open>\<open>int64(d.Seconds())\<close> and \<open>t.Unix()\<close>: whole seconds, toward zero and downward.\<close>

definition whole_seconds :: "duration \<Rightarrow> int" where
  "whole_seconds d = sgn d * (\<bar>d\<bar> div second)"

definition Unix :: "time \<Rightarrow> int" where
  "Unix t = t div second"

text \<open>Go's integer division truncates toward zero.\<close>

definition quot :: "int \<Rightarrow> int \<Rightarrow> int" where
  "quot a b = sgn a * sgn b * (\<bar>a\<bar> div \<bar>b\<bar>)"

definition rem :: "int \<Rightarrow> int \<Rightarrow> int" where
  "rem a b = a - b * quot a b"

lemma ceil_seconds_bounds: "d \<le> ceil_seconds d * second" "(ceil_seconds d - 1) * second < d"
  using div_mult_mod_eq [of "- d" second] pos_mod_bound [of second "- d"] pos_mod_sign [of second "- d"]
  by (simp_all add: ceil_seconds_def second_def algebra_simps)

lemma ceil_seconds_pos: "0 < d \<Longrightarrow> 1 \<le> ceil_seconds d"
  using ceil_seconds_bounds(1) [of d] by (simp add: second_def)

lemma quot_nonneg: "0 \<le> a \<Longrightarrow> 0 < b \<Longrightarrow> quot a b = a div b"
  by (auto simp: quot_def sgn_if)

lemma rem_nonneg: "0 \<le> a \<Longrightarrow> 0 < b \<Longrightarrow> rem a b = a mod b"
  by (simp add: rem_def quot_nonneg minus_mult_div_eq_mod)

section \<open>JSON values\<close>

text \<open>
  A \<open>json.RawMessage\<close> is the text of one JSON value; it is modelled by the value. A
  number keeps its literal text, because decoding into an \<open>int64\<close> reads the literal. The
  decoders follow \<open>json.Unmarshal\<close>: \<open>null\<close> leaves a string at its zero value and sets a
  pointer to \<open>nil\<close>, every other mismatch is an error (\<open>None\<close>).
\<close>

datatype json = JNull | JBool bool | JNum string | JStr string
  | JArr "json list" | JObj "(string \<times> json) list"

fun unmarshal_string :: "json \<Rightarrow> string option" where
  "unmarshal_string (JStr s) = Some s"
| "unmarshal_string JNull = Some []"
| "unmarshal_string _ = None"

fun unmarshal_string_ptr :: "json \<Rightarrow> string option option" where
  "unmarshal_string_ptr (JStr s) = Some (Some s)"
| "unmarshal_string_ptr JNull = Some None"
| "unmarshal_string_ptr _ = None"

fun unmarshal_int64_ptr :: "json \<Rightarrow> int option option" where
  "unmarshal_int64_ptr (JNum l) = map_option Some (ParseInt l)"
| "unmarshal_int64_ptr JNull = Some None"
| "unmarshal_int64_ptr _ = None"

end
