(* ===== verification/Schema.thy ===== *)
theory Schema
  imports GoStd "HOL-Library.Product_Lexorder"
begin

text \<open>
  The database: one record per table row (the structs of package \<open>repository\<close>), the
  tables with the constraints of the files under \<open>migrations/\<close>, and the meaning of every
  SQL statement the repositories send. A statement is a computation on the state of the
  server; a constraint it would break makes it return the MySQL error and change nothing.

  What the statements leave to the server is part of its state: the next value of each
  \<open>AUTO_INCREMENT\<close> column, the clock behind \<open>CURRENT_TIMESTAMP(3)\<close>, the collation of
  the text columns (two strings are equal when their collation keys are) and the tables as
  they were when the open transaction began.
\<close>

section \<open>Rows\<close>

record User =
  User_ID :: int
  User_Email :: string
  User_Username :: string
  User_PasswordHash :: string

record Team =
  Team_ID :: int
  Team_Name :: string
  Team_CreatedBy :: "int option"
  Team_CreatedAt :: time

record TeamMember =
  TeamMember_TeamID :: int
  TeamMember_UserID :: int
  TeamMember_Role :: string
  TeamMember_CreatedAt :: time

record Task =
  Task_ID :: int
  Task_TeamID :: int
  Task_Title :: string
  Task_Description :: "string option"
  Task_Status :: string
  Task_Priority :: string
  Task_AssigneeID :: "int option"
  Task_CreatedBy :: "int option"
  Task_DueDate :: "date option"
  Task_CreatedAt :: time
  Task_UpdatedAt :: time

record TaskComment =
  TaskComment_ID :: int
  TaskComment_TaskID :: int
  TaskComment_UserID :: int
  TaskComment_Body :: string
  TaskComment_CreatedAt :: time
  TaskComment_UpdatedAt :: time

record TaskHistory =
  TaskHistory_ID :: int
  TaskHistory_TaskID :: int
  TaskHistory_ChangedBy :: "int option"
  TaskHistory_FieldName :: string
  TaskHistory_OldValue :: "json option"
  TaskHistory_NewValue :: "json option"
  TaskHistory_CreatedAt :: time

record TaskHistoryCreate =
  THC_TaskID :: int
  THC_ChangedBy :: "int option"
  THC_FieldName :: string
  THC_OldValue :: "json option"
  THC_NewValue :: "json option"

record Session =
  Session_ID :: int
  Session_UserID :: int
  Session_TokenHash :: string
  Session_ExpiresAt :: time
  Session_RevokedAt :: "time option"
  Session_LastUsedAt :: "time option"
  Session_UserAgent :: "string option"
  Session_IP :: "string option"
  Session_CreatedAt :: time

section \<open>Tables and the server\<close>

record tables =
  users :: "User list"
  teams :: "Team list"
  team_members :: "TeamMember list"
  tasks :: "Task list"
  task_history :: "TaskHistory list"
  task_comments :: "TaskComment list"
  sessions :: "Session list"
  collation :: "string \<Rightarrow> string"

datatype tbl = TUsers | TTeams | TTasks | THistory | TComments | TSessions

text \<open>\<open>clock\<close> is what \<open>CURRENT_TIMESTAMP(3)\<close> returns, in the whole milliseconds of the \<open>DATETIME(3)\<close> columns that take it.\<close>

record server =
  data :: tables
  auto_inc :: "tbl \<Rightarrow> int"
  clock :: time
  open_tx :: "tables option"

type_synonym 'a stmt = "(server, 'a) comp"

text \<open>MySQL's errors for a duplicate key, a missing parent row, a value outside an \<open>ENUM\<close>,
  a \<open>NULL\<close> in a \<open>NOT NULL\<close> column, an unknown column and a syntax error.\<close>

abbreviation ER_DUP_ENTRY :: err where "ER_DUP_ENTRY \<equiv> MySQLError 1062"
abbreviation ER_NO_REFERENCED_ROW :: err where "ER_NO_REFERENCED_ROW \<equiv> MySQLError 1452"
abbreviation ER_TRUNCATED :: err where "ER_TRUNCATED \<equiv> MySQLError 1265"
abbreviation ER_BAD_NULL :: err where "ER_BAD_NULL \<equiv> MySQLError 1048"
abbreviation ER_BAD_FIELD :: err where "ER_BAD_FIELD \<equiv> MySQLError 1054"
abbreviation ER_PARSE :: err where "ER_PARSE \<equiv> MySQLError 1064"

definition user_ids :: "tables \<Rightarrow> int list" where "user_ids d = map User_ID (users d)"
definition team_ids :: "tables \<Rightarrow> int list" where "team_ids d = map Team_ID (teams d)"
definition task_ids :: "tables \<Rightarrow> int list" where "task_ids d = map Task_ID (tasks d)"

text \<open>A nullable foreign key: \<open>NULL\<close>, or the id of a parent row.\<close>

definition refers :: "int option \<Rightarrow> int list \<Rightarrow> bool" where
  "refers x ids \<longleftrightarrow> (case x of None \<Rightarrow> True | Some i \<Rightarrow> List.member ids i)"

definition role_enum :: "string list" where "role_enum = [''owner'', ''admin'', ''member'']"
definition status_enum :: "string list" where "status_enum = [''todo'', ''in_progress'', ''done'']"
definition priority_enum :: "string list" where "priority_enum = [''low'', ''medium'', ''high'']"

definition select :: "(tables \<Rightarrow> 'a) \<Rightarrow> 'a stmt" where
  "select q s = (Inr (q (data s)), s)"

definition on_data :: "(tables \<Rightarrow> tables) \<Rightarrow> server \<Rightarrow> server" where
  "on_data f s = s\<lparr>data := f (data s)\<rparr>"

definition take_id :: "tbl \<Rightarrow> server \<Rightarrow> server" where
  "take_id t s = s\<lparr>auto_inc := (auto_inc s)(t := auto_inc s t + 1)\<rparr>"

text \<open>A Go time stored in a column of type \<open>DATETIME(3)\<close> is rounded to milliseconds.\<close>

definition datetime3 :: "time \<Rightarrow> time" where
  "datetime3 t = (t + 500000) div 1000000 * 1000000"

section \<open>Statements on users\<close>

definition user_by_email :: "string \<Rightarrow> tables \<Rightarrow> User option" where
  "user_by_email e d = find (\<lambda>u. collation d (User_Email u) = collation d e) (users d)"

definition user_by_username :: "string \<Rightarrow> tables \<Rightarrow> User option" where
  "user_by_username n d = find (\<lambda>u. collation d (User_Username u) = collation d n) (users d)"

definition insert_user :: "string \<Rightarrow> string \<Rightarrow> string \<Rightarrow> int stmt" where
  "insert_user email username hash s =
     (if user_by_email email (data s) \<noteq> None \<or> user_by_username username (data s) \<noteq> None
      then (Inl ER_DUP_ENTRY, s)
      else let i = auto_inc s TUsers;
               u = \<lparr>User_ID = i, User_Email = email, User_Username = username, User_PasswordHash = hash\<rparr>
           in (Inr i, take_id TUsers (on_data (\<lambda>d. d\<lparr>users := users d @ [u]\<rparr>) s)))"

section \<open>Statements on teams and their members\<close>

definition team_by_id :: "int \<Rightarrow> tables \<Rightarrow> Team option" where
  "team_by_id i d = find (\<lambda>t. Team_ID t = i) (teams d)"

text \<open>\<open>SELECT ... FROM teams t JOIN team_members tm ... WHERE tm.user_id = ? ORDER BY t.id DESC\<close>.\<close>

definition teams_by_user :: "int \<Rightarrow> tables \<Rightarrow> Team list" where
  "teams_by_user u d =
     sort_key (\<lambda>t. - Team_ID t)
       (concat (map (\<lambda>t. map (\<lambda>_. t)
          (filter (\<lambda>m. TeamMember_TeamID m = Team_ID t \<and> TeamMember_UserID m = u) (team_members d)))
        (teams d)))"

definition insert_team :: "string \<Rightarrow> int \<Rightarrow> int stmt" where
  "insert_team name createdBy s =
     (if \<not> List.member (user_ids (data s)) createdBy then (Inl ER_NO_REFERENCED_ROW, s)
      else let i = auto_inc s TTeams;
               t = \<lparr>Team_ID = i, Team_Name = name, Team_CreatedBy = Some createdBy, Team_CreatedAt = clock s\<rparr>
           in (Inr i, take_id TTeams (on_data (\<lambda>d. d\<lparr>teams := teams d @ [t]\<rparr>) s)))"

definition member_row :: "int \<Rightarrow> int \<Rightarrow> tables \<Rightarrow> TeamMember option" where
  "member_row team user d =
     find (\<lambda>m. TeamMember_TeamID m = team \<and> TeamMember_UserID m = user) (team_members d)"

definition role_of :: "int \<Rightarrow> int \<Rightarrow> tables \<Rightarrow> string option" where
  "role_of team user d = map_option TeamMember_Role (member_row team user d)"

definition is_member :: "int \<Rightarrow> int \<Rightarrow> tables \<Rightarrow> bool" where
  "is_member team user d \<longleftrightarrow> member_row team user d \<noteq> None"

definition insert_member :: "int \<Rightarrow> int \<Rightarrow> string \<Rightarrow> unit stmt" where
  "insert_member team user role s =
     (if \<not> List.member role_enum role then (Inl ER_TRUNCATED, s)
      else if is_member team user (data s) then (Inl ER_DUP_ENTRY, s)
      else if \<not> List.member (team_ids (data s)) team \<or> \<not> List.member (user_ids (data s)) user
      then (Inl ER_NO_REFERENCED_ROW, s)
      else let m = \<lparr>TeamMember_TeamID = team, TeamMember_UserID = user, TeamMember_Role = role,
                    TeamMember_CreatedAt = clock s\<rparr>
           in (Inr (), on_data (\<lambda>d. d\<lparr>team_members := team_members d @ [m]\<rparr>) s))"

section \<open>Statements on tasks\<close>

definition task_by_id :: "int \<Rightarrow> tables \<Rightarrow> Task option" where
  "task_by_id i d = find (\<lambda>t. Task_ID t = i) (tasks d)"

definition task_refs_ok :: "tables \<Rightarrow> Task \<Rightarrow> bool" where
  "task_refs_ok d t \<longleftrightarrow>
     List.member (team_ids d) (Task_TeamID t) \<and>
     refers (Task_AssigneeID t) (user_ids d) \<and> refers (Task_CreatedBy t) (user_ids d)"

definition task_enums_ok :: "Task \<Rightarrow> bool" where
  "task_enums_ok t \<longleftrightarrow>
     List.member status_enum (Task_Status t) \<and> List.member priority_enum (Task_Priority t)"

text \<open>The columns the statement does not name take their defaults: the next id and the clock.\<close>

definition insert_task :: "Task \<Rightarrow> int stmt" where
  "insert_task t s =
     (if \<not> task_enums_ok t then (Inl ER_TRUNCATED, s)
      else if \<not> task_refs_ok (data s) t then (Inl ER_NO_REFERENCED_ROW, s)
      else let i = auto_inc s TTasks;
               r = t\<lparr>Task_ID := i, Task_CreatedAt := clock s, Task_UpdatedAt := clock s\<rparr>
           in (Inr i, take_id TTasks (on_data (\<lambda>d. d\<lparr>tasks := tasks d @ [r]\<rparr>) s)))"

text \<open>A value bound to a column, as the driver receives it (\<open>any\<close> in the code).\<close>

datatype colval = CNull | CStr string | CInt int | CDate date

text \<open>
  One assignment of \<open>UPDATE tasks SET\<close>, for the columns the service writes
  (\<open>isKnownTaskField\<close>); any other name is answered as an unknown column.
\<close>

fun set_col :: "string \<times> colval \<Rightarrow> Task \<Rightarrow> Task result" where
  "set_col (k, v) t =
     (if k = ''title'' then
        (case v of CStr x \<Rightarrow> Inr (t\<lparr>Task_Title := x\<rparr>) | _ \<Rightarrow> Inl ER_BAD_NULL)
      else if k = ''description'' then
        (case v of CStr x \<Rightarrow> Inr (t\<lparr>Task_Description := Some x\<rparr>)
                 | CNull \<Rightarrow> Inr (t\<lparr>Task_Description := None\<rparr>) | _ \<Rightarrow> Inl ER_TRUNCATED)
      else if k = ''status'' then
        (case v of CStr x \<Rightarrow> Inr (t\<lparr>Task_Status := x\<rparr>) | _ \<Rightarrow> Inl ER_BAD_NULL)
      else if k = ''priority'' then
        (case v of CStr x \<Rightarrow> Inr (t\<lparr>Task_Priority := x\<rparr>) | _ \<Rightarrow> Inl ER_BAD_NULL)
      else if k = ''assignee_id'' then
        (case v of CInt x \<Rightarrow> Inr (t\<lparr>Task_AssigneeID := Some x\<rparr>)
                 | CNull \<Rightarrow> Inr (t\<lparr>Task_AssigneeID := None\<rparr>) | _ \<Rightarrow> Inl ER_TRUNCATED)
      else if k = ''due_date'' then
        (case v of CDate x \<Rightarrow> Inr (t\<lparr>Task_DueDate := Some x\<rparr>)
                 | CNull \<Rightarrow> Inr (t\<lparr>Task_DueDate := None\<rparr>) | _ \<Rightarrow> Inl ER_TRUNCATED)
      else Inl ER_BAD_FIELD)"

fun set_cols :: "(string \<times> colval) list \<Rightarrow> Task \<Rightarrow> Task result" where
  "set_cols [] t = Inr t"
| "set_cols (f # fs) t = (case set_col f t of Inl e \<Rightarrow> Inl e | Inr t' \<Rightarrow> set_cols fs t')"

text \<open>\<open>updated_at\<close> moves (\<open>ON UPDATE CURRENT_TIMESTAMP\<close>) when a column gets a new value.\<close>

definition touch :: "time \<Rightarrow> Task \<Rightarrow> Task \<Rightarrow> Task" where
  "touch now old new = (if new = old then old else new\<lparr>Task_UpdatedAt := now\<rparr>)"

definition replace_task :: "Task \<Rightarrow> tables \<Rightarrow> tables" where
  "replace_task r d = d\<lparr>tasks := map (\<lambda>t. if Task_ID t = Task_ID r then r else t) (tasks d)\<rparr>"

definition update_task :: "int \<Rightarrow> (string \<times> colval) list \<Rightarrow> unit stmt" where
  "update_task i upds s =
     (case task_by_id i (data s) of
        None \<Rightarrow> (Inr (), s)
      | Some t \<Rightarrow>
          (case set_cols upds t of
             Inl e \<Rightarrow> (Inl e, s)
           | Inr t' \<Rightarrow>
               if \<not> task_enums_ok t' then (Inl ER_TRUNCATED, s)
               else if \<not> task_refs_ok (data s) t' then (Inl ER_NO_REFERENCED_ROW, s)
               else (Inr (), on_data (replace_task (touch (clock s) t t')) s)))"

text \<open>Deleting a task deletes its comments (migration 0006) and its history (migration 0013).\<close>

definition drop_task :: "int \<Rightarrow> tables \<Rightarrow> tables" where
  "drop_task i d =
     d\<lparr>tasks := filter (\<lambda>t. Task_ID t \<noteq> i) (tasks d),
       task_comments := filter (\<lambda>c. TaskComment_TaskID c \<noteq> i) (task_comments d),
       task_history := filter (\<lambda>h. TaskHistory_TaskID h \<noteq> i) (task_history d)\<rparr>"

definition delete_task :: "int \<Rightarrow> unit stmt" where
  "delete_task i s = (Inr (), on_data (drop_task i) s)"

record TaskListFilter =
  TLF_TeamID :: int
  TLF_Status :: "string option"
  TLF_AssigneeID :: "int option"
  TLF_Limit :: int
  TLF_Offset :: int

definition task_matches :: "TaskListFilter \<Rightarrow> tables \<Rightarrow> Task \<Rightarrow> bool" where
  "task_matches f d t \<longleftrightarrow>
     Task_TeamID t = TLF_TeamID f \<and>
     (case TLF_Status f of None \<Rightarrow> True | Some s \<Rightarrow> collation d (Task_Status t) = collation d s) \<and>
     (case TLF_AssigneeID f of None \<Rightarrow> True | Some a \<Rightarrow> Task_AssigneeID t = Some a)"

definition count_tasks :: "TaskListFilter \<Rightarrow> tables \<Rightarrow> int" where
  "count_tasks f d = int (length (filter (task_matches f d) (tasks d)))"

text \<open>\<open>ORDER BY updated_at DESC, id DESC LIMIT ? OFFSET ?\<close>; a negative bound is a syntax error.\<close>

definition page :: "int \<Rightarrow> int \<Rightarrow> 'a list \<Rightarrow> 'a list" where
  "page limit offset xs = take (nat limit) (drop (nat offset) xs)"

definition tasks_ordered :: "TaskListFilter \<Rightarrow> tables \<Rightarrow> Task list" where
  "tasks_ordered f d =
     sort_key (\<lambda>t. (- Task_UpdatedAt t, - Task_ID t)) (filter (task_matches f d) (tasks d))"

definition list_tasks :: "TaskListFilter \<Rightarrow> Task list stmt" where
  "list_tasks f s =
     (if TLF_Limit f < 0 \<or> TLF_Offset f < 0 then (Inl ER_PARSE, s)
      else (Inr (page (TLF_Limit f) (TLF_Offset f) (tasks_ordered f (data s))), s))"

section \<open>Statements on comments and history\<close>

definition comment_by_id :: "int \<Rightarrow> tables \<Rightarrow> TaskComment option" where
  "comment_by_id i d = find (\<lambda>c. TaskComment_ID c = i) (task_comments d)"

definition comments_of :: "int \<Rightarrow> tables \<Rightarrow> TaskComment list" where
  "comments_of task d =
     sort_key (\<lambda>c. (TaskComment_CreatedAt c, TaskComment_ID c))
       (filter (\<lambda>c. TaskComment_TaskID c = task) (task_comments d))"

definition insert_comment :: "int \<Rightarrow> int \<Rightarrow> string \<Rightarrow> int stmt" where
  "insert_comment task user body s =
     (if \<not> List.member (task_ids (data s)) task \<or> \<not> List.member (user_ids (data s)) user
      then (Inl ER_NO_REFERENCED_ROW, s)
      else let i = auto_inc s TComments;
               c = \<lparr>TaskComment_ID = i, TaskComment_TaskID = task, TaskComment_UserID = user,
                    TaskComment_Body = body, TaskComment_CreatedAt = clock s, TaskComment_UpdatedAt = clock s\<rparr>
           in (Inr i, take_id TComments (on_data (\<lambda>d. d\<lparr>task_comments := task_comments d @ [c]\<rparr>) s)))"

definition update_comment :: "int \<Rightarrow> string \<Rightarrow> unit stmt" where
  "update_comment i body s =
     (Inr (), on_data (\<lambda>d. d\<lparr>task_comments :=
        map (\<lambda>c. if TaskComment_ID c = i \<and> TaskComment_Body c \<noteq> body
                 then c\<lparr>TaskComment_Body := body, TaskComment_UpdatedAt := clock s\<rparr> else c)
          (task_comments d)\<rparr>) s)"

definition delete_comment :: "int \<Rightarrow> unit stmt" where
  "delete_comment i s =
     (Inr (), on_data (\<lambda>d. d\<lparr>task_comments := filter (\<lambda>c. TaskComment_ID c \<noteq> i) (task_comments d)\<rparr>) s)"

definition history_row :: "int \<Rightarrow> time \<Rightarrow> TaskHistoryCreate \<Rightarrow> TaskHistory" where
  "history_row i now e =
     \<lparr>TaskHistory_ID = i, TaskHistory_TaskID = THC_TaskID e, TaskHistory_ChangedBy = THC_ChangedBy e,
      TaskHistory_FieldName = THC_FieldName e, TaskHistory_OldValue = THC_OldValue e,
      TaskHistory_NewValue = THC_NewValue e, TaskHistory_CreatedAt = now\<rparr>"

definition insert_history :: "TaskHistoryCreate \<Rightarrow> unit stmt" where
  "insert_history e s =
     (if \<not> List.member (task_ids (data s)) (THC_TaskID e) \<or> \<not> refers (THC_ChangedBy e) (user_ids (data s))
      then (Inl ER_NO_REFERENCED_ROW, s)
      else (Inr (), take_id THistory
              (on_data (\<lambda>d. d\<lparr>task_history := task_history d @
                 [history_row (auto_inc s THistory) (clock s) e]\<rparr>) s)))"

definition count_history :: "int \<Rightarrow> tables \<Rightarrow> int" where
  "count_history task d = int (length (filter (\<lambda>h. TaskHistory_TaskID h = task) (task_history d)))"

definition history_ordered :: "int \<Rightarrow> tables \<Rightarrow> TaskHistory list" where
  "history_ordered task d =
     sort_key (\<lambda>h. (- TaskHistory_CreatedAt h, - TaskHistory_ID h))
       (filter (\<lambda>h. TaskHistory_TaskID h = task) (task_history d))"

definition list_history :: "int \<Rightarrow> int \<Rightarrow> int \<Rightarrow> TaskHistory list stmt" where
  "list_history task limit offset s =
     (if limit < 0 \<or> offset < 0 then (Inl ER_PARSE, s)
      else (Inr (page limit offset (history_ordered task (data s))), s))"

section \<open>Statements on sessions\<close>

definition has_token :: "string \<Rightarrow> tables \<Rightarrow> Session \<Rightarrow> bool" where
  "has_token h d x \<longleftrightarrow> collation d (Session_TokenHash x) = collation d h"

definition session_by_token :: "string \<Rightarrow> tables \<Rightarrow> Session option" where
  "session_by_token h d = find (has_token h d) (sessions d)"

definition insert_session :: "Session \<Rightarrow> int stmt" where
  "insert_session x s =
     (if session_by_token (Session_TokenHash x) (data s) \<noteq> None then (Inl ER_DUP_ENTRY, s)
      else if \<not> List.member (user_ids (data s)) (Session_UserID x) then (Inl ER_NO_REFERENCED_ROW, s)
      else let i = auto_inc s TSessions;
               r = x\<lparr>Session_ID := i, Session_ExpiresAt := datetime3 (Session_ExpiresAt x),
                     Session_RevokedAt := map_option datetime3 (Session_RevokedAt x),
                     Session_LastUsedAt := map_option datetime3 (Session_LastUsedAt x),
                     Session_CreatedAt := clock s\<rparr>
           in (Inr i, take_id TSessions (on_data (\<lambda>d. d\<lparr>sessions := sessions d @ [r]\<rparr>) s)))"

definition map_sessions :: "(tables \<Rightarrow> Session \<Rightarrow> bool) \<Rightarrow> (Session \<Rightarrow> Session) \<Rightarrow> tables \<Rightarrow> tables" where
  "map_sessions P f d = d\<lparr>sessions := map (\<lambda>x. if P d x then f x else x) (sessions d)\<rparr>"

definition revoke_session :: "string \<Rightarrow> time \<Rightarrow> unit stmt" where
  "revoke_session h at s =
     (Inr (), on_data (map_sessions (has_token h) (\<lambda>x. x\<lparr>Session_RevokedAt := Some (datetime3 at)\<rparr>)) s)"

definition touch_session :: "string \<Rightarrow> time \<Rightarrow> unit stmt" where
  "touch_session h at s =
     (Inr (), on_data (map_sessions (has_token h) (\<lambda>x. x\<lparr>Session_LastUsedAt := Some (datetime3 at)\<rparr>)) s)"

definition revoke_user_sessions :: "int \<Rightarrow> time \<Rightarrow> unit stmt" where
  "revoke_user_sessions user at s =
     (Inr (), on_data (map_sessions (\<lambda>_ x. Session_UserID x = user \<and> Session_RevokedAt x = None)
        (\<lambda>x. x\<lparr>Session_RevokedAt := Some (datetime3 at)\<rparr>)) s)"

definition active_sessions :: "int \<Rightarrow> tables \<Rightarrow> Session list" where
  "active_sessions user d =
     filter (\<lambda>x. Session_UserID x = user \<and> Session_RevokedAt x = None) (sessions d)"

section \<open>Transactions\<close>

definition begin_tx :: "unit stmt" where
  "begin_tx s = (Inr (), s\<lparr>open_tx := Some (data s)\<rparr>)"

definition commit_tx :: "unit stmt" where
  "commit_tx s = (Inr (), s\<lparr>open_tx := None\<rparr>)"

text \<open>Rolling back restores the tables; ids already taken stay taken. Without an open
  transaction it does nothing (\<open>sql.ErrTxDone\<close>).\<close>

definition rollback_tx :: "server \<Rightarrow> server" where
  "rollback_tx s = (case open_tx s of None \<Rightarrow> s | Some d \<Rightarrow> s\<lparr>data := d, open_tx := None\<rparr>)"

end
