(* ===== verification/Constraints.thy ===== *)
theory Constraints
  imports Schema
begin

text \<open>
  The well-formedness of the database: primary keys, unique keys, foreign keys and \<open>ENUM\<close>
  domains of the migrations, and ids below the \<open>AUTO_INCREMENT\<close> counters. Every statement
  of theory \<open>Schema\<close> keeps it, and so does a rollback.
\<close>

section \<open>The invariant\<close>

definition users_ok :: "tables \<Rightarrow> bool" where
  "users_ok d \<longleftrightarrow> distinct (user_ids d) \<and>
     distinct (map (\<lambda>u. collation d (User_Email u)) (users d)) \<and>
     distinct (map (\<lambda>u. collation d (User_Username u)) (users d))"

definition teams_ok :: "tables \<Rightarrow> bool" where
  "teams_ok d \<longleftrightarrow> distinct (team_ids d) \<and>
     (\<forall>t \<in> set (teams d). refers (Team_CreatedBy t) (user_ids d))"

definition members_ok :: "tables \<Rightarrow> bool" where
  "members_ok d \<longleftrightarrow>
     distinct (map (\<lambda>m. (TeamMember_TeamID m, TeamMember_UserID m)) (team_members d)) \<and>
     (\<forall>m \<in> set (team_members d).
        List.member (team_ids d) (TeamMember_TeamID m) \<and>
        List.member (user_ids d) (TeamMember_UserID m) \<and>
        List.member role_enum (TeamMember_Role m))"

definition tasks_ok :: "tables \<Rightarrow> bool" where
  "tasks_ok d \<longleftrightarrow> distinct (task_ids d) \<and>
     (\<forall>t \<in> set (tasks d). task_refs_ok d t \<and> task_enums_ok t)"

definition history_ok :: "tables \<Rightarrow> bool" where
  "history_ok d \<longleftrightarrow> distinct (map TaskHistory_ID (task_history d)) \<and>
     (\<forall>h \<in> set (task_history d).
        List.member (task_ids d) (TaskHistory_TaskID h) \<and>
        refers (TaskHistory_ChangedBy h) (user_ids d))"

definition comments_ok :: "tables \<Rightarrow> bool" where
  "comments_ok d \<longleftrightarrow> distinct (map TaskComment_ID (task_comments d)) \<and>
     (\<forall>c \<in> set (task_comments d).
        List.member (task_ids d) (TaskComment_TaskID c) \<and>
        List.member (user_ids d) (TaskComment_UserID c))"

definition sessions_ok :: "tables \<Rightarrow> bool" where
  "sessions_ok d \<longleftrightarrow> distinct (map Session_ID (sessions d)) \<and>
     distinct (map (\<lambda>x. collation d (Session_TokenHash x)) (sessions d)) \<and>
     (\<forall>x \<in> set (sessions d). List.member (user_ids d) (Session_UserID x))"

definition tables_ok :: "tables \<Rightarrow> bool" where
  "tables_ok d \<longleftrightarrow> users_ok d \<and> teams_ok d \<and> members_ok d \<and> tasks_ok d \<and>
     history_ok d \<and> comments_ok d \<and> sessions_ok d"

definition ids_below :: "(tbl \<Rightarrow> int) \<Rightarrow> tables \<Rightarrow> bool" where
  "ids_below a d \<longleftrightarrow>
     (\<forall>u \<in> set (users d). User_ID u < a TUsers) \<and>
     (\<forall>t \<in> set (teams d). Team_ID t < a TTeams) \<and>
     (\<forall>t \<in> set (tasks d). Task_ID t < a TTasks) \<and>
     (\<forall>h \<in> set (task_history d). TaskHistory_ID h < a THistory) \<and>
     (\<forall>c \<in> set (task_comments d). TaskComment_ID c < a TComments) \<and>
     (\<forall>x \<in> set (sessions d). Session_ID x < a TSessions)"

definition server_ok :: "server \<Rightarrow> bool" where
  "server_ok s \<longleftrightarrow> tables_ok (data s) \<and> ids_below (auto_inc s) (data s) \<and>
     (case open_tx s of None \<Rightarrow> True | Some d \<Rightarrow> tables_ok d \<and> ids_below (auto_inc s) d)"

lemmas ids_defs = user_ids_def team_ids_def task_ids_def refers_def
lemmas tables_defs = tables_ok_def users_ok_def teams_ok_def members_ok_def tasks_ok_def
  history_ok_def comments_ok_def sessions_ok_def task_refs_ok_def

lemma on_data_simps [simp]:
  "data (on_data f s) = f (data s)" "auto_inc (on_data f s) = auto_inc s"
  "clock (on_data f s) = clock s" "open_tx (on_data f s) = open_tx s"
  by (simp_all add: on_data_def)

lemma take_id_simps [simp]:
  "data (take_id t s) = data s" "auto_inc (take_id t s) = (auto_inc s)(t := auto_inc s t + 1)"
  "clock (take_id t s) = clock s" "open_tx (take_id t s) = open_tx s"
  by (simp_all add: take_id_def)

lemma ids_below_take_id: "ids_below a d \<Longrightarrow> ids_below (a(t := a t + 1)) d"
  by (cases t) (auto simp: ids_below_def)

text \<open>A statement that only writes the data keeps the invariant when the new data do.\<close>

lemma server_ok_on_data:
  assumes "server_ok s" and "tables_ok (f (data s))" and "ids_below (auto_inc s) (f (data s))"
  shows "server_ok (on_data f s)"
  using assms by (auto simp: server_ok_def split: option.splits)

lemma server_ok_insert:
  assumes "server_ok s" and "tables_ok (f (data s))"
    and "ids_below ((auto_inc s)(t := auto_inc s t + 1)) (f (data s))"
  shows "server_ok (take_id t (on_data f s))"
  using assms by (auto simp: server_ok_def ids_below_take_id split: option.splits)

lemma server_okD:
  assumes "server_ok s"
  shows "tables_ok (data s)" "ids_below (auto_inc s) (data s)"
  using assms by (simp_all add: server_ok_def)

section \<open>Inserts\<close>

lemma keeps_select [keeps_intros]: "keeps server_ok (select q)"
  by (simp add: keeps_def select_def)

lemma keeps_insert_user [keeps_intros]: "keeps server_ok (insert_user e n h)"
proof (rule keepsI)
  fix s assume ok: "server_ok s"
  let ?u = "\<lparr>User_ID = auto_inc s TUsers, User_Email = e, User_Username = n, User_PasswordHash = h\<rparr>"
  let ?d = "(data s)\<lparr>users := users (data s) @ [?u]\<rparr>"
  show "server_ok (snd (insert_user e n h s))"
  proof (cases "user_by_email e (data s) \<noteq> None \<or> user_by_username n (data s) \<noteq> None")
    case False
    then have new: "\<forall>u \<in> set (users (data s)). collation (data s) (User_Email u) \<noteq> collation (data s) e \<and>
        collation (data s) (User_Username u) \<noteq> collation (data s) n"
      by (auto simp: user_by_email_def user_by_username_def find_None_iff_ball)
    have "users_ok ?d"
      using server_okD [OF ok] new by (auto simp: tables_defs ids_below_def ids_defs)
    then have "tables_ok ?d"
      using server_okD [OF ok] by (auto simp: tables_defs ids_defs split: option.splits)
    moreover have "ids_below ((auto_inc s)(TUsers := auto_inc s TUsers + 1)) ?d"
      using server_okD [OF ok] by (auto simp: ids_below_def)
    ultimately show ?thesis
      using ok False by (simp add: insert_user_def Let_def server_ok_insert)
  qed (use ok in \<open>simp add: insert_user_def\<close>)
qed

lemma keeps_insert_team [keeps_intros]: "keeps server_ok (insert_team n u)"
proof (rule keepsI)
  fix s assume ok: "server_ok s"
  let ?t = "\<lparr>Team_ID = auto_inc s TTeams, Team_Name = n, Team_CreatedBy = Some u, Team_CreatedAt = clock s\<rparr>"
  let ?d = "(data s)\<lparr>teams := teams (data s) @ [?t]\<rparr>"
  show "server_ok (snd (insert_team n u s))"
  proof (cases "List.member (user_ids (data s)) u")
    case True
    then have "tables_ok ?d"
      using server_okD [OF ok] by (auto simp: tables_defs ids_below_def ids_defs split: option.splits)
    moreover have "ids_below ((auto_inc s)(TTeams := auto_inc s TTeams + 1)) ?d"
      using server_okD [OF ok] by (auto simp: ids_below_def)
    ultimately show ?thesis
      using ok True by (simp add: insert_team_def Let_def server_ok_insert)
  qed (use ok in \<open>simp add: insert_team_def\<close>)
qed

lemma keeps_insert_member [keeps_intros]: "keeps server_ok (insert_member t u r)"
proof (rule keepsI)
  fix s assume ok: "server_ok s"
  let ?m = "\<lparr>TeamMember_TeamID = t, TeamMember_UserID = u, TeamMember_Role = r, TeamMember_CreatedAt = clock s\<rparr>"
  let ?d = "(data s)\<lparr>team_members := team_members (data s) @ [?m]\<rparr>"
  show "server_ok (snd (insert_member t u r s))"
  proof (cases "List.member role_enum r \<and> \<not> is_member t u (data s) \<and>
      List.member (team_ids (data s)) t \<and> List.member (user_ids (data s)) u")
    case True
    then have "members_ok ?d"
      using server_okD [OF ok]
      by (auto simp: tables_defs ids_defs is_member_def member_row_def find_None_iff_ball)
    then have "tables_ok ?d"
      using server_okD [OF ok] by (auto simp: tables_defs ids_defs)
    moreover have "ids_below (auto_inc s) ?d"
      using server_okD [OF ok] by (auto simp: ids_below_def)
    ultimately show ?thesis
      using ok True by (simp add: insert_member_def Let_def server_ok_on_data)
  qed (use ok in \<open>auto simp: insert_member_def\<close>)
qed

lemma keeps_insert_task [keeps_intros]: "keeps server_ok (insert_task t)"
proof (rule keepsI)
  fix s assume ok: "server_ok s"
  let ?t = "t\<lparr>Task_ID := auto_inc s TTasks, Task_CreatedAt := clock s, Task_UpdatedAt := clock s\<rparr>"
  let ?d = "(data s)\<lparr>tasks := tasks (data s) @ [?t]\<rparr>"
  show "server_ok (snd (insert_task t s))"
  proof (cases "task_enums_ok t \<and> task_refs_ok (data s) t")
    case True
    then have "tables_ok ?d"
      using server_okD [OF ok] by (auto simp: tables_defs ids_below_def ids_defs task_enums_ok_def)
    moreover have "ids_below ((auto_inc s)(TTasks := auto_inc s TTasks + 1)) ?d"
      using server_okD [OF ok] by (auto simp: ids_below_def)
    ultimately show ?thesis
      using ok True by (simp add: insert_task_def Let_def server_ok_insert)
  qed (use ok in \<open>auto simp: insert_task_def\<close>)
qed

lemma keeps_insert_comment [keeps_intros]: "keeps server_ok (insert_comment t u b)"
proof (rule keepsI)
  fix s assume ok: "server_ok s"
  let ?c = "\<lparr>TaskComment_ID = auto_inc s TComments, TaskComment_TaskID = t, TaskComment_UserID = u,
     TaskComment_Body = b, TaskComment_CreatedAt = clock s, TaskComment_UpdatedAt = clock s\<rparr>"
  let ?d = "(data s)\<lparr>task_comments := task_comments (data s) @ [?c]\<rparr>"
  show "server_ok (snd (insert_comment t u b s))"
  proof (cases "List.member (task_ids (data s)) t \<and> List.member (user_ids (data s)) u")
    case True
    then have "tables_ok ?d"
      using server_okD [OF ok] by (auto simp: tables_defs ids_below_def ids_defs)
    moreover have "ids_below ((auto_inc s)(TComments := auto_inc s TComments + 1)) ?d"
      using server_okD [OF ok] by (auto simp: ids_below_def)
    ultimately show ?thesis
      using ok True by (simp add: insert_comment_def Let_def server_ok_insert)
  qed (use ok in \<open>auto simp: insert_comment_def\<close>)
qed

lemma keeps_insert_history [keeps_intros]: "keeps server_ok (insert_history e)"
proof (rule keepsI)
  fix s assume ok: "server_ok s"
  let ?d = "(data s)\<lparr>task_history := task_history (data s) @ [history_row (auto_inc s THistory) (clock s) e]\<rparr>"
  show "server_ok (snd (insert_history e s))"
  proof (cases "List.member (task_ids (data s)) (THC_TaskID e) \<and> refers (THC_ChangedBy e) (user_ids (data s))")
    case True
    then have "tables_ok ?d"
      using server_okD [OF ok] by (auto simp: tables_defs ids_below_def ids_defs history_row_def)
    moreover have "ids_below ((auto_inc s)(THistory := auto_inc s THistory + 1)) ?d"
      using server_okD [OF ok] by (auto simp: ids_below_def history_row_def)
    ultimately show ?thesis
      using ok True by (simp add: insert_history_def Let_def server_ok_insert)
  qed (use ok in \<open>auto simp: insert_history_def\<close>)
qed

lemma keeps_insert_session [keeps_intros]: "keeps server_ok (insert_session x)"
proof (rule keepsI)
  fix s assume ok: "server_ok s"
  let ?r = "x\<lparr>Session_ID := auto_inc s TSessions, Session_ExpiresAt := datetime3 (Session_ExpiresAt x),
     Session_RevokedAt := map_option datetime3 (Session_RevokedAt x),
     Session_LastUsedAt := map_option datetime3 (Session_LastUsedAt x), Session_CreatedAt := clock s\<rparr>"
  let ?d = "(data s)\<lparr>sessions := sessions (data s) @ [?r]\<rparr>"
  show "server_ok (snd (insert_session x s))"
  proof (cases "session_by_token (Session_TokenHash x) (data s) = None \<and>
      List.member (user_ids (data s)) (Session_UserID x)")
    case True
    then have "sessions_ok ?d"
      using server_okD [OF ok]
      by (auto simp: tables_defs ids_below_def ids_defs session_by_token_def has_token_def find_None_iff_ball)
    then have "tables_ok ?d"
      using server_okD [OF ok] by (auto simp: tables_defs ids_defs)
    moreover have "ids_below ((auto_inc s)(TSessions := auto_inc s TSessions + 1)) ?d"
      using server_okD [OF ok] by (auto simp: ids_below_def)
    ultimately show ?thesis
      using ok True by (simp add: insert_session_def Let_def server_ok_insert)
  qed (use ok in \<open>auto simp: insert_session_def\<close>)
qed

section \<open>Updates and deletes\<close>

lemma set_col_key [simp]:
  "set_col f t = Inr t' \<Longrightarrow>
     Task_ID t' = Task_ID t \<and> Task_TeamID t' = Task_TeamID t \<and> Task_CreatedBy t' = Task_CreatedBy t"
  by (cases f) (auto split: if_splits colval.splits)

lemma set_cols_key:
  "set_cols fs t = Inr t' \<Longrightarrow>
     Task_ID t' = Task_ID t \<and> Task_TeamID t' = Task_TeamID t \<and> Task_CreatedBy t' = Task_CreatedBy t"
proof (induction fs arbitrary: t)
  case (Cons f fs)
  then show ?case by (cases "set_col f t") (auto dest!: set_col_key)
qed simp

lemma touch_simps [simp]:
  "Task_ID (touch now t t') = Task_ID t'" "Task_TeamID (touch now t t') = Task_TeamID t'"
  "Task_Title (touch now t t') = Task_Title t'" "Task_Description (touch now t t') = Task_Description t'"
  "Task_Status (touch now t t') = Task_Status t'" "Task_Priority (touch now t t') = Task_Priority t'"
  "Task_AssigneeID (touch now t t') = Task_AssigneeID t'" "Task_CreatedBy (touch now t t') = Task_CreatedBy t'"
  "Task_DueDate (touch now t t') = Task_DueDate t'" "Task_CreatedAt (touch now t t') = Task_CreatedAt t'"
  by (simp_all add: touch_def)

lemma replace_task_simps [simp]:
  "users (replace_task r d) = users d" "teams (replace_task r d) = teams d"
  "team_members (replace_task r d) = team_members d" "task_history (replace_task r d) = task_history d"
  "task_comments (replace_task r d) = task_comments d" "sessions (replace_task r d) = sessions d"
  "collation (replace_task r d) = collation d" "task_ids (replace_task r d) = task_ids d"
  by (auto simp: replace_task_def task_ids_def)

lemma tables_ok_replace_task:
  assumes "tables_ok d" and "task_refs_ok d r" and "task_enums_ok r"
  shows "tables_ok (replace_task r d)"
proof -
  have "tasks_ok (replace_task r d)"
    using assms
    by (auto simp: tables_ok_def tasks_ok_def task_refs_ok_def replace_task_def team_ids_def user_ids_def
        task_ids_def comp_def if_distrib [of Task_ID] cong: if_cong)
  with assms show ?thesis
    by (simp add: tables_defs user_ids_def team_ids_def)
qed

lemma keeps_update_task [keeps_intros]: "keeps server_ok (update_task i fs)"
proof (rule keepsI)
  fix s assume ok: "server_ok s"
  show "server_ok (snd (update_task i fs s))"
  proof (cases "task_by_id i (data s)")
    case (Some t)
    show ?thesis
    proof (cases "set_cols fs t")
      case (Inr t')
      let ?r = "touch (clock s) t t'"
      have "ids_below (auto_inc s) (replace_task ?r (data s))"
        using server_okD(2) [OF ok] by (auto simp: ids_below_def replace_task_def)
      moreover have "task_enums_ok ?r = task_enums_ok t'" "task_refs_ok (data s) ?r = task_refs_ok (data s) t'"
        by (simp_all add: task_enums_ok_def task_refs_ok_def)
      ultimately show ?thesis
        using ok Some Inr server_okD(1) [OF ok]
        by (simp add: update_task_def server_ok_on_data tables_ok_replace_task)
    qed (use ok Some in \<open>simp add: update_task_def\<close>)
  qed (use ok in \<open>simp add: update_task_def\<close>)
qed

lemma drop_task_simps [simp]:
  "users (drop_task i d) = users d" "teams (drop_task i d) = teams d"
  "team_members (drop_task i d) = team_members d" "sessions (drop_task i d) = sessions d"
  "collation (drop_task i d) = collation d"
  "user_ids (drop_task i d) = user_ids d" "team_ids (drop_task i d) = team_ids d"
  "set (task_ids (drop_task i d)) = set (task_ids d) - {i}"
  by (auto simp: drop_task_def ids_defs)

lemma tables_ok_drop_task:
  assumes "tables_ok d"
  shows "tables_ok (drop_task i d)"
proof -
  have "tasks_ok (drop_task i d)"
    using assms unfolding tables_ok_def tasks_ok_def task_refs_ok_def
    by (auto simp: drop_task_def task_ids_def distinct_map_filterI user_ids_def team_ids_def)
  moreover have "history_ok (drop_task i d)" "comments_ok (drop_task i d)"
    using assms unfolding tables_ok_def history_ok_def comments_ok_def
    by (simp_all add: distinct_map_filterI) (auto simp: drop_task_def distinct_map_filterI)
  ultimately show ?thesis
    using assms by (simp add: tables_ok_def users_ok_def teams_ok_def members_ok_def sessions_ok_def)
qed

lemma keeps_delete_task [keeps_intros]: "keeps server_ok (delete_task i)"
proof (rule keepsI)
  fix s assume ok: "server_ok s"
  have "tables_ok (drop_task i (data s))"
    using server_okD(1) [OF ok] by (rule tables_ok_drop_task)
  moreover have "ids_below (auto_inc s) (drop_task i (data s))"
    using server_okD(2) [OF ok] by (auto simp: ids_below_def drop_task_def)
  ultimately show "server_ok (snd (delete_task i s))"
    using ok by (simp add: delete_task_def server_ok_on_data)
qed

lemma keeps_update_comment [keeps_intros]: "keeps server_ok (update_comment i b)"
proof (rule keepsI)
  fix s assume ok: "server_ok s"
  let ?f = "\<lambda>c. if TaskComment_ID c = i \<and> TaskComment_Body c \<noteq> b
     then c\<lparr>TaskComment_Body := b, TaskComment_UpdatedAt := clock s\<rparr> else c"
  have key: "map TaskComment_ID (map ?f cs) = map TaskComment_ID cs" for cs by (induction cs) simp_all
  have "comments_ok ((data s)\<lparr>task_comments := map ?f (task_comments (data s))\<rparr>)"
    using server_okD(1) [OF ok] unfolding tables_ok_def comments_ok_def
    by (auto simp: key ids_defs simp del: map_map)
  then have "tables_ok ((data s)\<lparr>task_comments := map ?f (task_comments (data s))\<rparr>)"
    using server_okD(1) [OF ok] by (simp add: tables_defs ids_defs)
  moreover have "ids_below (auto_inc s) ((data s)\<lparr>task_comments := map ?f (task_comments (data s))\<rparr>)"
    using server_okD(2) [OF ok] by (auto simp: ids_below_def)
  ultimately show "server_ok (snd (update_comment i b s))"
    using ok by (simp add: update_comment_def server_ok_on_data)
qed

lemma keeps_delete_comment [keeps_intros]: "keeps server_ok (delete_comment i)"
proof (rule keepsI)
  fix s assume ok: "server_ok s"
  let ?d = "(data s)\<lparr>task_comments := filter (\<lambda>c. TaskComment_ID c \<noteq> i) (task_comments (data s))\<rparr>"
  have "tables_ok ?d"
    using server_okD(1) [OF ok] by (auto simp: tables_defs ids_defs distinct_map_filterI)
  moreover have "ids_below (auto_inc s) ?d"
    using server_okD(2) [OF ok] by (auto simp: ids_below_def)
  ultimately show "server_ok (snd (delete_comment i s))"
    using ok by (simp add: delete_comment_def server_ok_on_data)
qed

lemma tables_ok_map_sessions:
  assumes "tables_ok d"
    and "\<And>x. Session_ID (f x) = Session_ID x" "\<And>x. Session_TokenHash (f x) = Session_TokenHash x"
    and "\<And>x. Session_UserID (f x) = Session_UserID x"
  shows "tables_ok (map_sessions P f d)"
  using assms
  by (auto simp: tables_defs map_sessions_def ids_defs comp_def if_distrib [of Session_ID]
      if_distrib [of "\<lambda>x. collation d (Session_TokenHash x)"] cong: if_cong)

lemma server_ok_map_sessions:
  assumes "server_ok s"
    and "\<And>x. Session_ID (f x) = Session_ID x" "\<And>x. Session_TokenHash (f x) = Session_TokenHash x"
    and "\<And>x. Session_UserID (f x) = Session_UserID x"
  shows "server_ok (on_data (map_sessions P f) s)"
proof (rule server_ok_on_data [OF assms(1)])
  show "tables_ok (map_sessions P f (data s))"
    by (rule tables_ok_map_sessions) (use assms server_okD in auto)
  show "ids_below (auto_inc s) (map_sessions P f (data s))"
    using server_okD(2) [OF assms(1)] assms(2) by (auto simp: ids_below_def map_sessions_def)
qed

lemma keeps_revoke_session [keeps_intros]: "keeps server_ok (revoke_session h t)"
  by (rule keepsI) (simp add: revoke_session_def server_ok_map_sessions)

lemma keeps_touch_session [keeps_intros]: "keeps server_ok (touch_session h t)"
  by (rule keepsI) (simp add: touch_session_def server_ok_map_sessions)

lemma keeps_revoke_user_sessions [keeps_intros]: "keeps server_ok (revoke_user_sessions u t)"
  by (rule keepsI) (simp add: revoke_user_sessions_def server_ok_map_sessions)

section \<open>Queries and transactions\<close>

lemma keeps_list_tasks [keeps_intros]: "keeps server_ok (list_tasks f)"
  by (simp add: keeps_def list_tasks_def)

lemma keeps_list_history [keeps_intros]: "keeps server_ok (list_history t l k)"
  by (simp add: keeps_def list_history_def)

lemma keeps_begin_tx [keeps_intros]: "keeps server_ok begin_tx"
  by (auto simp: keeps_def begin_tx_def server_ok_def)

lemma keeps_commit_tx [keeps_intros]: "keeps server_ok commit_tx"
  by (auto simp: keeps_def commit_tx_def server_ok_def)

lemma server_ok_rollback: "server_ok s \<Longrightarrow> server_ok (rollback_tx s)"
  by (auto simp: rollback_tx_def server_ok_def split: option.splits)

end
