(* ===== verification/Interfaces.thy ===== *)
theory Interfaces
  imports Constraints
begin

text \<open>
  The Go interfaces through which package \<open>service\<close> reaches the database, one record of
  operations each, over any state \<open>'w\<close>, and the contract of each interface as a locale.
  A contract says what an operation does to the database \<open>db w\<close> seen through the state:
  it runs a statement of theory \<open>Schema\<close>, or it fails with an error and changes nothing.
  In a \<open>healthy\<close> state, where connections and deadlines hold, the statement does run.
\<close>

section \<open>What it means to run a statement\<close>

definition executes :: "('w \<Rightarrow> 's) \<Rightarrow> ('w \<Rightarrow> bool) \<Rightarrow> ('w, 'a) comp \<Rightarrow> ('s, 'a) comp \<Rightarrow> bool" where
  "executes db healthy m f \<longleftrightarrow>
     (\<forall>w. ((fst (m w), db (snd (m w))) = f (db w)
           \<or> ((\<exists>e. fst (m w) = Inl e) \<and> db (snd (m w)) = db w)) \<and>
          (healthy w \<longrightarrow> (fst (m w), db (snd (m w))) = f (db w) \<and> healthy (snd (m w))))"

lemma executes_Inr:
  "executes db healthy m f \<Longrightarrow> m w = (Inr a, w') \<Longrightarrow> f (db w) = (Inr a, db w')"
  unfolding executes_def by (metis Inl_Inr_False fst_conv snd_conv)

lemma executes_Inl:
  assumes "executes db healthy m f" and "m w = (Inl e, w')"
  shows "f (db w) = (Inl e, db w') \<or> db w' = db w"
  using assms unfolding executes_def by (metis fst_conv snd_conv)

lemma executes_select_db:
  assumes "executes db healthy m (select q)"
  shows "db (snd (m w)) = db w"
  using assms unfolding executes_def select_def by (metis prod.inject)

lemma executes_select:
  assumes "executes db healthy m (select q)" and "m w = (r, w')"
  shows "db w' = db w" "r = Inr a \<Longrightarrow> a = q (data (db w))"
  using executes_select_db [OF assms(1), of w] assms executes_Inr [OF assms(1), of w]
  by (auto simp: select_def)

text \<open>A query in front of a computation: it fails and changes nothing, or hands on its answer.\<close>

lemma executes_bind_select:
  assumes "executes db healthy m (select q)" and "bindE m k w = (r, w')"
  shows "(\<exists>e. r = Inl e \<and> db w' = db w) \<or>
     (\<exists>w1. db w1 = db w \<and> k (q (data (db w))) w1 = (r, w'))"
proof -
  obtain r1 w1 where m: "m w = (r1, w1)" by (cases "m w")
  show ?thesis
    using executes_select [OF assms(1) m] assms(2) m
    by (cases r1) (auto simp: bindE_apply)
qed

lemma executes_healthy:
  assumes "executes db healthy m f" and "healthy w"
  shows "(fst (m w), db (snd (m w))) = f (db w)" "healthy (snd (m w))"
  using assms unfolding executes_def by auto

lemma executes_keeps:
  assumes "executes db healthy m f" and "keeps P f"
  shows "keeps (\<lambda>w. P (db w)) m"
  using assms unfolding executes_def keeps_def by (metis snd_conv)

text \<open>Statements that fail leave the server as it was, so running one is a step or no step.\<close>

definition fails_clean :: "('s, 'a) comp \<Rightarrow> bool" where
  "fails_clean f \<longleftrightarrow> (\<forall>s e s'. f s = (Inl e, s') \<longrightarrow> s' = s)"

lemma executes_clean:
  assumes "executes db healthy m f" and "fails_clean f" and "m w = (Inl e, w')"
  shows "db w' = db w"
  using executes_Inl [OF assms(1,3)] assms(2) unfolding fails_clean_def by blast

lemma fails_clean_stmts:
  "fails_clean (select q)" "fails_clean (insert_user e n h)" "fails_clean (insert_team n u)"
  "fails_clean (insert_member t u r)" "fails_clean (insert_task x)" "fails_clean (update_task i fs)"
  "fails_clean (delete_task i)" "fails_clean (list_tasks fl)" "fails_clean (insert_comment i u b)"
  "fails_clean (update_comment i b)" "fails_clean (delete_comment i)" "fails_clean (insert_history c)"
  "fails_clean (list_history i l k)" "fails_clean (insert_session y)" "fails_clean (revoke_session h ts)"
  "fails_clean (touch_session h ts)" "fails_clean (revoke_user_sessions u ts)" "fails_clean begin_tx"
  by (auto simp: fails_clean_def select_def insert_user_def insert_team_def insert_member_def
      insert_task_def update_task_def delete_task_def list_tasks_def insert_comment_def
      update_comment_def delete_comment_def insert_history_def list_history_def insert_session_def
      revoke_session_def touch_session_def revoke_user_sessions_def begin_tx_def Let_def
      split: if_splits option.splits sum.splits)

section \<open>The interfaces of the task service\<close>

record 'w taskRepo =
  taskRepo_Create :: "Task \<Rightarrow> ('w, int) comp"
  taskRepo_GetByID :: "int \<Rightarrow> ('w, Task option) comp"
  taskRepo_GetByIDForUpdateTx :: "int \<Rightarrow> ('w, Task option) comp"
  taskRepo_List :: "TaskListFilter \<Rightarrow> ('w, Task list \<times> int) comp"
  taskRepo_Update :: "int \<Rightarrow> (string \<times> colval) list \<Rightarrow> ('w, unit) comp"
  taskRepo_UpdateTx :: "int \<Rightarrow> (string \<times> colval) list \<Rightarrow> ('w, unit) comp"
  taskRepo_Delete :: "int \<Rightarrow> ('w, unit) comp"
  taskRepo_DeleteTx :: "int \<Rightarrow> ('w, unit) comp"

record 'w teamRepo =
  teamRepo_GetByID :: "int \<Rightarrow> ('w, Team option) comp"

record 'w teamMemberRepo =
  teamMemberRepo_GetRole :: "int \<Rightarrow> int \<Rightarrow> ('w, string option) comp"
  teamMemberRepo_IsMember :: "int \<Rightarrow> int \<Rightarrow> ('w, bool) comp"

record 'w taskCommentRepo =
  taskCommentRepo_Create :: "int \<Rightarrow> int \<Rightarrow> string \<Rightarrow> ('w, int) comp"
  taskCommentRepo_ListByTask :: "int \<Rightarrow> ('w, TaskComment list) comp"
  taskCommentRepo_GetByID :: "int \<Rightarrow> ('w, TaskComment option) comp"
  taskCommentRepo_Update :: "int \<Rightarrow> string \<Rightarrow> ('w, unit) comp"
  taskCommentRepo_Delete :: "int \<Rightarrow> ('w, unit) comp"

record 'w taskHistoryRepo =
  taskHistoryRepo_CreateBatchTx :: "TaskHistoryCreate list \<Rightarrow> ('w, unit) comp"
  taskHistoryRepo_ListByTask :: "int \<Rightarrow> int \<Rightarrow> int \<Rightarrow> ('w, TaskHistory list \<times> int) comp"

text \<open>A \<open>*sqlx.DB\<close> where the code opens, commits and rolls back a transaction.\<close>

record 'w sqlxDB =
  db_BeginTxx :: "('w, unit) comp"
  tx_Commit :: "('w, unit) comp"
  tx_Rollback :: "'w \<Rightarrow> 'w"

section \<open>The interfaces of the team, auth and stats services\<close>

record 'w teamStore =
  teamStore_CreateTx :: "string \<Rightarrow> int \<Rightarrow> ('w, int) comp"
  teamStore_GetByID :: "int \<Rightarrow> ('w, Team option) comp"
  teamStore_ListByUser :: "int \<Rightarrow> ('w, Team list) comp"

record 'w teamMemberStore =
  teamMemberStore_AddTx :: "int \<Rightarrow> int \<Rightarrow> string \<Rightarrow> ('w, unit) comp"
  teamMemberStore_Add :: "int \<Rightarrow> int \<Rightarrow> string \<Rightarrow> ('w, unit) comp"
  teamMemberStore_GetRole :: "int \<Rightarrow> int \<Rightarrow> ('w, string option) comp"
  teamMemberStore_IsMember :: "int \<Rightarrow> int \<Rightarrow> ('w, bool) comp"

record 'w UserStore =
  UserStore_Create :: "string \<Rightarrow> string \<Rightarrow> string \<Rightarrow> ('w, int) comp"
  UserStore_GetByEmail :: "string \<Rightarrow> ('w, User option) comp"
  UserStore_GetByUsername :: "string \<Rightarrow> ('w, User option) comp"

text \<open>The closure given to \<open>WithTx\<close> hands a token pair out through a captured variable; it is
  the result of the computation here.\<close>

record TokenPair =
  AccessToken :: string
  RefreshToken :: string

record 'w SessionStore =
  SessionStore_Create :: "Session \<Rightarrow> ('w, int) comp"
  SessionStore_GetByTokenHash :: "string \<Rightarrow> ('w, Session option) comp"
  SessionStore_GetByTokenHashForUpdate :: "string \<Rightarrow> ('w, Session option) comp"
  SessionStore_Revoke :: "string \<Rightarrow> time \<Rightarrow> ('w, unit) comp"
  SessionStore_UpdateLastUsed :: "string \<Rightarrow> time \<Rightarrow> ('w, unit) comp"
  SessionStore_RevokeAllByUser :: "int \<Rightarrow> time \<Rightarrow> ('w, unit) comp"
  SessionStore_GetActiveSessionsByUser :: "int \<Rightarrow> ('w, Session list) comp"
  SessionStore_WithTx :: "('w, TokenPair) comp \<Rightarrow> ('w, TokenPair) comp"
  SessionStore_CreateWithTx :: "Session \<Rightarrow> ('w, int) comp"
  SessionStore_RevokeWithTx :: "string \<Rightarrow> time \<Rightarrow> ('w, unit) comp"

section \<open>The contracts\<close>

locale db_view =
  fixes db :: "'w \<Rightarrow> server" and healthy :: "'w \<Rightarrow> bool"

locale task_store = db_view db healthy
  for db :: "'w \<Rightarrow> server" and healthy :: "'w \<Rightarrow> bool" +
  fixes R :: "'w taskRepo"
  assumes task_create: "executes db healthy (taskRepo_Create R t) (insert_task t)"
    and task_get: "executes db healthy (taskRepo_GetByID R i) (select (task_by_id i))"
    and task_get_tx: "executes db healthy (taskRepo_GetByIDForUpdateTx R i) (select (task_by_id i))"
    and task_list: "executes db healthy (taskRepo_List R f)
      (bindE (select (count_tasks f)) (\<lambda>n. bindE (list_tasks f) (\<lambda>ts. returnE (ts, n))))"
    and task_update: "fs \<noteq> [] \<Longrightarrow> executes db healthy (taskRepo_Update R i fs) (update_task i fs)"
    and task_update_tx: "fs \<noteq> [] \<Longrightarrow> executes db healthy (taskRepo_UpdateTx R i fs) (update_task i fs)"
    and task_delete: "executes db healthy (taskRepo_Delete R i) (delete_task i)"
    and task_delete_tx: "executes db healthy (taskRepo_DeleteTx R i) (delete_task i)"

locale member_store = db_view db healthy
  for db :: "'w \<Rightarrow> server" and healthy :: "'w \<Rightarrow> bool" +
  fixes M :: "'w teamMemberRepo"
  assumes get_role: "executes db healthy (teamMemberRepo_GetRole M t u) (select (role_of t u))"
    and check_member: "executes db healthy (teamMemberRepo_IsMember M t u) (select (is_member t u))"

locale comment_store = db_view db healthy
  for db :: "'w \<Rightarrow> server" and healthy :: "'w \<Rightarrow> bool" +
  fixes C :: "'w taskCommentRepo"
  assumes comment_create: "executes db healthy (taskCommentRepo_Create C i u b) (insert_comment i u b)"
    and comment_list: "executes db healthy (taskCommentRepo_ListByTask C i) (select (comments_of i))"
    and comment_get: "executes db healthy (taskCommentRepo_GetByID C j) (select (comment_by_id j))"
    and comment_update: "executes db healthy (taskCommentRepo_Update C j b) (update_comment j b)"
    and comment_delete: "executes db healthy (taskCommentRepo_Delete C j) (delete_comment j)"

text \<open>
  A batch of history rows is several statements: when one fails, the rows before it stay
  until the caller rolls the transaction back.
\<close>

locale history_store = db_view db healthy
  for db :: "'w \<Rightarrow> server" and healthy :: "'w \<Rightarrow> bool" +
  fixes H :: "'w taskHistoryRepo"
  assumes history_create: "taskHistoryRepo_CreateBatchTx H es w = (Inr (), w') \<Longrightarrow>
      \<exists>us. mapE insert_history es (db w) = (Inr us, db w')"
    and history_create_tx: "open_tx (db (snd (taskHistoryRepo_CreateBatchTx H es w))) = open_tx (db w)"
    and history_create_ok: "keeps (\<lambda>w. server_ok (db w)) (taskHistoryRepo_CreateBatchTx H es)"
    and history_create_healthy: "healthy w \<Longrightarrow>
      (map_sum id (\<lambda>_. ()) (fst (mapE insert_history es (db w))), snd (mapE insert_history es (db w))) =
      (fst (taskHistoryRepo_CreateBatchTx H es w), db (snd (taskHistoryRepo_CreateBatchTx H es w))) \<and>
      healthy (snd (taskHistoryRepo_CreateBatchTx H es w))"
    and history_list: "executes db healthy (taskHistoryRepo_ListByTask H i l k)
      (bindE (select (count_history i)) (\<lambda>n. bindE (list_history i l k) (\<lambda>hs. returnE (hs, n))))"

locale tx_control = db_view db healthy
  for db :: "'w \<Rightarrow> server" and healthy :: "'w \<Rightarrow> bool" +
  fixes D :: "'w sqlxDB"
  assumes tx_begin: "executes db healthy (db_BeginTxx D) begin_tx"
    and tx_commit: "tx_Commit D w = (Inr u, w') \<Longrightarrow> commit_tx (db w) = (Inr u, db w')"
    and tx_commit_fails: "tx_Commit D w = (Inl e, w') \<Longrightarrow> db w' = rollback_tx (db w)"
    and tx_commit_healthy: "healthy w \<Longrightarrow> fst (tx_Commit D w) = Inr () \<and> healthy (snd (tx_Commit D w))"
    and tx_rollback: "db (tx_Rollback D w) = rollback_tx (db w)"
    and tx_rollback_healthy: "healthy w \<Longrightarrow> healthy (tx_Rollback D w)"

end
