(* ===== verification/TaskService.thy ===== *)
theory TaskService
  imports Interfaces
begin

text \<open>
  \<open>internal/service/task.go\<close>: tasks, comments and task history behind the role checks. The
  service is a record of the interfaces it was built with; \<open>db\<close> and \<open>history\<close> may be
  \<open>nil\<close> (\<open>None\<close>), which selects the variants without a transaction. A Go map read in a
  loop is an association list with distinct keys in the order the loop happens to visit. Go
  leaves that order open in every loop: \<open>parseTaskPatch\<close> and \<open>buildTaskDiffEntries\<close> may visit
  one patch in two orders. \<open>tasksvc_range\<close> is the order of the second relative to the first, a
  field of the record that is no field of the code.
\<close>

section \<open>The service and its data\<close>

text \<open>A decoded value of a patch (\<open>any\<close> in the code): a string or a nullable pointer.\<close>

datatype patchval = PString string | PStringPtr "string option" | PInt64Ptr "int option" | PTimePtr "date option"

record 'w TaskService =
  tasksvc_db :: "'w sqlxDB option"
  tasksvc_tasks :: "'w taskRepo"
  tasksvc_teams :: "'w teamRepo"
  tasksvc_members :: "'w teamMemberRepo"
  tasksvc_comments :: "'w taskCommentRepo"
  tasksvc_history :: "'w taskHistoryRepo option"
  tasksvc_range :: "(string \<times> patchval) list \<Rightarrow> (string \<times> patchval) list"

definition NewTaskService ::
    "'w sqlxDB option \<Rightarrow> 'w taskRepo \<Rightarrow> 'w teamRepo \<Rightarrow> 'w teamMemberRepo \<Rightarrow> 'w taskCommentRepo
     \<Rightarrow> 'w taskHistoryRepo option \<Rightarrow> 'w TaskService" where
  "NewTaskService db ts tms ms cs hs =
     \<lparr>tasksvc_db = db, tasksvc_tasks = ts, tasksvc_teams = tms, tasksvc_members = ms,
      tasksvc_comments = cs, tasksvc_history = hs, tasksvc_range = (\<lambda>ps. ps)\<rparr>"

abbreviation RoleOwner :: string where "RoleOwner \<equiv> ''owner''"
abbreviation RoleAdmin :: string where "RoleAdmin \<equiv> ''admin''"
abbreviation RoleMember :: string where "RoleMember \<equiv> ''member''"

record CreateTaskInput =
  CTI_TeamID :: int
  CTI_Title :: string
  CTI_Description :: string
  CTI_Status :: string
  CTI_Priority :: string
  CTI_AssigneeID :: "int option"
  CTI_DueDate :: "date option"

record TaskListInput =
  TLI_TeamID :: int
  TLI_Status :: "string option"
  TLI_AssigneeID :: "int option"
  TLI_Limit :: int
  TLI_Offset :: int

definition isValidStatus :: "string \<Rightarrow> bool" where
  "isValidStatus v \<longleftrightarrow> v = ''todo'' \<or> v = ''in_progress'' \<or> v = ''done''"

definition isValidPriority :: "string \<Rightarrow> bool" where
  "isValidPriority v \<longleftrightarrow> v = ''low'' \<or> v = ''medium'' \<or> v = ''high''"

definition isKnownTaskField :: "string \<Rightarrow> bool" where
  "isKnownTaskField k \<longleftrightarrow>
     k = ''title'' \<or> k = ''description'' \<or> k = ''status'' \<or> k = ''assignee_id'' \<or> k = ''priority'' \<or> k = ''due_date''"

text \<open>The map a role is looked up in: reading a missing key of a Go map gives \<open>false\<close>.\<close>

definition allowedTaskFields :: "string \<Rightarrow> string \<Rightarrow> bool" where
  "allowedTaskFields role k \<longleftrightarrow>
     (if role = RoleOwner \<or> role = RoleAdmin then
        k = ''title'' \<or> k = ''description'' \<or> k = ''status'' \<or> k = ''assignee_id'' \<or> k = ''priority'' \<or> k = ''due_date''
      else if role = RoleMember then k = ''status'' \<or> k = ''assignee_id''
      else False)"

section \<open>Creating and reading tasks\<close>

definition CreateTask :: "'w TaskService \<Rightarrow> int \<Rightarrow> CreateTaskInput \<Rightarrow> ('w, int) comp" where
  "CreateTask s userID inp =
     bindE (teamRepo_GetByID (tasksvc_teams s) (CTI_TeamID inp)) (\<lambda>team.
     case team of None \<Rightarrow> raiseE ErrNotFound | Some _ \<Rightarrow>
     bindE (teamMemberRepo_IsMember (tasksvc_members s) (CTI_TeamID inp) userID) (\<lambda>ok.
     if \<not> ok then raiseE ErrForbidden else
     let status = (if CTI_Status inp = [] then ''todo'' else CTI_Status inp) in
     if \<not> isValidStatus status then raiseE ErrBadRequest else
     let priority = (if CTI_Priority inp = [] then ''medium'' else CTI_Priority inp) in
     if \<not> isValidPriority priority then raiseE ErrBadRequest else
     bindE (case CTI_AssigneeID inp of
              None \<Rightarrow> returnE True
            | Some a \<Rightarrow> teamMemberRepo_IsMember (tasksvc_members s) (CTI_TeamID inp) a) (\<lambda>ok.
     if \<not> ok then raiseE ErrBadRequest else
     taskRepo_Create (tasksvc_tasks s)
       \<lparr>Task_ID = 0, Task_TeamID = CTI_TeamID inp, Task_Title = CTI_Title inp,
        Task_Description = (if TrimSpace (CTI_Description inp) \<noteq> [] then Some (CTI_Description inp) else None),
        Task_Status = status, Task_Priority = priority, Task_AssigneeID = CTI_AssigneeID inp,
        Task_CreatedBy = Some userID, Task_DueDate = CTI_DueDate inp,
        Task_CreatedAt = 0, Task_UpdatedAt = 0\<rparr>)))"

definition GetTask :: "'w TaskService \<Rightarrow> int \<Rightarrow> int \<Rightarrow> ('w, Task) comp" where
  "GetTask s userID taskID =
     bindE (taskRepo_GetByID (tasksvc_tasks s) taskID) (\<lambda>task.
     case task of None \<Rightarrow> raiseE ErrNotFound | Some t \<Rightarrow>
     bindE (teamMemberRepo_IsMember (tasksvc_members s) (Task_TeamID t) userID) (\<lambda>ok.
     if \<not> ok then raiseE ErrForbidden else returnE t))"

definition ListTasks :: "'w TaskService \<Rightarrow> int \<Rightarrow> TaskListInput \<Rightarrow> ('w, Task list \<times> int) comp" where
  "ListTasks s userID inp =
     bindE (teamRepo_GetByID (tasksvc_teams s) (TLI_TeamID inp)) (\<lambda>team.
     case team of None \<Rightarrow> raiseE ErrNotFound | Some _ \<Rightarrow>
     bindE (teamMemberRepo_IsMember (tasksvc_members s) (TLI_TeamID inp) userID) (\<lambda>ok.
     if \<not> ok then raiseE ErrForbidden else
     taskRepo_List (tasksvc_tasks s)
       \<lparr>TLF_TeamID = TLI_TeamID inp, TLF_Status = TLI_Status inp, TLF_AssigneeID = TLI_AssigneeID inp,
        TLF_Limit = TLI_Limit inp, TLF_Offset = TLI_Offset inp\<rparr>))"

section \<open>Patching a task\<close>

text \<open>One round of the loop of \<open>parseTaskPatch\<close>.\<close>

definition parseField :: "'w TaskService \<Rightarrow> int \<Rightarrow> string \<Rightarrow> json \<Rightarrow> ('w, patchval) comp" where
  "parseField s teamID key v =
     (if \<not> isKnownTaskField key then raiseE ErrBadRequest
      else if key = ''title'' then
        (case unmarshal_string v of None \<Rightarrow> raiseE ErrBadRequest
         | Some x \<Rightarrow> if TrimSpace x = [] then raiseE ErrBadRequest else returnE (PString x))
      else if key = ''description'' then
        (case unmarshal_string_ptr v of None \<Rightarrow> raiseE ErrBadRequest
         | Some x \<Rightarrow> returnE (PStringPtr x))
      else if key = ''status'' then
        (case unmarshal_string v of None \<Rightarrow> raiseE ErrBadRequest
         | Some x \<Rightarrow> if \<not> isValidStatus x then raiseE ErrBadRequest else returnE (PString x))
      else if key = ''priority'' then
        (case unmarshal_string v of None \<Rightarrow> raiseE ErrBadRequest
         | Some x \<Rightarrow> if \<not> isValidPriority x then raiseE ErrBadRequest else returnE (PString x))
      else if key = ''assignee_id'' then
        (case unmarshal_int64_ptr v of None \<Rightarrow> raiseE ErrBadRequest
         | Some None \<Rightarrow> returnE (PInt64Ptr None)
         | Some (Some a) \<Rightarrow>
             bindE (teamMemberRepo_IsMember (tasksvc_members s) teamID a) (\<lambda>ok.
             if \<not> ok then raiseE ErrBadRequest else returnE (PInt64Ptr (Some a))))
      else
        (case unmarshal_string_ptr v of None \<Rightarrow> raiseE ErrBadRequest
         | Some None \<Rightarrow> returnE (PTimePtr None)
         | Some (Some x) \<Rightarrow>
             (case ParseDate x of None \<Rightarrow> raiseE ErrBadRequest
              | Some tm \<Rightarrow> returnE (PTimePtr (Some tm)))))"

definition parseTaskPatch ::
    "'w TaskService \<Rightarrow> int \<Rightarrow> (string \<times> json) list \<Rightarrow> ('w, (string \<times> patchval) list) comp" where
  "parseTaskPatch s teamID raw =
     bindE (mapE (\<lambda>(key, v). bindE (parseField s teamID key v) (\<lambda>p. returnE (key, p))) raw) (\<lambda>parsed.
     if parsed = [] then raiseE ErrBadRequest else returnE parsed)"

text \<open>\<open>mustJSON\<close> of the values the diff records: \<open>nil\<close> is the JSON value \<open>null\<close>.\<close>

definition mustJSON :: "json \<Rightarrow> json option" where
  "mustJSON v = Some v"

definition json_string :: "string option \<Rightarrow> json" where
  "json_string x = (case x of None \<Rightarrow> JNull | Some v \<Rightarrow> JStr v)"

definition json_int :: "int option \<Rightarrow> json" where
  "json_int x = (case x of None \<Rightarrow> JNull | Some v \<Rightarrow> JNum (FormatInt v))"

definition json_date :: "date option \<Rightarrow> json" where
  "json_date x = (case x of None \<Rightarrow> JNull | Some v \<Rightarrow> JStr (FormatDate v))"

definition taskHistoryEntry :: "int \<Rightarrow> int \<Rightarrow> string \<Rightarrow> json \<Rightarrow> json \<Rightarrow> TaskHistoryCreate" where
  "taskHistoryEntry taskID userID field oldValue newValue =
     \<lparr>THC_TaskID = taskID, THC_ChangedBy = Some userID, THC_FieldName = field,
      THC_OldValue = mustJSON oldValue, THC_NewValue = mustJSON newValue\<rparr>"

text \<open>
  One round of the loop of \<open>buildTaskDiffEntries\<close>: \<open>None\<close> is a failed type assertion
  (a panic), \<open>Some None\<close> is \<open>continue\<close>, otherwise the assignment and the history entry
  that the round appends.
\<close>

definition diffField ::
    "Task \<Rightarrow> int \<Rightarrow> string \<Rightarrow> patchval \<Rightarrow> ((string \<times> colval) \<times> TaskHistoryCreate) option option" where
  "diffField task userID key v =
     (let entry = taskHistoryEntry (Task_ID task) userID key in
      if key = ''title'' then
        (case v of PString new \<Rightarrow>
           Some (if Task_Title task = new then None
                 else Some ((key, CStr new), entry (JStr (Task_Title task)) (JStr new)))
         | _ \<Rightarrow> None)
      else if key = ''description'' then
        (let oldValue = json_string (Task_Description task) in
         case v of
           PStringPtr None \<Rightarrow>
             Some (if Task_Description task = None then None else Some ((key, CNull), entry oldValue JNull))
         | PStringPtr (Some new) \<Rightarrow>
             Some (if Task_Description task = Some new then None
                   else Some ((key, CStr new), entry oldValue (JStr new)))
         | _ \<Rightarrow> None)
      else if key = ''status'' then
        (case v of PString new \<Rightarrow>
           Some (if Task_Status task = new then None
                 else Some ((key, CStr new), entry (JStr (Task_Status task)) (JStr new)))
         | _ \<Rightarrow> None)
      else if key = ''priority'' then
        (case v of PString new \<Rightarrow>
           Some (if Task_Priority task = new then None
                 else Some ((key, CStr new), entry (JStr (Task_Priority task)) (JStr new)))
         | _ \<Rightarrow> None)
      else if key = ''assignee_id'' then
        (let oldValue = json_int (Task_AssigneeID task) in
         case v of
           PInt64Ptr None \<Rightarrow>
             Some (if Task_AssigneeID task = None then None else Some ((key, CNull), entry oldValue JNull))
         | PInt64Ptr (Some new) \<Rightarrow>
             Some (if Task_AssigneeID task = Some new then None
                   else Some ((key, CInt new), entry oldValue (JNum (FormatInt new))))
         | _ \<Rightarrow> None)
      else if key = ''due_date'' then
        (let oldValue = json_date (Task_DueDate task) in
         case v of
           PTimePtr None \<Rightarrow>
             Some (if Task_DueDate task = None then None else Some ((key, CNull), entry oldValue JNull))
         | PTimePtr (Some new) \<Rightarrow>
             Some (if map_option FormatDate (Task_DueDate task) = Some (FormatDate new) then None
                   else Some ((key, CDate new), entry oldValue (JStr (FormatDate new))))
         | _ \<Rightarrow> None)
      else Some None)"

fun diffEntries ::
    "Task \<Rightarrow> int \<Rightarrow> (string \<times> patchval) list \<Rightarrow> ((string \<times> colval) list \<times> TaskHistoryCreate list) option" where
  "diffEntries task userID [] = Some ([], [])"
| "diffEntries task userID ((key, v) # ps) =
     (case diffField task userID key v of
        None \<Rightarrow> None
      | Some None \<Rightarrow> diffEntries task userID ps
      | Some (Some (u, e)) \<Rightarrow>
          map_option (\<lambda>(us, es). (u # us, e # es)) (diffEntries task userID ps))"

text \<open>The loop, in the order \<open>ord\<close> in which the runtime visits the map.\<close>

definition buildTaskDiffEntries ::
    "((string \<times> patchval) list \<Rightarrow> (string \<times> patchval) list) \<Rightarrow> Task \<Rightarrow> int \<Rightarrow> (string \<times> patchval) list
     \<Rightarrow> ((string \<times> colval) list \<times> TaskHistoryCreate list) option" where
  "buildTaskDiffEntries ord task userID parsed = diffEntries task userID (ord parsed)"

text \<open>
  \<open>defer func() { if !committed { _ = tx.Rollback() } }()\<close>: the body returns its result
  with the flag \<open>committed\<close>.
\<close>

definition deferRollback :: "'w sqlxDB \<Rightarrow> ('w, 'a \<times> bool) comp \<Rightarrow> ('w, 'a) comp" where
  "deferRollback D m w =
     (case m w of
        (Inl e, w') \<Rightarrow> (Inl e, tx_Rollback D w')
      | (Inr (a, committed), w') \<Rightarrow> (Inr a, if committed then w' else tx_Rollback D w'))"

definition panic :: err where "panic = OtherError ''panic''"

definition updateTaskNoTx :: "'w TaskService \<Rightarrow> int \<Rightarrow> int \<Rightarrow> (string \<times> json) list \<Rightarrow> ('w, int) comp" where
  "updateTaskNoTx s userID taskID raw =
     bindE (taskRepo_GetByID (tasksvc_tasks s) taskID) (\<lambda>task.
     case task of None \<Rightarrow> raiseE ErrNotFound | Some t \<Rightarrow>
     bindE (teamMemberRepo_GetRole (tasksvc_members s) (Task_TeamID t) userID) (\<lambda>role.
     case role of None \<Rightarrow> raiseE ErrForbidden | Some r \<Rightarrow>
     bindE (parseTaskPatch s (Task_TeamID t) raw) (\<lambda>parsed.
     if \<not> list_all (\<lambda>(key, _). allowedTaskFields r key) parsed then raiseE ErrForbidden else
     (case buildTaskDiffEntries (tasksvc_range s) t userID parsed of None \<Rightarrow> raiseE panic | Some (updates, _) \<Rightarrow>
      if updates = [] then returnE (Task_TeamID t) else
      bindE (taskRepo_Update (tasksvc_tasks s) taskID updates) (\<lambda>_.
      returnE (Task_TeamID t))))))"

text \<open>The part of \<open>UpdateTask\<close> under the deferred rollback, then the whole of it.\<close>

definition updateTaskBody ::
    "'w TaskService \<Rightarrow> 'w sqlxDB \<Rightarrow> 'w taskHistoryRepo \<Rightarrow> int \<Rightarrow> int \<Rightarrow> (string \<times> json) list \<Rightarrow> ('w, int \<times> bool) comp" where
  "updateTaskBody s D H userID taskID raw =
     bindE (taskRepo_GetByIDForUpdateTx (tasksvc_tasks s) taskID) (\<lambda>task.
     case task of None \<Rightarrow> raiseE ErrNotFound | Some t \<Rightarrow>
     bindE (teamMemberRepo_GetRole (tasksvc_members s) (Task_TeamID t) userID) (\<lambda>role.
     case role of None \<Rightarrow> raiseE ErrForbidden | Some r \<Rightarrow>
     bindE (parseTaskPatch s (Task_TeamID t) raw) (\<lambda>parsed.
     if \<not> list_all (\<lambda>(key, _). allowedTaskFields r key) parsed then raiseE ErrForbidden else
     (case buildTaskDiffEntries (tasksvc_range s) t userID parsed of None \<Rightarrow> raiseE panic | Some (updates, entries) \<Rightarrow>
      if updates = [] then returnE (Task_TeamID t, False) else
      bindE (taskRepo_UpdateTx (tasksvc_tasks s) taskID updates) (\<lambda>_.
      bindE (taskHistoryRepo_CreateBatchTx H entries) (\<lambda>_.
      bindE (tx_Commit D) (\<lambda>_.
      returnE (Task_TeamID t, True))))))))"

definition UpdateTask :: "'w TaskService \<Rightarrow> int \<Rightarrow> int \<Rightarrow> (string \<times> json) list \<Rightarrow> ('w, int) comp" where
  "UpdateTask s userID taskID raw =
     (case (tasksvc_db s, tasksvc_history s) of
        (Some D, Some H) \<Rightarrow>
          bindE (db_BeginTxx D) (\<lambda>_. deferRollback D (updateTaskBody s D H userID taskID raw))
      | _ \<Rightarrow> updateTaskNoTx s userID taskID raw)"

section \<open>Deleting a task\<close>

definition taskDeleteSnapshot :: "Task \<Rightarrow> json" where
  "taskDeleteSnapshot task = JObj
     [(''assignee_id'', json_int (Task_AssigneeID task)),
      (''description'', json_string (Task_Description task)),
      (''due_date'', json_date (Task_DueDate task)),
      (''id'', JNum (FormatInt (Task_ID task))),
      (''priority'', JStr (Task_Priority task)),
      (''status'', JStr (Task_Status task)),
      (''title'', JStr (Task_Title task))]"

definition deleteTaskNoTx :: "'w TaskService \<Rightarrow> int \<Rightarrow> int \<Rightarrow> ('w, int) comp" where
  "deleteTaskNoTx s userID taskID =
     bindE (taskRepo_GetByID (tasksvc_tasks s) taskID) (\<lambda>task.
     case task of None \<Rightarrow> raiseE ErrNotFound | Some t \<Rightarrow>
     bindE (teamMemberRepo_GetRole (tasksvc_members s) (Task_TeamID t) userID) (\<lambda>role.
     case role of None \<Rightarrow> raiseE ErrForbidden | Some r \<Rightarrow>
     if r \<noteq> RoleOwner \<and> r \<noteq> RoleAdmin then raiseE ErrForbidden else
     bindE (taskRepo_Delete (tasksvc_tasks s) taskID) (\<lambda>_.
     returnE (Task_TeamID t))))"

definition deleteTaskBody ::
    "'w TaskService \<Rightarrow> 'w sqlxDB \<Rightarrow> 'w taskHistoryRepo \<Rightarrow> int \<Rightarrow> int \<Rightarrow> ('w, int \<times> bool) comp" where
  "deleteTaskBody s D H userID taskID =
     bindE (taskRepo_GetByIDForUpdateTx (tasksvc_tasks s) taskID) (\<lambda>task.
     case task of None \<Rightarrow> raiseE ErrNotFound | Some t \<Rightarrow>
     bindE (teamMemberRepo_GetRole (tasksvc_members s) (Task_TeamID t) userID) (\<lambda>role.
     case role of None \<Rightarrow> raiseE ErrForbidden | Some r \<Rightarrow>
     if r \<noteq> RoleOwner \<and> r \<noteq> RoleAdmin then raiseE ErrForbidden else
     bindE (taskHistoryRepo_CreateBatchTx H
       [\<lparr>THC_TaskID = Task_ID t, THC_ChangedBy = Some userID, THC_FieldName = ''task_deleted'',
         THC_OldValue = Some (taskDeleteSnapshot t), THC_NewValue = None\<rparr>]) (\<lambda>_.
     bindE (taskRepo_DeleteTx (tasksvc_tasks s) taskID) (\<lambda>_.
     bindE (tx_Commit D) (\<lambda>_.
     returnE (Task_TeamID t, True))))))"

definition DeleteTask :: "'w TaskService \<Rightarrow> int \<Rightarrow> int \<Rightarrow> ('w, int) comp" where
  "DeleteTask s userID taskID =
     (case (tasksvc_db s, tasksvc_history s) of
        (Some D, Some H) \<Rightarrow>
          bindE (db_BeginTxx D) (\<lambda>_. deferRollback D (deleteTaskBody s D H userID taskID))
      | _ \<Rightarrow> deleteTaskNoTx s userID taskID)"

section \<open>Comments and history\<close>

definition CreateComment :: "'w TaskService \<Rightarrow> int \<Rightarrow> int \<Rightarrow> string \<Rightarrow> ('w, int) comp" where
  "CreateComment s userID taskID body =
     bindE (taskRepo_GetByID (tasksvc_tasks s) taskID) (\<lambda>task.
     case task of None \<Rightarrow> raiseE ErrNotFound | Some t \<Rightarrow>
     bindE (teamMemberRepo_IsMember (tasksvc_members s) (Task_TeamID t) userID) (\<lambda>ok.
     if \<not> ok then raiseE ErrForbidden else
     taskCommentRepo_Create (tasksvc_comments s) taskID userID body))"

definition ListComments :: "'w TaskService \<Rightarrow> int \<Rightarrow> int \<Rightarrow> ('w, TaskComment list) comp" where
  "ListComments s userID taskID =
     bindE (taskRepo_GetByID (tasksvc_tasks s) taskID) (\<lambda>task.
     case task of None \<Rightarrow> raiseE ErrNotFound | Some t \<Rightarrow>
     bindE (teamMemberRepo_IsMember (tasksvc_members s) (Task_TeamID t) userID) (\<lambda>ok.
     if \<not> ok then raiseE ErrForbidden else
     taskCommentRepo_ListByTask (tasksvc_comments s) taskID))"

definition UpdateComment :: "'w TaskService \<Rightarrow> int \<Rightarrow> int \<Rightarrow> string \<Rightarrow> ('w, unit) comp" where
  "UpdateComment s userID commentID body =
     bindE (taskCommentRepo_GetByID (tasksvc_comments s) commentID) (\<lambda>comment.
     case comment of None \<Rightarrow> raiseE ErrNotFound | Some c \<Rightarrow>
     bindE (taskRepo_GetByID (tasksvc_tasks s) (TaskComment_TaskID c)) (\<lambda>task.
     case task of None \<Rightarrow> raiseE ErrNotFound | Some t \<Rightarrow>
     bindE (teamMemberRepo_GetRole (tasksvc_members s) (Task_TeamID t) userID) (\<lambda>role.
     case role of None \<Rightarrow> raiseE ErrForbidden | Some r \<Rightarrow>
     if TaskComment_UserID c \<noteq> userID \<and> r \<noteq> RoleOwner \<and> r \<noteq> RoleAdmin then raiseE ErrForbidden else
     taskCommentRepo_Update (tasksvc_comments s) commentID body)))"

definition DeleteComment :: "'w TaskService \<Rightarrow> int \<Rightarrow> int \<Rightarrow> ('w, unit) comp" where
  "DeleteComment s userID commentID =
     bindE (taskCommentRepo_GetByID (tasksvc_comments s) commentID) (\<lambda>comment.
     case comment of None \<Rightarrow> raiseE ErrNotFound | Some c \<Rightarrow>
     bindE (taskRepo_GetByID (tasksvc_tasks s) (TaskComment_TaskID c)) (\<lambda>task.
     case task of None \<Rightarrow> raiseE ErrNotFound | Some t \<Rightarrow>
     bindE (teamMemberRepo_GetRole (tasksvc_members s) (Task_TeamID t) userID) (\<lambda>role.
     case role of None \<Rightarrow> raiseE ErrForbidden | Some r \<Rightarrow>
     if TaskComment_UserID c \<noteq> userID \<and> r \<noteq> RoleOwner \<and> r \<noteq> RoleAdmin then raiseE ErrForbidden else
     taskCommentRepo_Delete (tasksvc_comments s) commentID)))"

definition GetTaskHistory ::
    "'w TaskService \<Rightarrow> int \<Rightarrow> int \<Rightarrow> int \<Rightarrow> int \<Rightarrow> ('w, TaskHistory list \<times> int) comp" where
  "GetTaskHistory s userID taskID limit offset =
     (case tasksvc_history s of
        None \<Rightarrow> raiseE ErrBadRequest
      | Some H \<Rightarrow>
          bindE (taskRepo_GetByID (tasksvc_tasks s) taskID) (\<lambda>task.
          case task of None \<Rightarrow> raiseE ErrNotFound | Some t \<Rightarrow>
          bindE (teamMemberRepo_IsMember (tasksvc_members s) (Task_TeamID t) userID) (\<lambda>ok.
          if \<not> ok then raiseE ErrForbidden else
          taskHistoryRepo_ListByTask H taskID limit offset)))"

end
