(* ===== verification/TaskPatch.thy ===== *)
theory TaskPatch
  imports TaskService
begin

text \<open>
  What a patch means, without the state: the JSON rendering of a task's fields and of the
  decoded values, the fields a patch changes, the task it produces, and the facts that tie
  \<open>parseTaskPatch\<close>, \<open>buildTaskDiffEntries\<close> and the columns of \<open>UPDATE tasks\<close> to them.
\<close>

section \<open>Reference definitions\<close>

definition field_json :: "string \<Rightarrow> Task \<Rightarrow> json" where
  "field_json k t =
     (if k = ''title'' then JStr (Task_Title t)
      else if k = ''description'' then json_string (Task_Description t)
      else if k = ''status'' then JStr (Task_Status t)
      else if k = ''priority'' then JStr (Task_Priority t)
      else if k = ''assignee_id'' then json_int (Task_AssigneeID t)
      else if k = ''due_date'' then json_date (Task_DueDate t)
      else JNull)"

fun pv_json :: "patchval \<Rightarrow> json" where
  "pv_json (PString x) = JStr x"
| "pv_json (PStringPtr x) = json_string x"
| "pv_json (PInt64Ptr x) = json_int x"
| "pv_json (PTimePtr x) = json_date x"

fun pv_col :: "patchval \<Rightarrow> colval" where
  "pv_col (PString x) = CStr x"
| "pv_col (PStringPtr x) = (case x of None \<Rightarrow> CNull | Some v \<Rightarrow> CStr v)"
| "pv_col (PInt64Ptr x) = (case x of None \<Rightarrow> CNull | Some v \<Rightarrow> CInt v)"
| "pv_col (PTimePtr x) = (case x of None \<Rightarrow> CNull | Some v \<Rightarrow> CDate v)"

text \<open>The value has the Go type the field's \<open>case\<close> asserts.\<close>

fun typed :: "string \<times> patchval \<Rightarrow> bool" where
  "typed (k, PString _) \<longleftrightarrow> k = ''title'' \<or> k = ''status'' \<or> k = ''priority''"
| "typed (k, PStringPtr _) \<longleftrightarrow> k = ''description''"
| "typed (k, PInt64Ptr _) \<longleftrightarrow> k = ''assignee_id''"
| "typed (k, PTimePtr _) \<longleftrightarrow> k = ''due_date''"

fun put_field :: "string \<times> patchval \<Rightarrow> Task \<Rightarrow> Task" where
  "put_field (k, PString x) t =
     (if k = ''title'' then t\<lparr>Task_Title := x\<rparr>
      else if k = ''status'' then t\<lparr>Task_Status := x\<rparr> else t\<lparr>Task_Priority := x\<rparr>)"
| "put_field (k, PStringPtr x) t = t\<lparr>Task_Description := x\<rparr>"
| "put_field (k, PInt64Ptr x) t = t\<lparr>Task_AssigneeID := x\<rparr>"
| "put_field (k, PTimePtr x) t = t\<lparr>Task_DueDate := x\<rparr>"

definition changes :: "Task \<Rightarrow> (string \<times> patchval) list \<Rightarrow> (string \<times> patchval) list" where
  "changes t ps = filter (\<lambda>(k, p). field_json k t \<noteq> pv_json p) ps"

definition patched :: "Task \<Rightarrow> (string \<times> patchval) list \<Rightarrow> Task" where
  "patched t ps = fold put_field (changes t ps) t"

definition audit_entries :: "Task \<Rightarrow> int \<Rightarrow> (string \<times> patchval) list \<Rightarrow> TaskHistoryCreate list" where
  "audit_entries t u ps =
     map (\<lambda>(k, p). \<lparr>THC_TaskID = Task_ID t, THC_ChangedBy = Some u, THC_FieldName = k,
       THC_OldValue = Some (field_json k t), THC_NewValue = Some (pv_json p)\<rparr>) (changes t ps)"

text \<open>What the checks of \<open>parseTaskPatch\<close> leave: a typed value in its domain.\<close>

fun acceptable :: "tables \<Rightarrow> int \<Rightarrow> string \<times> patchval \<Rightarrow> bool" where
  "acceptable d team (k, PString x) \<longleftrightarrow>
     k = ''title'' \<and> TrimSpace x \<noteq> [] \<or> k = ''status'' \<and> isValidStatus x \<or> k = ''priority'' \<and> isValidPriority x"
| "acceptable d team (k, PStringPtr _) \<longleftrightarrow> k = ''description''"
| "acceptable d team (k, PInt64Ptr x) \<longleftrightarrow>
     k = ''assignee_id'' \<and> (case x of None \<Rightarrow> True | Some a \<Rightarrow> is_member team a d)"
| "acceptable d team (k, PTimePtr x) \<longleftrightarrow>
     k = ''due_date'' \<and> (case x of None \<Rightarrow> True | Some tm \<Rightarrow> valid_date tm)"

lemma acceptable_typed: "acceptable d team kp \<Longrightarrow> typed kp"
  by (cases "(d, team, kp)" rule: acceptable.cases) auto

lemma typed_known: "typed (k, p) \<Longrightarrow> isKnownTaskField k"
  by (cases p) (auto simp: isKnownTaskField_def)

section \<open>Decoding a patch\<close>

text \<open>The value that a field of a patch stands for, if it stands for one: the types and enumerations of the columns, a member of
  the team as assignee.\<close>

definition decode_field :: "tables \<Rightarrow> int \<Rightarrow> string \<Rightarrow> json \<Rightarrow> patchval option" where
  "decode_field d team k v =
     (if k = ''title'' then
        (case unmarshal_string v of None \<Rightarrow> None
         | Some x \<Rightarrow> if TrimSpace x = [] then None else Some (PString x))
      else if k = ''description'' then map_option PStringPtr (unmarshal_string_ptr v)
      else if k = ''status'' then
        (case unmarshal_string v of None \<Rightarrow> None | Some x \<Rightarrow> if List.member status_enum x then Some (PString x) else None)
      else if k = ''priority'' then
        (case unmarshal_string v of None \<Rightarrow> None | Some x \<Rightarrow> if List.member priority_enum x then Some (PString x) else None)
      else if k = ''assignee_id'' then
        (case unmarshal_int64_ptr v of None \<Rightarrow> None
         | Some None \<Rightarrow> Some (PInt64Ptr None)
         | Some (Some a) \<Rightarrow> if is_member team a d then Some (PInt64Ptr (Some a)) else None)
      else if k = ''due_date'' then
        (case unmarshal_string_ptr v of None \<Rightarrow> None
         | Some None \<Rightarrow> Some (PTimePtr None)
         | Some (Some x) \<Rightarrow> map_option (\<lambda>tm. PTimePtr (Some tm)) (ParseDate x))
      else None)"

fun decode_patch :: "tables \<Rightarrow> int \<Rightarrow> (string \<times> json) list \<Rightarrow> (string \<times> patchval) list option" where
  "decode_patch d team [] = Some []"
| "decode_patch d team ((k, v) # raw) =
     (case decode_field d team k v of None \<Rightarrow> None
      | Some p \<Rightarrow> map_option (\<lambda>ps. (k, p) # ps) (decode_patch d team raw))"

lemma valid_enums:
  "isValidStatus x \<longleftrightarrow> List.member status_enum x" "isValidPriority x \<longleftrightarrow> List.member priority_enum x"
  by (auto simp: isValidStatus_def isValidPriority_def status_enum_def priority_enum_def)

lemma decode_field_acceptable: "decode_field d team k v = Some p \<Longrightarrow> acceptable d team (k, p)"
  by (auto simp: decode_field_def valid_enums dest: ParseDate_valid split: if_splits option.splits)

lemma decode_patch_acceptable:
  "decode_patch d team raw = Some ps \<Longrightarrow> list_all (acceptable d team) ps \<and> map fst ps = map fst raw"
proof (induction raw arbitrary: ps)
  case (Cons kv raw)
  obtain k v where "kv = (k, v)" by (cases kv)
  with Cons show ?case
    using decode_field_acceptable [of d team k v] by (auto split: option.splits)
qed simp

lemma list_all_fst: "list_all (\<lambda>(k, _). P k) xs = list_all P (map fst xs)"
  by (induction xs) auto

section \<open>The diff\<close>

lemma diffField_eq:
  assumes "typed (k, p)"
  shows "diffField t u k p =
     Some (if field_json k t = pv_json p then None
           else Some ((k, pv_col p), taskHistoryEntry (Task_ID t) u k (field_json k t) (pv_json p)))"
  using assms
  by (cases p)
    (auto simp: diffField_def field_json_def json_string_def json_int_def json_date_def Let_def
      split: option.splits)

text \<open>On typed values the loop does not panic, and it computes the reference diff.\<close>

lemma diffEntries_eq:
  assumes "list_all typed ps"
  shows "diffEntries t u ps =
     Some (map (\<lambda>(k, p). (k, pv_col p)) (changes t ps), audit_entries t u ps)"
  using assms
  by (induction ps) (auto simp: diffField_eq changes_def audit_entries_def taskHistoryEntry_def mustJSON_def)

lemma buildTaskDiffEntries_eq:
  assumes "list_all typed (ord ps)"
  shows "buildTaskDiffEntries ord t u ps =
     Some (map (\<lambda>(k, p). (k, pv_col p)) (changes t (ord ps)), audit_entries t u (ord ps))"
  using diffEntries_eq [OF assms] by (simp add: buildTaskDiffEntries_def)

lemma set_col_put: "typed (k, p) \<Longrightarrow> set_col (k, pv_col p) t = Inr (put_field (k, p) t)"
  by (cases p) (auto split: option.splits)

lemma set_cols_put:
  assumes "list_all typed ps"
  shows "set_cols (map (\<lambda>(k, p). (k, pv_col p)) ps) t = Inr (fold put_field ps t)"
  using assms
proof (induction ps arbitrary: t)
  case (Cons kp ps)
  then show ?case by (cases kp) (simp add: set_col_put del: set_col.simps)
qed simp

section \<open>The patched task\<close>

lemma field_json_put_same: "typed (k, p) \<Longrightarrow> field_json k (put_field (k, p) t) = pv_json p"
  by (cases p) (auto simp: field_json_def)

lemma field_json_put_other: "typed (k, p) \<Longrightarrow> j \<noteq> k \<Longrightarrow> field_json j (put_field (k, p) t) = field_json j t"
  by (cases p) (auto simp: field_json_def)

lemma field_json_fold_other:
  "list_all typed ps \<Longrightarrow> j \<notin> fst ` set ps \<Longrightarrow> field_json j (fold put_field ps t) = field_json j t"
proof (induction ps arbitrary: t)
  case (Cons kp ps)
  then show ?case by (cases kp) (simp add: field_json_put_other)
qed simp

lemma field_json_fold_same:
  "list_all typed ps \<Longrightarrow> distinct (map fst ps) \<Longrightarrow> (k, p) \<in> set ps \<Longrightarrow>
   field_json k (fold put_field ps t) = pv_json p"
proof (induction ps arbitrary: t)
  case (Cons kp ps)
  show ?case
  proof (cases "kp = (k, p)")
    case True
    with Cons.prems have "k \<notin> fst ` set ps" by auto
    with True Cons.prems show ?thesis
      by (simp add: field_json_fold_other field_json_put_same)
  qed (use Cons in auto)
qed simp

lemma changes_subset: "set (changes t ps) \<subseteq> set ps"
  by (auto simp: changes_def)

lemma list_all_changes: "list_all P ps \<Longrightarrow> list_all P (changes t ps)"
  using changes_subset [of t ps] by (auto simp: list_all_iff)

lemma distinct_changes: "distinct (map fst ps) \<Longrightarrow> distinct (map fst (changes t ps))"
  by (auto simp: changes_def distinct_map_filterI)

lemma changes_field:
  assumes "(k, p) \<in> set ps" and "distinct (map fst ps)" and "k \<notin> fst ` set (changes t ps)"
  shows "field_json k t = pv_json p"
  using assms by (force simp: changes_def)

lemma field_json_patched:
  assumes "list_all typed ps" and "distinct (map fst ps)"
  shows "(k, p) \<in> set ps \<Longrightarrow> field_json k (patched t ps) = pv_json p"
    and "k \<notin> fst ` set ps \<Longrightarrow> field_json k (patched t ps) = field_json k t"
proof -
  note typed = list_all_changes [OF assms(1), of t] and dist = distinct_changes [OF assms(2), of t]
  { assume kp: "(k, p) \<in> set ps"
    show "field_json k (patched t ps) = pv_json p"
    proof (cases "k \<in> fst ` set (changes t ps)")
      case True
      then obtain q where q: "(k, q) \<in> set (changes t ps)" by auto
      then have "(k, q) \<in> set ps" using changes_subset by blast
      then have "q = p" using kp assms(2) by (metis eq_key_imp_eq_value)
      then show ?thesis
        using field_json_fold_same [OF typed dist q, of t] by (simp add: patched_def)
    next
      case False
      then show ?thesis
        using field_json_fold_other [OF typed, of k t] changes_field [OF kp assms(2) False]
        by (simp add: patched_def)
    qed }
  { assume "k \<notin> fst ` set ps"
    then have "k \<notin> fst ` set (changes t ps)" using changes_subset by fastforce
    then show "field_json k (patched t ps) = field_json k t"
      using field_json_fold_other [OF typed] by (simp add: patched_def) }
qed

lemma put_field_frame [simp]:
  "Task_ID (put_field kp t) = Task_ID t" "Task_TeamID (put_field kp t) = Task_TeamID t"
  "Task_CreatedBy (put_field kp t) = Task_CreatedBy t" "Task_CreatedAt (put_field kp t) = Task_CreatedAt t"
  "Task_UpdatedAt (put_field kp t) = Task_UpdatedAt t"
  by (cases "(kp, t)" rule: put_field.cases; simp)+

lemma fold_put_frame:
  "Task_ID (fold put_field ps t) = Task_ID t" "Task_TeamID (fold put_field ps t) = Task_TeamID t"
  "Task_CreatedBy (fold put_field ps t) = Task_CreatedBy t" "Task_CreatedAt (fold put_field ps t) = Task_CreatedAt t"
  "Task_UpdatedAt (fold put_field ps t) = Task_UpdatedAt t"
  by (induction ps arbitrary: t) simp_all

lemma patched_frame [simp]:
  "Task_ID (patched t ps) = Task_ID t" "Task_TeamID (patched t ps) = Task_TeamID t"
  "Task_CreatedBy (patched t ps) = Task_CreatedBy t" "Task_CreatedAt (patched t ps) = Task_CreatedAt t"
  "Task_UpdatedAt (patched t ps) = Task_UpdatedAt t"
  by (simp_all add: patched_def fold_put_frame)

text \<open>A patch with a change produces another task: the changed field renders differently.\<close>

lemma patched_neq:
  assumes "list_all typed ps" and "distinct (map fst ps)" and "changes t ps \<noteq> []"
  shows "patched t ps \<noteq> t"
proof -
  obtain k p where kp: "(k, p) \<in> set (changes t ps)" using assms(3) by (cases "changes t ps") auto
  then have "(k, p) \<in> set ps" "field_json k t \<noteq> pv_json p" by (auto simp: changes_def)
  with field_json_patched(1) [OF assms(1,2), of k p t] show ?thesis by auto
qed

lemma put_field_enums:
  "acceptable d team kp \<Longrightarrow> task_enums_ok t \<Longrightarrow> task_enums_ok (put_field kp t)"
  by (cases "(d, team, kp)" rule: acceptable.cases) (auto simp: task_enums_ok_def valid_enums)

lemma fold_put_enums:
  "list_all (acceptable d team) ps \<Longrightarrow> task_enums_ok t \<Longrightarrow> task_enums_ok (fold put_field ps t)"
  by (induction ps arbitrary: t) (auto intro: put_field_enums)

lemma is_member_user:
  assumes "tables_ok d" and "is_member team a d"
  shows "List.member (user_ids d) a" "List.member (team_ids d) team"
  using assms by (auto simp: is_member_def member_row_def tables_ok_def members_ok_def dest!: find_SomeD)

lemma put_field_refs:
  assumes "tables_ok d" and "acceptable d team kp" and "task_refs_ok d t"
  shows "task_refs_ok d (put_field kp t)"
  using assms(2,3) is_member_user(1) [OF assms(1), of team]
  by (cases "(d, team, kp)" rule: acceptable.cases)
    (auto simp: task_refs_ok_def refers_def split: option.splits)

lemma fold_put_refs:
  "tables_ok d \<Longrightarrow> list_all (acceptable d team) ps \<Longrightarrow> task_refs_ok d t \<Longrightarrow>
   task_refs_ok d (fold put_field ps t)"
  by (induction ps arbitrary: t) (auto intro: put_field_refs)

lemma patched_ok:
  assumes "tables_ok d" and "list_all (acceptable d team) ps" and "task_enums_ok t" and "task_refs_ok d t"
  shows "task_enums_ok (patched t ps)" "task_refs_ok d (patched t ps)"
  unfolding patched_def
  using fold_put_enums [OF list_all_changes [OF assms(2)] assms(3)]
    fold_put_refs [OF assms(1) list_all_changes [OF assms(2)] assms(4)] by simp_all

section \<open>History rows\<close>

fun history_rows :: "int \<Rightarrow> time \<Rightarrow> TaskHistoryCreate list \<Rightarrow> TaskHistory list" where
  "history_rows i now [] = []"
| "history_rows i now (e # es) = history_row i now e # history_rows (i + 1) now es"

lemma mapE_insert_history:
  assumes "mapE insert_history es s = (Inr us, s')"
  shows "data s' = (data s)\<lparr>task_history := task_history (data s) @ history_rows (auto_inc s THistory) (clock s) es\<rparr>"
    and "open_tx s' = open_tx s" and "clock s' = clock s"
proof -
  have "data s' = (data s)\<lparr>task_history := task_history (data s) @ history_rows (auto_inc s THistory) (clock s) es\<rparr>
     \<and> open_tx s' = open_tx s \<and> clock s' = clock s"
    using assms
  proof (induction es arbitrary: s us)
    case (Cons e es)
    then obtain s1 us' where e: "insert_history e s = (Inr (), s1)"
      and es: "mapE insert_history es s1 = (Inr us', s')" by (auto simp: bindE_Inr)
    from e have s1: "data s1 = (data s)\<lparr>task_history := task_history (data s) @
        [history_row (auto_inc s THistory) (clock s) e]\<rparr>"
        "auto_inc s1 THistory = auto_inc s THistory + 1" "clock s1 = clock s" "open_tx s1 = open_tx s"
      by (auto simp: insert_history_def split: if_splits)
    from Cons.IH [OF es] show ?case by (simp add: s1)
  qed simp
  then show "data s' = (data s)\<lparr>task_history := task_history (data s) @ history_rows (auto_inc s THistory) (clock s) es\<rparr>"
    and "open_tx s' = open_tx s" and "clock s' = clock s" by simp_all
qed

definition row_entry :: "TaskHistory \<Rightarrow> TaskHistoryCreate" where
  "row_entry h = \<lparr>THC_TaskID = TaskHistory_TaskID h, THC_ChangedBy = TaskHistory_ChangedBy h,
     THC_FieldName = TaskHistory_FieldName h, THC_OldValue = TaskHistory_OldValue h,
     THC_NewValue = TaskHistory_NewValue h\<rparr>"

lemma row_entry_history_rows: "map row_entry (history_rows i now es) = es"
  by (induction es arbitrary: i) (simp_all add: row_entry_def history_row_def)

end
