(* ===== verification/TaskContracts.thy ===== *)
theory TaskContracts
  imports TaskPatch
begin

text \<open>
  What the task service guarantees to its callers, proved once from the contracts of the
  interfaces it was built with, for any implementation of them.
\<close>

section \<open>Permissions and filters, in terms of the tables\<close>

text \<open>Who may change a comment: its author while still a member, or an owner or admin of the team.\<close>

definition may_edit :: "int \<Rightarrow> int \<Rightarrow> tables \<Rightarrow> bool" where
  "may_edit u j d \<longleftrightarrow> (\<exists>c t r. comment_by_id j d = Some c \<and> task_by_id (TaskComment_TaskID c) d = Some t \<and>
     role_of (Task_TeamID t) u d = Some r \<and> (TaskComment_UserID c = u \<or> r = RoleOwner \<or> r = RoleAdmin))"

definition list_filter :: "TaskListInput \<Rightarrow> TaskListFilter" where
  "list_filter inp = \<lparr>TLF_TeamID = TLI_TeamID inp, TLF_Status = TLI_Status inp,
     TLF_AssigneeID = TLI_AssigneeID inp, TLF_Limit = TLI_Limit inp, TLF_Offset = TLI_Offset inp\<rparr>"

section \<open>The service over any stores\<close>

locale task_service =
  task_store db healthy "tasksvc_tasks s" + member_store db healthy "tasksvc_members s" +
  comment_store db healthy "tasksvc_comments s"
  for db :: "'w \<Rightarrow> server" and healthy :: "'w \<Rightarrow> bool" and s :: "'w TaskService" +
  assumes team_get: "executes db healthy (teamRepo_GetByID (tasksvc_teams s) t) (select (team_by_id t))"
begin

lemmas query_steps = executes_bind_select [OF team_get] executes_bind_select [OF task_get]
  executes_bind_select [OF task_get_tx] executes_bind_select [OF get_role]
  executes_bind_select [OF check_member] executes_bind_select [OF comment_get]

text \<open>Reading a patch only queries the database.\<close>

lemma parseField_cases:
  assumes "parseField s team k v w = (r, w')"
  shows "db w' = db w" "r = Inr p \<Longrightarrow> decode_field (data (db w)) team k v = Some p"
  using assms
  by (auto simp: parseField_def isKnownTaskField_def decode_field_def valid_enums dest!: query_steps
      split: if_splits option.splits)

lemma parseField_db: "db (snd (parseField s team k v w)) = db w"
  using parseField_cases(1) by (metis prod.collapse)

lemmas parseField_Inr = parseField_cases(2) [OF _ refl]

lemma parseLoop:
  "db (snd (mapE (\<lambda>(key, v). bindE (parseField s team key v) (\<lambda>p. returnE (key, p))) raw w)) = db w"
proof (induction raw arbitrary: w)
  case (Cons kv raw)
  then show ?case
    using parseField_db [of team "fst kv" "snd kv" w]
    by (cases kv) (auto simp: bindE_apply split: sum.splits)
qed simp

lemma parseLoop_Inr:
  "mapE (\<lambda>(key, v). bindE (parseField s team key v) (\<lambda>p. returnE (key, p))) raw w = (Inr ps, w') \<Longrightarrow>
   decode_patch (data (db w)) team raw = Some ps"
proof (induction raw arbitrary: w ps)
  case (Cons kv raw)
  obtain k v where kv: "kv = (k, v)" by (cases kv)
  with Cons.prems obtain p w1 ps' where p: "parseField s team k v w = (Inr p, w1)"
    and ps': "mapE (\<lambda>(key, v). bindE (parseField s team key v) (\<lambda>p. returnE (key, p))) raw w1 = (Inr ps', w')"
    and ps: "ps = (k, p) # ps'" by (auto simp: bindE_Inr)
  have "db w1 = db w" using parseField_db [of team k v w] p by simp
  with Cons.IH [OF ps'] parseField_Inr [OF p] show ?case by (simp add: ps kv)
qed simp

lemma parseTaskPatch_db: "db (snd (parseTaskPatch s team raw w)) = db w"
  using parseLoop [of team raw w] by (auto simp: parseTaskPatch_def bindE_apply split: sum.splits)

lemma parseTaskPatch_Inr:
  assumes "parseTaskPatch s team raw w = (Inr ps, w')"
  shows "decode_patch (data (db w)) team raw = Some ps" "db w' = db w"
    "list_all (acceptable (data (db w)) team) ps" "map fst ps = map fst raw"
proof -
  from assms have loop: "mapE (\<lambda>(key, v). bindE (parseField s team key v) (\<lambda>p. returnE (key, p))) raw w = (Inr ps, w')"
    by (auto simp: parseTaskPatch_def bindE_Inr split: if_splits)
  show "decode_patch (data (db w)) team raw = Some ps" by (rule parseLoop_Inr [OF loop])
  from decode_patch_acceptable [OF this]
  show "list_all (acceptable (data (db w)) team) ps" "map fst ps = map fst raw" by simp_all
  show "db w' = db w" using parseLoop [of team raw w] loop by simp
qed

text \<open>A task is created only by a member, with valid columns and a member as assignee.\<close>

lemma CreateTask_Inr:
  assumes "CreateTask s u inp w = (Inr i, w')"
  shows "is_member (CTI_TeamID inp) u (data (db w)) \<and>
    (\<forall>a. CTI_AssigneeID inp = Some a \<longrightarrow> is_member (CTI_TeamID inp) a (data (db w))) \<and>
    insert_task
       \<lparr>Task_ID = 0, Task_TeamID = CTI_TeamID inp, Task_Title = CTI_Title inp,
        Task_Description = (if TrimSpace (CTI_Description inp) \<noteq> [] then Some (CTI_Description inp) else None),
        Task_Status = (if CTI_Status inp = [] then ''todo'' else CTI_Status inp),
        Task_Priority = (if CTI_Priority inp = [] then ''medium'' else CTI_Priority inp),
        Task_AssigneeID = CTI_AssigneeID inp,
        Task_CreatedBy = Some u, Task_DueDate = CTI_DueDate inp,
        Task_CreatedAt = 0, Task_UpdatedAt = 0\<rparr> (db w) = (Inr i, db w')"
proof (cases "CTI_AssigneeID inp")
  case None
  with assms show ?thesis
    unfolding CreateTask_def Let_def
    by (auto dest!: query_steps executes_Inr [OF task_create] split: option.splits if_split_asm)
next
  case (Some a)
  with assms show ?thesis
    unfolding CreateTask_def Let_def
    by (auto dest!: query_steps executes_Inr [OF task_create] split: option.splits if_split_asm)
qed

lemma GetTask_Inr:
  assumes "GetTask s u i w = (Inr t, w')"
  shows "task_by_id i (data (db w)) = Some t" "is_member (Task_TeamID t) u (data (db w))" "db w' = db w"
  using assms by (auto simp: GetTask_def dest!: query_steps split: option.splits if_splits)

lemma taskRepo_List_Inr:
  assumes "taskRepo_List (tasksvc_tasks s) f w = (Inr (ts, n), w')"
  shows "n = count_tasks f (data (db w)) \<and> db w' = db w \<and>
     ts = page (TLF_Limit f) (TLF_Offset f) (tasks_ordered f (data (db w)))"
  using executes_Inr [OF task_list assms]
  by (auto simp: success select_def list_tasks_def split: if_splits)

lemma ListTasks_Inr:
  assumes "ListTasks s u inp w = (Inr (ts, n), w')"
  shows "is_member (TLI_TeamID inp) u (data (db w))" "db w' = db w"
    "n = count_tasks (list_filter inp) (data (db w))"
    "ts = page (TLI_Limit inp) (TLI_Offset inp) (tasks_ordered (list_filter inp) (data (db w)))"
  using assms
  by (auto simp: ListTasks_def list_filter_def dest!: query_steps taskRepo_List_Inr
      split: option.splits if_splits)

lemma CreateComment_Inr:
  assumes "CreateComment s u i b w = (Inr j, w')"
  shows "\<exists>t. task_by_id i (data (db w)) = Some t \<and> is_member (Task_TeamID t) u (data (db w))"
    "insert_comment i u b (db w) = (Inr j, db w')"
  using assms
  by (auto simp: CreateComment_def dest!: query_steps executes_Inr [OF comment_create]
      split: option.splits if_splits)

lemma ListComments_Inr:
  assumes "ListComments s u i w = (Inr cs, w')"
  shows "\<exists>t. task_by_id i (data (db w)) = Some t \<and> is_member (Task_TeamID t) u (data (db w))"
    "cs = comments_of i (data (db w))" "db w' = db w"
  using assms
  by (auto simp: ListComments_def select_def dest!: query_steps executes_Inr [OF comment_list]
      split: option.splits if_splits)

lemma UpdateComment_Inr:
  assumes "UpdateComment s u j b w = (Inr x, w')"
  shows "may_edit u j (data (db w))" "update_comment j b (db w) = (Inr x, db w')"
  using assms
  by (auto simp: UpdateComment_def may_edit_def dest!: query_steps executes_Inr [OF comment_update]
      split: option.splits if_splits)

lemma DeleteComment_Inr:
  assumes "DeleteComment s u j w = (Inr x, w')"
  shows "may_edit u j (data (db w))" "delete_comment j (db w) = (Inr x, db w')"
  using assms
  by (auto simp: DeleteComment_def may_edit_def dest!: query_steps executes_Inr [OF comment_delete]
      split: option.splits if_splits)

end

end
