(* ===== verification/TaskTransactions.thy ===== *)
theory TaskTransactions
  imports TaskContracts "HOL-Library.Multiset"
begin

text \<open>
  The operations of the task service that run in a transaction: they take effect as a whole,
  with the audit rows that belong to the change, or not at all.
\<close>

section \<open>What a transaction can restore\<close>

definition restores :: "tables \<Rightarrow> server \<Rightarrow> bool" where
  "restores d s \<longleftrightarrow> data (rollback_tx s) = d"

lemma restores_open: "open_tx s = Some d \<Longrightarrow> restores d s"
  by (simp add: restores_def rollback_tx_def)

lemma restores_idle: "open_tx s = None \<Longrightarrow> restores d s \<longleftrightarrow> data s = d"
  by (simp add: restores_def rollback_tx_def)

lemma rollback_tx_idle [simp]: "open_tx (rollback_tx s) = None"
  by (simp add: rollback_tx_def split: option.split)

lemma rollback_tx_twice [simp]: "rollback_tx (rollback_tx s) = rollback_tx s"
  by (simp add: rollback_tx_def split: option.split)

lemma restores_rollback [simp]: "restores d (rollback_tx s) = restores d s"
  by (simp add: restores_def)

lemma keeps_open_tx:
  "keeps (\<lambda>s. open_tx s = Some d) (select q)" "keeps (\<lambda>s. open_tx s = Some d) (update_task i fs)"
  "keeps (\<lambda>s. open_tx s = Some d) (delete_task i)" "keeps (\<lambda>s. open_tx s = Some d) (insert_team n u)"
  "keeps (\<lambda>s. open_tx s = Some d) (insert_member t u r)" "keeps (\<lambda>s. open_tx s = Some d) (insert_session x)"
  "keeps (\<lambda>s. open_tx s = Some d) (revoke_session h ts)"
  by (auto intro!: keepsI simp: select_def update_task_def delete_task_def insert_team_def
      insert_member_def insert_session_def revoke_session_def Let_def split: option.splits sum.splits)

locale tx_scope = tx_control db healthy D
  for db :: "'w \<Rightarrow> server" and healthy :: "'w \<Rightarrow> bool" and D :: "'w sqlxDB"
begin

lemma begin_Inr: "db_BeginTxx D w = (Inr u, w') \<Longrightarrow> db w' = (db w)\<lparr>open_tx := Some (data (db w))\<rparr>"
  using executes_Inr [OF tx_begin] by (auto simp: begin_tx_def)

lemma begin_Inl: "db_BeginTxx D w = (Inl e, w') \<Longrightarrow> db w' = db w"
  using executes_clean [OF tx_begin fails_clean_stmts(18)] .

lemma commit_Inr: "tx_Commit D w = (Inr u, w') \<Longrightarrow> db w' = (db w)\<lparr>open_tx := None\<rparr>"
  using tx_commit [of w u w'] by (simp add: commit_tx_def)

lemma fails_commit:
  "fails_to (\<lambda>w. open_tx (db w) = Some d) (\<lambda>w. restores d (db w)) (tx_Commit D)"
  by (auto simp: fails_to_def restores_open dest!: tx_commit_fails)

lemma deferRollback_Inl:
  "deferRollback D m w = (Inl e, w') \<longleftrightarrow> (\<exists>w1. m w = (Inl e, w1) \<and> w' = tx_Rollback D w1)"
  by (auto simp: deferRollback_def split: prod.splits sum.splits)

lemma deferRollback_Inr:
  "deferRollback D m w = (Inr a, w') \<longleftrightarrow>
     (\<exists>c w1. m w = (Inr (a, c), w1) \<and> w' = (if c then w1 else tx_Rollback D w1))"
  by (auto simp: deferRollback_def split: prod.splits sum.splits)

text \<open>A transaction whose body fails leaves the tables as they were.\<close>

lemma transaction_atomic:
  assumes "bindE (db_BeginTxx D) (\<lambda>u. deferRollback D (k u)) w = (Inl e, w')"
    and "open_tx (db w) = None"
    and "\<And>d. fails_to (\<lambda>w. open_tx (db w) = Some d) (\<lambda>w. restores d (db w)) (k ())"
  shows "data (db w') = data (db w)" "open_tx (db w') = None"
proof -
  have "data (db w') = data (db w) \<and> open_tx (db w') = None"
  proof (cases "db_BeginTxx D w")
    case (Pair r w1)
    show ?thesis
    proof (cases r)
      case (Inl e')
      with assms Pair show ?thesis by (auto simp: bindE_apply dest: begin_Inl)
    next
      case (Inr u)
      with assms Pair obtain w2 where body: "k () w1 = (Inl e, w2)" and w': "w' = tx_Rollback D w2"
        by (auto simp: bindE_apply deferRollback_Inl)
      have "open_tx (db w1) = Some (data (db w))" using begin_Inr Pair Inr by simp
      with fails_toD [OF assms(3) body] have "restores (data (db w)) (db w2)" .
      then show ?thesis by (simp add: w' tx_rollback restores_def)
    qed
  qed
  then show "data (db w') = data (db w)" "open_tx (db w') = None" by simp_all
qed

lemma commit_ok: "keeps (\<lambda>w. server_ok (db w)) (tx_Commit D)"
proof (rule keepsI)
  fix w
  assume ok: "server_ok (db w)"
  obtain r w' where run: "tx_Commit D w = (r, w')" by (cases "tx_Commit D w")
  then show "server_ok (db (snd (tx_Commit D w)))"
    using ok server_ok_rollback [OF ok] keepsE [OF keeps_commit_tx, of "db w" _ "db w'"]
      tx_commit_fails tx_commit by (cases r) auto
qed

end

section \<open>The tables after an update or a deletion\<close>

definition apply_patch :: "Task \<Rightarrow> int \<Rightarrow> (string \<times> patchval) list \<Rightarrow> server \<Rightarrow> tables" where
  "apply_patch t u ps s =
     (replace_task (touch (clock s) t (patched t ps)) (data s))\<lparr>task_history := task_history (data s) @
        history_rows (auto_inc s THistory) (clock s) (audit_entries t u ps)\<rparr>"

text \<open>A patch that the caller's role and the checks of every field admit.\<close>

definition admissible :: "int \<Rightarrow> Task \<Rightarrow> (string \<times> patchval) list \<Rightarrow> tables \<Rightarrow> bool" where
  "admissible u t ps d \<longleftrightarrow> ps \<noteq> [] \<and> list_all (acceptable d (Task_TeamID t)) ps \<and>
     (\<exists>r. role_of (Task_TeamID t) u d = Some r \<and> list_all (\<lambda>(k, _). allowedTaskFields r k) ps)"

lemma replace_task_same:
  assumes "tables_ok d" and "task_by_id i d = Some t"
  shows "replace_task t d = d"
proof -
  have "distinct (map Task_ID (tasks d))" and t: "t \<in> set (tasks d)"
    using assms by (auto simp: tables_ok_def tasks_ok_def task_ids_def task_by_id_def dest: find_SomeD)
  then have "(if Task_ID x = Task_ID t then t else x) = x" if "x \<in> set (tasks d)" for x
    using that by (auto simp: distinct_map inj_on_def)
  then show ?thesis by (simp add: replace_task_def map_idI)
qed

lemma apply_patch_nothing:
  assumes "tables_ok (data s)" and "task_by_id i (data s) = Some t" and "changes t ps = []"
  shows "apply_patch t u ps s = data s"
  using replace_task_same [OF assms(1,2)] assms(3)
  by (simp add: apply_patch_def patched_def audit_entries_def touch_def)

lemma update_task_put:
  assumes "update_task i (map (\<lambda>(k, p). (k, pv_col p)) (changes t ps)) s = (Inr x, s')"
    and "task_by_id i (data s) = Some t" and "list_all typed ps"
  shows "s' = s\<lparr>data := replace_task (touch (clock s) t (patched t ps)) (data s)\<rparr>"
  using assms set_cols_put [OF list_all_changes [OF assms(3), of t], of t]
  by (auto simp: update_task_def patched_def on_data_def split: if_splits)

section \<open>The operations\<close>

locale task_service_tx = task_service db healthy s + tx_scope db healthy D + history_store db healthy H
  for db :: "'w \<Rightarrow> server" and healthy :: "'w \<Rightarrow> bool" and s :: "'w TaskService"
    and D :: "'w sqlxDB" and H :: "'w taskHistoryRepo" +
  assumes has_db: "tasksvc_db s = Some D" and has_history: "tasksvc_history s = Some H"
    and range_visits: "mset (tasksvc_range s ps) = mset ps"
begin

text \<open>The second loop visits the fields of the patch, each of them once.\<close>

lemma range_list_all [simp]: "list_all P (tasksvc_range s ps) = list_all P ps"
  using mset_eq_setD [OF range_visits [of ps]] by (simp add: list_all_iff)

lemma range_Nil [simp]: "tasksvc_range s ps = [] \<longleftrightarrow> ps = []"
  using range_visits [of ps] by auto

lemma range_admissible [simp]: "admissible u t (tasksvc_range s ps) d = admissible u t ps d"
  by (simp add: admissible_def)

lemma keeps_tx:
  "keeps (\<lambda>w. open_tx (db w) = Some d) (taskRepo_GetByIDForUpdateTx (tasksvc_tasks s) i)"
  "keeps (\<lambda>w. open_tx (db w) = Some d) (teamMemberRepo_GetRole (tasksvc_members s) t u)"
  "keeps (\<lambda>w. open_tx (db w) = Some d) (parseTaskPatch s t raw)"
  "keeps (\<lambda>w. open_tx (db w) = Some d) (taskHistoryRepo_CreateBatchTx H es)"
  "keeps (\<lambda>w. open_tx (db w) = Some d) (taskRepo_DeleteTx (tasksvc_tasks s) i)"
  "fs \<noteq> [] \<Longrightarrow> keeps (\<lambda>w. open_tx (db w) = Some d) (taskRepo_UpdateTx (tasksvc_tasks s) i fs)"
  using executes_keeps [OF task_get_tx keeps_open_tx(1)] executes_keeps [OF get_role keeps_open_tx(1)]
    executes_keeps [OF task_delete_tx keeps_open_tx(3)] executes_keeps [OF task_update_tx keeps_open_tx(2)]
  by (auto intro!: keepsI simp: parseTaskPatch_db history_create_tx)

lemma UpdateTask_atomic:
  assumes "UpdateTask s u i raw w = (Inl e, w')" and "open_tx (db w) = None"
  shows "data (db w') = data (db w)" "open_tx (db w') = None"
proof -
  note trans = transaction_atomic [OF assms(1) [unfolded UpdateTask_def has_db has_history
        prod.case option.case updateTaskBody_def] assms(2)]
  have "data (db w') = data (db w) \<and> open_tx (db w') = None"
    by (rule conjI; rule trans)
      (intro fails_intros fails_bindE_returnE fails_commit keeps_tx restores_open; assumption)+
  then show "data (db w') = data (db w)" "open_tx (db w') = None" by simp_all
qed

lemma DeleteTask_atomic:
  assumes "DeleteTask s u i w = (Inl e, w')" and "open_tx (db w) = None"
  shows "data (db w') = data (db w)" "open_tx (db w') = None"
proof -
  note trans = transaction_atomic [OF assms(1) [unfolded DeleteTask_def has_db has_history
        prod.case option.case deleteTaskBody_def] assms(2)]
  have "data (db w') = data (db w) \<and> open_tx (db w') = None"
    by (rule conjI; rule trans)
      (intro fails_intros fails_bindE_returnE fails_commit keeps_tx restores_open; assumption)+
  then show "data (db w') = data (db w)" "open_tx (db w') = None" by simp_all
qed

lemma patch_committed:
  assumes ps: "list_all typed ps" and t: "task_by_id i (data (db w0)) = Some t"
    and w0: "db w0 = (db w)\<lparr>open_tx := Some (data (db w))\<rparr>"
    and run: "bindE (taskRepo_UpdateTx (tasksvc_tasks s) i (map (\<lambda>(k, p). (k, pv_col p)) (changes t ps))) (\<lambda>_.
        bindE (taskHistoryRepo_CreateBatchTx H (audit_entries t u ps)) (\<lambda>_.
        bindE (tx_Commit D) (\<lambda>_. returnE x))) w0 = (Inr y, w')"
    and ne: "changes t ps \<noteq> []"
  shows "data (db w') = apply_patch t u ps (db w) \<and> open_tx (db w') = None \<and> y = x"
proof -
  from run obtain w1 w2 u1 where upd: "taskRepo_UpdateTx (tasksvc_tasks s) i
        (map (\<lambda>(k, p). (k, pv_col p)) (changes t ps)) w0 = (Inr u1, w1)"
    and his: "taskHistoryRepo_CreateBatchTx H (audit_entries t u ps) w1 = (Inr (), w2)"
    and com: "tx_Commit D w2 = (Inr (), w')" and y: "y = x"
    by (auto simp: success)
  have w1: "db w1 = (db w0)\<lparr>data := replace_task (touch (clock (db w0)) t (patched t ps)) (data (db w0))\<rparr>"
    using update_task_put [OF executes_Inr [OF task_update_tx upd] t ps] ne by simp
  obtain us where us: "mapE insert_history (audit_entries t u ps) (db w1) = (Inr us, db w2)"
    using history_create [OF his] by blast
  show ?thesis
    using mapE_insert_history [OF us] commit_Inr [OF com] by (simp add: w1 w0 apply_patch_def y)
qed

lemma parse_step:
  assumes "bindE (parseTaskPatch s team raw) k w = (Inr x, w')"
  shows "\<exists>ps w1. db w1 = db w \<and> ps \<noteq> [] \<and> decode_patch (data (db w)) team raw = Some ps \<and>
     list_all (acceptable (data (db w)) team) ps \<and> list_all typed ps \<and> k ps w1 = (Inr x, w')"
proof -
  from assms obtain ps w1 where ps: "parseTaskPatch s team raw w = (Inr ps, w1)" and k: "k ps w1 = (Inr x, w')"
    by (auto simp: bindE_Inr)
  moreover have "ps \<noteq> []" using ps by (auto simp: parseTaskPatch_def success split: if_splits)
  moreover note parsed = parseTaskPatch_Inr [OF ps]
  moreover have "list_all typed ps" using parsed(3) by (auto simp: list_all_iff dest: acceptable_typed)
  ultimately show ?thesis by blast
qed

lemma updateTaskBody_Inr:
  assumes "updateTaskBody s D H u i raw w0 = (Inr (team, c), w1)"
    and w0: "db w0 = (db w)\<lparr>open_tx := Some (data (db w))\<rparr>"
  shows "\<exists>t ps. task_by_id i (data (db w)) = Some t \<and> team = Task_TeamID t \<and>
     decode_patch (data (db w)) team raw = Some ps \<and> admissible u t ps (data (db w)) \<and>
     (if c then data (db w1) = apply_patch t u (tasksvc_range s ps) (db w) \<and> open_tx (db w1) = None
      else db w1 = db w0 \<and> changes t (tasksvc_range s ps) = [])"
proof -
  from assms obtain t r ps w2 where t: "task_by_id i (data (db w)) = Some t"
    and r: "role_of (Task_TeamID t) u (data (db w)) = Some r"
    and ps: "ps \<noteq> []" "list_all (acceptable (data (db w)) (Task_TeamID t)) ps" "decode_patch (data (db w)) (Task_TeamID t) raw = Some ps"
      "list_all typed ps" "list_all (\<lambda>(key, _). allowedTaskFields r key) ps"
    and w2: "db w2 = db w0"
    and k: "(if changes t (tasksvc_range s ps) = [] then returnE (Task_TeamID t, False) else
      bindE (taskRepo_UpdateTx (tasksvc_tasks s) i (map (\<lambda>(k, p). (k, pv_col p)) (changes t (tasksvc_range s ps)))) (\<lambda>_.
      bindE (taskHistoryRepo_CreateBatchTx H (audit_entries t u (tasksvc_range s ps))) (\<lambda>_.
      bindE (tx_Commit D) (\<lambda>_. returnE (Task_TeamID t, True))))) w2 = (Inr (team, c), w1)"
    unfolding updateTaskBody_def
    by (auto dest!: query_steps parse_step simp: buildTaskDiffEntries_eq split: option.splits if_split_asm)
  have adm: "admissible u t ps (data (db w))" using r ps by (auto simp: admissible_def)
  show ?thesis
  proof (cases "changes t (tasksvc_range s ps) = []")
    case True
    with k w2 t ps(3) adm show ?thesis by auto
  next
    case False
    have "list_all typed (tasksvc_range s ps)" using ps(4) by simp
    from patch_committed [OF this _ _ _ False, of i w2 w u "(Task_TeamID t, True)" "(team, c)" w1] False k w2 w0 t
    have "data (db w1) = apply_patch t u (tasksvc_range s ps) (db w) \<and> open_tx (db w1) = None \<and> team = Task_TeamID t \<and> c"
      by simp
    with t ps(3) adm show ?thesis by auto
  qed
qed

lemma UpdateTask_Inr:
  assumes "UpdateTask s u i raw w = (Inr team, w')" and "server_ok (db w)" and "open_tx (db w) = None"
  shows "\<exists>t ps. task_by_id i (data (db w)) = Some t \<and> team = Task_TeamID t \<and>
     decode_patch (data (db w)) team raw = Some ps \<and> admissible u t ps (data (db w)) \<and>
     data (db w') = apply_patch t u (tasksvc_range s ps) (db w) \<and> open_tx (db w') = None"
proof -
  from assms(1) obtain w0 c w1 where w0: "db w0 = (db w)\<lparr>open_tx := Some (data (db w))\<rparr>"
    and body: "updateTaskBody s D H u i raw w0 = (Inr (team, c), w1)"
    and w': "w' = (if c then w1 else tx_Rollback D w1)"
    by (auto simp: UpdateTask_def has_db has_history bindE_Inr deferRollback_Inr dest!: begin_Inr)
  from updateTaskBody_Inr [OF body w0] obtain t ps where t: "task_by_id i (data (db w)) = Some t"
    and ps: "team = Task_TeamID t" "decode_patch (data (db w)) team raw = Some ps" "admissible u t ps (data (db w))"
    and c: "if c then data (db w1) = apply_patch t u (tasksvc_range s ps) (db w) \<and> open_tx (db w1) = None
      else db w1 = db w0 \<and> changes t (tasksvc_range s ps) = []" by blast
  have "data (db w') = apply_patch t u (tasksvc_range s ps) (db w) \<and> open_tx (db w') = None"
    using c w' apply_patch_nothing [of "db w" i t "tasksvc_range s ps" u] t assms(2)
    by (auto simp: tx_rollback w0 rollback_tx_def server_ok_def split: if_splits)
  with t ps show ?thesis by blast
qed

lemma delete_committed:
  assumes t: "task_by_id i (data (db w0)) = Some t"
    and w0: "db w0 = (db w)\<lparr>open_tx := Some (data (db w))\<rparr>"
    and run: "bindE (taskHistoryRepo_CreateBatchTx H [e]) (\<lambda>_.
        bindE (taskRepo_DeleteTx (tasksvc_tasks s) i) (\<lambda>_.
        bindE (tx_Commit D) (\<lambda>_. returnE x))) w0 = (Inr y, w')"
    and e: "THC_TaskID e = i"
  shows "data (db w') = drop_task i (data (db w)) \<and> open_tx (db w') = None \<and> y = x"
proof -
  from run obtain w1 w2 u2 where his: "taskHistoryRepo_CreateBatchTx H [e] w0 = (Inr (), w1)"
    and del: "taskRepo_DeleteTx (tasksvc_tasks s) i w1 = (Inr u2, w2)"
    and com: "tx_Commit D w2 = (Inr (), w')" and y: "y = x"
    by (auto simp: success)
  obtain us where us: "mapE insert_history [e] (db w0) = (Inr us, db w1)"
    using history_create [OF his] by blast
  have "data (db w2) = drop_task i (data (db w1))"
    using executes_Inr [OF task_delete_tx del] by (auto simp: delete_task_def on_data_def dest: sym)
  then have "data (db w') = drop_task i (data (db w))"
    using mapE_insert_history(1) [OF us] commit_Inr [OF com]
    by (simp add: w0 drop_task_def history_row_def e)
  with commit_Inr [OF com] y show ?thesis by simp
qed

lemma DeleteTask_Inr:
  assumes "DeleteTask s u i w = (Inr team, w')"
  shows "\<exists>t r. task_by_id i (data (db w)) = Some t \<and> team = Task_TeamID t \<and>
     role_of (Task_TeamID t) u (data (db w)) = Some r \<and> (r = RoleOwner \<or> r = RoleAdmin) \<and>
     data (db w') = drop_task i (data (db w)) \<and> open_tx (db w') = None"
proof -
  from assms obtain w0 c w1 where w0: "db w0 = (db w)\<lparr>open_tx := Some (data (db w))\<rparr>"
    and body: "deleteTaskBody s D H u i w0 = (Inr (team, c), w1)"
    and w': "w' = (if c then w1 else tx_Rollback D w1)"
    by (auto simp: DeleteTask_def has_db has_history bindE_Inr deferRollback_Inr dest!: begin_Inr)
  from body obtain t r w2 e where t: "task_by_id i (data (db w0)) = Some t"
    and r: "role_of (Task_TeamID t) u (data (db w0)) = Some r" "r = RoleOwner \<or> r = RoleAdmin"
    and w2: "db w2 = db w0" and e: "THC_TaskID e = Task_ID t"
    and run: "bindE (taskHistoryRepo_CreateBatchTx H [e]) (\<lambda>_.
        bindE (taskRepo_DeleteTx (tasksvc_tasks s) i) (\<lambda>_.
        bindE (tx_Commit D) (\<lambda>_. returnE (Task_TeamID t, True)))) w2 = (Inr (team, c), w1)"
    unfolding deleteTaskBody_def
    by (auto dest!: query_steps split: option.splits if_split_asm)
       (metis TaskHistoryCreate.select_convs(1))+
  have "Task_ID t = i" using t by (auto simp: task_by_id_def dest: find_SomeD)
  with delete_committed [OF _ _ run] t w2 w0 e
  have "data (db w1) = drop_task i (data (db w)) \<and> open_tx (db w1) = None \<and> team = Task_TeamID t \<and> c"
    by simp
  with t r w' w0 show ?thesis by auto
qed

lemma GetTaskHistory_Inr:
  assumes "GetTaskHistory s u i l k w = (Inr (hs, n), w')"
  shows "\<exists>t. task_by_id i (data (db w)) = Some t \<and> is_member (Task_TeamID t) u (data (db w))"
    "hs = page l k (history_ordered i (data (db w)))" "n = count_history i (data (db w))" "db w' = db w"
proof -
  have list: "hs = page l k (history_ordered i (data (db v))) \<and> n = count_history i (data (db v)) \<and> db w' = db v"
    if "taskHistoryRepo_ListByTask H i l k v = (Inr (hs, n), w')" for v
    using executes_Inr [OF history_list that]
    by (auto simp: success select_def list_history_def split: if_splits)
  have "(\<exists>t. task_by_id i (data (db w)) = Some t \<and> is_member (Task_TeamID t) u (data (db w))) \<and>
    hs = page l k (history_ordered i (data (db w))) \<and> n = count_history i (data (db w)) \<and> db w' = db w"
    using assms
    by (auto simp: GetTaskHistory_def has_history dest!: query_steps list split: option.splits if_splits)
  then show "\<exists>t. task_by_id i (data (db w)) = Some t \<and> is_member (Task_TeamID t) u (data (db w))"
    "hs = page l k (history_ordered i (data (db w)))" "n = count_history i (data (db w))" "db w' = db w"
    by simp_all
qed

text \<open>No operation breaks a constraint of the schema, whatever fails on the way.\<close>

lemmas stores_ok = executes_keeps [OF team_get keeps_select] executes_keeps [OF task_get keeps_select]
  executes_keeps [OF task_get_tx keeps_select] executes_keeps [OF get_role keeps_select]
  executes_keeps [OF check_member keeps_select] executes_keeps [OF comment_get keeps_select]
  executes_keeps [OF task_create keeps_insert_task] executes_keeps [OF task_update keeps_update_task]
  executes_keeps [OF task_update_tx keeps_update_task] executes_keeps [OF task_delete keeps_delete_task]
  executes_keeps [OF task_delete_tx keeps_delete_task] executes_keeps [OF comment_create keeps_insert_comment]
  executes_keeps [OF comment_update keeps_update_comment] executes_keeps [OF comment_delete keeps_delete_comment]
  history_create_ok executes_keeps [OF tx_begin keeps_begin_tx]

lemma parse_ok: "keeps (\<lambda>w. server_ok (db w)) (parseTaskPatch s t raw)"
  by (rule keepsI) (simp add: parseTaskPatch_db)

lemma deferRollback_ok:
  "keeps (\<lambda>w. server_ok (db w)) m \<Longrightarrow> keeps (\<lambda>w. server_ok (db w)) (deferRollback D m)"
  unfolding keeps_def
  by (auto simp: deferRollback_def tx_rollback server_ok_rollback split: prod.splits sum.splits)

lemmas ok_rules = keeps_returnE keeps_raiseE keeps_bindE keeps_if keeps_case_option keeps_case_prod
  stores_ok parse_ok commit_ok deferRollback_ok

lemma writes_ok:
  "keeps (\<lambda>w. server_ok (db w)) (CreateTask s u inp)"
  "keeps (\<lambda>w. server_ok (db w)) (UpdateTask s u i raw)"
  "keeps (\<lambda>w. server_ok (db w)) (DeleteTask s u i)"
  "keeps (\<lambda>w. server_ok (db w)) (CreateComment s u i b)"
  "keeps (\<lambda>w. server_ok (db w)) (UpdateComment s u j b)"
  "keeps (\<lambda>w. server_ok (db w)) (DeleteComment s u j)"
  unfolding CreateTask_def UpdateTask_def DeleteTask_def CreateComment_def UpdateComment_def
    DeleteComment_def updateTaskBody_def deleteTaskBody_def has_db has_history Let_def prod.case option.case
  by (intro ok_rules; simp)+

text \<open>A single statement that fails leaves no trace.\<close>

lemma queries_keep:
  "keeps (\<lambda>w. db w = x) (teamRepo_GetByID (tasksvc_teams s) t)"
  "keeps (\<lambda>w. db w = x) (taskRepo_GetByID (tasksvc_tasks s) i)"
  "keeps (\<lambda>w. db w = x) (teamMemberRepo_GetRole (tasksvc_members s) t u)"
  "keeps (\<lambda>w. db w = x) (teamMemberRepo_IsMember (tasksvc_members s) t u)"
  "keeps (\<lambda>w. db w = x) (taskCommentRepo_GetByID (tasksvc_comments s) j)"
  using executes_select_db [OF team_get] executes_select_db [OF task_get] executes_select_db [OF get_role]
    executes_select_db [OF check_member] executes_select_db [OF comment_get]
  by (auto intro!: keepsI)

lemma clean_fails: "executes db healthy m f \<Longrightarrow> fails_clean f \<Longrightarrow> fails_to (\<lambda>w. db w = x) (\<lambda>w. db w = x) m"
  by (auto simp: fails_to_def dest: executes_clean)

lemma writes_fail:
  "fails_to (\<lambda>w. db w = x) (\<lambda>w. db w = x) (CreateTask s u inp)"
  "fails_to (\<lambda>w. db w = x) (\<lambda>w. db w = x) (CreateComment s u i b)"
  "fails_to (\<lambda>w. db w = x) (\<lambda>w. db w = x) (UpdateComment s u j b)"
  "fails_to (\<lambda>w. db w = x) (\<lambda>w. db w = x) (DeleteComment s u j)"
  unfolding CreateTask_def CreateComment_def UpdateComment_def DeleteComment_def Let_def
  by (intro fails_intros queries_keep keeps_case_option keeps_returnE
      clean_fails [OF task_create fails_clean_stmts(5)] clean_fails [OF comment_create fails_clean_stmts(9)]
      clean_fails [OF comment_update fails_clean_stmts(10)] clean_fails [OF comment_delete fails_clean_stmts(11)];
      assumption)+

end

end
