(* ===== verification/TaskSpec.thy ===== *)
theory TaskSpec
  imports TaskTransactions
begin

text \<open>
  A step towards the specification of theory \<open>TaskRefinement\<close>: the service over stores that are
  the SQL statements themselves, on the server alone. Where nothing fails on the way to the
  database, the service over any stores gives the same result and the same server, so what the
  code decides can be computed without faults, connections and repositories.
\<close>

section \<open>Refinement of computations\<close>

definition refines :: "('w \<Rightarrow> server) \<Rightarrow> ('w \<Rightarrow> bool) \<Rightarrow> ('w, 'a) comp \<Rightarrow> 'a stmt \<Rightarrow> bool" where
  "refines db healthy m f \<longleftrightarrow>
     (\<forall>w. healthy w \<longrightarrow> (fst (m w), db (snd (m w))) = f (db w) \<and> healthy (snd (m w)))"

named_theorems refines_intros \<open>refinement rules of the combinators\<close>

lemma refinesD:
  assumes "refines db healthy m f" and "healthy w"
  shows "f (db w) = (fst (m w), db (snd (m w)))" "healthy (snd (m w))"
  using assms by (auto simp: refines_def)

lemma executes_refines: "executes db healthy m f \<Longrightarrow> refines db healthy m f"
  by (simp add: executes_def refines_def)

lemma refines_returnE [refines_intros]: "refines db healthy (returnE a) (returnE a)"
  by (simp add: refines_def returnE_apply)

lemma refines_raiseE [refines_intros]: "refines db healthy (raiseE e) (raiseE e)"
  by (simp add: refines_def raiseE_apply)

lemma refines_bindE [refines_intros]:
  assumes "refines db healthy m f" and "\<And>a. refines db healthy (k a) (g a)"
  shows "refines db healthy (bindE m k) (bindE f g)"
  unfolding refines_def
proof (intro allI impI)
  fix w
  assume "healthy w"
  note m = refinesD [OF assms(1) this]
  show "(fst (bindE m k w), db (snd (bindE m k w))) = bindE f g (db w) \<and> healthy (snd (bindE m k w))"
  proof (cases "fst (m w)")
    case (Inl e)
    with m show ?thesis by (simp add: bindE_apply)
  next
    case (Inr a)
    with m refinesD [OF assms(2) m(2), of a] show ?thesis by (simp add: bindE_apply)
  qed
qed

lemma refines_if [refines_intros]:
  "(b \<Longrightarrow> refines db healthy m f) \<Longrightarrow> (\<not> b \<Longrightarrow> refines db healthy n g) \<Longrightarrow>
   refines db healthy (if b then m else n) (if b then f else g)"
  by simp

lemma refines_case_option [refines_intros]:
  "(x = None \<Longrightarrow> refines db healthy m f) \<Longrightarrow> (\<And>a. x = Some a \<Longrightarrow> refines db healthy (k a) (g a)) \<Longrightarrow>
   refines db healthy (case x of None \<Rightarrow> m | Some a \<Rightarrow> k a) (case x of None \<Rightarrow> f | Some a \<Rightarrow> g a)"
  by (cases x) simp_all

lemma refines_case_prod [refines_intros]:
  "(\<And>a b. x = (a, b) \<Longrightarrow> refines db healthy (k a b) (g a b)) \<Longrightarrow>
   refines db healthy (case x of (a, b) \<Rightarrow> k a b) (case x of (a, b) \<Rightarrow> g a b)"
  by (cases x) simp

lemma refines_mapE [refines_intros]:
  "(\<And>x. refines db healthy (k x) (g x)) \<Longrightarrow> refines db healthy (mapE k xs) (mapE g xs)"
  by (induction xs) (auto intro: refines_intros)

section \<open>The service over the bare statements\<close>

definition bare_db :: "server sqlxDB" where
  "bare_db = \<lparr>db_BeginTxx = begin_tx, tx_Commit = commit_tx, tx_Rollback = rollback_tx\<rparr>"

definition bare_tasks :: "server taskRepo" where
  "bare_tasks = \<lparr>
     taskRepo_Create = insert_task,
     taskRepo_GetByID = (\<lambda>i. select (task_by_id i)),
     taskRepo_GetByIDForUpdateTx = (\<lambda>i. select (task_by_id i)),
     taskRepo_List = (\<lambda>f. bindE (select (count_tasks f)) (\<lambda>n. bindE (list_tasks f) (\<lambda>ts. returnE (ts, n)))),
     taskRepo_Update = update_task, taskRepo_UpdateTx = update_task,
     taskRepo_Delete = delete_task, taskRepo_DeleteTx = delete_task\<rparr>"

definition bare_members :: "server teamMemberRepo" where
  "bare_members = \<lparr>teamMemberRepo_GetRole = (\<lambda>t u. select (role_of t u)),
     teamMemberRepo_IsMember = (\<lambda>t u. select (is_member t u))\<rparr>"

definition bare_comments :: "server taskCommentRepo" where
  "bare_comments = \<lparr>
     taskCommentRepo_Create = insert_comment,
     taskCommentRepo_ListByTask = (\<lambda>i. select (comments_of i)),
     taskCommentRepo_GetByID = (\<lambda>j. select (comment_by_id j)),
     taskCommentRepo_Update = update_comment, taskCommentRepo_Delete = delete_comment\<rparr>"

definition bare_history :: "server taskHistoryRepo" where
  "bare_history = \<lparr>
     taskHistoryRepo_CreateBatchTx = (\<lambda>es. bindE (mapE insert_history es) (\<lambda>_. returnE ())),
     taskHistoryRepo_ListByTask = (\<lambda>i l k.
        bindE (select (count_history i)) (\<lambda>n. bindE (list_history i l k) (\<lambda>hs. returnE (hs, n))))\<rparr>"

definition bare_task_service :: "((string \<times> patchval) list \<Rightarrow> (string \<times> patchval) list) \<Rightarrow> server TaskService" where
  "bare_task_service ord = (NewTaskService (Some bare_db) bare_tasks
     \<lparr>teamRepo_GetByID = (\<lambda>t. select (team_by_id t))\<rparr> bare_members bare_comments (Some bare_history))\<lparr>tasksvc_range := ord\<rparr>"

lemma bare_sel [simp]:
  "tasksvc_db (bare_task_service ord) = Some bare_db" "tasksvc_tasks (bare_task_service ord) = bare_tasks"
  "tasksvc_teams (bare_task_service ord) = \<lparr>teamRepo_GetByID = (\<lambda>t. select (team_by_id t))\<rparr>"
  "tasksvc_members (bare_task_service ord) = bare_members" "tasksvc_comments (bare_task_service ord) = bare_comments"
  "tasksvc_history (bare_task_service ord) = Some bare_history" "tasksvc_range (bare_task_service ord) = ord"
  by (simp_all add: bare_task_service_def NewTaskService_def)

context task_service_tx
begin

lemma refines_stores:
  "refines db healthy (teamRepo_GetByID (tasksvc_teams s) t) (teamRepo_GetByID (tasksvc_teams (bare_task_service (tasksvc_range s))) t)"
  "refines db healthy (taskRepo_Create (tasksvc_tasks s) x) (taskRepo_Create (tasksvc_tasks (bare_task_service (tasksvc_range s))) x)"
  "refines db healthy (taskRepo_GetByID (tasksvc_tasks s) i) (taskRepo_GetByID (tasksvc_tasks (bare_task_service (tasksvc_range s))) i)"
  "refines db healthy (taskRepo_GetByIDForUpdateTx (tasksvc_tasks s) i)
     (taskRepo_GetByIDForUpdateTx (tasksvc_tasks (bare_task_service (tasksvc_range s))) i)"
  "refines db healthy (taskRepo_List (tasksvc_tasks s) f) (taskRepo_List (tasksvc_tasks (bare_task_service (tasksvc_range s))) f)"
  "fs \<noteq> [] \<Longrightarrow> refines db healthy (taskRepo_UpdateTx (tasksvc_tasks s) i fs)
     (taskRepo_UpdateTx (tasksvc_tasks (bare_task_service (tasksvc_range s))) i fs)"
  "refines db healthy (taskRepo_DeleteTx (tasksvc_tasks s) i) (taskRepo_DeleteTx (tasksvc_tasks (bare_task_service (tasksvc_range s))) i)"
  "refines db healthy (teamMemberRepo_GetRole (tasksvc_members s) t u)
     (teamMemberRepo_GetRole (tasksvc_members (bare_task_service (tasksvc_range s))) t u)"
  "refines db healthy (teamMemberRepo_IsMember (tasksvc_members s) t u)
     (teamMemberRepo_IsMember (tasksvc_members (bare_task_service (tasksvc_range s))) t u)"
  "refines db healthy (taskCommentRepo_Create (tasksvc_comments s) i u b)
     (taskCommentRepo_Create (tasksvc_comments (bare_task_service (tasksvc_range s))) i u b)"
  "refines db healthy (taskCommentRepo_ListByTask (tasksvc_comments s) i)
     (taskCommentRepo_ListByTask (tasksvc_comments (bare_task_service (tasksvc_range s))) i)"
  "refines db healthy (taskCommentRepo_GetByID (tasksvc_comments s) j)
     (taskCommentRepo_GetByID (tasksvc_comments (bare_task_service (tasksvc_range s))) j)"
  "refines db healthy (taskCommentRepo_Update (tasksvc_comments s) j b)
     (taskCommentRepo_Update (tasksvc_comments (bare_task_service (tasksvc_range s))) j b)"
  "refines db healthy (taskCommentRepo_Delete (tasksvc_comments s) j)
     (taskCommentRepo_Delete (tasksvc_comments (bare_task_service (tasksvc_range s))) j)"
  by (auto simp: bare_tasks_def bare_members_def bare_comments_def intro!: executes_refines team_get
      task_create task_get task_get_tx task_list task_update_tx task_delete_tx get_role check_member
      comment_create comment_list comment_get comment_update comment_delete)

lemma refines_history:
  "refines db healthy (taskHistoryRepo_CreateBatchTx H es) (taskHistoryRepo_CreateBatchTx bare_history es)"
  "refines db healthy (taskHistoryRepo_ListByTask H i l k) (taskHistoryRepo_ListByTask bare_history i l k)"
proof -
  show "refines db healthy (taskHistoryRepo_ListByTask H i l k) (taskHistoryRepo_ListByTask bare_history i l k)"
    by (auto simp: bare_history_def intro!: executes_refines history_list)
  show "refines db healthy (taskHistoryRepo_CreateBatchTx H es) (taskHistoryRepo_CreateBatchTx bare_history es)"
    unfolding refines_def
  proof (intro allI impI)
    fix w
    assume "healthy w"
    from history_create_healthy [OF this, of es]
    show "(fst (taskHistoryRepo_CreateBatchTx H es w), db (snd (taskHistoryRepo_CreateBatchTx H es w))) =
        taskHistoryRepo_CreateBatchTx bare_history es (db w) \<and> healthy (snd (taskHistoryRepo_CreateBatchTx H es w))"
      by (cases "fst (mapE insert_history es (db w))")
        (auto simp: bare_history_def bindE_apply returnE_apply map_sum_def)
  qed
qed

lemma refines_tx:
  "refines db healthy (db_BeginTxx D) (db_BeginTxx bare_db)"
  "refines db healthy (tx_Commit D) (tx_Commit bare_db)"
proof -
  show "refines db healthy (db_BeginTxx D) (db_BeginTxx bare_db)"
    by (simp add: bare_db_def executes_refines tx_begin)
  show "refines db healthy (tx_Commit D) (tx_Commit bare_db)"
    unfolding refines_def
  proof (intro allI impI)
    fix w
    assume "healthy w"
    with tx_commit_healthy have "tx_Commit D w = (Inr (), snd (tx_Commit D w)) \<and> healthy (snd (tx_Commit D w))"
      by (metis prod.collapse)
    with tx_commit [of w] show "(fst (tx_Commit D w), db (snd (tx_Commit D w))) = tx_Commit bare_db (db w) \<and>
        healthy (snd (tx_Commit D w))" by (metis fst_conv bare_db_def sqlxDB.select_convs(2))
  qed
qed

lemma refines_deferRollback:
  assumes "refines db healthy m f"
  shows "refines db healthy (deferRollback D m) (deferRollback bare_db f)"
  unfolding refines_def
proof (intro allI impI)
  fix w
  assume "healthy w"
  note m = refinesD [OF assms this]
  obtain r w1 where run: "m w = (r, w1)" by (cases "m w")
  show "(fst (deferRollback D m w), db (snd (deferRollback D m w))) = deferRollback bare_db f (db w) \<and>
     healthy (snd (deferRollback D m w))"
    using m run by (auto simp: deferRollback_def bare_db_def tx_rollback tx_rollback_healthy split: sum.splits)
qed

lemmas refines_rules = refines_intros refines_stores refines_history refines_tx refines_deferRollback

lemma refines_parse: "refines db healthy (parseTaskPatch s t raw) (parseTaskPatch (bare_task_service (tasksvc_range s)) t raw)"
  unfolding parseTaskPatch_def parseField_def by (intro refines_rules)

lemma refines_ops:
  "refines db healthy (CreateTask s u inp) (CreateTask (bare_task_service (tasksvc_range s)) u inp)"
  "refines db healthy (GetTask s u i) (GetTask (bare_task_service (tasksvc_range s)) u i)"
  "refines db healthy (ListTasks s u li) (ListTasks (bare_task_service (tasksvc_range s)) u li)"
  "refines db healthy (UpdateTask s u i raw) (UpdateTask (bare_task_service (tasksvc_range s)) u i raw)"
  "refines db healthy (DeleteTask s u i) (DeleteTask (bare_task_service (tasksvc_range s)) u i)"
  "refines db healthy (CreateComment s u i b) (CreateComment (bare_task_service (tasksvc_range s)) u i b)"
  "refines db healthy (ListComments s u i) (ListComments (bare_task_service (tasksvc_range s)) u i)"
  "refines db healthy (UpdateComment s u j b) (UpdateComment (bare_task_service (tasksvc_range s)) u j b)"
  "refines db healthy (DeleteComment s u j) (DeleteComment (bare_task_service (tasksvc_range s)) u j)"
  "refines db healthy (GetTaskHistory s u i l k) (GetTaskHistory (bare_task_service (tasksvc_range s)) u i l k)"
  unfolding CreateTask_def GetTask_def ListTasks_def UpdateTask_def DeleteTask_def CreateComment_def
    ListComments_def UpdateComment_def DeleteComment_def GetTaskHistory_def updateTaskBody_def
    deleteTaskBody_def has_db has_history Let_def bare_sel(1,6,7) prod.case option.case
  by (intro refines_rules refines_parse; simp)+

end

end
