(* ===== verification/Repositories.thy ===== *)
theory Repositories
  imports Interfaces
begin

text \<open>
  Package \<open>repository\<close> over MySQL: each method sends its SQL statements one by one. The
  state \<open>dbw\<close> holds the server and a schedule of faults, one decision per statement: the
  driver may fail it (a lost connection, an expired deadline, a value too long for its
  column) with an error of its own, before it takes effect. Every order of faults is a
  schedule, so a theorem about all states covers every error path. A statement or commit that
  took effect while its acknowledgement was lost is not among the faults.

  The last section interprets the contracts of theory \<open>Interfaces\<close> with these methods.
\<close>

section \<open>Sending statements\<close>

record dbw =
  srv :: server
  faults :: "err option list"

definition no_faults :: "'x dbw_scheme \<Rightarrow> bool" where
  "no_faults w \<longleftrightarrow> list_all (\<lambda>f. f = None) (faults w)"

definition run_stmt :: "'a stmt \<Rightarrow> ('x dbw_scheme, 'a) comp" where
  "run_stmt f w =
     (case faults w of
        Some e # fs \<Rightarrow> (Inl e, w\<lparr>faults := fs\<rparr>)
      | fs \<Rightarrow> (fst (f (srv w)), w\<lparr>srv := snd (f (srv w)), faults := tl fs\<rparr>))"

lemma executes_run_stmt: "executes srv no_faults (run_stmt f) f"
  by (auto simp: executes_def run_stmt_def no_faults_def split: list.splits option.splits)

section \<open>UserRepository\<close>

definition UserRepository_Create :: "string \<Rightarrow> string \<Rightarrow> string \<Rightarrow> ('x dbw_scheme, int) comp" where
  "UserRepository_Create email username passwordHash = run_stmt (insert_user email username passwordHash)"

definition UserRepository_GetByEmail :: "string \<Rightarrow> ('x dbw_scheme, User option) comp" where
  "UserRepository_GetByEmail email = run_stmt (select (user_by_email email))"

definition UserRepository_GetByUsername :: "string \<Rightarrow> ('x dbw_scheme, User option) comp" where
  "UserRepository_GetByUsername username = run_stmt (select (user_by_username username))"

section \<open>TeamRepository and TeamMemberRepository\<close>

definition TeamRepository_CreateTx :: "string \<Rightarrow> int \<Rightarrow> ('x dbw_scheme, int) comp" where
  "TeamRepository_CreateTx name createdBy = run_stmt (insert_team name createdBy)"

definition TeamRepository_GetByID :: "int \<Rightarrow> ('x dbw_scheme, Team option) comp" where
  "TeamRepository_GetByID teamID = run_stmt (select (team_by_id teamID))"

definition TeamRepository_ListByUser :: "int \<Rightarrow> ('x dbw_scheme, Team list) comp" where
  "TeamRepository_ListByUser userID = run_stmt (select (teams_by_user userID))"

definition TeamMemberRepository_AddTx :: "int \<Rightarrow> int \<Rightarrow> string \<Rightarrow> ('x dbw_scheme, unit) comp" where
  "TeamMemberRepository_AddTx teamID userID role = run_stmt (insert_member teamID userID role)"

definition TeamMemberRepository_Add :: "int \<Rightarrow> int \<Rightarrow> string \<Rightarrow> ('x dbw_scheme, unit) comp" where
  "TeamMemberRepository_Add teamID userID role = run_stmt (insert_member teamID userID role)"

definition TeamMemberRepository_GetRole :: "int \<Rightarrow> int \<Rightarrow> ('x dbw_scheme, string option) comp" where
  "TeamMemberRepository_GetRole teamID userID = run_stmt (select (role_of teamID userID))"

definition TeamMemberRepository_IsMember :: "int \<Rightarrow> int \<Rightarrow> ('x dbw_scheme, bool) comp" where
  "TeamMemberRepository_IsMember teamID userID = run_stmt (select (is_member teamID userID))"

section \<open>TaskRepository\<close>

definition TaskRepository_Create :: "Task \<Rightarrow> ('x dbw_scheme, int) comp" where
  "TaskRepository_Create t = run_stmt (insert_task t)"

definition TaskRepository_GetByID :: "int \<Rightarrow> ('x dbw_scheme, Task option) comp" where
  "TaskRepository_GetByID taskID = run_stmt (select (task_by_id taskID))"

definition TaskRepository_GetByIDForUpdateTx :: "int \<Rightarrow> ('x dbw_scheme, Task option) comp" where
  "TaskRepository_GetByIDForUpdateTx taskID = run_stmt (select (task_by_id taskID))"

definition TaskRepository_List :: "TaskListFilter \<Rightarrow> ('x dbw_scheme, Task list \<times> int) comp" where
  "TaskRepository_List f =
     bindE (run_stmt (select (count_tasks f))) (\<lambda>total.
     bindE (run_stmt (list_tasks f)) (\<lambda>ts.
     returnE (ts, total)))"

definition TaskRepository_Update :: "int \<Rightarrow> (string \<times> colval) list \<Rightarrow> ('x dbw_scheme, unit) comp" where
  "TaskRepository_Update taskID fs =
     (if fs = [] then raiseE (OtherError ''no fields to update'') else run_stmt (update_task taskID fs))"

definition TaskRepository_UpdateTx :: "int \<Rightarrow> (string \<times> colval) list \<Rightarrow> ('x dbw_scheme, unit) comp" where
  "TaskRepository_UpdateTx taskID fs =
     (if fs = [] then raiseE (OtherError ''no fields to update'') else run_stmt (update_task taskID fs))"

definition TaskRepository_Delete :: "int \<Rightarrow> ('x dbw_scheme, unit) comp" where
  "TaskRepository_Delete taskID = run_stmt (delete_task taskID)"

definition TaskRepository_DeleteTx :: "int \<Rightarrow> ('x dbw_scheme, unit) comp" where
  "TaskRepository_DeleteTx taskID = run_stmt (delete_task taskID)"

section \<open>TaskCommentRepository and TaskHistoryRepository\<close>

definition TaskCommentRepository_Create :: "int \<Rightarrow> int \<Rightarrow> string \<Rightarrow> ('x dbw_scheme, int) comp" where
  "TaskCommentRepository_Create taskID userID body = run_stmt (insert_comment taskID userID body)"

definition TaskCommentRepository_ListByTask :: "int \<Rightarrow> ('x dbw_scheme, TaskComment list) comp" where
  "TaskCommentRepository_ListByTask taskID = run_stmt (select (comments_of taskID))"

definition TaskCommentRepository_GetByID :: "int \<Rightarrow> ('x dbw_scheme, TaskComment option) comp" where
  "TaskCommentRepository_GetByID commentID = run_stmt (select (comment_by_id commentID))"

definition TaskCommentRepository_Update :: "int \<Rightarrow> string \<Rightarrow> ('x dbw_scheme, unit) comp" where
  "TaskCommentRepository_Update commentID body = run_stmt (update_comment commentID body)"

definition TaskCommentRepository_Delete :: "int \<Rightarrow> ('x dbw_scheme, unit) comp" where
  "TaskCommentRepository_Delete commentID = run_stmt (delete_comment commentID)"

fun TaskHistoryRepository_CreateBatchTx :: "TaskHistoryCreate list \<Rightarrow> ('x dbw_scheme, unit) comp" where
  "TaskHistoryRepository_CreateBatchTx [] = returnE ()"
| "TaskHistoryRepository_CreateBatchTx (e # es) =
     bindE (run_stmt (insert_history e)) (\<lambda>_. TaskHistoryRepository_CreateBatchTx es)"

definition TaskHistoryRepository_ListByTask ::
    "int \<Rightarrow> int \<Rightarrow> int \<Rightarrow> ('x dbw_scheme, TaskHistory list \<times> int) comp" where
  "TaskHistoryRepository_ListByTask taskID limit offset =
     bindE (run_stmt (select (count_history taskID))) (\<lambda>total.
     bindE (run_stmt (list_history taskID limit offset)) (\<lambda>items.
     returnE (items, total)))"

section \<open>SessionRepository\<close>

definition SessionRepository_Create :: "Session \<Rightarrow> ('x dbw_scheme, int) comp" where
  "SessionRepository_Create x = run_stmt (insert_session x)"

definition SessionRepository_GetByTokenHash :: "string \<Rightarrow> ('x dbw_scheme, Session option) comp" where
  "SessionRepository_GetByTokenHash tokenHash = run_stmt (select (session_by_token tokenHash))"

definition SessionRepository_GetByTokenHashForUpdate :: "string \<Rightarrow> ('x dbw_scheme, Session option) comp" where
  "SessionRepository_GetByTokenHashForUpdate tokenHash = run_stmt (select (session_by_token tokenHash))"

definition SessionRepository_Revoke :: "string \<Rightarrow> time \<Rightarrow> ('x dbw_scheme, unit) comp" where
  "SessionRepository_Revoke tokenHash revokedAt = run_stmt (revoke_session tokenHash revokedAt)"

definition SessionRepository_RevokeWithTx :: "string \<Rightarrow> time \<Rightarrow> ('x dbw_scheme, unit) comp" where
  "SessionRepository_RevokeWithTx tokenHash revokedAt = run_stmt (revoke_session tokenHash revokedAt)"

definition SessionRepository_UpdateLastUsed :: "string \<Rightarrow> time \<Rightarrow> ('x dbw_scheme, unit) comp" where
  "SessionRepository_UpdateLastUsed tokenHash ts = run_stmt (touch_session tokenHash ts)"

definition SessionRepository_RevokeAllByUser :: "int \<Rightarrow> time \<Rightarrow> ('x dbw_scheme, unit) comp" where
  "SessionRepository_RevokeAllByUser userID revokedAt = run_stmt (revoke_user_sessions userID revokedAt)"

definition SessionRepository_GetActiveSessionsByUser :: "int \<Rightarrow> ('x dbw_scheme, Session list) comp" where
  "SessionRepository_GetActiveSessionsByUser userID = run_stmt (select (active_sessions userID))"

definition SessionRepository_CreateWithTx :: "Session \<Rightarrow> ('x dbw_scheme, int) comp" where
  "SessionRepository_CreateWithTx x = run_stmt (insert_session x)"

section \<open>Transactions\<close>

definition mysql_Begin :: "('x dbw_scheme, unit) comp" where
  "mysql_Begin = run_stmt begin_tx"

definition mysql_Rollback :: "'x dbw_scheme \<Rightarrow> 'x dbw_scheme" where
  "mysql_Rollback w = w\<lparr>srv := rollback_tx (srv w)\<rparr>"

text \<open>A commit that fails did not reach the server, and the server discards the transaction. A commit
  that the server carried out and could not acknowledge is outside the model.\<close>

definition mysql_Commit :: "('x dbw_scheme, unit) comp" where
  "mysql_Commit w =
     (case run_stmt commit_tx w of
        (Inl e, w') \<Rightarrow> (Inl e, mysql_Rollback w')
      | (Inr u, w') \<Rightarrow> (Inr u, w'))"

definition SessionRepository_WithTx :: "('x dbw_scheme, 'a) comp \<Rightarrow> ('x dbw_scheme, 'a) comp" where
  "SessionRepository_WithTx fn =
     bindE mysql_Begin (\<lambda>_.
     bindR fn (\<lambda>r. case r of
         Inl e \<Rightarrow> (\<lambda>w. (Inl e, mysql_Rollback w))
       | Inr a \<Rightarrow> bindE mysql_Commit (\<lambda>_. returnE a)))"

section \<open>The repositories as interface values\<close>

definition NewTaskRepository :: "'x dbw_scheme taskRepo" where
  "NewTaskRepository = \<lparr>
     taskRepo_Create = TaskRepository_Create,
     taskRepo_GetByID = TaskRepository_GetByID,
     taskRepo_GetByIDForUpdateTx = TaskRepository_GetByIDForUpdateTx,
     taskRepo_List = TaskRepository_List,
     taskRepo_Update = TaskRepository_Update,
     taskRepo_UpdateTx = TaskRepository_UpdateTx,
     taskRepo_Delete = TaskRepository_Delete,
     taskRepo_DeleteTx = TaskRepository_DeleteTx\<rparr>"

definition NewTeamRepository :: "'x dbw_scheme teamRepo" where
  "NewTeamRepository = \<lparr>teamRepo_GetByID = TeamRepository_GetByID\<rparr>"

definition NewTeamStore :: "'x dbw_scheme teamStore" where
  "NewTeamStore = \<lparr>
     teamStore_CreateTx = TeamRepository_CreateTx,
     teamStore_GetByID = TeamRepository_GetByID,
     teamStore_ListByUser = TeamRepository_ListByUser\<rparr>"

definition NewTeamMemberRepository :: "'x dbw_scheme teamMemberRepo" where
  "NewTeamMemberRepository = \<lparr>
     teamMemberRepo_GetRole = TeamMemberRepository_GetRole,
     teamMemberRepo_IsMember = TeamMemberRepository_IsMember\<rparr>"

definition NewTeamMemberStore :: "'x dbw_scheme teamMemberStore" where
  "NewTeamMemberStore = \<lparr>
     teamMemberStore_AddTx = TeamMemberRepository_AddTx,
     teamMemberStore_Add = TeamMemberRepository_Add,
     teamMemberStore_GetRole = TeamMemberRepository_GetRole,
     teamMemberStore_IsMember = TeamMemberRepository_IsMember\<rparr>"

definition NewTaskCommentRepository :: "'x dbw_scheme taskCommentRepo" where
  "NewTaskCommentRepository = \<lparr>
     taskCommentRepo_Create = TaskCommentRepository_Create,
     taskCommentRepo_ListByTask = TaskCommentRepository_ListByTask,
     taskCommentRepo_GetByID = TaskCommentRepository_GetByID,
     taskCommentRepo_Update = TaskCommentRepository_Update,
     taskCommentRepo_Delete = TaskCommentRepository_Delete\<rparr>"

definition NewTaskHistoryRepository :: "'x dbw_scheme taskHistoryRepo" where
  "NewTaskHistoryRepository = \<lparr>
     taskHistoryRepo_CreateBatchTx = TaskHistoryRepository_CreateBatchTx,
     taskHistoryRepo_ListByTask = TaskHistoryRepository_ListByTask\<rparr>"

definition NewUserRepository :: "'x dbw_scheme UserStore" where
  "NewUserRepository = \<lparr>
     UserStore_Create = UserRepository_Create,
     UserStore_GetByEmail = UserRepository_GetByEmail,
     UserStore_GetByUsername = UserRepository_GetByUsername\<rparr>"

definition NewSessionRepository :: "'x dbw_scheme SessionStore" where
  "NewSessionRepository = \<lparr>
     SessionStore_Create = SessionRepository_Create,
     SessionStore_GetByTokenHash = SessionRepository_GetByTokenHash,
     SessionStore_GetByTokenHashForUpdate = SessionRepository_GetByTokenHashForUpdate,
     SessionStore_Revoke = SessionRepository_Revoke,
     SessionStore_UpdateLastUsed = SessionRepository_UpdateLastUsed,
     SessionStore_RevokeAllByUser = SessionRepository_RevokeAllByUser,
     SessionStore_GetActiveSessionsByUser = SessionRepository_GetActiveSessionsByUser,
     SessionStore_WithTx = SessionRepository_WithTx,
     SessionStore_CreateWithTx = SessionRepository_CreateWithTx,
     SessionStore_RevokeWithTx = SessionRepository_RevokeWithTx\<rparr>"

definition NewMySQL :: "'x dbw_scheme sqlxDB" where
  "NewMySQL = \<lparr>db_BeginTxx = mysql_Begin, tx_Commit = mysql_Commit, tx_Rollback = mysql_Rollback\<rparr>"

lemmas repo_records = NewTaskRepository_def NewTeamRepository_def NewTeamStore_def
  NewTeamMemberRepository_def NewTeamMemberStore_def NewTaskCommentRepository_def
  NewTaskHistoryRepository_def NewUserRepository_def NewSessionRepository_def NewMySQL_def

lemmas repo_methods = UserRepository_Create_def UserRepository_GetByEmail_def
  UserRepository_GetByUsername_def TeamRepository_CreateTx_def TeamRepository_GetByID_def
  TeamRepository_ListByUser_def TeamMemberRepository_AddTx_def TeamMemberRepository_Add_def
  TeamMemberRepository_GetRole_def TeamMemberRepository_IsMember_def TaskRepository_Create_def
  TaskRepository_GetByID_def TaskRepository_GetByIDForUpdateTx_def TaskRepository_Update_def
  TaskRepository_UpdateTx_def TaskRepository_Delete_def TaskRepository_DeleteTx_def
  TaskCommentRepository_Create_def TaskCommentRepository_ListByTask_def
  TaskCommentRepository_GetByID_def TaskCommentRepository_Update_def
  TaskCommentRepository_Delete_def SessionRepository_Create_def SessionRepository_GetByTokenHash_def
  SessionRepository_GetByTokenHashForUpdate_def SessionRepository_Revoke_def
  SessionRepository_RevokeWithTx_def SessionRepository_UpdateLastUsed_def
  SessionRepository_RevokeAllByUser_def SessionRepository_GetActiveSessionsByUser_def
  SessionRepository_CreateWithTx_def mysql_Begin_def

section \<open>The contracts hold\<close>

text \<open>Two queries in a row run as one, when the second fails without a trace.\<close>

lemma executes_query_then:
  assumes "executes db healthy m (select q)"
    and "\<And>a. executes db healthy (k a) (f a)" "\<And>a. fails_clean (f a)"
  shows "executes db healthy (bindE m k) (bindE (select q) f)"
  unfolding executes_def
proof (intro allI conjI impI)
  fix w
  obtain r w1 where m: "m w = (r, w1)" by (cases "m w")
  have db1: "db w1 = db w" using executes_select(1) [OF assms(1) m] .
  have val: "a = q (data (db w))" if "r = Inr a" for a
    using executes_select(2) [OF assms(1) m that] .
  show "(fst (bindE m k w), db (snd (bindE m k w))) = bindE (select q) f (db w) \<or>
     (\<exists>e. fst (bindE m k w) = Inl e) \<and> db (snd (bindE m k w)) = db w"
    using m db1 val assms(2) [of "q (data (db w))", unfolded executes_def, rule_format, of w1]
    by (cases r) (auto simp: bindE_apply select_def)
  assume h: "healthy w"
  show "(fst (bindE m k w), db (snd (bindE m k w))) = bindE (select q) f (db w)"
    and "healthy (snd (bindE m k w))"
    using m db1 val assms(2) [of "q (data (db w))", unfolded executes_def, rule_format, of w1]
      executes_healthy [OF assms(1) h]
    by (cases r; auto simp: bindE_apply select_def)+
qed

lemma executes_then_return:
  assumes "executes db healthy m f"
  shows "executes db healthy (bindE m (\<lambda>a. returnE (g a))) (bindE f (\<lambda>a. returnE (g a)))"
  unfolding executes_def
proof (intro allI)
  fix w
  obtain r w1 where m: "m w = (r, w1)" by (cases "m w")
  obtain r' s1 where f: "f (db w) = (r', s1)" by (cases "f (db w)")
  show "((fst (bindE m (\<lambda>a. returnE (g a)) w), db (snd (bindE m (\<lambda>a. returnE (g a)) w)))
       = bindE f (\<lambda>a. returnE (g a)) (db w)
     \<or> (\<exists>e. fst (bindE m (\<lambda>a. returnE (g a)) w) = Inl e) \<and>
       db (snd (bindE m (\<lambda>a. returnE (g a)) w)) = db w) \<and>
     (healthy w \<longrightarrow>
       (fst (bindE m (\<lambda>a. returnE (g a)) w), db (snd (bindE m (\<lambda>a. returnE (g a)) w)))
       = bindE f (\<lambda>a. returnE (g a)) (db w) \<and> healthy (snd (bindE m (\<lambda>a. returnE (g a)) w)))"
    using assms [unfolded executes_def, rule_format, of w] m f
    by (cases r; cases r') (auto simp: bindE_apply returnE_apply)
qed

lemma fails_clean_return: "fails_clean f \<Longrightarrow> fails_clean (bindE f (\<lambda>a. returnE (g a)))"
  by (auto simp: fails_clean_def bindE_Inl)

interpretation mysql_tasks: task_store srv no_faults NewTaskRepository
proof unfold_locales
  fix f
  show "executes srv no_faults (taskRepo_List NewTaskRepository f)
     (bindE (select (count_tasks f)) (\<lambda>n. bindE (list_tasks f) (\<lambda>ts. returnE (ts, n))))"
    by (simp add: repo_records TaskRepository_List_def executes_query_then executes_then_return
        executes_run_stmt fails_clean_return fails_clean_stmts)
qed (simp_all add: repo_records repo_methods executes_run_stmt)

interpretation mysql_members: member_store srv no_faults NewTeamMemberRepository
  by unfold_locales (simp_all add: repo_records repo_methods executes_run_stmt)

interpretation mysql_comments: comment_store srv no_faults NewTaskCommentRepository
  by unfold_locales (simp_all add: repo_records repo_methods executes_run_stmt)

lemma run_stmt_open_tx:
  "open_tx (snd (f (srv w))) = open_tx (srv w) \<Longrightarrow> open_tx (srv (snd (run_stmt f w))) = open_tx (srv w)"
  by (auto simp: run_stmt_def split: list.splits option.splits)

lemma insert_history_open_tx: "open_tx (snd (insert_history e s)) = open_tx s"
  by (simp add: insert_history_def)

lemma CreateBatchTx_Inr:
  "TaskHistoryRepository_CreateBatchTx es w = (Inr (), w') \<Longrightarrow>
     \<exists>us. mapE insert_history es (srv w) = (Inr us, srv w')"
proof (induction es arbitrary: w)
  case (Cons e es)
  then obtain w1 where e: "run_stmt (insert_history e) w = (Inr (), w1)"
    and es: "TaskHistoryRepository_CreateBatchTx es w1 = (Inr (), w')" by (auto simp: bindE_Inr)
  from Cons.IH [OF es] executes_Inr [OF executes_run_stmt e] show ?case
    by (auto simp: bindE_Inr)
qed simp

lemma CreateBatchTx_open_tx:
  "open_tx (srv (snd (TaskHistoryRepository_CreateBatchTx es w))) = open_tx (srv w)"
proof (induction es arbitrary: w)
  case (Cons e es)
  then show ?case
    using run_stmt_open_tx [where f = "insert_history e" and w = w, OF insert_history_open_tx]
    by (auto simp: bindE_apply split: sum.splits)
qed simp

lemma CreateBatchTx_ok: "keeps (\<lambda>w. server_ok (srv w)) (TaskHistoryRepository_CreateBatchTx es)"
  by (induction es)
    (auto intro!: keeps_intros executes_keeps [OF executes_run_stmt])

lemma CreateBatchTx_healthy:
  "no_faults w \<Longrightarrow>
     (map_sum id (\<lambda>_. ()) (fst (mapE insert_history es (srv w))), snd (mapE insert_history es (srv w))) =
     (fst (TaskHistoryRepository_CreateBatchTx es w), srv (snd (TaskHistoryRepository_CreateBatchTx es w))) \<and>
     no_faults (snd (TaskHistoryRepository_CreateBatchTx es w))"
proof (induction es arbitrary: w)
  case (Cons e es)
  note run = executes_healthy [OF executes_run_stmt Cons.prems, of "insert_history e"]
  from Cons.IH [OF run(2)] run(1) show ?case
    by (cases "insert_history e (srv w)"; cases "fst (insert_history e (srv w))")
      (auto simp: bindE_apply run(2) map_sum_def split: sum.splits)
qed simp

interpretation mysql_history: history_store srv no_faults NewTaskHistoryRepository
proof unfold_locales
  fix i l k
  show "executes srv no_faults (taskHistoryRepo_ListByTask NewTaskHistoryRepository i l k)
     (bindE (select (count_history i)) (\<lambda>n. bindE (list_history i l k) (\<lambda>hs. returnE (hs, n))))"
    by (simp add: repo_records TaskHistoryRepository_ListByTask_def executes_query_then
        executes_then_return executes_run_stmt fails_clean_return fails_clean_stmts)
qed (simp_all add: repo_records CreateBatchTx_Inr CreateBatchTx_open_tx CreateBatchTx_ok
    CreateBatchTx_healthy [simplified])

interpretation mysql_tx: tx_control srv no_faults NewMySQL
proof unfold_locales
  show "executes srv no_faults (db_BeginTxx NewMySQL) begin_tx"
    by (simp add: repo_records mysql_Begin_def executes_run_stmt)
  show "srv (tx_Rollback NewMySQL w) = rollback_tx (srv w)" for w :: "'x dbw_scheme"
    by (simp add: repo_records mysql_Rollback_def)
qed (auto simp: repo_records mysql_Commit_def mysql_Rollback_def run_stmt_def commit_tx_def
    no_faults_def split: list.splits option.splits)

end
