(* ===== verification/Redis.thy ===== *)
theory Redis
  imports Interfaces
begin

text \<open>
  Redis as the code uses it through \<open>go-redis\<close>. The client is a record of commands, an
  argument of every component that talks to Redis; the locale \<open>redis_api\<close> states what the
  commands do according to the Redis documentation, in terms of a keyspace in which a key
  holds a string and may expire. A command that returns an error has changed nothing.
\<close>

section \<open>The keyspace\<close>

record keyspace =
  kv :: "string \<Rightarrow> (string \<times> time option) option"
  redis_time :: time

definition live :: "keyspace \<Rightarrow> string \<Rightarrow> (string \<times> time option) option" where
  "live s k = (case kv s k of
       Some (v, Some e) \<Rightarrow> if redis_time s < e then Some (v, Some e) else None
     | x \<Rightarrow> x)"

definition value_at :: "keyspace \<Rightarrow> string \<Rightarrow> string option" where
  "value_at s k = map_option fst (live s k)"

text \<open>A duration given as a time to live: zero means that the key does not expire.\<close>

definition expiry :: "keyspace \<Rightarrow> duration \<Rightarrow> time option" where
  "expiry s ttl = (if ttl > 0 then Some (redis_time s + ttl) else None)"

definition put :: "string \<Rightarrow> string \<times> time option \<Rightarrow> keyspace \<Rightarrow> keyspace" where
  "put k x s = s\<lparr>kv := (kv s)(k := Some x)\<rparr>"

definition cmd_get :: "string \<Rightarrow> (keyspace, string option) comp" where
  "cmd_get k s = (Inr (value_at s k), s)"

definition cmd_set :: "string \<Rightarrow> string \<Rightarrow> duration \<Rightarrow> (keyspace, unit) comp" where
  "cmd_set k v ttl s = (Inr (), put k (v, expiry s ttl) s)"

definition cmd_setnx :: "string \<Rightarrow> string \<Rightarrow> duration \<Rightarrow> (keyspace, bool) comp" where
  "cmd_setnx k v ttl s = (if live s k = None then (Inr True, put k (v, expiry s ttl) s) else (Inr False, s))"

fun drop_keys :: "string list \<Rightarrow> keyspace \<Rightarrow> int \<times> keyspace" where
  "drop_keys [] s = (0, s)"
| "drop_keys (k # ks) s =
     (let n = (if live s k = None then 0 else 1); (m, s') = drop_keys ks (s\<lparr>kv := (kv s)(k := None)\<rparr>)
      in (n + m, s'))"

definition cmd_del :: "string list \<Rightarrow> (keyspace, int) comp" where
  "cmd_del ks s = (let (n, s') = drop_keys ks s in (Inr n, s'))"

definition cmd_exists :: "string \<Rightarrow> (keyspace, int) comp" where
  "cmd_exists k s = (Inr (if live s k = None then 0 else 1), s)"

text \<open>\<open>INCR\<close> counts from 0 for a missing key, keeps the expiry of an existing one, and fails
  on a value that is not an integer.\<close>

definition cmd_incr :: "string \<Rightarrow> (keyspace, int) comp" where
  "cmd_incr k s =
     (case live s k of
        None \<Rightarrow> (Inr 1, put k (FormatInt 1, None) s)
      | Some (v, e) \<Rightarrow>
          (case ParseInt v of
             None \<Rightarrow> (Inl (OtherError ''ERR value is not an integer or out of range''), s)
           | Some n \<Rightarrow>
               if n + 1 > int64_max then (Inl (OtherError ''ERR increment or decrement would overflow''), s)
               else (Inr (n + 1), put k (FormatInt (n + 1), e) s)))"

text \<open>\<open>EXPIRE\<close> takes whole seconds, at least one.\<close>

definition whole_ttl :: "duration \<Rightarrow> duration" where
  "whole_ttl d = (if 0 < d \<and> d < second then second else quot d second * second)"

definition cmd_expire :: "string \<Rightarrow> duration \<Rightarrow> (keyspace, bool) comp" where
  "cmd_expire k d s =
     (case live s k of
        None \<Rightarrow> (Inr False, s)
      | Some (v, _) \<Rightarrow> (Inr True, put k (v, Some (redis_time s + whole_ttl d)) s))"

text \<open>\<open>TTL\<close> answers in seconds, rounded, or a negative number for a key without expiry or no key.\<close>

definition cmd_ttl :: "string \<Rightarrow> (keyspace, duration) comp" where
  "cmd_ttl k s =
     (Inr (case live s k of
        None \<Rightarrow> - 2
      | Some (_, None) \<Rightarrow> - 1
      | Some (_, Some e) \<Rightarrow> (e - redis_time s + 500000000) div second * second), s)"

section \<open>The client\<close>

text \<open>\<open>Get\<close> answers \<open>None\<close> where the client returns \<open>redis.Nil\<close>. A script is run by the
  server in one step, so it is a computation on the keyspace.\<close>

record 'w redisClient =
  redis_Get :: "string \<Rightarrow> ('w, string option) comp"
  redis_Set :: "string \<Rightarrow> string \<Rightarrow> duration \<Rightarrow> ('w, unit) comp"
  redis_SetNX :: "string \<Rightarrow> string \<Rightarrow> duration \<Rightarrow> ('w, bool) comp"
  redis_Del :: "string list \<Rightarrow> ('w, int) comp"
  redis_Exists :: "string \<Rightarrow> ('w, int) comp"
  redis_Incr :: "string \<Rightarrow> ('w, int) comp"
  redis_Expire :: "string \<Rightarrow> duration \<Rightarrow> ('w, bool) comp"
  redis_TTL :: "string \<Rightarrow> ('w, duration) comp"
  redis_Run :: "(keyspace, int) comp \<Rightarrow> ('w, int) comp"

locale redis_api =
  fixes ks :: "'w \<Rightarrow> keyspace" and up :: "'w \<Rightarrow> bool" and R :: "'w redisClient"
  assumes redis_get: "executes ks up (redis_Get R k) (cmd_get k)"
    and redis_set: "executes ks up (redis_Set R k v ttl) (cmd_set k v ttl)"
    and redis_setnx: "executes ks up (redis_SetNX R k v ttl) (cmd_setnx k v ttl)"
    and redis_del: "executes ks up (redis_Del R keys) (cmd_del keys)"
    and redis_exists: "executes ks up (redis_Exists R k) (cmd_exists k)"
    and redis_incr: "executes ks up (redis_Incr R k) (cmd_incr k)"
    and redis_expire: "executes ks up (redis_Expire R k d) (cmd_expire k d)"
    and redis_ttl: "executes ks up (redis_TTL R k) (cmd_ttl k)"
    and redis_run: "executes ks up (redis_Run R p) p"

section \<open>Facts about the keyspace\<close>

lemma live_put [simp]:
  "live (put k (v, e) s) j =
     (if j = k then (case e of Some t \<Rightarrow> if redis_time s < t then Some (v, e) else None | None \<Rightarrow> Some (v, e))
      else live s j)"
  by (simp add: live_def put_def split: option.splits)

lemma redis_time_put [simp]: "redis_time (put k x s) = redis_time s"
  by (simp add: put_def)

lemma put_put [simp]: "put k x (put k y s) = put k x s"
  by (simp add: put_def)

lemma value_at_set [simp]: "value_at (put k (v, expiry s ttl) s) j = (if j = k then Some v else value_at s j)"
  by (simp add: value_at_def expiry_def)

lemma live_forget [simp]: "live (s\<lparr>kv := (kv s)(k := None)\<rparr>) j = (if j = k then None else live s j)"
  by (simp add: live_def split: option.splits)

lemma live_drop_other: "j \<notin> set ks \<Longrightarrow> live (snd (drop_keys ks s)) j = live s j"
proof (induction ks arbitrary: s)
  case (Cons k ks)
  then show ?case by (simp add: Let_def split_beta)
qed simp

lemma live_drop: "k \<in> set ks \<Longrightarrow> live (snd (drop_keys ks s)) k = None"
proof (induction ks arbitrary: s)
  case (Cons j ks)
  show ?case
  proof (cases "k \<in> set ks")
    case True
    with Cons.IH show ?thesis by (simp add: Let_def split_beta)
  next
    case False
    with Cons.prems live_drop_other [OF False] show ?thesis
      by (simp add: Let_def split_beta)
  qed
qed simp

lemma fails_clean_cmds:
  "fails_clean (cmd_get k)" "fails_clean (cmd_set k v ttl)" "fails_clean (cmd_setnx k v ttl)"
  "fails_clean (cmd_del keys)" "fails_clean (cmd_exists k)" "fails_clean (cmd_incr k)"
  "fails_clean (cmd_expire k d)" "fails_clean (cmd_ttl k)"
  by (auto simp: fails_clean_def cmd_get_def cmd_set_def cmd_setnx_def cmd_del_def cmd_exists_def cmd_incr_def
      cmd_expire_def cmd_ttl_def split: if_splits option.splits prod.splits)

text \<open>Time passes: keys may only disappear.\<close>

definition wait :: "duration \<Rightarrow> keyspace \<Rightarrow> keyspace" where
  "wait d s = s\<lparr>redis_time := redis_time s + d\<rparr>"

lemma live_wait:
  "0 \<le> d \<Longrightarrow> live (wait d s) k = Some x \<Longrightarrow> live s k = Some x"
  by (auto simp: live_def wait_def split: option.splits if_splits)

lemma live_wait_persistent: "live s k = Some (v, None) \<Longrightarrow> live (wait d s) k = Some (v, None)"
  by (auto simp: live_def wait_def split: option.splits if_splits)

section \<open>Commands while Redis answers\<close>

text \<open>\<open>key\<close> counts \<open>n\<close> calls, and ends at \<open>e\<close> if it ends.\<close>

definition counts :: "keyspace \<Rightarrow> string \<Rightarrow> int \<Rightarrow> time option \<Rightarrow> bool" where
  "counts s key n e \<longleftrightarrow>
     (if n = 0 then live s key = None else 0 < n \<and> live s key = Some (FormatInt n, e))"

lemma counts_wait_None: "counts s key n None \<Longrightarrow> 0 < n \<Longrightarrow> counts (wait d s) key n None"
  by (simp add: counts_def live_wait_persistent)

lemma counts_wait:
  "counts s key n (Some e) \<Longrightarrow> 0 < n \<Longrightarrow> redis_time s + d < e \<Longrightarrow> counts (wait d s) key n (Some e)"
  by (auto simp: counts_def live_def wait_def split: option.splits if_splits)

lemma counts_put_other: "k \<noteq> key \<Longrightarrow> counts (put k x s) key n e = counts s key n e"
  by (cases x) (simp add: counts_def)

context redis_api
begin

lemma incr_up:
  assumes "up w" and "counts (ks w) key n e" and "n < int64_max"
  shows "\<exists>w1. redis_Incr R key w = (Inr (n + 1), w1) \<and> up w1 \<and>
     ks w1 = put key (FormatInt (n + 1), if n = 0 then None else e) (ks w)"
proof -
  have "ParseInt (FormatInt n) = Some n" if "0 < n" using that assms(3) ParseInt_FormatInt [of n]
    by (simp add: int64_min_def)
  then have "cmd_incr key (ks w) = (Inr (n + 1), put key (FormatInt (n + 1), if n = 0 then None else e) (ks w))"
    using assms(2,3) by (auto simp: cmd_incr_def counts_def split: if_splits)
  with executes_healthy [OF redis_incr assms(1), of key] show ?thesis
    by (cases "redis_Incr R key w") auto
qed

lemma expire_up:
  assumes "up w"
  shows "\<exists>b w1. redis_Expire R key d w = (Inr b, w1) \<and> up w1 \<and> ks w1 = snd (cmd_expire key d (ks w))"
  using executes_healthy [OF redis_expire assms, of key d]
  by (cases "redis_Expire R key d w") (auto simp: cmd_expire_def split: option.splits)

lemma ttl_up:
  assumes "up w"
  shows "\<exists>t w1. redis_TTL R key w = (Inr t, w1) \<and> up w1 \<and> ks w1 = ks w \<and> Inr t = fst (cmd_ttl key (ks w))"
  using executes_healthy [OF redis_ttl assms, of key]
  by (cases "redis_TTL R key w") (auto simp: cmd_ttl_def split: option.splits)

lemma set_up:
  assumes "up w"
  shows "\<exists>w1. redis_Set R key v ttl w = (Inr (), w1) \<and> up w1 \<and> ks w1 = put key (v, expiry (ks w) ttl) (ks w)"
  using executes_healthy [OF redis_set assms, of key v ttl]
  by (cases "redis_Set R key v ttl w") (auto simp: cmd_set_def)

lemma del_up:
  assumes "up w"
  shows "\<exists>n w1. redis_Del R keys w = (Inr n, w1) \<and> up w1 \<and> ks w1 = snd (drop_keys keys (ks w))"
  using executes_healthy [OF redis_del assms, of keys]
  by (cases "redis_Del R keys w") (auto simp: cmd_del_def split_beta)

lemma get_up:
  assumes "up w"
  shows "\<exists>w1. redis_Get R key w = (Inr (value_at (ks w) key), w1) \<and> up w1 \<and> ks w1 = ks w"
  using executes_healthy [OF redis_get assms, of key]
  by (cases "redis_Get R key w") (auto simp: cmd_get_def)

end

end
