(* ===== verification/Config.thy ===== *)
theory Config
  imports GoStd
begin

text \<open>
  \<open>internal/config/config.go\<close>: one record per struct, the values of the \<open>default\<close> tags, and loading.
  The operating system, the YAML decoder and the library \<open>creasty/defaults\<close> are parameters.
\<close>

section \<open>The structs\<close>

record HTTPConfig =
  HTTP_Addr :: string
  HTTP_ReadTimeout :: duration
  HTTP_WriteTimeout :: duration
  HTTP_IdleTimeout :: duration
  HTTP_ShutdownTimeout :: duration

record MySQLConfig =
  MySQL_Host :: string
  MySQL_Port :: int
  MySQL_DBName :: string
  MySQL_User :: string
  MySQL_Password :: string
  MySQL_MaxOpenConns :: int
  MySQL_MaxIdleConns :: int
  MySQL_MaxLifetime :: duration

record RedisConfig =
  Redis_Addr :: string
  Redis_Password :: string
  Redis_DB :: int

record JWTBlacklistConfig =
  Blacklist_Enabled :: bool
  Blacklist_FailOpen :: bool

record JWTConfig =
  JWT_AccessTTL :: duration
  JWT_RefreshTTL :: duration
  JWT_Secret :: string
  JWT_Issuer :: string
  JWT_ClockSkew :: duration
  JWT_Blacklist :: JWTBlacklistConfig

record RateLimitConfig =
  RateLimit_Enabled :: bool
  RateLimit_WindowSeconds :: int
  RateLimit_UserPerMin :: int

record AuthLockoutConfig =
  Lockout_MaxAttempts :: int
  Lockout_LockTTL :: duration
  Lockout_KeyMaxLen :: int

record AuthConfig =
  Auth_BcryptCost :: int
  Auth_LoginPerMin :: int
  Auth_RefreshPerMin :: int
  Auth_Lockout :: AuthLockoutConfig

record CacheConfig =
  Cache_Enabled :: bool
  Cache_TaskCacheTTL :: duration
  Cache_StatsTTL :: duration

record IdempotencyConfig =
  Idem_Enabled :: bool
  Idem_LockTTL :: duration
  Idem_ResponseTTL :: duration

record MetricsConfig =
  MetricsCfg_Enabled :: bool
  MetricsCfg_Addr :: string

record EmailConfig =
  Email_BaseURL :: string
  Email_Timeout :: duration

record CircuitBreakerConfig =
  Circuit_MaxRequests :: int
  Circuit_Interval :: duration
  Circuit_Timeout :: duration
  Circuit_FailureThreshold :: int

record AdminConfig =
  Admin_UserIDs :: "int list"

record LogConfig =
  Log_LevelStr :: string

record Config =
  cfg_HTTP :: HTTPConfig
  cfg_MySQL :: MySQLConfig
  cfg_Redis :: RedisConfig
  cfg_JWT :: JWTConfig
  cfg_Auth :: AuthConfig
  cfg_Cache :: CacheConfig
  cfg_Idem :: IdempotencyConfig
  cfg_RateLimit :: RateLimitConfig
  cfg_Metrics :: MetricsConfig
  cfg_Email :: EmailConfig
  cfg_Circuit :: CircuitBreakerConfig
  cfg_Admin :: AdminConfig
  cfg_Log :: LogConfig

section \<open>Defaults\<close>

text \<open>
  What \<open>defaults.Set\<close> leaves in a field that has a \<open>default\<close> tag, by the type of the field: a function
  of the value of the tag and the value the field has. Its documentation says that a field is
  set when it has the initial value of its type.
\<close>

record defaultsLib =
  def_string :: "string \<Rightarrow> string \<Rightarrow> string"
  def_int :: "int \<Rightarrow> int \<Rightarrow> int"
  def_duration :: "duration \<Rightarrow> duration \<Rightarrow> duration"
  def_bool :: "bool \<Rightarrow> bool \<Rightarrow> bool"

definition sets_initial_only :: "defaultsLib \<Rightarrow> bool" where
  "sets_initial_only D \<longleftrightarrow>
     (\<forall>t x. def_string D t x = (if x = [] then t else x)) \<and> (\<forall>t x. def_int D t x = (if x = 0 then t else x)) \<and>
     (\<forall>t x. def_duration D t x = (if x = 0 then t else x)) \<and> (\<forall>t x. def_bool D t x = (if x then x else t))"

definition defaults_HTTPConfig :: "defaultsLib \<Rightarrow> HTTPConfig \<Rightarrow> HTTPConfig" where
  "defaults_HTTPConfig D c = c\<lparr>
      HTTP_Addr := def_string D '':8080'' (HTTP_Addr c),
      HTTP_ReadTimeout := def_duration D (10 * second) (HTTP_ReadTimeout c),
      HTTP_WriteTimeout := def_duration D (10 * second) (HTTP_WriteTimeout c),
      HTTP_IdleTimeout := def_duration D (60 * second) (HTTP_IdleTimeout c),
      HTTP_ShutdownTimeout := def_duration D (10 * second) (HTTP_ShutdownTimeout c)\<rparr>"

definition defaults_MySQLConfig :: "defaultsLib \<Rightarrow> MySQLConfig \<Rightarrow> MySQLConfig" where
  "defaults_MySQLConfig D c = c\<lparr>
      MySQL_Host := def_string D ''localhost'' (MySQL_Host c),
      MySQL_Port := def_int D 3306 (MySQL_Port c),
      MySQL_DBName := def_string D ''mkk_luna'' (MySQL_DBName c),
      MySQL_User := def_string D ''root'' (MySQL_User c),
      MySQL_Password := def_string D ''root'' (MySQL_Password c),
      MySQL_MaxOpenConns := def_int D 10 (MySQL_MaxOpenConns c),
      MySQL_MaxIdleConns := def_int D 5 (MySQL_MaxIdleConns c),
      MySQL_MaxLifetime := def_duration D (60 * minute) (MySQL_MaxLifetime c)\<rparr>"

definition defaults_RedisConfig :: "defaultsLib \<Rightarrow> RedisConfig \<Rightarrow> RedisConfig" where
  "defaults_RedisConfig D c = c\<lparr>
      Redis_Addr := def_string D ''localhost:6379'' (Redis_Addr c),
      Redis_Password := def_string D [] (Redis_Password c),
      Redis_DB := def_int D 0 (Redis_DB c)\<rparr>"

definition defaults_JWTBlacklistConfig :: "defaultsLib \<Rightarrow> JWTBlacklistConfig \<Rightarrow> JWTBlacklistConfig" where
  "defaults_JWTBlacklistConfig D c = c\<lparr>
      Blacklist_Enabled := def_bool D True (Blacklist_Enabled c),
      Blacklist_FailOpen := def_bool D True (Blacklist_FailOpen c)\<rparr>"

definition defaults_JWTConfig :: "defaultsLib \<Rightarrow> JWTConfig \<Rightarrow> JWTConfig" where
  "defaults_JWTConfig D c = c\<lparr>
      JWT_AccessTTL := def_duration D (15 * minute) (JWT_AccessTTL c),
      JWT_RefreshTTL := def_duration D (720 * 60 * minute) (JWT_RefreshTTL c),
      JWT_Secret := def_string D ''change-me-please-change-me-please-32'' (JWT_Secret c),
      JWT_Issuer := def_string D ''task-service'' (JWT_Issuer c),
      JWT_ClockSkew := def_duration D (60 * second) (JWT_ClockSkew c),
      JWT_Blacklist := defaults_JWTBlacklistConfig D (JWT_Blacklist c)\<rparr>"

definition defaults_RateLimitConfig :: "defaultsLib \<Rightarrow> RateLimitConfig \<Rightarrow> RateLimitConfig" where
  "defaults_RateLimitConfig D c = c\<lparr>
      RateLimit_Enabled := def_bool D True (RateLimit_Enabled c),
      RateLimit_WindowSeconds := def_int D 60 (RateLimit_WindowSeconds c),
      RateLimit_UserPerMin := def_int D 100 (RateLimit_UserPerMin c)\<rparr>"

definition defaults_AuthLockoutConfig :: "defaultsLib \<Rightarrow> AuthLockoutConfig \<Rightarrow> AuthLockoutConfig" where
  "defaults_AuthLockoutConfig D c = c\<lparr>
      Lockout_MaxAttempts := def_int D 10 (Lockout_MaxAttempts c),
      Lockout_LockTTL := def_duration D (10 * minute) (Lockout_LockTTL c),
      Lockout_KeyMaxLen := def_int D 128 (Lockout_KeyMaxLen c)\<rparr>"

definition defaults_AuthConfig :: "defaultsLib \<Rightarrow> AuthConfig \<Rightarrow> AuthConfig" where
  "defaults_AuthConfig D c = c\<lparr>
      Auth_BcryptCost := def_int D 12 (Auth_BcryptCost c),
      Auth_LoginPerMin := def_int D 5 (Auth_LoginPerMin c),
      Auth_RefreshPerMin := def_int D 20 (Auth_RefreshPerMin c),
      Auth_Lockout := defaults_AuthLockoutConfig D (Auth_Lockout c)\<rparr>"

definition defaults_CacheConfig :: "defaultsLib \<Rightarrow> CacheConfig \<Rightarrow> CacheConfig" where
  "defaults_CacheConfig D c = c\<lparr>
      Cache_Enabled := def_bool D True (Cache_Enabled c),
      Cache_TaskCacheTTL := def_duration D (5 * minute) (Cache_TaskCacheTTL c),
      Cache_StatsTTL := def_duration D (30 * second) (Cache_StatsTTL c)\<rparr>"

definition defaults_IdempotencyConfig :: "defaultsLib \<Rightarrow> IdempotencyConfig \<Rightarrow> IdempotencyConfig" where
  "defaults_IdempotencyConfig D c = c\<lparr>
      Idem_Enabled := def_bool D True (Idem_Enabled c),
      Idem_LockTTL := def_duration D (30 * second) (Idem_LockTTL c),
      Idem_ResponseTTL := def_duration D (10 * minute) (Idem_ResponseTTL c)\<rparr>"

definition defaults_MetricsConfig :: "defaultsLib \<Rightarrow> MetricsConfig \<Rightarrow> MetricsConfig" where
  "defaults_MetricsConfig D c = c\<lparr>
      MetricsCfg_Enabled := def_bool D True (MetricsCfg_Enabled c),
      MetricsCfg_Addr := def_string D '':9090'' (MetricsCfg_Addr c)\<rparr>"

definition defaults_EmailConfig :: "defaultsLib \<Rightarrow> EmailConfig \<Rightarrow> EmailConfig" where
  "defaults_EmailConfig D c = c\<lparr>
      Email_BaseURL := def_string D ''http://email-mock:8081'' (Email_BaseURL c),
      Email_Timeout := def_duration D (2 * second) (Email_Timeout c)\<rparr>"

definition defaults_CircuitBreakerConfig :: "defaultsLib \<Rightarrow> CircuitBreakerConfig \<Rightarrow> CircuitBreakerConfig" where
  "defaults_CircuitBreakerConfig D c = c\<lparr>
      Circuit_MaxRequests := def_int D 3 (Circuit_MaxRequests c),
      Circuit_Interval := def_duration D (60 * second) (Circuit_Interval c),
      Circuit_Timeout := def_duration D (30 * second) (Circuit_Timeout c),
      Circuit_FailureThreshold := def_int D 5 (Circuit_FailureThreshold c)\<rparr>"

definition defaults_LogConfig :: "defaultsLib \<Rightarrow> LogConfig \<Rightarrow> LogConfig" where
  "defaults_LogConfig D c = c\<lparr>
      Log_LevelStr := def_string D ''info'' (Log_LevelStr c)\<rparr>"

definition defaults_Set :: "defaultsLib \<Rightarrow> Config \<Rightarrow> Config" where
  "defaults_Set D c = c\<lparr>
      cfg_HTTP := defaults_HTTPConfig D (cfg_HTTP c),
      cfg_MySQL := defaults_MySQLConfig D (cfg_MySQL c),
      cfg_Redis := defaults_RedisConfig D (cfg_Redis c),
      cfg_JWT := defaults_JWTConfig D (cfg_JWT c),
      cfg_Auth := defaults_AuthConfig D (cfg_Auth c),
      cfg_Cache := defaults_CacheConfig D (cfg_Cache c),
      cfg_Idem := defaults_IdempotencyConfig D (cfg_Idem c),
      cfg_RateLimit := defaults_RateLimitConfig D (cfg_RateLimit c),
      cfg_Metrics := defaults_MetricsConfig D (cfg_Metrics c),
      cfg_Email := defaults_EmailConfig D (cfg_Email c),
      cfg_Circuit := defaults_CircuitBreakerConfig D (cfg_Circuit c),
      cfg_Log := defaults_LogConfig D (cfg_Log c)\<rparr>"

text \<open>The zero value that the YAML decoder starts from, and what it becomes.\<close>

definition zero_config :: Config where
  "zero_config = \<lparr>
     cfg_HTTP = \<lparr>HTTP_Addr = [], HTTP_ReadTimeout = 0, HTTP_WriteTimeout = 0, HTTP_IdleTimeout = 0, HTTP_ShutdownTimeout = 0\<rparr>,
     cfg_MySQL = \<lparr>MySQL_Host = [], MySQL_Port = 0, MySQL_DBName = [], MySQL_User = [], MySQL_Password = [], MySQL_MaxOpenConns = 0, MySQL_MaxIdleConns = 0, MySQL_MaxLifetime = 0\<rparr>,
     cfg_Redis = \<lparr>Redis_Addr = [], Redis_Password = [], Redis_DB = 0\<rparr>,
     cfg_JWT = \<lparr>JWT_AccessTTL = 0, JWT_RefreshTTL = 0, JWT_Secret = [], JWT_Issuer = [], JWT_ClockSkew = 0, JWT_Blacklist = \<lparr>Blacklist_Enabled = False, Blacklist_FailOpen = False\<rparr>\<rparr>,
     cfg_Auth = \<lparr>Auth_BcryptCost = 0, Auth_LoginPerMin = 0, Auth_RefreshPerMin = 0, Auth_Lockout = \<lparr>Lockout_MaxAttempts = 0, Lockout_LockTTL = 0, Lockout_KeyMaxLen = 0\<rparr>\<rparr>,
     cfg_Cache = \<lparr>Cache_Enabled = False, Cache_TaskCacheTTL = 0, Cache_StatsTTL = 0\<rparr>,
     cfg_Idem = \<lparr>Idem_Enabled = False, Idem_LockTTL = 0, Idem_ResponseTTL = 0\<rparr>,
     cfg_RateLimit = \<lparr>RateLimit_Enabled = False, RateLimit_WindowSeconds = 0, RateLimit_UserPerMin = 0\<rparr>,
     cfg_Metrics = \<lparr>MetricsCfg_Enabled = False, MetricsCfg_Addr = []\<rparr>,
     cfg_Email = \<lparr>Email_BaseURL = [], Email_Timeout = 0\<rparr>,
     cfg_Circuit = \<lparr>Circuit_MaxRequests = 0, Circuit_Interval = 0, Circuit_Timeout = 0, Circuit_FailureThreshold = 0\<rparr>,
     cfg_Admin = \<lparr>Admin_UserIDs = []\<rparr>,
     cfg_Log = \<lparr>Log_LevelStr = []\<rparr>\<rparr>"

definition default_config :: Config where
  "default_config = \<lparr>
     cfg_HTTP = \<lparr>HTTP_Addr = '':8080'', HTTP_ReadTimeout = 10 * second, HTTP_WriteTimeout = 10 * second, HTTP_IdleTimeout = 60 * second, HTTP_ShutdownTimeout = 10 * second\<rparr>,
     cfg_MySQL = \<lparr>MySQL_Host = ''localhost'', MySQL_Port = 3306, MySQL_DBName = ''mkk_luna'', MySQL_User = ''root'', MySQL_Password = ''root'', MySQL_MaxOpenConns = 10, MySQL_MaxIdleConns = 5, MySQL_MaxLifetime = 60 * minute\<rparr>,
     cfg_Redis = \<lparr>Redis_Addr = ''localhost:6379'', Redis_Password = [], Redis_DB = 0\<rparr>,
     cfg_JWT = \<lparr>JWT_AccessTTL = 15 * minute, JWT_RefreshTTL = 720 * 60 * minute, JWT_Secret = ''change-me-please-change-me-please-32'', JWT_Issuer = ''task-service'', JWT_ClockSkew = 60 * second, JWT_Blacklist = \<lparr>Blacklist_Enabled = True, Blacklist_FailOpen = True\<rparr>\<rparr>,
     cfg_Auth = \<lparr>Auth_BcryptCost = 12, Auth_LoginPerMin = 5, Auth_RefreshPerMin = 20, Auth_Lockout = \<lparr>Lockout_MaxAttempts = 10, Lockout_LockTTL = 10 * minute, Lockout_KeyMaxLen = 128\<rparr>\<rparr>,
     cfg_Cache = \<lparr>Cache_Enabled = True, Cache_TaskCacheTTL = 5 * minute, Cache_StatsTTL = 30 * second\<rparr>,
     cfg_Idem = \<lparr>Idem_Enabled = True, Idem_LockTTL = 30 * second, Idem_ResponseTTL = 10 * minute\<rparr>,
     cfg_RateLimit = \<lparr>RateLimit_Enabled = True, RateLimit_WindowSeconds = 60, RateLimit_UserPerMin = 100\<rparr>,
     cfg_Metrics = \<lparr>MetricsCfg_Enabled = True, MetricsCfg_Addr = '':9090''\<rparr>,
     cfg_Email = \<lparr>Email_BaseURL = ''http://email-mock:8081'', Email_Timeout = 2 * second\<rparr>,
     cfg_Circuit = \<lparr>Circuit_MaxRequests = 3, Circuit_Interval = 60 * second, Circuit_Timeout = 30 * second, Circuit_FailureThreshold = 5\<rparr>,
     cfg_Admin = \<lparr>Admin_UserIDs = []\<rparr>,
     cfg_Log = \<lparr>Log_LevelStr = ''info''\<rparr>\<rparr>"

section \<open>Loading\<close>

text \<open>\<open>os.Getenv\<close>, \<open>os.ReadFile\<close>, \<open>yaml.Unmarshal\<close> into a struct, and \<open>defaults.Set\<close>.\<close>

record configLibs =
  os_Getenv :: "string \<Rightarrow> string"
  os_ReadFile :: "string \<Rightarrow> string result"
  yaml_Unmarshal :: "string \<Rightarrow> Config \<Rightarrow> Config result"
  cfg_defaults :: defaultsLib

definition Load :: "configLibs \<Rightarrow> string \<Rightarrow> Config result" where
  "Load E path =
     (case os_ReadFile E path of
        Inl e \<Rightarrow> Inl e
      | Inr bs \<Rightarrow>
          (case yaml_Unmarshal E bs zero_config of
             Inl e \<Rightarrow> Inl e
           | Inr cfg \<Rightarrow> Inr (defaults_Set (cfg_defaults E) cfg)))"

definition LoadFromEnv :: "configLibs \<Rightarrow> Config result" where
  "LoadFromEnv E =
     (let path = os_Getenv E ''CONFIG_PATH''
      in Load E (if path = [] then ''config/local.yaml'' else path))"

definition config_New :: "configLibs \<Rightarrow> Config result" where
  "config_New E = LoadFromEnv E"

lemmas config_defaults_defs = defaults_Set_def defaults_HTTPConfig_def defaults_MySQLConfig_def defaults_RedisConfig_def defaults_JWTBlacklistConfig_def defaults_JWTConfig_def defaults_RateLimitConfig_def defaults_AuthLockoutConfig_def defaults_AuthConfig_def defaults_CacheConfig_def defaults_IdempotencyConfig_def defaults_MetricsConfig_def defaults_EmailConfig_def defaults_CircuitBreakerConfig_def defaults_LogConfig_def

lemma sets_initial_onlyD:
  assumes "sets_initial_only D"
  shows "def_string D t1 x1 = (if x1 = [] then t1 else x1)" "def_int D t2 x2 = (if x2 = 0 then t2 else x2)"
    "def_duration D t3 x3 = (if x3 = 0 then t3 else x3)" "def_bool D t4 x4 = (if x4 then x4 else t4)"
  using assms by (simp_all add: sets_initial_only_def)

text \<open>An empty file gives the documented defaults.\<close>

lemma zero_config_defaults: "sets_initial_only D \<Longrightarrow> defaults_Set D zero_config = default_config"
  by (simp add: config_defaults_defs zero_config_def default_config_def sets_initial_onlyD)

section \<open>Switches\<close>

definition any_switch_off :: "Config \<Rightarrow> bool" where
  "any_switch_off c \<longleftrightarrow> \<not> Blacklist_Enabled (JWT_Blacklist (cfg_JWT c)) \<or> \<not> Blacklist_FailOpen (JWT_Blacklist (cfg_JWT c)) \<or>
     \<not> RateLimit_Enabled (cfg_RateLimit c) \<or> \<not> Cache_Enabled (cfg_Cache c) \<or> \<not> Idem_Enabled (cfg_Idem c) \<or>
     \<not> MetricsCfg_Enabled (cfg_Metrics c)"

lemma loaded_switches:
  assumes "sets_initial_only (cfg_defaults E)" and "Load E path = Inr cfg"
  shows "\<not> any_switch_off cfg"
proof -
  obtain c where "cfg = defaults_Set (cfg_defaults E) c"
    using assms(2) by (auto simp: Load_def split: sum.splits)
  then show ?thesis
    by (simp add: any_switch_off_def config_defaults_defs sets_initial_onlyD [OF assms(1)])
qed

text \<open>C38. A switch cannot be turned off: \<open>false\<close> is the initial value of a field, so \<open>defaults.Set\<close>, which runs
  after the file was read, replaces every explicit \<open>false\<close> by the tag's \<open>true\<close>: whatever the file
  says, the blacklist fails open, and blacklist, rate limits, cache, idempotency and metrics are on.\<close>

theorem switches_stay_on:
  assumes "sets_initial_only (cfg_defaults E)" and "Load E path = Inr cfg"
  shows "\<not> any_switch_off cfg"
  using loaded_switches [OF assms] .

text \<open>A file that turns the fail-open policy off.\<close>

definition sample_defaults :: defaultsLib where
  "sample_defaults = \<lparr>def_string = (\<lambda>t x. if x = [] then t else x), def_int = (\<lambda>t x. if x = 0 then t else x),
     def_duration = (\<lambda>t x. if x = 0 then t else x), def_bool = (\<lambda>t x. if x then x else t)\<rparr>"

definition fail_closed :: Config where
  "fail_closed = default_config\<lparr>cfg_JWT := (cfg_JWT default_config)\<lparr>
     JWT_Blacklist := \<lparr>Blacklist_Enabled = True, Blacklist_FailOpen = False\<rparr>\<rparr>\<rparr>"

definition sample_os :: configLibs where
  "sample_os = \<lparr>os_Getenv = (\<lambda>_. []), os_ReadFile = (\<lambda>_. Inr ''jwt: {blacklist: {fail_open: false}}''),
     yaml_Unmarshal = (\<lambda>_ _. Inr fail_closed), cfg_defaults = sample_defaults\<rparr>"

lemma sample_defaults_ok: "sets_initial_only sample_defaults"
  by (simp add: sets_initial_only_def sample_defaults_def)

theorem switches_stay_on_witness:
  "any_switch_off fail_closed \<and> (\<exists>cfg. Load sample_os ''c.yaml'' = Inr cfg \<and> \<not> any_switch_off cfg)"
proof -
  have "Load sample_os ''c.yaml'' = Inr (defaults_Set sample_defaults fail_closed)"
    by (simp add: Load_def sample_os_def)
  moreover have "sets_initial_only (cfg_defaults sample_os)" by (simp add: sample_os_def sample_defaults_ok)
  ultimately have "\<not> any_switch_off (defaults_Set sample_defaults fail_closed)"
    by (rule switches_stay_on [rotated])
  moreover have "any_switch_off fail_closed" by (simp add: any_switch_off_def fail_closed_def default_config_def)
  ultimately show ?thesis using \<open>Load sample_os ''c.yaml'' = _\<close> by blast
qed

end
