(* ===== verification/Metrics.thy ===== *)
theory Metrics
  imports Prelude
begin

text \<open>
  \<open>internal/infra/metrics\<close>: the collectors are Prometheus objects; what the program does
  with them is to add one to a counter, named by its field and label values, to set a
  gauge or to move it, and to observe a duration. A component holds \<open>None\<close> where the Go pointer
  is \<open>nil\<close>.
\<close>

record 'w Metrics =
  metrics_Inc :: "string \<Rightarrow> string list \<Rightarrow> 'w \<Rightarrow> 'w"
  metrics_Set :: "string \<Rightarrow> int \<Rightarrow> 'w \<Rightarrow> 'w"
  metrics_Add :: "string \<Rightarrow> int \<Rightarrow> 'w \<Rightarrow> 'w"
  metrics_Observe :: "string \<Rightarrow> string list \<Rightarrow> int \<Rightarrow> 'w \<Rightarrow> 'w"

definition inc :: "'w Metrics option \<Rightarrow> string \<Rightarrow> string list \<Rightarrow> 'w \<Rightarrow> 'w" where
  "inc m counter labels w = (case m of None \<Rightarrow> w | Some M \<Rightarrow> metrics_Inc M counter labels w)"

definition IncAuthEvent :: "'w Metrics option \<Rightarrow> string \<Rightarrow> 'w \<Rightarrow> 'w" where
  "IncAuthEvent m event = inc m ''AuthEvents'' [event]"

definition IncAuthEventReason :: "'w Metrics option \<Rightarrow> string \<Rightarrow> string \<Rightarrow> 'w \<Rightarrow> 'w" where
  "IncAuthEventReason m event reason = inc m ''AuthEventReasons'' [event, reason]"

definition IncJWTBlacklistRedisError :: "'w Metrics option \<Rightarrow> 'w \<Rightarrow> 'w" where
  "IncJWTBlacklistRedisError m = inc m ''JWTBlacklistRedisErrors'' []"

definition IncLockReleaseError :: "'w Metrics option \<Rightarrow> 'w \<Rightarrow> 'w" where
  "IncLockReleaseError m = inc m ''LockReleaseErrors'' []"

text \<open>Counting leaves a part of the state alone.\<close>

definition uncounted :: "('w \<Rightarrow> 'a) \<Rightarrow> 'w Metrics option \<Rightarrow> bool" where
  "uncounted v m \<longleftrightarrow> (\<forall>c ls n w. v (inc m c ls w) = v w \<and>
     (case m of None \<Rightarrow> True | Some M \<Rightarrow> v (metrics_Set M c n w) = v w \<and> v (metrics_Add M c n w) = v w \<and>
        v (metrics_Observe M c ls n w) = v w))"

lemma uncountedD [simp]: "uncounted v m \<Longrightarrow> v (inc m c ls w) = v w"
  by (simp add: uncounted_def)

lemma uncounted_Some:
  assumes "uncounted v (Some M)"
  shows "v (metrics_Inc M c ls w) = v w" "v (metrics_Set M c n w) = v w" "v (metrics_Add M c n w) = v w"
    "v (metrics_Observe M c ls n w) = v w"
  using assms by (auto simp: uncounted_def inc_def)

lemma uncounted_events [simp]:
  assumes "uncounted v m"
  shows "v (IncAuthEvent m e w) = v w" "v (IncAuthEventReason m e r w) = v w"
    "v (IncJWTBlacklistRedisError m w) = v w" "v (IncLockReleaseError m w) = v w"
  using assms by (simp_all add: IncAuthEvent_def IncAuthEventReason_def
      IncJWTBlacklistRedisError_def IncLockReleaseError_def)

section \<open>The collectors\<close>

datatype collector_kind = Counter | Gauge | Histogram

record collector =
  coll_Field :: string
  coll_Kind :: collector_kind
  coll_Name :: string
  coll_Labels :: "string list"

text \<open>The collectors that \<open>metrics.New\<close> creates and registers, in the order of the registration.\<close>

definition metrics_New :: "collector list" where
  "metrics_New = map (\<lambda>(f, k, n, ls). \<lparr>coll_Field = f, coll_Kind = k, coll_Name = n, coll_Labels = ls\<rparr>)
     [(''HTTPRequests'', Counter, ''http_requests_total'', [''method'', ''path'', ''code'']),
      (''HTTPDuration'', Histogram, ''http_request_duration_seconds'', [''method'', ''path'']),
      (''HTTPInFlight'', Gauge, ''http_in_flight_requests'', []),
      (''HTTPErrors'', Counter, ''http_errors_total'', [''method'', ''path'', ''code'']),
      (''RedisDegraded'', Counter, ''redis_degraded_total'', [''component'']),
      (''AuthEvents'', Counter, ''auth_events_total'', [''event'']),
      (''AuthEventReasons'', Counter, ''auth_event_reasons_total'', [''event'', ''reason'']),
      (''EmailSendErrors'', Counter, ''email_send_errors_total'', []),
      (''EmailCircuitOpen'', Counter, ''email_circuit_open_total'', []),
      (''EmailCircuitState'', Gauge, ''email_circuit_state'', []),
      (''IdempotencyBypass'', Counter, ''idempotency_bypass_total'', [''reason'']),
      (''IdempotencyHits'', Counter, ''idempotency_hits_total'', []),
      (''IdempotencyConflict'', Counter, ''idempotency_conflicts_total'', []),
      (''JWTBlacklistRedisErrors'', Counter, ''jwt_blacklist_redis_errors_total'', []),
      (''LoginLockouts'', Counter, ''login_lockouts_total'', []),
      (''LockReleaseErrors'', Counter, ''lock_release_errors_total'', [])]"

text \<open>\<open>MustRegister\<close> panics on a name that is taken.\<close>

lemma metrics_New_distinct: "distinct (map coll_Name metrics_New)" "distinct (map coll_Field metrics_New)"
  by (simp_all add: metrics_New_def)

end
