(* ===== verification/EmailSender.thy ===== *)
theory EmailSender
  imports Config Metrics
begin

text \<open>
  \<open>internal/infra/email\<close>: the sender that posts an invitation over HTTP, and the one that
  puts a circuit breaker in front of it. The breaker and the HTTP client are other packages;
  they are records of the operations the code calls.
\<close>

section \<open>Over HTTP\<close>

text \<open>\<open>http_Do method url headers body\<close>: the status code of the response, or the client's error.\<close>

record 'w httpClient =
  http_Do :: "string \<Rightarrow> string \<Rightarrow> (string \<times> string) list \<Rightarrow> json \<Rightarrow> ('w, int) comp"

record 'w HTTPSender =
  sender_baseURL :: string
  sender_client :: "'w httpClient"

text \<open>\<open>http.Client\<close> with a timeout is the library's.\<close>

definition NewHTTPSender :: "(duration \<Rightarrow> 'w httpClient) \<Rightarrow> EmailConfig \<Rightarrow> 'w HTTPSender" where
  "NewHTTPSender client cfg = \<lparr>sender_baseURL = Email_BaseURL cfg, sender_client = client (Email_Timeout cfg)\<rparr>"

definition invitePayload :: "string \<Rightarrow> string \<Rightarrow> json" where
  "invitePayload email teamName = JObj [(''email'', JStr email), (''team_name'', JStr teamName)]"

definition HTTPSender_SendInvite :: "'w HTTPSender \<Rightarrow> string \<Rightarrow> string \<Rightarrow> ('w, unit) comp" where
  "HTTPSender_SendInvite s toEmail teamName =
     (if sender_baseURL s = [] then raiseE (OtherError ''email base url is empty'')
      else bindE (http_Do (sender_client s) ''POST'' (sender_baseURL s @ ''/send'')
               [(''Content-Type'', ''application/json'')] (invitePayload toEmail teamName)) (\<lambda>status.
           if status < 200 \<or> status \<ge> 300 then raiseE (OtherError ''email service error'') else returnE ()))"

section \<open>Behind a circuit breaker\<close>

datatype cbState = StateClosed | StateHalfOpen | StateOpen

abbreviation ErrOpenState :: err where "ErrOpenState \<equiv> OtherError ''circuit breaker is open''"
abbreviation ErrTooManyRequests :: err where "ErrTooManyRequests \<equiv> OtherError ''too many requests''"

record 'w CircuitBreaker =
  cb_Execute :: "('w, unit) comp \<Rightarrow> ('w, unit) comp"
  cb_State :: "'w \<Rightarrow> cbState"

record 'w BreakerSender =
  breaker_next :: "(string \<Rightarrow> string \<Rightarrow> ('w, unit) comp) option"
  breaker_cb :: "'w CircuitBreaker"
  breaker_metrics :: "'w Metrics option"

text \<open>The settings of the breaker; \<open>ReadyToTrip\<close> sees the number of consecutive failures.\<close>

record breakerSettings =
  bs_Name :: string
  bs_MaxRequests :: int
  bs_Interval :: duration
  bs_Timeout :: duration
  bs_ReadyToTrip :: "int \<Rightarrow> bool"

definition NewBreakerSender ::
    "(breakerSettings \<Rightarrow> 'w CircuitBreaker) \<Rightarrow> (string \<Rightarrow> string \<Rightarrow> ('w, unit) comp) option \<Rightarrow> CircuitBreakerConfig
     \<Rightarrow> 'w Metrics option \<Rightarrow> 'w BreakerSender" where
  "NewBreakerSender newBreaker nxt cfg metrics =
     \<lparr>breaker_next = nxt,
      breaker_cb = newBreaker \<lparr>bs_Name = ''email'', bs_MaxRequests = Circuit_MaxRequests cfg,
        bs_Interval = Circuit_Interval cfg, bs_Timeout = Circuit_Timeout cfg,
        bs_ReadyToTrip = (\<lambda>failures. failures \<ge> Circuit_FailureThreshold cfg)\<rparr>,
      breaker_metrics = metrics\<rparr>"

definition observeState :: "'w BreakerSender \<Rightarrow> 'w \<Rightarrow> 'w" where
  "observeState s w =
     (case breaker_metrics s of
        None \<Rightarrow> w
      | Some m \<Rightarrow>
          (case cb_State (breaker_cb s) w of
             StateClosed \<Rightarrow> metrics_Set m ''EmailCircuitState'' 0 w
           | StateHalfOpen \<Rightarrow> metrics_Set m ''EmailCircuitState'' 1 w
           | StateOpen \<Rightarrow> metrics_Set m ''EmailCircuitState'' 2 w))"

definition BreakerSender_SendInvite :: "'w BreakerSender \<Rightarrow> string \<Rightarrow> string \<Rightarrow> ('w, unit) comp" where
  "BreakerSender_SendInvite s toEmail teamName w =
     (case breaker_next s of
        None \<Rightarrow> (Inl (OtherError ''email sender is nil''), w)
      | Some nxt \<Rightarrow>
          (case cb_Execute (breaker_cb s) (nxt toEmail teamName) w of (r, w1) \<Rightarrow>
             let w2 = observeState s w1 in
             (case r of
                Inl e \<Rightarrow>
                  (Inl e,
                   (if e = ErrOpenState \<or> e = ErrTooManyRequests
                    then inc (breaker_metrics s) ''EmailCircuitOpen'' []
                    else (\<lambda>w. w)) (inc (breaker_metrics s) ''EmailSendErrors'' [] w2))
              | Inr _ \<Rightarrow> (Inr (), w2))))"

end
