(* ===== verification/World.thy ===== *)
theory World
  imports Repositories Redis EmailSender
begin

text \<open>
  The state of everything the program talks to, as one record: the database server with its
  schedule of faults, the Redis keyspace with its own, the source of random tokens, the
  counters and the process clock. The Redis client, the UUID generator and the metrics of
  the running program are operations on it. The clock moves between operations, not inside
  one; the random tokens are an arbitrary sequence, so a theorem about all states covers
  every outcome of the generator.
\<close>

record world = dbw +
  redis :: keyspace
  redis_faults :: "err option list"
  uuid_src :: "nat \<Rightarrow> string"
  uuid_next :: nat
  counters :: "string \<Rightarrow> string list \<Rightarrow> nat"
  gauges :: "string \<Rightarrow> int"
  observed :: "string \<Rightarrow> string list \<Rightarrow> int list"
  now :: time
  mail_replies :: "int result list"
  breaker_rejects :: "err option list"
  breaker_state :: cbState

definition redis_up :: "'x world_scheme \<Rightarrow> bool" where
  "redis_up w \<longleftrightarrow> list_all (\<lambda>f. f = None) (redis_faults w)"

definition run_redis :: "(keyspace, 'a) comp \<Rightarrow> ('x world_scheme, 'a) comp" where
  "run_redis p w =
     (case redis_faults w of
        Some e # fs \<Rightarrow> (Inl e, w\<lparr>redis_faults := fs\<rparr>)
      | fs \<Rightarrow> (fst (p (redis w)), w\<lparr>redis := snd (p (redis w)), redis_faults := tl fs\<rparr>))"

lemma executes_run_redis: "executes redis redis_up (run_redis p) p"
  by (auto simp: executes_def run_redis_def redis_up_def split: list.splits option.splits)

definition redis_client :: "'x world_scheme redisClient" where
  "redis_client = \<lparr>
     redis_Get = (\<lambda>k. run_redis (cmd_get k)),
     redis_Set = (\<lambda>k v ttl. run_redis (cmd_set k v ttl)),
     redis_SetNX = (\<lambda>k v ttl. run_redis (cmd_setnx k v ttl)),
     redis_Del = (\<lambda>keys. run_redis (cmd_del keys)),
     redis_Exists = (\<lambda>k. run_redis (cmd_exists k)),
     redis_Incr = (\<lambda>k. run_redis (cmd_incr k)),
     redis_Expire = (\<lambda>k d. run_redis (cmd_expire k d)),
     redis_TTL = (\<lambda>k. run_redis (cmd_ttl k)),
     redis_Run = run_redis\<rparr>"

interpretation redis_world: redis_api redis redis_up redis_client
  by unfold_locales (simp_all add: redis_client_def executes_run_redis)

definition NewString :: "'x world_scheme \<Rightarrow> string \<times> 'x world_scheme" where
  "NewString w = (uuid_src w (uuid_next w), w\<lparr>uuid_next := Suc (uuid_next w)\<rparr>)"

definition app_metrics :: "'x world_scheme Metrics" where
  "app_metrics = \<lparr>
     metrics_Inc = (\<lambda>c ls w. w\<lparr>counters := (counters w)(c := (counters w c)(ls := Suc (counters w c ls)))\<rparr>),
     metrics_Set = (\<lambda>g n w. w\<lparr>gauges := (gauges w)(g := n)\<rparr>),
     metrics_Add = (\<lambda>g n w. w\<lparr>gauges := (gauges w)(g := gauges w g + n)\<rparr>),
     metrics_Observe = (\<lambda>c ls n w. w\<lparr>observed := (observed w)(c := (observed w c)(ls := n # observed w c ls))\<rparr>)\<rparr>"

lemma app_metrics_quiet [simp]:
  "uncounted srv (Some app_metrics)" "uncounted faults (Some app_metrics)" "uncounted redis (Some app_metrics)"
  "uncounted redis_faults (Some app_metrics)" "uncounted redis_up (Some app_metrics)"
  "uncounted now (Some app_metrics)" "uncounted no_faults (Some app_metrics)"
  "uncounted uuid_src (Some app_metrics)" "uncounted uuid_next (Some app_metrics)"
  "uncounted mail_replies (Some app_metrics)"
  by (simp_all add: uncounted_def inc_def app_metrics_def redis_up_def no_faults_def)

lemma run_redis_frame [simp]:
  "srv (snd (run_redis p w)) = srv w" "faults (snd (run_redis p w)) = faults w"
  "uuid_src (snd (run_redis p w)) = uuid_src w" "uuid_next (snd (run_redis p w)) = uuid_next w"
  "now (snd (run_redis p w)) = now w" "mail_replies (snd (run_redis p w)) = mail_replies w"
  by (simp_all add: run_redis_def split: list.splits option.splits)

lemma NewString_frame [simp]:
  "srv (snd (NewString w)) = srv w" "faults (snd (NewString w)) = faults w"
  "redis (snd (NewString w)) = redis w" "redis_faults (snd (NewString w)) = redis_faults w"
  "redis_up (snd (NewString w)) = redis_up w" "no_faults (snd (NewString w)) = no_faults w"
  "now (snd (NewString w)) = now w" "uuid_src (snd (NewString w)) = uuid_src w"
  by (simp_all add: NewString_def redis_up_def no_faults_def)

lemma run_stmt_frame [simp]:
  "redis (snd (run_stmt f w)) = redis w" "redis_faults (snd (run_stmt f w)) = redis_faults w"
  "redis_up (snd (run_stmt f w)) = redis_up w" "uuid_src (snd (run_stmt f w)) = uuid_src w"
  "uuid_next (snd (run_stmt f w)) = uuid_next w" "mail_replies (snd (run_stmt f w)) = mail_replies w"
  by (simp_all add: run_stmt_def redis_up_def split: list.splits option.splits)

text \<open>
  The mail service answers from a script, and the circuit breaker rejects calls by another,
  so every behaviour of the two is a state; a missing answer is a failed request.
\<close>

definition world_http :: "'x world_scheme httpClient" where
  "world_http = \<lparr>http_Do = (\<lambda>_ _ _ _ w. case mail_replies w of
       [] \<Rightarrow> (Inl (OtherError ''no route''), w)
     | r # rs \<Rightarrow> (r, w\<lparr>mail_replies := rs\<rparr>))\<rparr>"

definition world_breaker :: "'x world_scheme CircuitBreaker" where
  "world_breaker = \<lparr>
     cb_Execute = (\<lambda>m w. case breaker_rejects w of
         Some e # xs \<Rightarrow> (Inl e, w\<lparr>breaker_rejects := xs\<rparr>)
       | xs \<Rightarrow> m (w\<lparr>breaker_rejects := tl xs\<rparr>)),
     cb_State = breaker_state\<rparr>"

text \<open>Between two operations the clocks advance.\<close>

definition pass :: "duration \<Rightarrow> 'x world_scheme \<Rightarrow> 'x world_scheme" where
  "pass d w = w\<lparr>now := now w + d, redis := wait d (redis w), srv := (srv w)\<lparr>clock := clock (srv w) + d\<rparr>\<rparr>"

lemma redis_up_pass [simp]: "redis_up (pass d w) = redis_up w"
  by (simp add: redis_up_def pass_def)

lemma redis_pass [simp]: "redis (pass d w) = wait d (redis w)"
  by (simp add: pass_def)

end
