(* ===== verification/Sample.thy ===== *)
theory Sample
  imports World
begin

text \<open>
  A small database on which the properties of the development are evaluated: a team with an
  owner, an admin and a member, an outsider, one task with a comment.
\<close>

definition sample_tables :: tables where
  "sample_tables = \<lparr>
     users = [\<lparr>User_ID = 1, User_Email = ''a@x.io'', User_Username = ''ann'', User_PasswordHash = ''h1''\<rparr>,
              \<lparr>User_ID = 2, User_Email = ''b@x.io'', User_Username = ''bob'', User_PasswordHash = ''h2''\<rparr>,
              \<lparr>User_ID = 3, User_Email = ''c@x.io'', User_Username = ''cyd'', User_PasswordHash = ''h3''\<rparr>,
              \<lparr>User_ID = 4, User_Email = ''d@x.io'', User_Username = ''dan'', User_PasswordHash = ''h4''\<rparr>],
     teams = [\<lparr>Team_ID = 1, Team_Name = ''core'', Team_CreatedBy = Some 1, Team_CreatedAt = 10\<rparr>],
     team_members =
       [\<lparr>TeamMember_TeamID = 1, TeamMember_UserID = 1, TeamMember_Role = ''owner'', TeamMember_CreatedAt = 10\<rparr>,
        \<lparr>TeamMember_TeamID = 1, TeamMember_UserID = 2, TeamMember_Role = ''admin'', TeamMember_CreatedAt = 11\<rparr>,
        \<lparr>TeamMember_TeamID = 1, TeamMember_UserID = 3, TeamMember_Role = ''member'', TeamMember_CreatedAt = 12\<rparr>],
     tasks = [\<lparr>Task_ID = 1, Task_TeamID = 1, Task_Title = ''docs'', Task_Description = None,
               Task_Status = ''todo'', Task_Priority = ''low'', Task_AssigneeID = Some 3, Task_CreatedBy = Some 1,
               Task_DueDate = None, Task_CreatedAt = 20, Task_UpdatedAt = 20\<rparr>],
     task_history = [],
     task_comments = [\<lparr>TaskComment_ID = 1, TaskComment_TaskID = 1, TaskComment_UserID = 3,
               TaskComment_Body = ''hi'', TaskComment_CreatedAt = 21, TaskComment_UpdatedAt = 21\<rparr>],
     sessions = [],
     collation = (\<lambda>x. x)\<rparr>"

definition sample_server :: server where
  "sample_server = \<lparr>data = sample_tables, auto_inc = (\<lambda>_. 5), clock = 30, open_tx = None\<rparr>"

definition sample :: dbw where
  "sample = \<lparr>srv = sample_server, faults = []\<rparr>"

definition sample_world :: world where
  "sample_world = dbw.extend sample
     \<lparr>redis = \<lparr>kv = (\<lambda>_. None), redis_time = 100\<rparr>, redis_faults = [],
      uuid_src = (\<lambda>n. CHR ''u'' # FormatInt (int n)), uuid_next = 0, counters = (\<lambda>_ _. 0), gauges = (\<lambda>_. 0),
      observed = (\<lambda>_ _. []), now = 100,
      mail_replies = [Inr 202], breaker_rejects = [], breaker_state = StateClosed\<rparr>"

lemma sample_sel [simp]:
  "srv sample = sample_server" "no_faults sample" "data sample_server = sample_tables"
  "open_tx sample_server = None" "clock sample_server = 30"
  by (simp_all add: sample_def sample_server_def no_faults_def)

lemma sample_world_srv [simp]: "srv sample_world = sample_server"
  by (simp add: sample_world_def sample_def dbw.defs)

lemma sample_ok: "server_ok sample_server"
  by (simp add: sample_server_def sample_tables_def server_ok_def tables_defs ids_below_def ids_defs
      role_enum_def task_enums_ok_def status_enum_def priority_enum_def)

end
