(* ===== verification/TaskApp.thy ===== *)
theory TaskApp
  imports TaskSpec Sample
begin

text \<open>
  The task service as the application builds it, over the MySQL repositories
  (\<open>application.go\<close>, \<open>initServices\<close>): the contracts of the stores hold for them, so the
  guarantees of theories \<open>TaskContracts\<close> and \<open>TaskTransactions\<close> are facts about the
  running service, for every state of the database and every schedule of faults.
\<close>

definition app_task_service :: "'x dbw_scheme TaskService" where
  "app_task_service = NewTaskService (Some NewMySQL) NewTaskRepository NewTeamRepository
     NewTeamMemberRepository NewTaskCommentRepository (Some NewTaskHistoryRepository)"

lemma app_task_service_sel [simp]:
  "tasksvc_db app_task_service = Some NewMySQL" "tasksvc_tasks app_task_service = NewTaskRepository"
  "tasksvc_teams app_task_service = NewTeamRepository" "tasksvc_members app_task_service = NewTeamMemberRepository"
  "tasksvc_comments app_task_service = NewTaskCommentRepository"
  "tasksvc_history app_task_service = Some NewTaskHistoryRepository" "tasksvc_range app_task_service = (\<lambda>ps. ps)"
  by (simp_all add: app_task_service_def NewTaskService_def)

text \<open>The contracts hold in whatever order the loops over a patch run.\<close>

lemma app_tasks_ordered:
  assumes "\<And>ps. mset (ord ps) = mset ps"
  shows "task_service_tx srv no_faults (app_task_service\<lparr>tasksvc_range := ord\<rparr>) NewMySQL NewTaskHistoryRepository"
proof -
  have "executes srv no_faults (teamRepo_GetByID NewTeamRepository t) (select (team_by_id t))" for t
    by (simp add: repo_records repo_methods executes_run_stmt)
  then show ?thesis
    by unfold_locales
      (simp_all add: mysql_tasks.task_create mysql_tasks.task_get mysql_tasks.task_get_tx mysql_tasks.task_list
        mysql_tasks.task_update mysql_tasks.task_update_tx mysql_tasks.task_delete mysql_tasks.task_delete_tx
        mysql_members.get_role mysql_members.check_member mysql_comments.comment_create
        mysql_comments.comment_list mysql_comments.comment_get mysql_comments.comment_update
        mysql_comments.comment_delete assms)
qed

lemma app_task_service_ordered [simp]: "app_task_service\<lparr>tasksvc_range := (\<lambda>ps. ps)\<rparr> = app_task_service"
  by (simp add: app_task_service_def NewTaskService_def)

interpretation app_tasks: task_service_tx srv no_faults app_task_service NewMySQL NewTaskHistoryRepository
  using app_tasks_ordered [of "\<lambda>ps. ps"] by simp

end
