(* ===== verification/TaskOutcome.thy ===== *)
theory TaskOutcome
  imports TaskApp
begin

text \<open>
  The specification of the task service: for each of its ten operations a table of decisions
  over the database, with the roles and fields written out, and the rows that an accepted
  call writes. It mentions none of the service's code; the service over the bare statements
  computes it.
\<close>

section \<open>The bare statements\<close>

lemma select_apply [simp]: "select q s = (Inr (q (data s)), s)"
  by (simp add: select_def)

lemma bindE_select: "bindE (select q) k s = k (q (data s)) s"
  by (simp add: bindE_apply)

lemma bare_calls [simp]:
  "teamMemberRepo_GetRole bare_members t u = select (role_of t u)"
  "teamMemberRepo_IsMember bare_members t u = select (is_member t u)"
  "taskRepo_GetByID bare_tasks i = select (task_by_id i)"
  "taskRepo_GetByIDForUpdateTx bare_tasks i = select (task_by_id i)"
  "taskRepo_UpdateTx bare_tasks i fs = update_task i fs" "taskRepo_DeleteTx bare_tasks i = delete_task i"
  "taskRepo_Create bare_tasks x = insert_task x"
  "taskCommentRepo_GetByID bare_comments j = select (comment_by_id j)"
  "taskCommentRepo_ListByTask bare_comments i = select (comments_of i)"
  "taskCommentRepo_Create bare_comments i u b = insert_comment i u b"
  "taskCommentRepo_Update bare_comments j b = update_comment j b" "taskCommentRepo_Delete bare_comments j = delete_comment j"
  "db_BeginTxx bare_db = begin_tx" "tx_Commit bare_db = commit_tx" "tx_Rollback bare_db = rollback_tx"
  by (simp_all add: bare_members_def bare_tasks_def bare_comments_def bare_db_def)

lemma parseField_bare:
  "parseField (bare_task_service ord) team k v s =
     (case decode_field (data s) team k v of None \<Rightarrow> Inl ErrBadRequest | Some p \<Rightarrow> Inr p, s)"
  by (auto simp: parseField_def decode_field_def isKnownTaskField_def valid_enums bindE_select raiseE_apply returnE_apply
      split: option.splits)

lemma parseLoop_bare:
  "mapE (\<lambda>(key, v). bindE (parseField (bare_task_service ord) team key v) (\<lambda>p. returnE (key, p))) raw s =
     (case decode_patch (data s) team raw of None \<Rightarrow> Inl ErrBadRequest | Some ps \<Rightarrow> Inr ps, s)"
  by (induction raw) (auto simp: bindE_apply parseField_bare returnE_apply split: option.splits)

lemma parseTaskPatch_bare:
  "parseTaskPatch (bare_task_service ord) team raw s =
     (case decode_patch (data s) team raw of None \<Rightarrow> Inl ErrBadRequest
      | Some ps \<Rightarrow> if ps = [] then Inl ErrBadRequest else Inr ps, s)"
  by (auto simp: parseTaskPatch_def bindE_apply parseLoop_bare raiseE_apply returnE_apply split: option.splits)

section \<open>The specification\<close>

text \<open>The permissions: what a role may change in a task, and who may change a comment.\<close>

definition may_change :: "string \<Rightarrow> string set \<Rightarrow> bool" where
  "may_change role names \<longleftrightarrow> role = ''owner'' \<or> role = ''admin'' \<or> names \<subseteq> {''status'', ''assignee_id''}"

definition runs_team :: "string \<Rightarrow> bool" where
  "runs_team role \<longleftrightarrow> role = ''owner'' \<or> role = ''admin''"

text \<open>Creating, reading and listing tasks.\<close>

definition new_task :: "int \<Rightarrow> CreateTaskInput \<Rightarrow> server \<Rightarrow> Task" where
  "new_task u inp s =
     \<lparr>Task_ID = auto_inc s TTasks, Task_TeamID = CTI_TeamID inp, Task_Title = CTI_Title inp,
      Task_Description = (if TrimSpace (CTI_Description inp) = [] then None else Some (CTI_Description inp)),
      Task_Status = (if CTI_Status inp = [] then ''todo'' else CTI_Status inp),
      Task_Priority = (if CTI_Priority inp = [] then ''medium'' else CTI_Priority inp),
      Task_AssigneeID = CTI_AssigneeID inp, Task_CreatedBy = Some u, Task_DueDate = CTI_DueDate inp,
      Task_CreatedAt = clock s, Task_UpdatedAt = clock s\<rparr>"

definition spec_create :: "int \<Rightarrow> CreateTaskInput \<Rightarrow> int stmt" where
  "spec_create u inp s =
     (if team_by_id (CTI_TeamID inp) (data s) = None then (Inl ErrNotFound, s)
      else if \<not> is_member (CTI_TeamID inp) u (data s) then (Inl ErrForbidden, s)
      else if \<not> task_enums_ok (new_task u inp s) \<or>
              (case CTI_AssigneeID inp of None \<Rightarrow> False | Some a \<Rightarrow> \<not> is_member (CTI_TeamID inp) a (data s))
           then (Inl ErrBadRequest, s)
      else (Inr (auto_inc s TTasks),
            s\<lparr>data := (data s)\<lparr>tasks := tasks (data s) @ [new_task u inp s]\<rparr>,
              auto_inc := (auto_inc s)(TTasks := auto_inc s TTasks + 1)\<rparr>))"

text \<open>What the members of its team may see of a task.\<close>

definition seen_by :: "int \<Rightarrow> int \<Rightarrow> (Task \<Rightarrow> 'a result) \<Rightarrow> tables \<Rightarrow> 'a result" where
  "seen_by u i view d =
     (case task_by_id i d of None \<Rightarrow> Inl ErrNotFound
      | Some t \<Rightarrow> if is_member (Task_TeamID t) u d then view t else Inl ErrForbidden)"

definition spec_get :: "int \<Rightarrow> int \<Rightarrow> Task stmt" where
  "spec_get u i s = (seen_by u i (\<lambda>t. Inr t) (data s), s)"

definition spec_list :: "int \<Rightarrow> TaskListInput \<Rightarrow> (Task list \<times> int) stmt" where
  "spec_list u q s =
     (if team_by_id (TLI_TeamID q) (data s) = None then Inl ErrNotFound
      else if \<not> is_member (TLI_TeamID q) u (data s) then Inl ErrForbidden
      else if TLI_Limit q < 0 \<or> TLI_Offset q < 0 then Inl ER_PARSE
      else Inr (page (TLI_Limit q) (TLI_Offset q) (tasks_ordered (list_filter q) (data s)), count_tasks (list_filter q) (data s)), s)"

definition spec_history :: "int \<Rightarrow> int \<Rightarrow> int \<Rightarrow> int \<Rightarrow> (TaskHistory list \<times> int) stmt" where
  "spec_history u i limit offset s =
     (seen_by u i (\<lambda>_. if limit < 0 \<or> offset < 0 then Inl ER_PARSE
        else Inr (page limit offset (history_ordered i (data s)), count_history i (data s))) (data s), s)"

text \<open>Changing a task. The rows of the history come in the order \<open>ord\<close>.\<close>

definition update_outcome :: "int \<Rightarrow> int \<Rightarrow> (string \<times> json) list \<Rightarrow> tables \<Rightarrow> (Task \<times> (string \<times> patchval) list) result" where
  "update_outcome u i raw d =
     (case task_by_id i d of None \<Rightarrow> Inl ErrNotFound | Some t \<Rightarrow>
      case role_of (Task_TeamID t) u d of None \<Rightarrow> Inl ErrForbidden | Some r \<Rightarrow>
      if raw = [] then Inl ErrBadRequest else
      case decode_patch d (Task_TeamID t) raw of None \<Rightarrow> Inl ErrBadRequest | Some ps \<Rightarrow>
      if may_change r (fst ` set raw) then Inr (t, ps) else Inl ErrForbidden)"

definition spec_update ::
    "((string \<times> patchval) list \<Rightarrow> (string \<times> patchval) list) \<Rightarrow> int \<Rightarrow> int \<Rightarrow> (string \<times> json) list \<Rightarrow> int stmt" where
  "spec_update ord u i raw s =
     (case update_outcome u i raw (data s) of
        Inl e \<Rightarrow> (Inl e, s)
      | Inr (t, ps) \<Rightarrow>
          (Inr (Task_TeamID t),
           s\<lparr>data := apply_patch t u (ord ps) s,
             auto_inc := (auto_inc s)(THistory := auto_inc s THistory + int (length (changes t (ord ps))))\<rparr>))"

text \<open>Deleting a task: the id of the audit row is spent, the row itself falls with the task.\<close>

definition spec_delete :: "int \<Rightarrow> int \<Rightarrow> int stmt" where
  "spec_delete u i s =
     (case task_by_id i (data s) of None \<Rightarrow> (Inl ErrNotFound, s) | Some t \<Rightarrow>
      case role_of (Task_TeamID t) u (data s) of None \<Rightarrow> (Inl ErrForbidden, s) | Some r \<Rightarrow>
      if \<not> runs_team r then (Inl ErrForbidden, s)
      else (Inr (Task_TeamID t),
            s\<lparr>data := drop_task i (data s), auto_inc := (auto_inc s)(THistory := auto_inc s THistory + 1)\<rparr>))"

text \<open>Comments.\<close>

definition spec_comment :: "int \<Rightarrow> int \<Rightarrow> string \<Rightarrow> int stmt" where
  "spec_comment u i body s =
     (case seen_by u i (\<lambda>_. Inr ()) (data s) of Inl e \<Rightarrow> (Inl e, s) | Inr _ \<Rightarrow>
        (Inr (auto_inc s TComments),
         s\<lparr>data := (data s)\<lparr>task_comments := task_comments (data s) @
             [\<lparr>TaskComment_ID = auto_inc s TComments, TaskComment_TaskID = i, TaskComment_UserID = u,
               TaskComment_Body = body, TaskComment_CreatedAt = clock s, TaskComment_UpdatedAt = clock s\<rparr>]\<rparr>,
           auto_inc := (auto_inc s)(TComments := auto_inc s TComments + 1)\<rparr>))"

definition spec_comments :: "int \<Rightarrow> int \<Rightarrow> TaskComment list stmt" where
  "spec_comments u i s = (seen_by u i (\<lambda>_. Inr (comments_of i (data s))) (data s), s)"

text \<open>The author of a comment while a member, or who runs the team.\<close>

definition edit_outcome :: "int \<Rightarrow> int \<Rightarrow> tables \<Rightarrow> unit result" where
  "edit_outcome u j d =
     (case comment_by_id j d of None \<Rightarrow> Inl ErrNotFound | Some c \<Rightarrow>
      case task_by_id (TaskComment_TaskID c) d of None \<Rightarrow> Inl ErrNotFound | Some t \<Rightarrow>
      case role_of (Task_TeamID t) u d of None \<Rightarrow> Inl ErrForbidden | Some r \<Rightarrow>
      if TaskComment_UserID c = u \<or> runs_team r then Inr () else Inl ErrForbidden)"

definition spec_edit_comment :: "int \<Rightarrow> int \<Rightarrow> string \<Rightarrow> unit stmt" where
  "spec_edit_comment u j body s =
     (edit_outcome u j (data s),
      if isl (edit_outcome u j (data s)) then s
      else s\<lparr>data := (data s)\<lparr>task_comments :=
        map (\<lambda>c. if TaskComment_ID c = j \<and> TaskComment_Body c \<noteq> body
                 then c\<lparr>TaskComment_Body := body, TaskComment_UpdatedAt := clock s\<rparr> else c) (task_comments (data s))\<rparr>\<rparr>)"

definition spec_drop_comment :: "int \<Rightarrow> int \<Rightarrow> unit stmt" where
  "spec_drop_comment u j s =
     (edit_outcome u j (data s),
      if isl (edit_outcome u j (data s)) then s
      else s\<lparr>data := (data s)\<lparr>task_comments := filter (\<lambda>c. TaskComment_ID c \<noteq> j) (task_comments (data s))\<rparr>\<rparr>)"

section \<open>Roles\<close>

lemma role_in_enum: "tables_ok d \<Longrightarrow> role_of team u d = Some ro \<Longrightarrow> ro = ''owner'' \<or> ro = ''admin'' \<or> ro = ''member''"
  by (auto simp: tables_ok_def members_ok_def role_of_def member_row_def role_enum_def dest!: find_SomeD)

text \<open>The map of allowed fields is the table.\<close>

lemma allowed_table:
  assumes "tables_ok d" and "role_of team u d = Some ro" and "decode_patch d team raw = Some ps"
  shows "list_all (\<lambda>(k, _). allowedTaskFields ro k) ps \<longleftrightarrow> may_change ro (fst ` set raw)"
proof -
  note acc = decode_patch_acceptable [OF assms(3)]
  have known: "isKnownTaskField k" if "(k, p) \<in> set ps" for k p
    using acc that typed_known acceptable_typed by (fastforce simp: list_all_iff)
  have keys: "fst ` set raw = fst ` set ps" using arg_cong [OF conjunct2 [OF acc], of set] by simp
  from role_in_enum [OF assms(1,2)] consider "ro = ''owner'' \<or> ro = ''admin''" | "ro = ''member''" by blast
  then show ?thesis
  proof cases
    case 1
    then show ?thesis using known by (fastforce simp: may_change_def list_all_iff allowedTaskFields_def isKnownTaskField_def)
  next
    case 2
    then show ?thesis by (auto simp: may_change_def list_all_iff allowedTaskFields_def keys)
  qed
qed

lemma role_of_user:
  assumes "tables_ok d" and "role_of team u d = Some r"
  shows "List.member (user_ids d) u"
  using is_member_user(1) [OF assms(1), of team u] assms(2) by (auto simp: is_member_def role_of_def)

section \<open>The statements of the transactions succeed\<close>

lemma insert_history_batch:
  assumes "\<And>e. e \<in> set es \<Longrightarrow> List.member (task_ids (data s)) (THC_TaskID e) \<and>
      refers (THC_ChangedBy e) (user_ids (data s))"
  shows "mapE insert_history es s = (Inr (map (\<lambda>_. ()) es),
     s\<lparr>data := (data s)\<lparr>task_history := task_history (data s) @ history_rows (auto_inc s THistory) (clock s) es\<rparr>,
       auto_inc := (auto_inc s)(THistory := auto_inc s THistory + int (length es))\<rparr>)"
  using assms
proof (induction es arbitrary: s)
  case (Cons e es)
  define s1 where "s1 = s\<lparr>data := (data s)\<lparr>task_history := task_history (data s) @ [history_row (auto_inc s THistory) (clock s) e]\<rparr>,
       auto_inc := (auto_inc s)(THistory := auto_inc s THistory + 1)\<rparr>"
  have e: "insert_history e s = (Inr (), s1)"
    using Cons.prems by (simp add: s1_def insert_history_def take_id_def on_data_def)
  have "task_ids (data s1) = task_ids (data s)" "user_ids (data s1) = user_ids (data s)"
    by (simp_all add: s1_def task_ids_def user_ids_def)
  then have "mapE insert_history es s1 = (Inr (map (\<lambda>_. ()) es),
     s1\<lparr>data := (data s1)\<lparr>task_history := task_history (data s1) @ history_rows (auto_inc s1 THistory) (clock s1) es\<rparr>,
       auto_inc := (auto_inc s1)(THistory := auto_inc s1 THistory + int (length es))\<rparr>)"
    using Cons.prems by (intro Cons.IH) simp
  also have "\<dots> = (Inr (map (\<lambda>_. ()) es),
     s\<lparr>data := (data s)\<lparr>task_history := task_history (data s) @ history_rows (auto_inc s THistory) (clock s) (e # es)\<rparr>,
       auto_inc := (auto_inc s)(THistory := auto_inc s THistory + int (length (e # es)))\<rparr>)"
    unfolding s1_def by (simp add: add.assoc)
  finally show ?case using e by (simp add: bindE_apply returnE_apply fun_upd_def)
qed simp

lemma update_task_succeeds:
  assumes "tables_ok (data s)" and "task_by_id i (data s) = Some t"
    and "list_all (acceptable (data s) (Task_TeamID t)) ps"
  shows "update_task i (map (\<lambda>(k, p). (k, pv_col p)) (changes t ps)) s =
     (Inr (), s\<lparr>data := replace_task (touch (clock s) t (patched t ps)) (data s)\<rparr>)"
proof -
  have t: "task_enums_ok t" "task_refs_ok (data s) t"
    using assms(1,2) by (auto simp: tables_ok_def tasks_ok_def task_by_id_def dest!: find_SomeD)
  have "list_all typed ps" using assms(3) by (auto simp: list_all_iff dest: acceptable_typed)
  note cols = set_cols_put [OF list_all_changes [OF this], of t t]
  show ?thesis
    using patched_ok [OF assms(1,3) t] cols assms(2)
    by (simp add: update_task_def patched_def on_data_def)
qed

lemma task_ids_replace [simp]: "task_ids (replace_task r d) = task_ids d"
  by (auto simp: task_ids_def replace_task_def)

lemma user_ids_replace [simp]: "user_ids (replace_task r d) = user_ids d"
  by (simp add: user_ids_def replace_task_def)

lemma commit_patch_succeeds:
  assumes "tables_ok (data s)" and "task_by_id i (data s) = Some t" and "role_of (Task_TeamID t) u (data s) = Some r"
    and "list_all (acceptable (data s) (Task_TeamID t)) ps"
  shows "bindE (update_task i (map (\<lambda>(k, p). (k, pv_col p)) (changes t ps))) (\<lambda>_.
      bindE (taskHistoryRepo_CreateBatchTx bare_history (audit_entries t u ps)) (\<lambda>_.
      bindE commit_tx (\<lambda>_. returnE x))) s = (Inr x,
        s\<lparr>data := apply_patch t u ps s, auto_inc := (auto_inc s)(THistory := auto_inc s THistory + int (length (changes t ps))),
          open_tx := None\<rparr>)"
proof -
  define s1 where "s1 = s\<lparr>data := replace_task (touch (clock s) t (patched t ps)) (data s)\<rparr>"
  have t: "List.member (task_ids (data s)) (Task_ID t)"
    using assms(2) by (auto simp: task_by_id_def task_ids_def dest: find_SomeD)
  have u: "List.member (user_ids (data s)) u" using role_of_user [OF assms(1,3)] .
  have "List.member (task_ids (data s1)) (THC_TaskID e) \<and> refers (THC_ChangedBy e) (user_ids (data s1))"
    if "e \<in> set (audit_entries t u ps)" for e
    using that t u by (auto simp: s1_def audit_entries_def refers_def)
  note batch = insert_history_batch [of "audit_entries t u ps" s1, OF this]
  have len: "length (audit_entries t u ps) = length (changes t ps)" by (simp add: audit_entries_def)
  show ?thesis
    using update_task_succeeds [OF assms(1,2,4)] batch
    by (simp add: s1_def bindE_apply bare_history_def commit_tx_def returnE_apply apply_patch_def replace_task_def len)
qed

section \<open>The service computes the specification\<close>

lemma deferRollback_apply:
  "deferRollback bare_db m s = (case m s of (Inl e, s') \<Rightarrow> (Inl e, rollback_tx s')
     | (Inr (a, c), s') \<Rightarrow> (Inr a, if c then s' else rollback_tx s'))"
  by (auto simp: deferRollback_def split: prod.splits sum.splits)

lemma rollback_begun: "open_tx s = None \<Longrightarrow> rollback_tx (s\<lparr>open_tx := Some (data s)\<rparr>) = s"
  by (simp add: rollback_tx_def)

lemma commit_idle:
  assumes "open_tx s = None"
  shows "s\<lparr>data := d, auto_inc := a, open_tx := None\<rparr> = s\<lparr>data := d, auto_inc := a\<rparr>"
    "s\<lparr>auto_inc := a, data := d, open_tx := None\<rparr> = s\<lparr>data := d, auto_inc := a\<rparr>"
  using assms by (cases s; simp)+

lemma UpdateTask_bare:
  assumes "server_ok s" and "open_tx s = None" and ord: "\<And>ps. mset (ord ps) = mset ps"
  shows "UpdateTask (bare_task_service ord) u i raw s = spec_update ord u i raw s"
proof -
  let ?s = "s\<lparr>open_tx := Some (data s)\<rparr>"
  have ok: "tables_ok (data s)" using assms(1) by (simp add: server_ok_def)
  have tx: "UpdateTask (bare_task_service ord) u i raw s =
     deferRollback bare_db (updateTaskBody (bare_task_service ord) bare_db bare_history u i raw) ?s"
    by (simp add: UpdateTask_def bindE_apply begin_tx_def)
  note run = tx deferRollback_apply rollback_begun [OF assms(2)] spec_update_def update_outcome_def updateTaskBody_def
    bindE_select bindE_apply parseTaskPatch_bare raiseE_apply returnE_apply commit_idle [OF assms(2)]
  show ?thesis
  proof (cases "task_by_id i (data s)")
    case t: (Some t)
    show ?thesis
    proof (cases "role_of (Task_TeamID t) u (data s)")
      case r: (Some r)
      show ?thesis
      proof (cases "decode_patch (data s) (Task_TeamID t) raw")
        case ps: (Some ps)
        note acc = decode_patch_acceptable [OF ps]
        have visited: "list_all P (ord ps) = list_all P ps" for P
          using mset_eq_setD [OF ord [of ps]] by (simp add: list_all_iff)
        have "list_all typed ps" using acc by (auto simp: list_all_iff dest: acceptable_typed)
        then have typed: "list_all typed (ord ps)" by (simp add: visited)
        have "ps = [] \<longleftrightarrow> raw = []" using acc by auto
        moreover have "changes t (ord ps) = [] \<Longrightarrow> apply_patch t u (ord ps) s = data s"
          using apply_patch_nothing [OF ok t] .
        moreover have "apply_patch t u (ord ps) ?s = apply_patch t u (ord ps) s" by (simp add: apply_patch_def)
        ultimately show ?thesis
          using commit_patch_succeeds [of ?s i t u r "ord ps" "(Task_TeamID t, True)"] ok t r acc assms(2)
          by (auto simp: run ps visited allowed_table [OF ok r ps] buildTaskDiffEntries_eq [where ord = ord, OF typed])
      qed (use t r in \<open>simp add: run\<close>)
    qed (use t in \<open>simp add: run\<close>)
  qed (simp add: run)
qed

lemma DeleteTask_bare:
  assumes "server_ok s" and "open_tx s = None"
  shows "DeleteTask (bare_task_service ord) u i s = spec_delete u i s"
proof -
  have ok: "tables_ok (data s)" using assms(1) by (simp add: server_ok_def)
  have key: "Task_ID t = i \<and> List.member (task_ids (data s)) i" if "task_by_id i (data s) = Some t" for t
    using that by (auto simp: task_by_id_def task_ids_def dest: find_SomeD)
  show ?thesis
    using key role_of_user [OF ok]
    by (auto simp: raiseE_apply returnE_apply rollback_begun [OF assms(2)] commit_idle [OF assms(2)] DeleteTask_def spec_delete_def runs_team_def bindE_apply begin_tx_def deferRollback_apply deleteTaskBody_def
        bare_history_def insert_history_def refers_def delete_task_def commit_tx_def on_data_def take_id_def drop_task_def
        history_row_def split: option.splits)
qed

lemma CreateTask_bare:
  assumes "server_ok s"
  shows "CreateTask (bare_task_service ord) u inp s = spec_create u inp s"
proof -
  have ok: "tables_ok (data s)" using assms by (simp add: server_ok_def)
  define st where "st = (if CTI_Status inp = [] then ''todo'' else CTI_Status inp)"
  define pr where "pr = (if CTI_Priority inp = [] then ''medium'' else CTI_Priority inp)"
  define ds where "ds = (if TrimSpace (CTI_Description inp) \<noteq> [] then Some (CTI_Description inp) else None)"
  define x where "x = \<lparr>Task_ID = 0, Task_TeamID = CTI_TeamID inp, Task_Title = CTI_Title inp, Task_Description = ds, Task_Status = st,
    Task_Priority = pr, Task_AssigneeID = CTI_AssigneeID inp, Task_CreatedBy = Some u, Task_DueDate = CTI_DueDate inp,
    Task_CreatedAt = 0, Task_UpdatedAt = 0\<rparr>"
  have new: "new_task u inp s = x\<lparr>Task_ID := auto_inc s TTasks, Task_CreatedAt := clock s, Task_UpdatedAt := clock s\<rparr>"
    by (simp add: new_task_def x_def st_def pr_def ds_def)
  have enums: "task_enums_ok (new_task u inp s) \<longleftrightarrow> isValidStatus st \<and> isValidPriority pr"
    by (simp add: task_enums_ok_def new x_def valid_enums)
  have ins: "insert_task x s = (Inr (auto_inc s TTasks),
      s\<lparr>data := (data s)\<lparr>tasks := tasks (data s) @ [new_task u inp s]\<rparr>, auto_inc := (auto_inc s)(TTasks := auto_inc s TTasks + 1)\<rparr>)"
    if "isValidStatus st" "isValidPriority pr" "is_member (CTI_TeamID inp) u (data s)"
      "case CTI_AssigneeID inp of None \<Rightarrow> True | Some a \<Rightarrow> is_member (CTI_TeamID inp) a (data s)"
  proof -
    have "task_enums_ok x" using that(1,2) by (simp add: task_enums_ok_def x_def valid_enums)
    moreover have "task_refs_ok (data s) x"
      using that(3,4) is_member_user [OF ok, of "CTI_TeamID inp"] by (auto simp: task_refs_ok_def refers_def x_def split: option.splits)
    ultimately show ?thesis by (simp add: insert_task_def new take_id_def on_data_def Let_def)
  qed
  have code: "CreateTask (bare_task_service ord) u inp s =
     (if team_by_id (CTI_TeamID inp) (data s) = None then (Inl ErrNotFound, s)
      else if \<not> is_member (CTI_TeamID inp) u (data s) then (Inl ErrForbidden, s)
      else if \<not> isValidStatus st \<or> \<not> isValidPriority pr then (Inl ErrBadRequest, s)
      else if (case CTI_AssigneeID inp of None \<Rightarrow> True | Some a \<Rightarrow> is_member (CTI_TeamID inp) a (data s)) then insert_task x s
      else (Inl ErrBadRequest, s))"
    unfolding CreateTask_def Let_def st_def [symmetric] pr_def [symmetric] ds_def [symmetric] x_def [symmetric]
    by (cases "team_by_id (CTI_TeamID inp) (data s)"; cases "CTI_AssigneeID inp") (simp_all add: bindE_apply raiseE_apply returnE_apply)
  show ?thesis unfolding code spec_create_def enums
    by (cases "CTI_AssigneeID inp") (simp_all add: ins)
qed

lemma reads_bare:
  "GetTask (bare_task_service ord) u i s = spec_get u i s"
  "ListTasks (bare_task_service ord) u q s = spec_list u q s"
  "ListComments (bare_task_service ord) u i s = spec_comments u i s"
  "GetTaskHistory (bare_task_service ord) u i n off s = spec_history u i n off s"
  by (auto simp: GetTask_def spec_get_def ListTasks_def spec_list_def ListComments_def spec_comments_def GetTaskHistory_def
      spec_history_def seen_by_def bindE_apply returnE_apply bare_tasks_def bare_history_def list_tasks_def list_history_def list_filter_def
      split: option.split)

lemma comments_bare:
  assumes "server_ok s"
  shows "CreateComment (bare_task_service ord) u i b s = spec_comment u i b s"
    "UpdateComment (bare_task_service ord) u j b s = spec_edit_comment u j b s"
    "DeleteComment (bare_task_service ord) u j s = spec_drop_comment u j s"
proof -
  have ok: "tables_ok (data s)" using assms by (simp add: server_ok_def)
  have task: "List.member (task_ids (data s)) i" if "task_by_id i (data s) = Some t" for t
    using that by (auto simp: task_by_id_def task_ids_def dest: find_SomeD)
  show "CreateComment (bare_task_service ord) u i b s = spec_comment u i b s"
    using task is_member_user(1) [OF ok, of _ u]
    by (auto simp: CreateComment_def spec_comment_def seen_by_def bindE_apply insert_comment_def take_id_def on_data_def Let_def
        split: option.split)
  show "UpdateComment (bare_task_service ord) u j b s = spec_edit_comment u j b s"
    "DeleteComment (bare_task_service ord) u j s = spec_drop_comment u j s"
    by (auto simp: UpdateComment_def DeleteComment_def spec_edit_comment_def spec_drop_comment_def edit_outcome_def runs_team_def
        bindE_apply update_comment_def delete_comment_def on_data_def split: option.split)
qed

end
