(* ===== verification/TaskProperties.thy ===== *)
theory TaskProperties
  imports TaskOutcome
begin

text \<open>
  The guarantees of the task service in the running application, each evaluated on the
  sample database.
\<close>

section \<open>Reading the tables after an update\<close>

lemma task_by_id_key: "task_by_id i d = Some t \<Longrightarrow> Task_ID t = i"
  by (auto simp: task_by_id_def dest: find_SomeD)

lemma task_by_id_replace:
  assumes "task_by_id i d = Some t" and "Task_ID r = i"
  shows "task_by_id i (replace_task r d) = Some r"
  using assms task_by_id_key [OF assms(1)] by (auto simp: task_by_id_def replace_task_def find_map_update)

lemma field_json_touch [simp]: "field_json k (touch tm t t') = field_json k t'"
  by (simp add: touch_def field_json_def)

lemma apply_patch_task:
  assumes "task_by_id i (data s) = Some t"
  shows "task_by_id i (apply_patch t u ps s) = Some (touch (clock s) t (patched t ps))"
proof -
  have "task_by_id i (replace_task (touch (clock s) t (patched t ps)) (data s)) = Some (touch (clock s) t (patched t ps))"
    using task_by_id_replace [OF assms] task_by_id_key [OF assms] by simp
  then show ?thesis by (simp add: apply_patch_def task_by_id_def)
qed

lemma task_by_id_replace_other:
  "j \<noteq> Task_ID r \<Longrightarrow> task_by_id j (replace_task r d) = task_by_id j d"
proof -
  assume j: "j \<noteq> Task_ID r"
  have "find (\<lambda>t. Task_ID t = j) (map (\<lambda>t. if Task_ID t = Task_ID r then r else t) xs) =
      find (\<lambda>t. Task_ID t = j) xs" for xs
    using j by (induction xs) auto
  then show ?thesis by (simp add: task_by_id_def replace_task_def)
qed

section \<open>Updating a task\<close>

lemma allowed_roles:
  "allowedTaskFields r k \<Longrightarrow> r = ''owner'' \<or> r = ''admin'' \<or> r = ''member'' \<and> (k = ''status'' \<or> k = ''assignee_id'')"
  by (auto simp: allowedTaskFields_def split: if_split_asm)

lemma admissible_roles:
  assumes "admissible u t ps d"
  shows "role_of (Task_TeamID t) u d \<in> {Some ''owner'', Some ''admin''} \<or>
     role_of (Task_TeamID t) u d = Some ''member'' \<and> fst ` set ps \<subseteq> {''status'', ''assignee_id''}"
proof -
  obtain r where r: "role_of (Task_TeamID t) u d = Some r" and all: "\<And>k p. (k, p) \<in> set ps \<Longrightarrow> allowedTaskFields r k" and "ps \<noteq> []"
    using assms unfolding admissible_def list_all_iff by fastforce
  then obtain k p where "(k, p) \<in> set ps" by (metis list.set_intros(1) neq_Nil_conv surj_pair)
  from allowed_roles [OF all [OF this]] consider "r = ''owner''" | "r = ''admin''" | "r = ''member''" by blast
  then show ?thesis
  proof cases
    case 3
    have "fst x \<in> {''status'', ''assignee_id''}" if "x \<in> set ps" for x
      using allowed_roles [OF all [of "fst x" "snd x"]] that 3 by simp
    with r 3 show ?thesis by blast
  qed (simp_all add: r)
qed

text \<open>C2. A successful \<open>UpdateTask\<close> is exactly what was asked for and is on record: the caller is an owner or an
  admin of the team, or a member who names only status and assignee, and every field of the patch decoded. Afterwards each named field
  of the row has the value of the patch; its other fields, its id, team, author and date of creation are as before, and \<open>updated_at\<close> is the time of the
  server if something changed. The history has got one row per field whose value really changed, with the caller, the old and the new value. All other rows of all
  tables are as before. Go does not fix the order in which it ranges over the patch: this holds for every order \<open>ord\<close>, and the new rows are given as a
  multiset.\<close>

theorem UpdateTask_audited:
  assumes "UpdateTask (app_task_service\<lparr>tasksvc_range := ord\<rparr>) u i raw w = (Inr team, w')"
    and ord: "\<And>ps. mset (ord ps) = mset ps"
    and "server_ok (srv w)" and "open_tx (srv w) = None" and "distinct (map fst raw)"
  shows "\<exists>t t' ps rows. task_by_id i (data (srv w)) = Some t \<and> team = Task_TeamID t \<and>
     raw \<noteq> [] \<and> decode_patch (data (srv w)) team raw = Some ps \<and>
     (role_of team u (data (srv w)) \<in> {Some ''owner'', Some ''admin''} \<or>
        role_of team u (data (srv w)) = Some ''member'' \<and> fst ` set raw \<subseteq> {''status'', ''assignee_id''}) \<and>
     (\<forall>k p. (k, p) \<in> set ps \<longrightarrow> field_json k t' = pv_json p) \<and>
     (\<forall>k. k \<notin> fst ` set raw \<longrightarrow> field_json k t' = field_json k t) \<and>
     Task_ID t' = i \<and> Task_TeamID t' = team \<and> Task_CreatedBy t' = Task_CreatedBy t \<and> Task_CreatedAt t' = Task_CreatedAt t \<and>
     Task_UpdatedAt t' = (if rows = [] then Task_UpdatedAt t else clock (srv w)) \<and>
     data (srv w') = (data (srv w))\<lparr>
       tasks := map (\<lambda>x. if Task_ID x = i then t' else x) (tasks (data (srv w))),
       task_history := task_history (data (srv w)) @ rows\<rparr> \<and>
     mset (map row_entry rows) = mset (map (\<lambda>(k, p). \<lparr>THC_TaskID = i, THC_ChangedBy = Some u, THC_FieldName = k,
         THC_OldValue = Some (field_json k t), THC_NewValue = Some (pv_json p)\<rparr>)
       (filter (\<lambda>(k, p). field_json k t \<noteq> pv_json p) ps))"
proof -
  let ?d = "data (srv w)"
  obtain t ps where t: "task_by_id i ?d = Some t" and team: "team = Task_TeamID t"
    and dec: "decode_patch ?d team raw = Some ps" and adm: "admissible u t ps ?d"
    and w': "data (srv w') = apply_patch t u (ord ps) (srv w)"
    using task_service_tx.UpdateTask_Inr [OF app_tasks_ordered [OF ord] assms(1,3,4)] by auto
  have keys: "map fst ps = map fst raw" using decode_patch_acceptable [OF dec] by simp
  have vis: "set (ord ps) = set ps" "ord ps = [] \<longleftrightarrow> ps = []" using ord [of ps] by (auto dest: mset_eq_setD)
  have "list_all typed ps" using adm by (auto simp: admissible_def list_all_iff dest: acceptable_typed)
  then have typed: "list_all typed (ord ps)" by (simp add: list_all_iff vis)
  have dist: "distinct (map fst (ord ps))"
    using assms(5) keys mset_eq_imp_distinct_iff [of "map fst (ord ps)" "map fst raw"] by (metis mset_map ord)
  have same: "fst ` set (ord ps) = fst ` set raw" using arg_cong [OF keys, of set] by (simp add: vis)
  define t' where "t' = touch (clock (srv w)) t (patched t (ord ps))"
  define rows where "rows = history_rows (auto_inc (srv w) THistory) (clock (srv w)) (audit_entries t u (ord ps))"
  have id: "Task_ID t = i" by (rule task_by_id_key [OF t])
  have frame: "Task_ID t' = i" "Task_TeamID t' = team" "Task_CreatedBy t' = Task_CreatedBy t" "Task_CreatedAt t' = Task_CreatedAt t"
    by (simp_all add: t'_def touch_def id team)
  have named: "(k, p) \<in> set ps \<Longrightarrow> field_json k t' = pv_json p"
      "k \<notin> fst ` set raw \<Longrightarrow> field_json k t' = field_json k t" for k p
    using field_json_patched [OF typed dist, unfolded same] by (simp_all add: t'_def vis)
  have none: "rows = [] \<longleftrightarrow> changes t (ord ps) = []"
    by (cases "changes t (ord ps)") (auto simp: rows_def audit_entries_def)
  then have upd: "Task_UpdatedAt t' = (if rows = [] then Task_UpdatedAt t else clock (srv w))"
    using patched_neq [OF typed dist, of t] by (auto simp: t'_def touch_def patched_def)
  have eff: "data (srv w') = ?d\<lparr>tasks := map (\<lambda>x. if Task_ID x = i then t' else x) (tasks ?d), task_history := task_history ?d @ rows\<rparr>"
    by (simp add: w' apply_patch_def replace_task_def rows_def frame(1) t'_def [symmetric])
  have log: "mset (map row_entry rows) = mset (map (\<lambda>(k, p). \<lparr>THC_TaskID = i, THC_ChangedBy = Some u, THC_FieldName = k,
         THC_OldValue = Some (field_json k t), THC_NewValue = Some (pv_json p)\<rparr>)
       (filter (\<lambda>(k, p). field_json k t \<noteq> pv_json p) ps))"
    by (simp add: rows_def row_entry_history_rows audit_entries_def changes_def id ord)
  have roles: "role_of team u ?d \<in> {Some ''owner'', Some ''admin''} \<or>
      role_of team u ?d = Some ''member'' \<and> fst ` set raw \<subseteq> {''status'', ''assignee_id''}"
    using admissible_roles [OF adm] same unfolding team vis by (simp only:)
  have ne: "raw \<noteq> []" using adm keys by (auto simp: admissible_def)
  show ?thesis
    by (intro exI [of _ t] exI [of _ t'] exI [of _ ps] exI [of _ rows] conjI allI impI t team ne dec roles named frame upd eff log)
qed

text \<open>Two fields, recorded in the order opposite to the one in which they were decoded.\<close>

theorem UpdateTask_audited_witness:
  "\<exists>t' rows. data (srv (snd (UpdateTask (app_task_service\<lparr>tasksvc_range := rev\<rparr>) 3 1 [(''status'', JStr ''done''), (''assignee_id'', JNull)] sample))) =
     sample_tables\<lparr>tasks := map (\<lambda>x. if Task_ID x = 1 then t' else x) (tasks sample_tables),
       task_history := task_history sample_tables @ rows\<rparr> \<and> Task_TeamID t' = 1"
proof -
  let ?run = "UpdateTask (app_task_service\<lparr>tasksvc_range := rev\<rparr>) 3 1 [(''status'', JStr ''done''), (''assignee_id'', JNull)] sample"
  have "?run = (Inr 1, snd ?run)" by (rule run_result) code_simp
  from UpdateTask_audited [OF this mset_rev, unfolded sample_sel, OF sample_ok refl] show ?thesis by fastforce
qed

text \<open>C3. When \<open>UpdateTask\<close> returns an error, whatever failed and wherever (a check, a
  statement, the commit), the tables are as before the call and no transaction is left open.
  A commit that takes effect although its acknowledgement is lost is not among the faults.\<close>

theorem UpdateTask_all_or_nothing:
  assumes "UpdateTask app_task_service u i raw w = (Inl e, w')" and "open_tx (srv w) = None"
  shows "data (srv w') = data (srv w) \<and> open_tx (srv w') = None"
  using app_tasks.UpdateTask_atomic [OF assms] by simp

text \<open>The second statement of the transaction fails: the assignment is not kept.\<close>

definition sample_faulty :: dbw where
  "sample_faulty = sample\<lparr>faults := [None, None, None, None, Some (OtherError ''connection lost'')]\<rparr>"

theorem UpdateTask_all_or_nothing_witness:
  "fst (UpdateTask app_task_service 3 1 [(''status'', JStr ''done'')] sample_faulty) = Inl (OtherError ''connection lost'') \<and>
   data (srv (snd (UpdateTask app_task_service 3 1 [(''status'', JStr ''done'')] sample_faulty))) = sample_tables"
proof -
  have run: "UpdateTask app_task_service 3 1 [(''status'', JStr ''done'')] sample_faulty =
     (Inl (OtherError ''connection lost''), snd (UpdateTask app_task_service 3 1 [(''status'', JStr ''done'')] sample_faulty))"
    by (rule run_result) code_simp
  moreover have "srv sample_faulty = sample_server" by (simp add: sample_faulty_def)
  ultimately show ?thesis using UpdateTask_all_or_nothing [OF run] by (metis fst_conv sample_sel)
qed

text \<open>Where no statement fails, \<open>UpdateTask\<close> answers, and its answer is the decision
  table \<open>update_outcome\<close>: not found, forbidden to non-members, bad request for an empty patch
  or a field that does not decode (unknown name, wrong type, bad enum, assignee outside the
  team, bad date), forbidden when the role may not change a named field, else the team's id.\<close>

lemma UpdateTask_outcome:
  assumes "no_faults w" and "server_ok (srv w)" and "open_tx (srv w) = None"
  shows "fst (UpdateTask app_task_service u i raw w) = map_sum id (\<lambda>(t, _). Task_TeamID t) (update_outcome u i raw (data (srv w)))"
  using refinesD(1) [OF app_tasks.refines_ops(4) assms(1), of u i raw] UpdateTask_bare [OF assms(2,3), of "\<lambda>ps. ps" u i raw]
  by (auto simp: spec_update_def split: sum.splits)

section \<open>Deleting a task\<close>

text \<open>C18. \<open>DeleteTask\<close> is all or nothing and reserved to owners and admins of the task's team: on
  success the task is gone with its comments and its whole history (the row \<open>task_deleted\<close>
  written in the same transaction falls to the cascade of the foreign key), nothing else
  changed and the team's id is returned; on an error the tables are as before. No transaction
  is left open.
  A commit that takes effect although its acknowledgement is lost is not among the faults.\<close>

theorem DeleteTask_effect:
  assumes "DeleteTask app_task_service u i w = (r, w')" and "open_tx (srv w) = None"
  shows "(case r of
      Inl e \<Rightarrow> data (srv w') = data (srv w)
    | Inr team \<Rightarrow>
        (\<exists>t. task_by_id i (data (srv w)) = Some t \<and> team = Task_TeamID t) \<and>
        role_of team u (data (srv w)) \<in> {Some RoleOwner, Some RoleAdmin} \<and>
        data (srv w') = drop_task i (data (srv w)) \<and>
        task_by_id i (data (srv w')) = None \<and> comments_of i (data (srv w')) = [] \<and>
        count_history i (data (srv w')) = 0)
     \<and> open_tx (srv w') = None"
proof (cases r)
  case (Inl e)
  with app_tasks.DeleteTask_atomic [of u i w e w'] assms show ?thesis by simp
next
  case (Inr team)
  then obtain t r' where "task_by_id i (data (srv w)) = Some t" "team = Task_TeamID t"
     "role_of (Task_TeamID t) u (data (srv w)) = Some r'" "r' = RoleOwner \<or> r' = RoleAdmin"
     "data (srv w') = drop_task i (data (srv w))" "open_tx (srv w') = None"
    using app_tasks.DeleteTask_Inr [of u i w team w'] assms by blast
  moreover have "task_by_id i (drop_task i d) = None \<and> comments_of i (drop_task i d) = [] \<and>
      count_history i (drop_task i d) = 0" for d
    by (auto simp: task_by_id_def find_None_iff_ball comments_of_def count_history_def drop_task_def)
  ultimately show ?thesis using Inr by auto
qed

theorem DeleteTask_effect_witness:
  "data (srv (snd (DeleteTask app_task_service 2 1 sample))) = drop_task 1 sample_tables \<and>
   data (srv (snd (DeleteTask app_task_service 3 1 sample))) = sample_tables"
proof -
  have "DeleteTask app_task_service 2 1 sample = (Inr 1, snd (DeleteTask app_task_service 2 1 sample))"
    by (rule run_result) code_simp
  note ok = DeleteTask_effect [OF this]
  have "DeleteTask app_task_service 3 1 sample = (Inl ErrForbidden, snd (DeleteTask app_task_service 3 1 sample))"
    by (rule run_result) code_simp
  from DeleteTask_effect [OF this] ok show ?thesis by simp
qed

section \<open>Creating a task\<close>

lemma task_by_id_append:
  assumes "ids_below a (data s)" and "\<not> j < a TTasks"
  shows "find (\<lambda>t. Task_ID t = j) (tasks (data s) @ [r]) = (if Task_ID r = j then Some r else None)"
proof -
  have "find (\<lambda>t. Task_ID t = j) (tasks (data s)) = None"
    using assms by (auto simp: ids_below_def find_None_iff_ball)
  then show ?thesis by (simp add: find_append)
qed

lemma insert_task_Inr:
  assumes "insert_task t s = (Inr i, s')"
  shows "i = auto_inc s TTasks" "data s' = (data s)\<lparr>tasks := tasks (data s) @
     [t\<lparr>Task_ID := i, Task_CreatedAt := clock s, Task_UpdatedAt := clock s\<rparr>]\<rparr>"
  using assms by (auto simp: insert_task_def Let_def split: if_splits)

text \<open>C19. Create, then get: only a member of the team can create a task in it; the id is new, and
  reading it back gives the task that was sent, with status \<open>todo\<close> and priority \<open>medium\<close>
  where none was named, no description where it was blank, the caller as its author and the
  server's time as both time stamps.\<close>

theorem CreateTask_then_GetTask:
  assumes "CreateTask app_task_service u inp w = (Inr i, w')" and "server_ok (srv w)" and "no_faults w"
  shows "is_member (CTI_TeamID inp) u (data (srv w)) \<and>
    task_by_id i (data (srv w)) = None \<and>
    fst (GetTask app_task_service u i w') = Inr
       \<lparr>Task_ID = i, Task_TeamID = CTI_TeamID inp, Task_Title = CTI_Title inp,
        Task_Description = (if TrimSpace (CTI_Description inp) \<noteq> [] then Some (CTI_Description inp) else None),
        Task_Status = (if CTI_Status inp = [] then ''todo'' else CTI_Status inp),
        Task_Priority = (if CTI_Priority inp = [] then ''medium'' else CTI_Priority inp),
        Task_AssigneeID = CTI_AssigneeID inp,
        Task_CreatedBy = Some u, Task_DueDate = CTI_DueDate inp,
        Task_CreatedAt = clock (srv w), Task_UpdatedAt = clock (srv w)\<rparr>"
  (is "_ \<and> _ \<and> _ = Inr ?task")
proof -
  have mem: "is_member (CTI_TeamID inp) u (data (srv w))"
    and ins: "insert_task
       \<lparr>Task_ID = 0, Task_TeamID = CTI_TeamID inp, Task_Title = CTI_Title inp,
        Task_Description = (if TrimSpace (CTI_Description inp) \<noteq> [] then Some (CTI_Description inp) else None),
        Task_Status = (if CTI_Status inp = [] then ''todo'' else CTI_Status inp),
        Task_Priority = (if CTI_Priority inp = [] then ''medium'' else CTI_Priority inp),
        Task_AssigneeID = CTI_AssigneeID inp,
        Task_CreatedBy = Some u, Task_DueDate = CTI_DueDate inp,
        Task_CreatedAt = 0, Task_UpdatedAt = 0\<rparr> (srv w) = (Inr i, srv w')"
    using app_tasks.CreateTask_Inr [OF assms(1)] by simp_all
  have below: "ids_below (auto_inc (srv w)) (data (srv w))" using assms(2) by (simp add: server_ok_def)
  have w': "i = auto_inc (srv w) TTasks" "data (srv w') = (data (srv w))\<lparr>tasks := tasks (data (srv w)) @ [?task]\<rparr>"
    using insert_task_Inr [OF ins] by simp_all
  have "task_by_id i (data (srv w)) = None"
    using below by (auto simp: task_by_id_def find_None_iff_ball ids_below_def w'(1))
  moreover have "task_by_id i (data (srv w')) = Some ?task"
    using task_by_id_append [OF below, of i ?task] by (simp add: task_by_id_def w')
  moreover have "is_member (CTI_TeamID inp) u (data (srv w'))"
    using mem by (simp add: w'(2) is_member_def member_row_def)
  moreover have "no_faults w'" using refinesD(2) [OF app_tasks.refines_ops(1) assms(3)] assms(1) by (metis snd_conv)
  moreover have "GetTask (bare_task_service (\<lambda>ps. ps)) u i (srv w') = (Inr ?task, srv w')"
    using calculation by (simp add: GetTask_def bindE_select returnE_apply)
  ultimately show ?thesis
    using refinesD(1) [OF app_tasks.refines_ops(2), of w' u i] mem by simp
qed

definition sample_input :: CreateTaskInput where
  "sample_input = \<lparr>CTI_TeamID = 1, CTI_Title = ''new'', CTI_Description = '' '', CTI_Status = [],
     CTI_Priority = ''high'', CTI_AssigneeID = Some 2, CTI_DueDate = None\<rparr>"

theorem CreateTask_then_GetTask_witness:
  "map_sum id Task_Status (fst (GetTask app_task_service 3 5 (snd (CreateTask app_task_service 3 sample_input sample)))) = Inr ''todo''"
proof -
  have "CreateTask app_task_service 3 sample_input sample = (Inr 5, snd (CreateTask app_task_service 3 sample_input sample))"
    by (rule run_result) code_simp
  from CreateTask_then_GetTask [OF this] sample_ok show ?thesis by (simp add: sample_input_def)
qed

end
