(* ===== verification/AuthService.thy ===== *)
theory AuthService
  imports Interfaces Metrics Config
begin

text \<open>
  \<open>internal/service/auth.go\<close>: registration, login, refresh with rotation, and the checks of
  access tokens. What the code takes from other packages is in the record \<open>authLibs\<close>: bcrypt,
  the JWT library, SHA-256 in hexadecimal, the UUID generator and the clock.
\<close>

section \<open>Libraries and data\<close>

record TokenClaims =
  Claims_Type :: string
  Claims_Subject :: string
  Claims_Issuer :: string
  Claims_IssuedAt :: time
  Claims_ExpiresAt :: time
  Claims_ID :: string

text \<open>
  \<open>jwt_Parse secret leeway now token\<close> is a parser with that leeway whose key function
  accepts only HS256 and answers the secret: the claims of a token it finds valid.
\<close>

record 'w authLibs =
  bcrypt_Generate :: "string \<Rightarrow> int \<Rightarrow> ('w, string) comp"
  bcrypt_Compare :: "string \<Rightarrow> string \<Rightarrow> bool"
  jwt_SignedString :: "string \<Rightarrow> TokenClaims \<Rightarrow> string result"
  jwt_Parse :: "string \<Rightarrow> duration \<Rightarrow> time \<Rightarrow> string \<Rightarrow> TokenClaims option"
  sha256_hex :: "string \<Rightarrow> string"
  uuid_NewString :: "'w \<Rightarrow> string \<times> 'w"
  time_Now :: "'w \<Rightarrow> time"

record 'w TokenBlacklist =
  TokenBlacklist_IsRevoked :: "string \<Rightarrow> ('w, bool) comp"
  TokenBlacklist_Revoke :: "string \<Rightarrow> duration \<Rightarrow> ('w, unit) comp"

record 'w AuthService =
  authsvc_users :: "'w UserStore"
  authsvc_sessions :: "'w SessionStore"
  authsvc_cfg :: Config
  authsvc_metrics :: "'w Metrics option"
  authsvc_bl :: "'w TokenBlacklist option"
  authsvc_libs :: "'w authLibs"

abbreviation TokenTypeAccess :: string where "TokenTypeAccess \<equiv> ''access''"
abbreviation TokenTypeRefresh :: string where "TokenTypeRefresh \<equiv> ''refresh''"

definition NewAuthService ::
    "'w UserStore \<Rightarrow> 'w SessionStore \<Rightarrow> Config \<Rightarrow> 'w Metrics option \<Rightarrow> 'w TokenBlacklist option \<Rightarrow> 'w authLibs
     \<Rightarrow> 'w AuthService result" where
  "NewAuthService us ss cfg metrics bl libs =
     (if length (JWT_Secret (cfg_JWT cfg)) < 32 then Inl (OtherError ''jwt secret must be at least 32 bytes'')
      else if Auth_BcryptCost (cfg_Auth cfg) < 10 \<or> Auth_BcryptCost (cfg_Auth cfg) > 14
      then Inl (OtherError ''bcrypt cost must be between 10 and 14'')
      else Inr \<lparr>authsvc_users = us, authsvc_sessions = ss, authsvc_cfg = cfg, authsvc_metrics = metrics,
                authsvc_bl = bl, authsvc_libs = libs\<rparr>)"

section \<open>Validation\<close>

text \<open>\<open>[^@\s]\<close>, where \<open>\s\<close> is a tab, newline, form feed, carriage return or space.\<close>

definition mailchar :: "char \<Rightarrow> bool" where
  "mailchar c \<longleftrightarrow> c \<noteq> CHR ''@'' \<and> c \<notin> set (bytes [9, 10, 12, 13, 32])"

text \<open>\<open>^[^@\s]+@[^@\s]+\.[^@\s]+$\<close>: one \<open>@\<close>, and a dot inside what follows it.\<close>

definition emailRegex :: "string \<Rightarrow> bool" where
  "emailRegex s =
     (case Split CHR ''@'' s of
        [a, b] \<Rightarrow> a \<noteq> [] \<and> list_all mailchar a \<and> list_all mailchar b \<and> CHR ''.'' \<in> set (butlast (tl b))
      | _ \<Rightarrow> False)"

definition wordchar :: "char \<Rightarrow> bool" where
  "wordchar c \<longleftrightarrow> char_in CHR ''a'' CHR ''z'' c \<or> char_in CHR ''A'' CHR ''Z'' c \<or> char_in CHR ''0'' CHR ''9'' c \<or> c = CHR ''_''"

definition usernameRegex :: "string \<Rightarrow> bool" where
  "usernameRegex s \<longleftrightarrow> 3 \<le> length s \<and> length s \<le> 100 \<and> list_all wordchar s"

definition validateEmail :: "string \<Rightarrow> unit result" where
  "validateEmail email = (if emailRegex email then Inr () else Inl (OtherError ''invalid email''))"

definition validateUsername :: "string \<Rightarrow> unit result" where
  "validateUsername username = (if usernameRegex username then Inr () else Inl (OtherError ''invalid username''))"

text \<open>One round of the loop over the password; a character beyond ASCII changes neither flag.\<close>

definition scanPassword :: "char \<Rightarrow> bool \<times> bool \<Rightarrow> bool \<times> bool" where
  "scanPassword r flags =
     (case flags of (hasLetter, hasDigit) \<Rightarrow>
        if char_in CHR ''a'' CHR ''z'' r \<or> char_in CHR ''A'' CHR ''Z'' r then (True, hasDigit)
        else if char_in CHR ''0'' CHR ''9'' r then (hasLetter, True)
        else (hasLetter, hasDigit))"

definition validatePassword :: "string \<Rightarrow> unit result" where
  "validatePassword password =
     (if length password < 10 then Inl (OtherError ''invalid password'')
      else case fold scanPassword password (False, False) of (hasLetter, hasDigit) \<Rightarrow>
        if \<not> hasLetter \<or> \<not> hasDigit then Inl (OtherError ''invalid password'') else Inr ())"

definition nullableString :: "string \<Rightarrow> string option" where
  "nullableString s = (if s = [] then None else Some s)"

definition hashToken :: "'w AuthService \<Rightarrow> string \<Rightarrow> string" where
  "hashToken s token = sha256_hex (authsvc_libs s) token"

definition lift :: "'a result \<Rightarrow> ('w, 'a) comp" where
  "lift r w = (r, w)"

definition tally :: "('w \<Rightarrow> 'w) \<Rightarrow> ('w, unit) comp" where
  "tally f w = (Inr (), f w)"

section \<open>Registration\<close>

definition Register :: "'w AuthService \<Rightarrow> string \<Rightarrow> string \<Rightarrow> string \<Rightarrow> ('w, int) comp" where
  "Register s email username password =
     bindE (lift (validateEmail email)) (\<lambda>_.
     bindE (lift (validateUsername username)) (\<lambda>_.
     bindE (lift (validatePassword password)) (\<lambda>_.
     bindE (bcrypt_Generate (authsvc_libs s) password (Auth_BcryptCost (cfg_Auth (authsvc_cfg s)))) (\<lambda>hash.
     UserStore_Create (authsvc_users s) email username hash))))"

section \<open>Tokens\<close>

text \<open>\<open>jwt.NewNumericDate\<close> keeps whole seconds.\<close>

definition NewNumericDate :: "time \<Rightarrow> time" where
  "NewNumericDate t = t div second * second"

definition newToken :: "'w AuthService \<Rightarrow> int \<Rightarrow> string \<Rightarrow> duration \<Rightarrow> ('w, string) comp" where
  "newToken s userID typ ttl w =
     (let t = time_Now (authsvc_libs s) w;
          (jti, w1) = uuid_NewString (authsvc_libs s) w
      in (jwt_SignedString (authsvc_libs s) (JWT_Secret (cfg_JWT (authsvc_cfg s)))
            \<lparr>Claims_Type = typ, Claims_Subject = FormatInt userID, Claims_Issuer = JWT_Issuer (cfg_JWT (authsvc_cfg s)),
             Claims_IssuedAt = NewNumericDate t, Claims_ExpiresAt = NewNumericDate (t + ttl), Claims_ID = jti\<rparr>, w1))"

definition newTokenPair :: "'w AuthService \<Rightarrow> int \<Rightarrow> ('w, TokenPair) comp" where
  "newTokenPair s userID =
     bindE (newToken s userID TokenTypeAccess (JWT_AccessTTL (cfg_JWT (authsvc_cfg s)))) (\<lambda>access.
     bindE (newToken s userID TokenTypeRefresh (JWT_RefreshTTL (cfg_JWT (authsvc_cfg s)))) (\<lambda>refresh.
     returnE \<lparr>AccessToken = access, RefreshToken = refresh\<rparr>))"

definition parseToken :: "'w AuthService \<Rightarrow> string \<Rightarrow> string \<Rightarrow> ('w, TokenClaims) comp" where
  "parseToken s tokenString expectedType w =
     (let jwt = cfg_JWT (authsvc_cfg s) in
      case jwt_Parse (authsvc_libs s) (JWT_Secret jwt) (JWT_ClockSkew jwt) (time_Now (authsvc_libs s) w) tokenString of
        None \<Rightarrow> (Inl ErrInvalidToken, w)
      | Some claims \<Rightarrow>
          if Claims_Type claims \<noteq> expectedType then (Inl ErrInvalidToken, w)
          else if Claims_Issuer claims \<noteq> JWT_Issuer jwt then (Inl ErrInvalidToken, w)
          else (case authsvc_bl s of
                  Some bl \<Rightarrow>
                    if expectedType = TokenTypeAccess \<and> Blacklist_Enabled (JWT_Blacklist jwt) \<and> Claims_ID claims \<noteq> [] then
                      (case TokenBlacklist_IsRevoked bl (Claims_ID claims) w of
                         (Inl e, w1) \<Rightarrow>
                           if Blacklist_FailOpen (JWT_Blacklist jwt)
                           then (Inr claims, IncJWTBlacklistRedisError (authsvc_metrics s) w1)
                           else (Inl ErrInvalidToken, w1)
                       | (Inr revoked, w1) \<Rightarrow>
                           (if revoked then Inl ErrInvalidToken else Inr claims, w1))
                    else (Inr claims, w)
                | None \<Rightarrow> (Inr claims, w)))"

text \<open>The user id of a token whose claims were read, as both entry points compute it.\<close>

definition subjectID :: "TokenClaims result \<Rightarrow> int result" where
  "subjectID r =
     (case r of Inl _ \<Rightarrow> Inl ErrInvalidToken
      | Inr claims \<Rightarrow> (case ParseInt (Claims_Subject claims) of None \<Rightarrow> Inl ErrInvalidToken | Some n \<Rightarrow> Inr n))"

definition ParseAccessTokenCtx :: "'w AuthService \<Rightarrow> string \<Rightarrow> ('w, int) comp" where
  "ParseAccessTokenCtx s tokenString = bindR (parseToken s tokenString TokenTypeAccess) (\<lambda>r w. (subjectID r, w))"

text \<open>The variant with the background context, which has no deadline.\<close>

definition ParseAccessToken :: "'w AuthService \<Rightarrow> string \<Rightarrow> ('w, int) comp" where
  "ParseAccessToken s tokenString = ParseAccessTokenCtx s tokenString"

definition ParseRefreshTokenUserID :: "'w AuthService \<Rightarrow> string \<Rightarrow> ('w, int) comp" where
  "ParseRefreshTokenUserID s tokenString = bindR (parseToken s tokenString TokenTypeRefresh) (\<lambda>r w. (subjectID r, w))"

section \<open>Login\<close>

definition createSession :: "'w AuthService \<Rightarrow> int \<Rightarrow> string \<Rightarrow> string \<Rightarrow> string \<Rightarrow> ('w, unit) comp" where
  "createSession s userID refreshToken ip userAgent w =
     bindE (SessionStore_Create (authsvc_sessions s)
       \<lparr>Session_ID = 0, Session_UserID = userID, Session_TokenHash = hashToken s refreshToken,
        Session_ExpiresAt = time_Now (authsvc_libs s) w + JWT_RefreshTTL (cfg_JWT (authsvc_cfg s)),
        Session_RevokedAt = None, Session_LastUsedAt = None,
        Session_UserAgent = nullableString userAgent, Session_IP = nullableString ip, Session_CreatedAt = 0\<rparr>)
       (\<lambda>_. returnE ()) w"

definition loginFail :: "'w AuthService \<Rightarrow> string \<Rightarrow> ('w, 'a) comp" where
  "loginFail s reason w =
     (Inl ErrInvalidCredentials,
      IncAuthEventReason (authsvc_metrics s) ''login_fail'' reason (IncAuthEvent (authsvc_metrics s) ''login_fail'' w))"

definition Login :: "'w AuthService \<Rightarrow> string \<Rightarrow> string \<Rightarrow> string \<Rightarrow> string \<Rightarrow> ('w, TokenPair) comp" where
  "Login s login password ip userAgent =
     bindR (if CHR ''@'' \<in> set login then UserStore_GetByEmail (authsvc_users s) login
            else UserStore_GetByUsername (authsvc_users s) login) (\<lambda>r.
     case r of
       Inl e \<Rightarrow> loginFail s ''db_error''
     | Inr None \<Rightarrow> loginFail s ''user_not_found''
     | Inr (Some user) \<Rightarrow>
         if \<not> bcrypt_Compare (authsvc_libs s) (User_PasswordHash user) password then loginFail s ''bad_password''
         else
           bindE (newTokenPair s (User_ID user)) (\<lambda>pair.
           bindE (createSession s (User_ID user) (RefreshToken pair) ip userAgent) (\<lambda>_.
           bindE (tally (IncAuthEvent (authsvc_metrics s) ''login_success'')) (\<lambda>_.
           returnE pair))))"

section \<open>Refresh\<close>

text \<open>The closure that \<open>Refresh\<close> runs in a transaction, for the time \<open>t\<close> it read before.\<close>

definition rotateSession :: "'w AuthService \<Rightarrow> int \<Rightarrow> string \<Rightarrow> time \<Rightarrow> string \<Rightarrow> string \<Rightarrow> ('w, TokenPair) comp" where
  "rotateSession s userID hash t ip userAgent =
     bindE (SessionStore_GetByTokenHashForUpdate (authsvc_sessions s) hash) (\<lambda>session.
     case session of None \<Rightarrow> raiseE ErrInvalidToken | Some x \<Rightarrow>
     if Session_RevokedAt x \<noteq> None then raiseE ErrTokenReuse
     else if Session_ExpiresAt x < t then raiseE ErrInvalidToken else
     bindE (newTokenPair s userID) (\<lambda>newPair.
     bindE (SessionStore_RevokeWithTx (authsvc_sessions s) hash t) (\<lambda>_.
     bindE (SessionStore_CreateWithTx (authsvc_sessions s)
       \<lparr>Session_ID = 0, Session_UserID = userID, Session_TokenHash = hashToken s (RefreshToken newPair),
        Session_ExpiresAt = t + JWT_RefreshTTL (cfg_JWT (authsvc_cfg s)),
        Session_RevokedAt = None, Session_LastUsedAt = None,
        Session_UserAgent = nullableString userAgent, Session_IP = nullableString ip, Session_CreatedAt = 0\<rparr>) (\<lambda>_.
     returnE newPair))))"

definition refreshFail :: "'w AuthService \<Rightarrow> string \<Rightarrow> err \<Rightarrow> ('w, 'a) comp" where
  "refreshFail s reason e w =
     (Inl e,
      IncAuthEventReason (authsvc_metrics s) ''refresh_fail'' reason (IncAuthEvent (authsvc_metrics s) ''refresh_fail'' w))"

definition Refresh :: "'w AuthService \<Rightarrow> string \<Rightarrow> string \<Rightarrow> string \<Rightarrow> ('w, TokenPair) comp" where
  "Refresh s refreshToken ip userAgent =
     bindR (parseToken s refreshToken TokenTypeRefresh) (\<lambda>r.
     case r of
       Inl _ \<Rightarrow> refreshFail s ''invalid_token'' ErrInvalidToken
     | Inr claims \<Rightarrow>
         (case ParseInt (Claims_Subject claims) of
            None \<Rightarrow> refreshFail s ''invalid_subject'' ErrInvalidToken
          | Some userID \<Rightarrow> (\<lambda>w.
              bindR (SessionStore_WithTx (authsvc_sessions s)
                  (rotateSession s userID (hashToken s refreshToken) (time_Now (authsvc_libs s) w) ip userAgent)) (\<lambda>r.
              case r of
                Inl e \<Rightarrow> refreshFail s
                  (if e = ErrInvalidToken then ''invalid_token''
                   else if e = ErrTokenReuse then ''token_reuse'' else ''tx_error'') e
              | Inr newPair \<Rightarrow>
                  bindE (tally (IncAuthEvent (authsvc_metrics s) ''refresh_success'')) (\<lambda>_.
                  bindE (tally (IncAuthEvent (authsvc_metrics s) ''revoke'')) (\<lambda>_.
                  returnE newPair))) w)))"

end
