(* ===== verification/AuthContracts.thy ===== *)
theory AuthContracts
  imports AuthService TaskTransactions
begin

text \<open>
  What the auth service guarantees over any user and session store that keeps its contract,
  and any libraries that leave the database alone.
\<close>

section \<open>The contracts\<close>

locale user_store = db_view db healthy
  for db :: "'w \<Rightarrow> server" and healthy :: "'w \<Rightarrow> bool" +
  fixes U :: "'w UserStore"
  assumes user_create: "executes db healthy (UserStore_Create U e n h) (insert_user e n h)"
    and user_by_email: "executes db healthy (UserStore_GetByEmail U e) (select (user_by_email e))"
    and user_by_username: "executes db healthy (UserStore_GetByUsername U n) (select (user_by_username n))"

text \<open>\<open>WithTx\<close> runs the function in a transaction: it commits what the function did when it
  succeeds, and otherwise leaves the tables as they were.\<close>

locale session_store = db_view db healthy
  for db :: "'w \<Rightarrow> server" and healthy :: "'w \<Rightarrow> bool" +
  fixes S :: "'w SessionStore"
  assumes session_create: "executes db healthy (SessionStore_Create S x) (insert_session x)"
    and session_get: "executes db healthy (SessionStore_GetByTokenHashForUpdate S h) (select (session_by_token h))"
    and session_revoke_tx: "executes db healthy (SessionStore_RevokeWithTx S h t) (revoke_session h t)"
    and session_create_tx: "executes db healthy (SessionStore_CreateWithTx S x) (insert_session x)"
    and with_tx_Inr: "SessionStore_WithTx S fn w = (Inr a, w') \<Longrightarrow>
      \<exists>w0 w1. db w0 = (db w)\<lparr>open_tx := Some (data (db w))\<rparr> \<and> fn w0 = (Inr a, w1) \<and>
        db w' = (db w1)\<lparr>open_tx := None\<rparr>"
    and with_tx_Inl: "SessionStore_WithTx S fn w = (Inl e, w') \<Longrightarrow>
      db w' = db w \<or> (\<exists>w0 r w1. db w0 = (db w)\<lparr>open_tx := Some (data (db w))\<rparr> \<and> fn w0 = (r, w1) \<and>
        db w' = rollback_tx (db w1))"
    and with_tx_healthy: "healthy w \<Longrightarrow>
      \<exists>w0. db w0 = (db w)\<lparr>open_tx := Some (data (db w))\<rparr> \<and> healthy w0 \<and>
        (healthy (snd (fn w0)) \<longrightarrow> fst (SessionStore_WithTx S fn w) = fst (fn w0))"

locale auth_service = user_store db healthy "authsvc_users s" + session_store db healthy "authsvc_sessions s"
  for db :: "'w \<Rightarrow> server" and healthy :: "'w \<Rightarrow> bool" and s :: "'w AuthService" +
  assumes libs_db: "db (snd (bcrypt_Generate (authsvc_libs s) p cost w)) = db w"
      "db (snd (uuid_NewString (authsvc_libs s) w)) = db w"
    and libs_healthy: "healthy (snd (uuid_NewString (authsvc_libs s) w)) = healthy w"
    and bl_db: "authsvc_bl s = Some bl \<Longrightarrow> db (snd (TokenBlacklist_IsRevoked bl j w)) = db w"
    and metrics_db: "uncounted db (authsvc_metrics s)"
begin

lemma newToken_db: "db (snd (newToken s u typ ttl w)) = db w"
  using libs_db(2) [of w] by (simp add: newToken_def split_beta Let_def)

lemma newToken_healthy: "healthy (snd (newToken s u typ ttl w)) = healthy w"
  using libs_healthy [of w] by (simp add: newToken_def split_beta Let_def)

lemma newTokenPair_db: "db (snd (newTokenPair s u w)) = db w"
  using newToken_db by (auto simp: newTokenPair_def bindE_apply split: sum.split)

lemma newTokenPair_healthy: "healthy (snd (newTokenPair s u w)) = healthy w"
  using newToken_healthy by (auto simp: newTokenPair_def bindE_apply split: sum.split)

lemma parseToken_db: "db (snd (parseToken s tok typ w)) = db w"
  using bl_db metrics_db
  by (auto simp: parseToken_def Let_def split: option.split prod.split sum.split) (metis snd_conv)+

lemma pair_step:
  assumes "bindE (newTokenPair s u) k w = (r, w')"
  shows "(\<exists>e. r = Inl e \<and> db w' = db w) \<or>
    (\<exists>p w1. newTokenPair s u w = (Inr p, w1) \<and> db w1 = db w \<and> k p w1 = (r, w'))"
proof -
  obtain x w1 where run: "newTokenPair s u w = (x, w1)" by (cases "newTokenPair s u w")
  have "db w1 = db w" using newTokenPair_db [of u w] run by simp
  with run assms show ?thesis by (cases x) (auto simp: bindE_apply)
qed

lemma loginFail_eq: "loginFail s reason w = (r, w') \<Longrightarrow> r = Inl ErrInvalidCredentials \<and> db w' = db w"
  using metrics_db by (auto simp: loginFail_def)

lemma refreshFail_eq: "refreshFail s reason e w = (r, w') \<Longrightarrow> r = Inl e \<and> db w' = db w"
  using metrics_db by (auto simp: refreshFail_def)

lemma Login_Inr:
  assumes "Login s login password ip ua w = (Inr pair, w')"
  shows "\<exists>user x i. (if CHR ''@'' \<in> set login then user_by_email login (data (db w)) else user_by_username login (data (db w))) = Some user \<and>
     bcrypt_Compare (authsvc_libs s) (User_PasswordHash user) password \<and>
     Session_UserID x = User_ID user \<and> Session_TokenHash x = hashToken s (RefreshToken pair) \<and>
     Session_RevokedAt x = None \<and> insert_session x (db w) = (Inr i, db w')"
proof -
  let ?q = "if CHR ''@'' \<in> set login then user_by_email login else user_by_username login"
  obtain r w1 where get: "(if CHR ''@'' \<in> set login then UserStore_GetByEmail (authsvc_users s) login
      else UserStore_GetByUsername (authsvc_users s) login) w = (r, w1)" (is "?m w = _") by (cases "?m w")
  have "executes db healthy ?m (select ?q)" using user_by_email user_by_username by simp
  note got = executes_select [OF this get]
  obtain user where r: "r = Inr (Some user)" and cmp: "bcrypt_Compare (authsvc_libs s) (User_PasswordHash user) password"
    and rest: "bindE (newTokenPair s (User_ID user)) (\<lambda>pair.
           bindE (createSession s (User_ID user) (RefreshToken pair) ip ua) (\<lambda>_.
           bindE (tally (IncAuthEvent (authsvc_metrics s) ''login_success'')) (\<lambda>_. returnE pair))) w1 = (Inr pair, w')"
    using assms get by (auto simp: Login_def bindR_apply dest: loginFail_eq split: sum.splits option.splits if_splits)
  have user: "?q (data (db w)) = Some user" using got(2) r by auto
  obtain w2 w3 where p: "newTokenPair s (User_ID user) w1 = (Inr pair, w2)" "db w2 = db w1"
    and c: "createSession s (User_ID user) (RefreshToken pair) ip ua w2 = (Inr (), w3)"
    and w': "db w' = db w3"
    using pair_step [OF rest] metrics_db by (auto simp: success tally_def)
  then obtain i x where "SessionStore_Create (authsvc_sessions s) x w2 = (Inr i, w3)"
    and x: "Session_UserID x = User_ID user" "Session_TokenHash x = hashToken s (RefreshToken pair)" "Session_RevokedAt x = None"
    by (auto simp: createSession_def success)
  from executes_Inr [OF session_create this(1)] have "insert_session x (db w) = (Inr i, db w')"
    using got(1) p(2) w' by simp
  with user cmp x show ?thesis by (auto split: if_splits)
qed

lemma Login_Inl:
  assumes "Login s login password ip ua w = (Inl e, w')"
  shows "db w' = db w"
proof -
  let ?q = "if CHR ''@'' \<in> set login then user_by_email login else user_by_username login"
  obtain r w1 where get: "(if CHR ''@'' \<in> set login then UserStore_GetByEmail (authsvc_users s) login
      else UserStore_GetByUsername (authsvc_users s) login) w = (r, w1)" (is "?m w = _") by (cases "?m w")
  have "executes db healthy ?m (select ?q)" using user_by_email user_by_username by simp
  note got = executes_select(1) [OF this get]
  show ?thesis
  proof (cases "\<exists>user. r = Inr (Some user) \<and> bcrypt_Compare (authsvc_libs s) (User_PasswordHash user) password")
    case False
    with assms get got show ?thesis
      by (auto simp: Login_def bindR_apply dest: loginFail_eq split: sum.splits option.splits if_splits)
  next
    case True
    then obtain user where r: "r = Inr (Some user)" "bcrypt_Compare (authsvc_libs s) (User_PasswordHash user) password"
      by blast
    have "bindE (newTokenPair s (User_ID user)) (\<lambda>pair.
           bindE (createSession s (User_ID user) (RefreshToken pair) ip ua) (\<lambda>_.
           bindE (tally (IncAuthEvent (authsvc_metrics s) ''login_success'')) (\<lambda>_. returnE pair))) w1 = (Inl e, w')"
      using assms get r by (simp add: Login_def bindR_apply)
    from pair_step [OF this] got show ?thesis
      by (auto simp: bindE_Inl tally_def createSession_def
          dest: executes_clean [OF session_create fails_clean_stmts(14)])
  qed
qed

text \<open>The closure of \<open>Refresh\<close>: what it needs, what it writes, and that it writes only inside
  the transaction.\<close>

lemma rotateSession_Inr:
  assumes "rotateSession s u h t ip ua w = (Inr pair, w')"
  shows "\<exists>x y s1 i. session_by_token h (data (db w)) = Some x \<and> Session_RevokedAt x = None \<and> \<not> Session_ExpiresAt x < t \<and>
     Session_UserID y = u \<and> Session_TokenHash y = hashToken s (RefreshToken pair) \<and> Session_RevokedAt y = None \<and>
     Session_ExpiresAt y = t + JWT_RefreshTTL (cfg_JWT (authsvc_cfg s)) \<and>
     revoke_session h t (db w) = (Inr (), s1) \<and> insert_session y s1 = (Inr i, db w')"
proof -
  from assms obtain x w1 where x: "session_by_token h (data (db w)) = Some x" "Session_RevokedAt x = None" "\<not> Session_ExpiresAt x < t"
    and w1: "db w1 = db w"
    and rest: "bindE (newTokenPair s u) (\<lambda>newPair.
     bindE (SessionStore_RevokeWithTx (authsvc_sessions s) h t) (\<lambda>_.
     bindE (SessionStore_CreateWithTx (authsvc_sessions s)
       \<lparr>Session_ID = 0, Session_UserID = u, Session_TokenHash = hashToken s (RefreshToken newPair),
        Session_ExpiresAt = t + JWT_RefreshTTL (cfg_JWT (authsvc_cfg s)),
        Session_RevokedAt = None, Session_LastUsedAt = None,
        Session_UserAgent = nullableString ua, Session_IP = nullableString ip, Session_CreatedAt = 0\<rparr>) (\<lambda>_.
     returnE newPair))) w1 = (Inr pair, w')"
    unfolding rotateSession_def
    by (auto dest!: executes_bind_select [OF session_get] split: option.splits if_split_asm)
  from pair_step [OF rest] obtain w2 w3 i y where w2: "db w2 = db w"
    and rev: "SessionStore_RevokeWithTx (authsvc_sessions s) h t w2 = (Inr (), w3)"
    and cre: "SessionStore_CreateWithTx (authsvc_sessions s) y w3 = (Inr i, w')"
    and y: "Session_UserID y = u" "Session_TokenHash y = hashToken s (RefreshToken pair)" "Session_RevokedAt y = None"
      "Session_ExpiresAt y = t + JWT_RefreshTTL (cfg_JWT (authsvc_cfg s))"
    using w1 by (auto simp: success)
  from executes_Inr [OF session_revoke_tx rev] executes_Inr [OF session_create_tx cre] w2 x y
  show ?thesis by auto
qed

lemma rotateSession_tx: "keeps (\<lambda>w. open_tx (db w) = Some d) (rotateSession s u h t ip ua)"
  unfolding rotateSession_def
  by (intro keeps_intros executes_keeps [OF session_get keeps_open_tx(1)]
      executes_keeps [OF session_revoke_tx keeps_open_tx(7)] executes_keeps [OF session_create_tx keeps_open_tx(6)])
    (simp add: keeps_def newTokenPair_db)

lemma rotateSession_ok: "keeps (\<lambda>w. server_ok (db w)) (rotateSession s u h t ip ua)"
  unfolding rotateSession_def
  by (intro keeps_intros executes_keeps [OF session_get keeps_select]
      executes_keeps [OF session_revoke_tx keeps_revoke_session] executes_keeps [OF session_create_tx keeps_insert_session])
    (simp add: keeps_def newTokenPair_db)

lemma WithTx_atomic:
  assumes "SessionStore_WithTx (authsvc_sessions s) (rotateSession s u h t ip ua) w = (Inl e, w')"
    and "open_tx (db w) = None"
  shows "data (db w') = data (db w) \<and> open_tx (db w') = None"
  using with_tx_Inl [OF assms(1)] assms(2) keepsE [OF rotateSession_tx]
  by (fastforce simp: rollback_tx_def split: option.splits)

lemma WithTx_ok:
  assumes "server_ok (db w)"
  shows "server_ok (db (snd (SessionStore_WithTx (authsvc_sessions s) (rotateSession s u h t ip ua) w)))"
proof -
  obtain r w' where run: "SessionStore_WithTx (authsvc_sessions s) (rotateSession s u h t ip ua) w = (r, w')"
    by (cases "SessionStore_WithTx (authsvc_sessions s) (rotateSession s u h t ip ua) w")
  have open_ok: "server_ok ((db w)\<lparr>open_tx := Some (data (db w))\<rparr>)"
    using assms by (simp add: server_ok_def)
  have step: "server_ok (db w1)" if "rotateSession s u h t ip ua w0 = (x, w1)"
      "db w0 = (db w)\<lparr>open_tx := Some (data (db w))\<rparr>" for w0 x w1
    using keepsE [OF rotateSession_ok that(1)] open_ok that(2) by simp
  have close: "server_ok (x\<lparr>open_tx := None\<rparr>)" if "server_ok x" for x using that by (simp add: server_ok_def)
  have "server_ok (db w')"
  proof (cases r)
    case (Inl e)
    from with_tx_Inl [OF run [unfolded Inl]] assms step server_ok_rollback show ?thesis by metis
  next
    case (Inr a)
    from with_tx_Inr [OF run [unfolded Inr]] step close show ?thesis by metis
  qed
  with run show ?thesis by simp
qed

text \<open>The step of \<open>Refresh\<close> after the token was read: it is the transaction, up to counters.\<close>

lemma Refresh_cases:
  assumes "Refresh s tok ip ua w = (r, w')"
  shows "(r = Inl ErrInvalidToken \<and> db w' = db w) \<or>
    (\<exists>claims u w1 w2. parseToken s tok TokenTypeRefresh w = (Inr claims, w1) \<and> ParseInt (Claims_Subject claims) = Some u \<and>
       db w1 = db w \<and> db w' = db w2 \<and>
       SessionStore_WithTx (authsvc_sessions s)
         (rotateSession s u (hashToken s tok) (time_Now (authsvc_libs s) w1) ip ua) w1 = (r, w2))"
proof -
  obtain x w1 where p: "parseToken s tok TokenTypeRefresh w = (x, w1)" by (cases "parseToken s tok TokenTypeRefresh w")
  have db1: "db w1 = db w" using parseToken_db [of tok TokenTypeRefresh w] p by simp
  show ?thesis
  proof (cases "\<exists>claims u. x = Inr claims \<and> ParseInt (Claims_Subject claims) = Some u")
    case False
    with assms p db1 show ?thesis
      by (auto simp: Refresh_def bindR_apply dest: refreshFail_eq split: sum.splits option.splits)
  next
    case True
    then obtain claims u where x: "x = Inr claims" "ParseInt (Claims_Subject claims) = Some u" by blast
    obtain y w2 where y: "SessionStore_WithTx (authsvc_sessions s)
         (rotateSession s u (hashToken s tok) (time_Now (authsvc_libs s) w1) ip ua) w1 = (y, w2)" (is "?m = _")
      by (cases ?m)
    have "r = y \<and> db w' = db w2"
      using assms p x y metrics_db
      by (cases y) (auto simp: Refresh_def bindR_apply bindE_apply tally_def returnE_apply dest: refreshFail_eq)
    with p x y db1 show ?thesis by blast
  qed
qed

lemma Refresh_Inr:
  assumes "Refresh s tok ip ua w = (Inr pair, w')"
  shows "\<exists>x y t i u s0 s1 s2. session_by_token (hashToken s tok) (data (db w)) = Some x \<and>
     Session_RevokedAt x = None \<and> \<not> Session_ExpiresAt x < t \<and>
     Session_UserID y = u \<and> Session_TokenHash y = hashToken s (RefreshToken pair) \<and> Session_RevokedAt y = None \<and>
     s0 = (db w)\<lparr>open_tx := Some (data (db w))\<rparr> \<and>
     revoke_session (hashToken s tok) t s0 = (Inr (), s1) \<and> insert_session y s1 = (Inr i, s2) \<and>
     db w' = s2\<lparr>open_tx := None\<rparr>"
proof -
  from Refresh_cases [OF assms] obtain u w1 w2 where w1: "db w1 = db w" and w2: "db w' = db w2"
    and tx: "SessionStore_WithTx (authsvc_sessions s)
         (rotateSession s u (hashToken s tok) (time_Now (authsvc_libs s) w1) ip ua) w1 = (Inr pair, w2)" by auto
  from with_tx_Inr [OF tx] obtain v0 v1 where v: "db v0 = (db w1)\<lparr>open_tx := Some (data (db w1))\<rparr>"
    "rotateSession s u (hashToken s tok) (time_Now (authsvc_libs s) w1) ip ua v0 = (Inr pair, v1)"
    "db w2 = (db v1)\<lparr>open_tx := None\<rparr>" by blast
  from rotateSession_Inr [OF v(2)] show ?thesis by (fastforce simp: v(1,3) w1 w2)
qed

lemma Refresh_atomic:
  assumes "Refresh s tok ip ua w = (Inl e, w')" and "open_tx (db w) = None"
  shows "data (db w') = data (db w) \<and> open_tx (db w') = None"
  using Refresh_cases [OF assms(1)] assms(2) WithTx_atomic by metis

lemma writes_ok:
  assumes "server_ok (db w)"
  shows "server_ok (db (snd (Register s em un pw w)))" "server_ok (db (snd (Login s lg pw ip ua w)))"
    "server_ok (db (snd (Refresh s tok ip ua w)))"
proof -
  have "keeps (\<lambda>w. server_ok (db w)) (Register s em un pw)"
    unfolding Register_def
    by (intro keeps_intros executes_keeps [OF user_create keeps_insert_user]) (auto simp: keeps_def lift_def libs_db(1))
  with assms show "server_ok (db (snd (Register s em un pw w)))" by (simp add: keeps_def)
  show "server_ok (db (snd (Login s lg pw ip ua w)))"
  proof (cases "fst (Login s lg pw ip ua w)")
    case (Inl e)
    from Login_Inl [OF run_result [of "Login s lg pw ip ua" w, OF Inl]] assms show ?thesis by simp
  next
    case (Inr pair)
    from Login_Inr [OF run_result [of "Login s lg pw ip ua" w, OF Inr]] assms keepsE [OF keeps_insert_session] show ?thesis by metis
  qed
  show "server_ok (db (snd (Refresh s tok ip ua w)))"
    using Refresh_cases [of tok ip ua w] assms WithTx_ok by (metis prod.collapse snd_conv)
qed

text \<open>A revoked token is refused: never a new pair, and where nothing fails the answer is
  \<open>ErrTokenReuse\<close>.\<close>

lemma Refresh_revoked:
  assumes "session_by_token (hashToken s tok) (data (db w)) = Some x" and "Session_RevokedAt x \<noteq> None"
  shows "fst (Refresh s tok ip ua w) \<noteq> Inr pair"
  using Refresh_Inr [of tok ip ua w pair "snd (Refresh s tok ip ua w)"] assms by (metis option.sel prod.collapse)

lemma parseToken_refresh:
  assumes "jwt_Parse (authsvc_libs s) (JWT_Secret (cfg_JWT (authsvc_cfg s))) (JWT_ClockSkew (cfg_JWT (authsvc_cfg s)))
      (time_Now (authsvc_libs s) w) tok = Some claims"
    and "Claims_Type claims = TokenTypeRefresh" and "Claims_Issuer claims = JWT_Issuer (cfg_JWT (authsvc_cfg s))"
  shows "parseToken s tok TokenTypeRefresh w = (Inr claims, w)"
  using assms by (auto simp: parseToken_def Let_def split: option.split)

lemma rotateSession_reuse:
  assumes "healthy w" and "session_by_token h (data (db w)) = Some x" and "Session_RevokedAt x \<noteq> None"
  shows "fst (rotateSession s u h t ip ua w) = Inl ErrTokenReuse" "healthy (snd (rotateSession s u h t ip ua w))"
proof -
  obtain r w1 where run: "SessionStore_GetByTokenHashForUpdate (authsvc_sessions s) h w = (r, w1)"
    by (cases "SessionStore_GetByTokenHashForUpdate (authsvc_sessions s) h w")
  with executes_healthy [OF session_get assms(1), of h] assms(2,3)
  show "fst (rotateSession s u h t ip ua w) = Inl ErrTokenReuse" "healthy (snd (rotateSession s u h t ip ua w))"
    by (simp_all add: rotateSession_def bindE_apply select_def)
qed

lemma Refresh_reuse:
  assumes "healthy w" and "parseToken s tok TokenTypeRefresh w = (Inr claims, w)"
    and "ParseInt (Claims_Subject claims) = Some u"
    and x: "session_by_token (hashToken s tok) (data (db w)) = Some x" "Session_RevokedAt x \<noteq> None"
  shows "fst (Refresh s tok ip ua w) = Inl ErrTokenReuse"
proof -
  let ?fn = "rotateSession s u (hashToken s tok) (time_Now (authsvc_libs s) w) ip ua"
  obtain w0 where w0: "db w0 = (db w)\<lparr>open_tx := Some (data (db w))\<rparr>" "healthy w0"
    "healthy (snd (?fn w0)) \<longrightarrow> fst (SessionStore_WithTx (authsvc_sessions s) ?fn w) = fst (?fn w0)"
    using with_tx_healthy [OF assms(1)] by blast
  have "fst (SessionStore_WithTx (authsvc_sessions s) ?fn w) = Inl ErrTokenReuse"
    using rotateSession_reuse [OF w0(2), of "hashToken s tok" x] w0 x by simp
  with assms(2,3) show ?thesis by (simp add: Refresh_def bindR_apply refreshFail_def)
qed

end

end
