(* ===== verification/LoginGuard.thy ===== *)
theory LoginGuard
  imports Redis Metrics
begin

text \<open>
  \<open>internal/infra/auth\<close>: the lockout that counts failed logins per name and locks the name
  after too many, and the list of revoked access tokens.
\<close>

section \<open>Lockout\<close>

text \<open>\<open>lockout_lower\<close> is the part of \<open>strings.ToLower\<close> beyond ASCII.\<close>

record 'w Lockout =
  lockout_client :: "'w redisClient option"
  lockout_maxAttempts :: int
  lockout_lockTTL :: duration
  lockout_keyMaxLen :: int
  lockout_metrics :: "'w Metrics option"
  lockout_lower :: "string \<Rightarrow> string"

definition Normalize :: "'w Lockout \<Rightarrow> string \<Rightarrow> string result" where
  "Normalize l login =
     (let s = ToLower (lockout_lower l) (TrimSpace login);
          m = (if lockout_keyMaxLen l \<le> 0 then 128 else lockout_keyMaxLen l)
      in if s = [] then Inl (OtherError ''empty login'')
         else if int (length s) > m then Inl (OtherError ''login too long'')
         else Inr s)"

definition failKey :: "string \<Rightarrow> string" where
  "failKey login = ''auth:fail:'' @ login"

definition lockKey :: "string \<Rightarrow> string" where
  "lockKey login = ''auth:lock:'' @ login"

definition Lockout_onRedisError :: "'w Lockout \<Rightarrow> 'w \<Rightarrow> 'w" where
  "Lockout_onRedisError l = inc (lockout_metrics l) ''RedisDegraded'' [''lockout'']"

definition IsLocked :: "'w Lockout \<Rightarrow> string \<Rightarrow> ('w, bool \<times> duration) comp" where
  "IsLocked l normalized w =
     (case lockout_client l of
        None \<Rightarrow> (Inr (False, 0), w)
      | Some c \<Rightarrow>
          if lockout_maxAttempts l \<le> 0 \<or> lockout_lockTTL l \<le> 0 then (Inr (False, 0), w)
          else (case redis_TTL c (lockKey normalized) w of
                  (Inl e, w1) \<Rightarrow> (Inl e, Lockout_onRedisError l w1)
                | (Inr ttl, w1) \<Rightarrow> (Inr (if ttl > 0 then (True, ttl) else (False, 0)), w1)))"

definition OnFailure :: "'w Lockout \<Rightarrow> string \<Rightarrow> ('w, bool \<times> duration) comp" where
  "OnFailure l normalized w =
     (case lockout_client l of
        None \<Rightarrow> (Inr (False, 0), w)
      | Some c \<Rightarrow>
          if lockout_maxAttempts l \<le> 0 \<or> lockout_lockTTL l \<le> 0 then (Inr (False, 0), w)
          else (case redis_Incr c (failKey normalized) w of
                  (Inl e, w1) \<Rightarrow> (Inl e, Lockout_onRedisError l w1)
                | (Inr count, w1) \<Rightarrow>
                    let w2 = (if count = 1 then
                                (case redis_Expire c (failKey normalized) (lockout_lockTTL l) w1 of
                                   (Inl e, w') \<Rightarrow> Lockout_onRedisError l w'
                                 | (Inr _, w') \<Rightarrow> w')
                              else w1)
                    in if count < lockout_maxAttempts l then (Inr (False, 0), w2)
                       else (case redis_Set c (lockKey normalized) ''1'' (lockout_lockTTL l) w2 of
                               (Inl e, w3) \<Rightarrow> (Inl e, Lockout_onRedisError l w3)
                             | (Inr _, w3) \<Rightarrow>
                                 (Inr (True, lockout_lockTTL l), inc (lockout_metrics l) ''LoginLockouts'' [] w3))))"

definition OnSuccess :: "'w Lockout \<Rightarrow> string \<Rightarrow> ('w, unit) comp" where
  "OnSuccess l normalized w =
     (case lockout_client l of
        None \<Rightarrow> (Inr (), w)
      | Some c \<Rightarrow>
          (case redis_Del c [failKey normalized, lockKey normalized] w of
             (Inl e, w1) \<Rightarrow> (Inl e, Lockout_onRedisError l w1)
           | (Inr _, w1) \<Rightarrow> (Inr (), w1)))"

definition FormatRetryAfter :: "duration \<Rightarrow> string" where
  "FormatRetryAfter d =
     (let secs = whole_seconds d;
          secs = (if d > 0 \<and> secs = 0 then 1 else secs)
      in FormatInt (if secs < 1 then 1 else secs))"

section \<open>Blacklist\<close>

record 'w JWTBlacklist =
  blacklist_client :: "'w redisClient option"

definition blacklistKey :: "string \<Rightarrow> string" where
  "blacklistKey jti = ''blacklist:jti:'' @ jti"

definition IsRevoked :: "'w JWTBlacklist \<Rightarrow> string \<Rightarrow> ('w, bool) comp" where
  "IsRevoked b jti w =
     (case blacklist_client b of
        None \<Rightarrow> (Inr False, w)
      | Some c \<Rightarrow>
          if jti = [] then (Inl (OtherError ''empty jti''), w)
          else bindE (redis_Exists c (blacklistKey jti)) (\<lambda>n. returnE (n > 0)) w)"

definition Blacklist_Revoke :: "'w JWTBlacklist \<Rightarrow> string \<Rightarrow> duration \<Rightarrow> ('w, unit) comp" where
  "Blacklist_Revoke b jti ttl =
     (case blacklist_client b of
        None \<Rightarrow> returnE ()
      | Some c \<Rightarrow>
          if jti = [] then returnE ()
          else redis_Set c (blacklistKey jti) ''1'' (if ttl \<le> 0 then second else ttl))"

lemma keys_apart [simp]:
  "failKey a \<noteq> lockKey b" "lockKey b \<noteq> failKey a" "blacklistKey j \<noteq> failKey a" "blacklistKey j \<noteq> lockKey a"
  "failKey a = failKey b \<longleftrightarrow> a = b" "lockKey a = lockKey b \<longleftrightarrow> a = b" "blacklistKey i = blacklistKey j \<longleftrightarrow> i = j"
  by (simp_all add: failKey_def lockKey_def blacklistKey_def)

lemma Normalize_bounds:
  assumes "Normalize l login = Inr s" and "lockout_keyMaxLen l > 0"
  shows "s \<noteq> []" "int (length s) \<le> lockout_keyMaxLen l"
  using assms by (auto simp: Normalize_def Let_def split: if_splits)

end
