(* ===== verification/LoginGuardRuns.thy ===== *)
theory LoginGuardRuns
  imports LoginGuard Sample
begin

text \<open>What the lockout and the blacklist guarantee while Redis answers.\<close>

text \<open>The keyspace after a failure that makes the counter \<open>n + 1\<close>.\<close>

definition counted :: "duration \<Rightarrow> string \<Rightarrow> int \<Rightarrow> time option \<Rightarrow> keyspace \<Rightarrow> keyspace" where
  "counted ttl u n e s = put (failKey u) (FormatInt (n + 1),
     if n = 0 then Some (redis_time s + whole_ttl ttl) else e) s"

locale login_lockout = redis_api ks up c
  for ks :: "'w \<Rightarrow> keyspace" and up :: "'w \<Rightarrow> bool" and c :: "'w redisClient" +
  fixes l :: "'w Lockout"
  assumes client: "lockout_client l = Some c"
    and quiet: "uncounted ks (lockout_metrics l)" "uncounted up (lockout_metrics l)"
begin

lemma OnFailure_up:
  assumes "up w" and "counts (ks w) (failKey u) n e" and "n < int64_max"
    and positive: "0 < lockout_maxAttempts l" "0 < lockout_lockTTL l"
  shows "\<exists>w'. up w' \<and> (if n + 1 < lockout_maxAttempts l
      then OnFailure l u w = (Inr (False, 0), w') \<and> ks w' = counted (lockout_lockTTL l) u n e (ks w)
      else OnFailure l u w = (Inr (True, lockout_lockTTL l), w') \<and>
        ks w' = put (lockKey u) (''1'', Some (redis_time (ks w) + lockout_lockTTL l)) (counted (lockout_lockTTL l) u n e (ks w)))"
proof -
  obtain w1 where w1: "redis_Incr c (failKey u) w = (Inr (n + 1), w1)" "up w1"
      "ks w1 = put (failKey u) (FormatInt (n + 1), if n = 0 then None else e) (ks w)"
    using incr_up [OF assms(1-3)] by blast
  obtain w2 where w2: "(if n + 1 = 1 then (case redis_Expire c (failKey u) (lockout_lockTTL l) w1 of
      (Inl e, w') \<Rightarrow> Lockout_onRedisError l w' | (Inr _, w') \<Rightarrow> w') else w1) = w2" "up w2"
      "ks w2 = counted (lockout_lockTTL l) u n e (ks w)"
  proof (cases "n = 0")
    case True
    obtain b w' where "redis_Expire c (failKey u) (lockout_lockTTL l) w1 = (Inr b, w')" "up w'"
      "ks w' = snd (cmd_expire (failKey u) (lockout_lockTTL l) (ks w1))" using expire_up [OF w1(2)] by blast
    with True w1 that show ?thesis by (auto simp: cmd_expire_def counted_def)
  qed (use w1 that in \<open>auto simp: counted_def\<close>)
  obtain w3 where w3: "redis_Set c (lockKey u) ''1'' (lockout_lockTTL l) w2 = (Inr (), w3)" "up w3"
      "ks w3 = put (lockKey u) (''1'', Some (redis_time (ks w) + lockout_lockTTL l)) (counted (lockout_lockTTL l) u n e (ks w))"
    using set_up [OF w2(2), of "lockKey u" "''1''" "lockout_lockTTL l"] w2(3) positive
    by (auto simp: expiry_def counted_def)
  have run: "OnFailure l u w = (if n + 1 < lockout_maxAttempts l then (Inr (False, 0), w2)
      else (Inr (True, lockout_lockTTL l), inc (lockout_metrics l) ''LoginLockouts'' [] w3))"
    using client positive w1(1) w2(1) w3(1) by (simp add: OnFailure_def Let_def)
  show ?thesis
  proof (cases "n + 1 < lockout_maxAttempts l")
    case True
    with run w2 show ?thesis by auto
  next
    case False
    with run w3 quiet show ?thesis by (intro exI [of _ "inc (lockout_metrics l) ''LoginLockouts'' [] w3"]) simp
  qed
qed

lemma IsLocked_up:
  assumes "up w" and positive: "0 < lockout_maxAttempts l" "0 < lockout_lockTTL l"
  shows "fst (IsLocked l u w) = (case live (ks w) (lockKey u) of
     Some (_, Some e) \<Rightarrow> (let t = (e - redis_time (ks w) + 500000000) div second * second
                       in Inr (if 0 < t then (True, t) else (False, 0)))
   | _ \<Rightarrow> Inr (False, 0))"
  using ttl_up [OF assms(1), of "lockKey u"] client positive
  by (auto simp: IsLocked_def cmd_ttl_def Let_def split: option.splits)

lemma OnSuccess_up:
  assumes "up w"
  shows "\<exists>w'. OnSuccess l u w = (Inr (), w') \<and> up w' \<and>
     live (ks w') (failKey u) = None \<and> live (ks w') (lockKey u) = None"
proof -
  obtain n w1 where "redis_Del c [failKey u, lockKey u] w = (Inr n, w1)" "up w1"
    "ks w1 = snd (drop_keys [failKey u, lockKey u] (ks w))" using del_up [OF assms] by blast
  then show ?thesis
    using client live_drop [of "failKey u" "[failKey u, lockKey u]" "ks w"]
      live_drop [of "lockKey u" "[failKey u, lockKey u]" "ks w"] by (simp add: OnSuccess_def)
qed

end

section \<open>On the application's Redis\<close>

definition NewLockout :: "int \<Rightarrow> duration \<Rightarrow> int \<Rightarrow> (string \<Rightarrow> string) \<Rightarrow> 'x world_scheme Lockout" where
  "NewLockout maxAttempts lockTTL keyMaxLen lower =
     \<lparr>lockout_client = Some redis_client, lockout_maxAttempts = maxAttempts, lockout_lockTTL = lockTTL,
      lockout_keyMaxLen = keyMaxLen, lockout_metrics = Some app_metrics, lockout_lower = lower\<rparr>"

interpretation app_lockout: login_lockout redis redis_up redis_client "NewLockout m ttl len lower"
  by unfold_locales (simp_all add: NewLockout_def)

text \<open>Failed logins of one name, each after a pause: the answers and the state they leave.\<close>

fun fail_run :: "'x world_scheme Lockout \<Rightarrow> string \<Rightarrow> duration list \<Rightarrow> 'x world_scheme
    \<Rightarrow> (bool \<times> duration) result list \<times> 'x world_scheme" where
  "fail_run l u [] w = ([], w)"
| "fail_run l u (d # ds) w =
     (let (r, w1) = OnFailure l u (pass d w); (rs, w2) = fail_run l u ds w1 in (r # rs, w2))"

lemma redis_time_wait [simp]: "redis_time (wait d s) = redis_time s + d"
  by (simp add: wait_def)

lemma fail_run_counts:
  assumes "redis_up w" and "0 < n" "counts (redis w) (failKey u) n (Some e)" and "m < int64_max"
    and "redis_time (redis w) + sum_list ds < e" and "list_all (\<lambda>d. 0 \<le> d) ds"
    and "n + int (length ds) < m" and "0 < m" "0 < ttl"
  shows "\<exists>w'. fail_run (NewLockout m ttl len lower) u ds w = (replicate (length ds) (Inr (False, 0)), w') \<and>
     redis_up w' \<and> counts (redis w') (failKey u) (n + int (length ds)) (Some e) \<and>
     redis_time (redis w') = redis_time (redis w) + sum_list ds"
  using assms
proof (induction ds arbitrary: w n)
  case (Cons d ds)
  have "0 \<le> sum_list ds" using Cons.prems(6) by (intro sum_list_nonneg) (auto simp: list_all_iff)
  then have "redis_time (redis w) + d < e" using Cons.prems by simp
  then have c: "counts (redis (pass d w)) (failKey u) n (Some e)" using Cons.prems by (simp add: counts_wait)
  obtain w1 where w1: "redis_up w1" "OnFailure (NewLockout m ttl len lower) u (pass d w) = (Inr (False, 0), w1)"
    "redis w1 = counted ttl u n (Some e) (redis (pass d w))"
    using app_lockout.OnFailure_up [OF _ c, of m ttl len lower] Cons.prems by (auto simp: NewLockout_def)
  have "counts (redis w1) (failKey u) (n + 1) (Some e)" "redis_time (redis w1) = redis_time (redis w) + d"
    using w1(3) Cons.prems \<open>redis_time (redis w) + d < e\<close> by (simp_all add: counted_def counts_def)
  with Cons.IH [of w1 "n + 1"] Cons.prems w1 show ?case by (auto simp: algebra_simps)
qed simp

lemma fail_run_append:
  "fail_run l u (xs @ ys) w =
     (let (rs, w1) = fail_run l u xs w; (rs', w2) = fail_run l u ys w1 in (rs @ rs', w2))"
  by (induction xs arbitrary: w) (simp_all add: Let_def split_beta)

text \<open>The failure that makes the counter \<open>m\<close> locks the name.\<close>

lemma locking_failure:
  assumes "redis_up w" and "counts (redis w) (failKey u) (m - 1) e" and "0 < m" and "m < int64_max" and "0 < ttl"
  shows "\<exists>w'. OnFailure (NewLockout m ttl len lower) u w = (Inr (True, ttl), w') \<and> redis_up w' \<and>
     live (redis w') (lockKey u) = Some (''1'', Some (redis_time (redis w) + ttl)) \<and>
     redis_time (redis w') = redis_time (redis w)"
  using app_lockout.OnFailure_up [OF assms(1,2), of m ttl len lower] assms(3-5)
  by (auto simp: NewLockout_def counted_def)

lemma locked_while:
  assumes "redis_up w" and "live (redis w) (lockKey u) = Some (v, Some (redis_time (redis w) + ttl))"
    and "0 < m" and "0 < ttl" and "0 \<le> d"
  shows "d + 500000000 \<le> ttl \<Longrightarrow> \<exists>t > 0. fst (IsLocked (NewLockout m ttl len lower) u (pass d w)) = Inr (True, t)"
    and "ttl \<le> d \<Longrightarrow> fst (IsLocked (NewLockout m ttl len lower) u (pass d w)) = Inr (False, 0)"
proof -
  have kv: "kv (redis w) (lockKey u) = Some (v, Some (redis_time (redis w) + ttl))"
    using assms(2) by (auto simp: live_def split: option.splits if_splits)
  then have live: "live (wait d (redis w)) (lockKey u) =
      (if d < ttl then Some (v, Some (redis_time (redis w) + ttl)) else None)"
    by (simp add: live_def wait_def)
  note locked = app_lockout.IsLocked_up [of "pass d w" m ttl len lower u] assms(1,3,4)
  { assume d: "d + 500000000 \<le> ttl"
    then have "1 \<le> (ttl - d + 500000000) div second" by (simp add: second_def)
    then have "0 < (ttl - d + 500000000) div second * second" by (simp add: second_def)
    with locked live d show "\<exists>t > 0. fst (IsLocked (NewLockout m ttl len lower) u (pass d w)) = Inr (True, t)"
      by (auto simp: NewLockout_def Let_def algebra_simps) }
  { assume "ttl \<le> d"
    with locked live show "fst (IsLocked (NewLockout m ttl len lower) u (pass d w)) = Inr (False, 0)"
      by (simp add: NewLockout_def) }
qed

lemma fail_run_to_last:
  assumes "redis_up w" and "live (redis w) (failKey u) = None" and "int (length ds) < m" and "m < int64_max"
    and "list_all (\<lambda>d. 0 \<le> d) ds" and "sum_list ds < whole_ttl ttl" and "0 < ttl"
  shows "\<exists>w' e. fail_run (NewLockout m ttl len lower) u ds w = (replicate (length ds) (Inr (False, 0)), w') \<and>
     redis_up w' \<and> counts (redis w') (failKey u) (int (length ds)) e \<and>
     (ds \<noteq> [] \<longrightarrow> e = Some (redis_time (redis w) + hd ds + whole_ttl ttl)) \<and>
     redis_time (redis w') = redis_time (redis w) + sum_list ds"
proof (cases ds)
  case Nil
  with assms show ?thesis by (simp add: counts_def)
next
  case (Cons d rest)
  have c: "counts (redis (pass d w)) (failKey u) 0 None"
    using assms(2,5) Cons live_wait [of d "redis w" "failKey u"]
    by (cases "live (wait d (redis w)) (failKey u)") (auto simp: counts_def)
  define e where "e = redis_time (redis w) + d + whole_ttl ttl"
  obtain w1 where w1: "redis_up w1" "OnFailure (NewLockout m ttl len lower) u (pass d w) = (Inr (False, 0), w1)"
    "redis w1 = counted ttl u 0 None (redis (pass d w))"
    using app_lockout.OnFailure_up [OF _ c, of m ttl len lower] assms Cons by (auto simp: NewLockout_def)
  have rest: "0 \<le> sum_list rest" using assms(5) Cons by (intro sum_list_nonneg) (auto simp: list_all_iff)
  have c1: "counts (redis w1) (failKey u) 1 (Some e)" and t1: "redis_time (redis w1) = redis_time (redis w) + d"
    using w1(3) assms(5,6) rest Cons by (simp_all add: counted_def counts_def e_def)
  have "redis_time (redis w1) + sum_list rest < e" using t1 assms(5,6) Cons by (simp add: e_def)
  from fail_run_counts [OF w1(1) _ c1 assms(4) this, where ttl = ttl and len = len and lower = lower] assms Cons
  show ?thesis using w1(2) t1 by (auto simp: e_def algebra_simps)
qed

text \<open>C24. The lockout. From a name without failures, while Redis answers, the first
  \<open>maxAttempts - 1\<close> failures within the counter's life are let through and the next one locks
  the name; it then stays locked until half a second before \<open>lockTTL\<close> is over (Redis rounds
  the remaining seconds), and no longer than \<open>lockTTL\<close>.\<close>

theorem lockout_after_max_attempts:
  assumes "redis_up w" and "live (redis w) (failKey u) = None"
    and "ds \<noteq> []" and "int (length ds) = m" and "m < int64_max" and "list_all (\<lambda>d. 0 \<le> d) ds"
    and "sum_list ds < whole_ttl ttl" and "0 < ttl" and "0 \<le> d"
  shows "\<exists>w'. fail_run (NewLockout m ttl len lower) u ds w =
      (replicate (length ds - 1) (Inr (False, 0)) @ [Inr (True, ttl)], w') \<and>
     (d + 500000000 \<le> ttl \<longrightarrow> (\<exists>t > 0. fst (IsLocked (NewLockout m ttl len lower) u (pass d w')) = Inr (True, t))) \<and>
     (ttl \<le> d \<longrightarrow> fst (IsLocked (NewLockout m ttl len lower) u (pass d w')) = Inr (False, 0))"
proof -
  obtain ds' dl where ds: "ds = ds' @ [dl]" using assms(3) by (cases ds rule: rev_cases) auto
  obtain w1 e where w1: "fail_run (NewLockout m ttl len lower) u ds' w = (replicate (length ds') (Inr (False, 0)), w1)"
    "redis_up w1" "counts (redis w1) (failKey u) (m - 1) e"
    "ds' \<noteq> [] \<longrightarrow> e = Some (redis_time (redis w) + hd ds' + whole_ttl ttl)"
    "redis_time (redis w1) = redis_time (redis w) + sum_list ds'"
  proof -
    have "int (length ds') = m - 1" "int (length ds') < m" using assms(4) ds by simp_all
    moreover have "list_all (\<lambda>d. 0 \<le> d) ds'" "sum_list ds' < whole_ttl ttl" using assms(6,7) ds by simp_all
    ultimately show ?thesis
      using fail_run_to_last [OF assms(1,2) _ assms(5) _ _ assms(8), of ds' len lower] that by metis
  qed
  have c: "counts (redis (pass dl w1)) (failKey u) (m - 1) e"
  proof (cases "ds' = []")
    case True
    then have "m - 1 = 0" using assms(4) ds by simp
    then show ?thesis using w1(3) assms(6) ds live_wait [of dl "redis w1" "failKey u"]
      by (cases "live (wait dl (redis w1)) (failKey u)") (auto simp: counts_def)
  next
    case False
    then have "0 \<le> hd ds'" using assms(6) ds by (cases ds') auto
    with False w1(3-5) assms(4,7) ds show ?thesis by (auto intro: counts_wait)
  qed
  obtain w' where w': "OnFailure (NewLockout m ttl len lower) u (pass dl w1) = (Inr (True, ttl), w')" "redis_up w'"
      "live (redis w') (lockKey u) = Some (''1'', Some (redis_time (redis (pass dl w1)) + ttl))"
      "redis_time (redis w') = redis_time (redis (pass dl w1))"
    using locking_failure [OF _ c, of ttl len lower] w1(2) assms(4,5,8) ds by auto
  have "fail_run (NewLockout m ttl len lower) u ds w = (replicate (length ds - 1) (Inr (False, 0)) @ [Inr (True, ttl)], w')"
    using w1(1) w'(1) ds by (simp add: fail_run_append)
  moreover have "0 < m" using assms(4) ds by simp
  ultimately show ?thesis
    using locked_while [OF w'(2), of u "''1''" ttl m d len lower] w'(3,4) assms(8,9) by simp
qed

theorem lockout_after_max_attempts_witness:
  "\<exists>w'. fail_run (NewLockout 3 (10 * minute) 128 (\<lambda>x. x)) ''bob'' [second, second, minute] sample_world =
      ([Inr (False, 0), Inr (False, 0), Inr (True, 10 * minute)], w') \<and>
     (\<exists>t > 0. fst (IsLocked (NewLockout 3 (10 * minute) 128 (\<lambda>x. x)) ''bob'' (pass (9 * minute) w')) = Inr (True, t))"
proof -
  have "redis_up sample_world" "live (redis sample_world) (failKey ''bob'') = None" by code_simp+
  from lockout_after_max_attempts [OF this, of "[second, second, minute]" 3 "10 * minute" "9 * minute" 128 "\<lambda>x. x"]
  show ?thesis
    by (simp add: int64_max_def minute_def second_def whole_ttl_def quot_def numeral_2_eq_2)
qed

text \<open>A successful login clears both the counter and the lock of the name.\<close>

theorem success_unlocks:
  assumes "redis_up w"
  shows "fst (IsLocked (NewLockout m ttl len lower) u (snd (OnSuccess (NewLockout m ttl len lower) u w))) = Inr (False, 0) \<and>
     counts (redis (snd (OnSuccess (NewLockout m ttl len lower) u w))) (failKey u) 0 None"
proof -
  obtain w' where w': "OnSuccess (NewLockout m ttl len lower) u w = (Inr (), w')" "redis_up w'"
    "live (redis w') (failKey u) = None" "live (redis w') (lockKey u) = None"
    using app_lockout.OnSuccess_up [OF assms] by blast
  show ?thesis
  proof (cases "0 < m \<and> 0 < ttl")
    case True
    with w' app_lockout.IsLocked_up [OF w'(2), of m ttl len lower u] show ?thesis
      by (simp add: NewLockout_def counts_def)
  next
    case False
    with w' show ?thesis by (auto simp: IsLocked_def NewLockout_def counts_def)
  qed
qed

theorem success_unlocks_witness:
  "fst (IsLocked (NewLockout 1 minute 128 (\<lambda>x. x)) ''bob''
     (snd (OnSuccess (NewLockout 1 minute 128 (\<lambda>x. x)) ''bob''
       (snd (OnFailure (NewLockout 1 minute 128 (\<lambda>x. x)) ''bob'' sample_world))))) = Inr (False, 0) \<and>
   fst (IsLocked (NewLockout 1 minute 128 (\<lambda>x. x)) ''bob''
     (snd (OnFailure (NewLockout 1 minute 128 (\<lambda>x. x)) ''bob'' sample_world))) = Inr (True, minute)"
proof -
  have "redis_up (snd (OnFailure (NewLockout 1 minute 128 (\<lambda>x. x)) ''bob'' sample_world))" by code_simp
  from success_unlocks [OF this, of 1 minute 128 "\<lambda>x. x" "''bob''"]
  have "fst (IsLocked (NewLockout 1 minute 128 (\<lambda>x. x)) ''bob''
     (snd (OnSuccess (NewLockout 1 minute 128 (\<lambda>x. x)) ''bob''
       (snd (OnFailure (NewLockout 1 minute 128 (\<lambda>x. x)) ''bob'' sample_world))))) = Inr (False, 0)" by simp
  moreover have "fst (IsLocked (NewLockout 1 minute 128 (\<lambda>x. x)) ''bob''
     (snd (OnFailure (NewLockout 1 minute 128 (\<lambda>x. x)) ''bob'' sample_world))) = Inr (True, minute)" by code_simp
  ultimately show ?thesis by simp
qed

section \<open>Blacklist\<close>

definition NewJWTBlacklist :: "'x world_scheme JWTBlacklist" where
  "NewJWTBlacklist = \<lparr>blacklist_client = Some redis_client\<rparr>"

text \<open>A revoked token id is reported as revoked until the time to live is over (a second
  where it is not positive), and then no longer; other ids are not affected.\<close>

theorem blacklist_revoke_then_check:
  assumes "redis_up w" and "jti \<noteq> []" and "j \<noteq> []" and "0 \<le> d"
  shows "fst (IsRevoked NewJWTBlacklist j (pass d (snd (Blacklist_Revoke NewJWTBlacklist jti ttl w)))) =
     Inr (if j = jti then d < (if ttl \<le> 0 then second else ttl)
          else live (redis (pass d w)) (blacklistKey j) \<noteq> None)"
proof -
  define t where "t = (if ttl \<le> 0 then second else ttl)"
  have pos: "0 < t" by (simp add: t_def second_def)
  obtain w1 where w1: "Blacklist_Revoke NewJWTBlacklist jti ttl w = (Inr (), w1)" "redis_up w1"
      "redis w1 = put (blacklistKey jti) (''1'', Some (redis_time (redis w) + t)) (redis w)"
    using redis_world.set_up [OF assms(1), of "blacklistKey jti" "''1''" t] pos assms(2)
    by (auto simp: Blacklist_Revoke_def NewJWTBlacklist_def expiry_def t_def)
  have live: "live (wait d (redis w1)) (blacklistKey j) =
      (if j = jti then (if d < t then Some (''1'', Some (redis_time (redis w) + t)) else None)
       else live (wait d (redis w)) (blacklistKey j))"
    by (simp add: w1(3) live_def wait_def put_def split: option.split)
  have "fst (IsRevoked NewJWTBlacklist j v) = Inr (live (redis v) (blacklistKey j) \<noteq> None)" if "redis_up v" for v
    using executes_healthy(1) [OF redis_world.redis_exists that, of "blacklistKey j"] assms(3)
    by (cases "redis_Exists redis_client (blacklistKey j) v")
      (auto simp: IsRevoked_def NewJWTBlacklist_def bindE_apply cmd_exists_def)
  from this [of "pass d w1"] w1(2)
  have "fst (IsRevoked NewJWTBlacklist j (pass d w1)) = Inr (live (wait d (redis w1)) (blacklistKey j) \<noteq> None)" by simp
  then show ?thesis by (simp add: live w1(1) t_def)
qed

theorem blacklist_revoke_then_check_witness:
  "fst (IsRevoked NewJWTBlacklist ''id1'' (pass 9 (snd (Blacklist_Revoke NewJWTBlacklist ''id1'' 10 sample_world)))) = Inr True \<and>
   fst (IsRevoked NewJWTBlacklist ''id1'' (pass 10 (snd (Blacklist_Revoke NewJWTBlacklist ''id1'' 10 sample_world)))) = Inr False"
proof -
  have "redis_up sample_world" by code_simp
  from blacklist_revoke_then_check [OF this, of "''id1''" "''id1''" 9 10]
    blacklist_revoke_then_check [OF this, of "''id1''" "''id1''" 10 10] show ?thesis by simp
qed

end
