(* ===== verification/AuthApp.thy ===== *)
theory AuthApp
  imports AuthContracts LoginGuardRuns
begin

text \<open>
  The auth service as the application builds it: over the MySQL repositories, the Redis
  blacklist and the metrics. The cryptographic functions are parameters; the randomness they
  use comes from the generator of theory \<open>World\<close>.
\<close>

record crypto =
  crypto_bcrypt :: "string \<Rightarrow> int \<Rightarrow> string \<Rightarrow> string result"
  crypto_compare :: "string \<Rightarrow> string \<Rightarrow> bool"
  crypto_sign :: "string \<Rightarrow> TokenClaims \<Rightarrow> string result"
  crypto_parse :: "string \<Rightarrow> duration \<Rightarrow> time \<Rightarrow> string \<Rightarrow> TokenClaims option"
  crypto_sha256 :: "string \<Rightarrow> string"

definition app_libs :: "crypto \<Rightarrow> 'x world_scheme authLibs" where
  "app_libs G = \<lparr>
     bcrypt_Generate = (\<lambda>p cost w. let (salt, w1) = NewString w in (crypto_bcrypt G p cost salt, w1)),
     bcrypt_Compare = crypto_compare G, jwt_SignedString = crypto_sign G, jwt_Parse = crypto_parse G,
     sha256_hex = crypto_sha256 G, uuid_NewString = NewString, time_Now = now\<rparr>"

definition app_blacklist :: "'x world_scheme TokenBlacklist" where
  "app_blacklist = \<lparr>TokenBlacklist_IsRevoked = IsRevoked NewJWTBlacklist, TokenBlacklist_Revoke = Blacklist_Revoke NewJWTBlacklist\<rparr>"

definition app_auth :: "crypto \<Rightarrow> Config \<Rightarrow> 'x world_scheme AuthService" where
  "app_auth G cfg = \<lparr>authsvc_users = NewUserRepository, authsvc_sessions = NewSessionRepository, authsvc_cfg = cfg,
     authsvc_metrics = Some app_metrics, authsvc_bl = Some app_blacklist, authsvc_libs = app_libs G\<rparr>"

lemma app_auth_built:
  "NewAuthService NewUserRepository NewSessionRepository cfg (Some app_metrics) (Some app_blacklist) (app_libs G) = Inr s
   \<Longrightarrow> s = app_auth G cfg"
  by (auto simp: NewAuthService_def app_auth_def split: if_splits)

interpretation mysql_users: user_store srv no_faults NewUserRepository
  by unfold_locales (simp_all add: repo_records repo_methods executes_run_stmt)

lemma mysql_commit_Inr: "mysql_Commit w = (Inr u, w') \<Longrightarrow> srv w' = (srv w)\<lparr>open_tx := None\<rparr>"
  using mysql_tx.tx_commit [of w u w'] by (simp add: repo_records commit_tx_def)

lemma mysql_commit_Inl: "mysql_Commit w = (Inl e, w') \<Longrightarrow> srv w' = rollback_tx (srv w)"
  using mysql_tx.tx_commit_fails [of w e w'] by (simp add: repo_records)

lemma mysql_begin_Inr: "mysql_Begin w = (Inr u, w') \<Longrightarrow> srv w' = (srv w)\<lparr>open_tx := Some (data (srv w))\<rparr>"
  using executes_Inr [OF mysql_tx.tx_begin, of w u w'] by (simp add: repo_records begin_tx_def)

lemma mysql_begin_Inl: "mysql_Begin w = (Inl e, w') \<Longrightarrow> srv w' = srv w"
  using executes_clean [OF mysql_tx.tx_begin fails_clean_stmts(18), of w e w'] by (simp add: repo_records)

lemma WithTx_Inr:
  assumes "SessionRepository_WithTx fn w = (Inr a, w')"
  shows "\<exists>w0 w1. mysql_Begin w = (Inr (), w0) \<and> fn w0 = (Inr a, w1) \<and> mysql_Commit w1 = (Inr (), w')"
proof -
  from assms obtain w0 where w0: "mysql_Begin w = (Inr (), w0)"
    and rest: "bindR fn (\<lambda>r. case r of Inl e \<Rightarrow> (\<lambda>w. (Inl e, mysql_Rollback w))
       | Inr a \<Rightarrow> bindE mysql_Commit (\<lambda>_. returnE a)) w0 = (Inr a, w')"
    by (auto simp: SessionRepository_WithTx_def bindE_Inr)
  obtain x w1 where "fn w0 = (x, w1)" by (cases "fn w0")
  with w0 rest show ?thesis by (cases x) (auto simp: bindR_apply success)
qed

lemma WithTx_Inl:
  assumes "SessionRepository_WithTx fn w = (Inl e, w')"
  shows "mysql_Begin w = (Inl e, w') \<or> (\<exists>w0 x w1. mysql_Begin w = (Inr (), w0) \<and> fn w0 = (x, w1) \<and>
      (w' = mysql_Rollback w1 \<or> mysql_Commit w1 = (Inl e, w')))"
proof (cases "mysql_Begin w")
  case (Pair b w0)
  obtain x w1 where fn: "fn w0 = (x, w1)" by (cases "fn w0")
  show ?thesis
    using assms Pair fn
    by (cases b; cases x; cases "mysql_Commit w1")
      (auto simp: SessionRepository_WithTx_def bindE_apply bindR_apply split: sum.splits)
qed

lemma WithTx_mysql_Inr:
  assumes "SessionRepository_WithTx fn w = (Inr a, w')"
  shows "\<exists>w0 w1. srv w0 = (srv w)\<lparr>open_tx := Some (data (srv w))\<rparr> \<and> fn w0 = (Inr a, w1) \<and> srv w' = (srv w1)\<lparr>open_tx := None\<rparr>"
  using WithTx_Inr [OF assms] mysql_begin_Inr mysql_commit_Inr by blast

lemma WithTx_mysql_Inl:
  assumes "SessionRepository_WithTx fn w = (Inl e, w')"
  shows "srv w' = srv w \<or> (\<exists>w0 r w1. srv w0 = (srv w)\<lparr>open_tx := Some (data (srv w))\<rparr> \<and> fn w0 = (r, w1) \<and> srv w' = rollback_tx (srv w1))"
proof -
  have "srv (mysql_Rollback v) = rollback_tx (srv v)" for v :: "'x dbw_scheme" by (simp add: mysql_Rollback_def)
  then show ?thesis
    using WithTx_Inl [OF assms] mysql_begin_Inr mysql_begin_Inl mysql_commit_Inl by blast
qed

lemma WithTx_mysql_healthy:
  assumes "no_faults w"
  shows "\<exists>w0. srv w0 = (srv w)\<lparr>open_tx := Some (data (srv w))\<rparr> \<and> no_faults w0 \<and>
      (no_faults (snd (fn w0)) \<longrightarrow> fst (SessionRepository_WithTx fn w) = fst (fn w0))"
proof -
  obtain w0 where w0: "mysql_Begin w = (Inr (), w0)" "no_faults w0"
    using executes_healthy [OF mysql_tx.tx_begin assms] by (cases "mysql_Begin w") (auto simp: repo_records begin_tx_def)
  have "fst (SessionRepository_WithTx fn w) = fst (fn w0)" if ok: "no_faults (snd (fn w0))"
  proof (cases "fst (fn w0)")
    case (Inr a)
    then show ?thesis
      using w0 mysql_tx.tx_commit_healthy [OF ok]
      by (simp add: SessionRepository_WithTx_def bindE_apply bindR_apply repo_records)
  qed (use w0 in \<open>simp add: SessionRepository_WithTx_def bindE_apply bindR_apply\<close>)
  with mysql_begin_Inr [OF w0(1)] w0(2) show ?thesis by blast
qed

interpretation mysql_sessions: session_store srv no_faults NewSessionRepository
  by unfold_locales (simp_all add: repo_records repo_methods executes_run_stmt WithTx_mysql_healthy,
      (blast dest: WithTx_mysql_Inr WithTx_mysql_Inl)+)

lemma IsRevoked_srv: "srv (snd (IsRevoked NewJWTBlacklist j w)) = srv w"
  by (auto simp: IsRevoked_def NewJWTBlacklist_def redis_client_def bindE_apply split: sum.split)

interpretation app_auth: auth_service srv no_faults "app_auth G cfg"
  by unfold_locales
    (auto simp: app_auth_def app_libs_def app_blacklist_def IsRevoked_srv split_beta Let_def
      mysql_users.user_create mysql_users.user_by_email mysql_users.user_by_username
      mysql_sessions.session_create mysql_sessions.session_get mysql_sessions.session_revoke_tx
      mysql_sessions.session_create_tx intro: mysql_sessions.with_tx_healthy
      dest: mysql_sessions.with_tx_Inl, blast dest: mysql_sessions.with_tx_Inr)

end
