(* ===== verification/AuthProperties.thy ===== *)
theory AuthProperties
  imports AuthApp
begin

text \<open>The guarantees of the auth service in the running application.\<close>

section \<open>A sample of the cryptography\<close>

text \<open>What the JWT library documents: a signed token is read back with its claims until it expires.\<close>

definition jwt_law :: "crypto \<Rightarrow> bool" where
  "jwt_law G \<longleftrightarrow> (\<forall>k c tok leeway t. crypto_sign G k c = Inr tok \<longrightarrow>
     crypto_parse G k leeway t tok = (if t < Claims_ExpiresAt c + leeway then Some c else None))"

definition sample_claims :: "string \<Rightarrow> duration \<Rightarrow> string \<Rightarrow> TokenClaims" where
  "sample_claims typ ttl jti = \<lparr>Claims_Type = typ, Claims_Subject = ''1'', Claims_Issuer = ''task-service'',
     Claims_IssuedAt = 0, Claims_ExpiresAt = ttl, Claims_ID = jti\<rparr>"

definition sample_tokens :: "(TokenClaims \<times> string) list" where
  "sample_tokens =
     [(sample_claims ''access'' (15 * minute) ''u0'', ''A0''), (sample_claims ''refresh'' (720 * 60 * minute) ''u1'', ''R1''),
      (sample_claims ''access'' (15 * minute) ''u2'', ''A2''), (sample_claims ''refresh'' (720 * 60 * minute) ''u3'', ''R3'')]"

definition sample_crypto :: crypto where
  "sample_crypto = \<lparr>
     crypto_bcrypt = (\<lambda>p cost salt. Inr p),
     crypto_compare = (\<lambda>h p. h = p),
     crypto_sign = (\<lambda>k c. case map_of sample_tokens c of None \<Rightarrow> Inl (OtherError ''key'') | Some t \<Rightarrow> Inr t),
     crypto_parse = (\<lambda>k leeway t tok. case find (\<lambda>(c, x). x = tok) sample_tokens of
        None \<Rightarrow> None | Some (c, x) \<Rightarrow> if t < Claims_ExpiresAt c + leeway then Some c else None),
     crypto_sha256 = (\<lambda>x. x)\<rparr>"

lemma sample_jwt_law: "jwt_law sample_crypto"
  by (auto simp: jwt_law_def sample_crypto_def sample_tokens_def split: if_splits)

section \<open>Tokens\<close>

lemma newToken_Inr:
  assumes "newToken (app_auth G cfg) u typ ttl w = (Inr tok, w1)" and "jwt_law G"
  shows "crypto_parse G (JWT_Secret (cfg_JWT cfg)) lw t tok =
     (if t < NewNumericDate (now w + ttl) + lw
      then Some \<lparr>Claims_Type = typ, Claims_Subject = FormatInt u, Claims_Issuer = JWT_Issuer (cfg_JWT cfg),
             Claims_IssuedAt = NewNumericDate (now w), Claims_ExpiresAt = NewNumericDate (now w + ttl),
             Claims_ID = fst (NewString w)\<rparr>
      else None)"
  using assms by (auto simp: newToken_def app_auth_def app_libs_def jwt_law_def split_beta Let_def)

text \<open>C15. An access token made for a user is accepted as that user's until its expiry (in whole
  seconds) plus the clock skew, and refused after it; while Redis answers, it is refused once
  its id is on the blacklist (where the blacklist is enabled).\<close>

theorem access_token_accepted:
  assumes "newToken (app_auth G cfg) u ''access'' ttl w = (Inr tok, w1)" and "jwt_law G"
    and "int64_min \<le> u" "u \<le> int64_max" and "redis_up w2" and "fst (NewString w) \<noteq> []"
  shows "fst (ParseAccessTokenCtx (app_auth G cfg) tok w2) =
     (if now w2 < NewNumericDate (now w + ttl) + JWT_ClockSkew (cfg_JWT cfg) \<and>
         \<not> (Blacklist_Enabled (JWT_Blacklist (cfg_JWT cfg)) \<and> live (redis w2) (blacklistKey (fst (NewString w))) \<noteq> None)
      then Inr u else Inl ErrInvalidToken)"
proof -
  note parse = newToken_Inr [OF assms(1,2), of "JWT_ClockSkew (cfg_JWT cfg)" "now w2"]
  have "ParseInt (FormatInt u) = Some u" using ParseInt_FormatInt assms(3,4) by simp
  moreover obtain w3 where "IsRevoked NewJWTBlacklist (fst (NewString w)) w2 =
      (Inr (live (redis w2) (blacklistKey (fst (NewString w))) \<noteq> None), w3)"
    using executes_healthy(1) [OF redis_world.redis_exists assms(5), of "blacklistKey (fst (NewString w))"] assms(6)
    by (cases "redis_Exists redis_client (blacklistKey (fst (NewString w))) w2")
      (auto simp: IsRevoked_def NewJWTBlacklist_def bindE_apply returnE_apply cmd_exists_def)
  ultimately show ?thesis
    using parse assms(6)
    by (auto simp: ParseAccessTokenCtx_def bindR_apply parseToken_def subjectID_def app_auth_def app_libs_def
        app_blacklist_def Let_def split: option.splits)
qed

lemma sample_access_token:
  "fst (newToken (app_auth sample_crypto default_config) 1 ''access'' (15 * minute) sample_world) = Inr ''A0''"
  by code_simp

theorem access_token_accepted_witness:
  "fst (ParseAccessTokenCtx (app_auth sample_crypto default_config) ''A0'' sample_world) = Inr 1 \<and>
   fst (ParseAccessTokenCtx (app_auth sample_crypto default_config) ''A0'' (pass (20 * minute) sample_world)) = Inl ErrInvalidToken"
proof -
  note tok = run_result [of "newToken (app_auth sample_crypto default_config) 1 ''access'' (15 * minute)", OF sample_access_token]
  have "redis_up sample_world" "fst (NewString sample_world) \<noteq> []" "redis_up (pass (20 * minute) sample_world)"
    "live (redis sample_world) (blacklistKey (fst (NewString sample_world))) = None"
    "now sample_world < NewNumericDate (now sample_world + 15 * minute) + JWT_ClockSkew (cfg_JWT default_config)"
    "\<not> now (pass (20 * minute) sample_world) < NewNumericDate (now sample_world + 15 * minute) + JWT_ClockSkew (cfg_JWT default_config)"
    by code_simp+
  with access_token_accepted [OF tok sample_jwt_law, of sample_world]
    access_token_accepted [OF tok sample_jwt_law, of "pass (20 * minute) sample_world"]
  show ?thesis by (simp add: int64_min_def int64_max_def)
qed

text \<open>C16. A token of another type is never accepted as an access token, and an access token never
  refreshes a session.\<close>

theorem token_types_apart:
  assumes "newToken (app_auth G cfg) u typ ttl w = (Inr tok, w1)" and "jwt_law G"
  shows "(typ \<noteq> ''access'' \<longrightarrow> fst (ParseAccessTokenCtx (app_auth G cfg) tok w2) = Inl ErrInvalidToken) \<and>
     (typ \<noteq> ''refresh'' \<longrightarrow> fst (Refresh (app_auth G cfg) tok ip ua w2) = Inl ErrInvalidToken)"
  using newToken_Inr [OF assms, of "JWT_ClockSkew (cfg_JWT cfg)" "now w2"]
  by (auto simp: ParseAccessTokenCtx_def Refresh_def bindR_apply parseToken_def subjectID_def refreshFail_def
      app_auth_def app_libs_def Let_def split: option.splits)

theorem token_types_apart_witness:
  "fst (Refresh (app_auth sample_crypto default_config) ''A0'' [] [] sample_world) = Inl ErrInvalidToken"
  using token_types_apart [OF run_result [of "newToken (app_auth sample_crypto default_config) 1 ''access'' (15 * minute)",
        OF sample_access_token] sample_jwt_law, of sample_world "[]" "[]"] by simp

section \<open>Sessions\<close>

definition revoked_in :: "string \<Rightarrow> tables \<Rightarrow> bool" where
  "revoked_in h d \<longleftrightarrow> (case session_by_token h d of None \<Rightarrow> False | Some x \<Rightarrow> Session_RevokedAt x \<noteq> None)"

definition active_in :: "string \<Rightarrow> int \<Rightarrow> tables \<Rightarrow> bool" where
  "active_in h u d \<longleftrightarrow> (case session_by_token h d of None \<Rightarrow> False
     | Some x \<Rightarrow> Session_RevokedAt x = None \<and> Session_UserID x = u)"

lemma session_revoke:
  assumes "revoke_session h t s = (Inr u, s')"
  shows "session_by_token k (data s') = map_option (\<lambda>x. if has_token h (data s) x then x\<lparr>Session_RevokedAt := Some (datetime3 t)\<rparr> else x)
     (session_by_token k (data s))"
proof -
  have s': "data s' = map_sessions (has_token h) (\<lambda>x. x\<lparr>Session_RevokedAt := Some (datetime3 t)\<rparr>) (data s)"
    using assms by (auto simp: revoke_session_def)
  have "has_token k (data s') = has_token k (data s)" by (rule ext) (simp add: s' map_sessions_def has_token_def)
  then show ?thesis
    unfolding session_by_token_def by (simp add: s' map_sessions_def) (rule find_map_update, simp add: has_token_def)
qed

lemma session_insert:
  assumes "insert_session y s = (Inr i, s')"
  shows "session_by_token k (data s') = (case session_by_token k (data s) of
     Some x \<Rightarrow> Some x
   | None \<Rightarrow> if has_token k (data s) y then Some (y\<lparr>Session_ID := i, Session_ExpiresAt := datetime3 (Session_ExpiresAt y),
        Session_RevokedAt := map_option datetime3 (Session_RevokedAt y),
        Session_LastUsedAt := map_option datetime3 (Session_LastUsedAt y), Session_CreatedAt := clock s\<rparr>) else None)"
    "session_by_token (Session_TokenHash y) (data s) = None"
proof -
  note ins = assms [unfolded insert_session_def Let_def]
  show "session_by_token (Session_TokenHash y) (data s) = None" using ins by (auto split: if_splits)
  have "has_token k (data s') = has_token k (data s)"
    using ins by (auto simp: has_token_def fun_eq_iff split: if_splits)
  then show "session_by_token k (data s') = (case session_by_token k (data s) of
     Some x \<Rightarrow> Some x
   | None \<Rightarrow> if has_token k (data s) y then Some (y\<lparr>Session_ID := i, Session_ExpiresAt := datetime3 (Session_ExpiresAt y),
        Session_RevokedAt := map_option datetime3 (Session_RevokedAt y),
        Session_LastUsedAt := map_option datetime3 (Session_LastUsedAt y), Session_CreatedAt := clock s\<rparr>) else None)"
    using ins unfolding session_by_token_def
    by (auto simp: find_append has_token_def split: if_splits option.splits)
qed

lemma hashToken_app [simp]: "hashToken (app_auth G cfg) tok = crypto_sha256 G tok"
  by (simp add: hashToken_def app_auth_def app_libs_def)

lemma Refresh_spends:
  assumes "Refresh (app_auth G cfg) tok ip ua w = (Inr pair, w')"
  shows "revoked_in (crypto_sha256 G tok) (data (srv w'))"
proof -
  obtain x y t i s0 s1 s2 where x: "session_by_token (crypto_sha256 G tok) (data (srv w)) = Some x"
    and s0: "s0 = (srv w)\<lparr>open_tx := Some (data (srv w))\<rparr>"
    and rev: "revoke_session (crypto_sha256 G tok) t s0 = (Inr (), s1)" and ins: "insert_session y s1 = (Inr i, s2)"
    and w': "srv w' = s2\<lparr>open_tx := None\<rparr>"
    using app_auth.Refresh_Inr [OF assms] unfolding hashToken_app by blast
  have "has_token (crypto_sha256 G tok) (data s0) x" using x by (auto simp: session_by_token_def s0 dest: find_SomeD)
  then have "session_by_token (crypto_sha256 G tok) (data s1) = Some (x\<lparr>Session_RevokedAt := Some (datetime3 t)\<rparr>)"
    using session_revoke [OF rev, of "crypto_sha256 G tok"] x by (simp add: s0)
  then show ?thesis using session_insert(1) [OF ins, of "crypto_sha256 G tok"] by (simp add: revoked_in_def w')
qed

lemma never_again:
  "revoked_in (crypto_sha256 G tok) (data (srv w)) \<Longrightarrow> fst (Refresh (app_auth G cfg) tok ip ua w) \<noteq> Inr pair"
  using app_auth.Refresh_revoked [of G cfg tok w] by (auto simp: revoked_in_def split: option.splits)

text \<open>C7. A successful \<open>Refresh\<close> rotates: the presented token belonged to a session that was
  neither revoked nor unknown; afterwards that session is revoked and the new refresh token
  belongs to an active session.\<close>

theorem Refresh_rotates:
  assumes "Refresh (app_auth G cfg) tok ip ua w = (Inr pair, w')"
  shows "(\<exists>u. active_in (crypto_sha256 G tok) u (data (srv w))) \<and>
     revoked_in (crypto_sha256 G tok) (data (srv w')) \<and>
     (\<exists>u. active_in (crypto_sha256 G (RefreshToken pair)) u (data (srv w')))"
proof -
  obtain x y i s1 s2 where x: "session_by_token (crypto_sha256 G tok) (data (srv w)) = Some x" "Session_RevokedAt x = None"
    and y: "Session_TokenHash y = crypto_sha256 G (RefreshToken pair)" "Session_RevokedAt y = None"
    and ins: "insert_session y s1 = (Inr i, s2)" and w': "srv w' = s2\<lparr>open_tx := None\<rparr>"
    using app_auth.Refresh_Inr [OF assms] unfolding hashToken_app by blast
  have "\<exists>u. active_in (crypto_sha256 G (RefreshToken pair)) u (data (srv w'))"
    using session_insert [OF ins] y by (simp add: active_in_def w' has_token_def)
  with x Refresh_spends [OF assms] show ?thesis by (auto simp: active_in_def)
qed

definition sample_logged_in :: world where
  "sample_logged_in = snd (Login (app_auth sample_crypto default_config) ''ann'' ''h1'' [] [] sample_world)"

lemma sample_login:
  "fst (Login (app_auth sample_crypto default_config) ''ann'' ''h1'' [] [] sample_world) =
     Inr \<lparr>AccessToken = ''A0'', RefreshToken = ''R1''\<rparr>"
  by code_simp

lemma sample_refresh:
  "fst (Refresh (app_auth sample_crypto default_config) ''R1'' [] [] sample_logged_in) =
     Inr \<lparr>AccessToken = ''A2'', RefreshToken = ''R3''\<rparr>"
  unfolding sample_logged_in_def by code_simp

theorem Refresh_rotates_witness:
  "revoked_in ''R1'' (data (srv (snd (Refresh (app_auth sample_crypto default_config) ''R1'' [] [] sample_logged_in)))) \<and>
   (\<exists>u. active_in ''R3'' u (data (srv (snd (Refresh (app_auth sample_crypto default_config) ''R1'' [] [] sample_logged_in)))))"
  using Refresh_rotates [OF run_result [of "Refresh (app_auth sample_crypto default_config) ''R1'' [] []", OF sample_refresh]]
  by (simp add: sample_crypto_def)

text \<open>A refresh token is good for one use: once its session is revoked, \<open>Refresh\<close> never answers
  a new pair, whatever fails; where nothing fails and the token is still readable it reports
  \<open>ErrTokenReuse\<close>.\<close>

theorem refresh_token_reuse:
  assumes "revoked_in (crypto_sha256 G tok) (data (srv w))"
  shows "(\<forall>pair. fst (Refresh (app_auth G cfg) tok ip ua w) \<noteq> Inr pair) \<and>
     (no_faults w \<and> parseToken (app_auth G cfg) tok ''refresh'' w = (Inr claims, w) \<and>
      ParseInt (Claims_Subject claims) = Some u \<longrightarrow> fst (Refresh (app_auth G cfg) tok ip ua w) = Inl ErrTokenReuse)"
proof -
  obtain x where "session_by_token (crypto_sha256 G tok) (data (srv w)) = Some x" "Session_RevokedAt x \<noteq> None"
    using assms by (auto simp: revoked_in_def split: option.splits)
  then show ?thesis
    using never_again [OF assms] app_auth.Refresh_reuse [unfolded hashToken_app] by blast
qed

theorem refresh_token_reuse_witness:
  "fst (Refresh (app_auth sample_crypto default_config) ''R1'' [] []
     (snd (Refresh (app_auth sample_crypto default_config) ''R1'' [] [] sample_logged_in))) = Inl ErrTokenReuse"
proof -
  let ?w = "snd (Refresh (app_auth sample_crypto default_config) ''R1'' [] [] sample_logged_in)"
  have "revoked_in (crypto_sha256 sample_crypto ''R1'') (data (srv ?w))"
    unfolding sample_logged_in_def by code_simp
  moreover have "no_faults ?w" unfolding sample_logged_in_def by code_simp
  moreover have "ParseInt (Claims_Subject (sample_claims ''refresh'' (720 * 60 * minute) ''u1'')) = Some 1" by code_simp
  moreover have "parseToken (app_auth sample_crypto default_config) ''R1'' ''refresh'' ?w =
      (Inr (sample_claims ''refresh'' (720 * 60 * minute) ''u1''), ?w)"
  proof (rule app_auth.parseToken_refresh)
    show "jwt_Parse (authsvc_libs (app_auth sample_crypto default_config))
        (JWT_Secret (cfg_JWT (authsvc_cfg (app_auth sample_crypto default_config))))
        (JWT_ClockSkew (cfg_JWT (authsvc_cfg (app_auth sample_crypto default_config))))
        (time_Now (authsvc_libs (app_auth sample_crypto default_config)) ?w) ''R1'' =
      Some (sample_claims ''refresh'' (720 * 60 * minute) ''u1'')"
      unfolding sample_logged_in_def by code_simp
  qed (simp_all add: sample_claims_def app_auth_def default_config_def)
  ultimately show ?thesis
    using refresh_token_reuse [of sample_crypto "''R1''" ?w default_config "[]" "[]"
       "sample_claims ''refresh'' (720 * 60 * minute) ''u1''" 1] by blast
qed

section \<open>Login\<close>

text \<open>C17. \<open>Login\<close> answers tokens only to a known user whose stored hash matches the password; it
  then has stored an active session of that user for the refresh token. On every error the
  database is unchanged.\<close>

theorem Login_checks_password:
  assumes "Login (app_auth G cfg) login password ip ua w = (r, w')"
  shows "(case r of
     Inl e \<Rightarrow> srv w' = srv w
   | Inr pair \<Rightarrow> (\<exists>user. (if CHR ''@'' \<in> set login then user_by_email login (data (srv w))
          else user_by_username login (data (srv w))) = Some user \<and>
        crypto_compare G (User_PasswordHash user) password \<and>
        active_in (crypto_sha256 G (RefreshToken pair)) (User_ID user) (data (srv w'))))"
proof (cases r)
  case (Inl e)
  with app_auth.Login_Inl [of G cfg login password ip ua w e w'] assms show ?thesis by simp
next
  case (Inr pair)
  obtain user x i where user: "(if CHR ''@'' \<in> set login then user_by_email login (data (srv w)) else user_by_username login (data (srv w))) = Some user"
     "crypto_compare G (User_PasswordHash user) password"
     "Session_UserID x = User_ID user" "Session_TokenHash x = crypto_sha256 G (RefreshToken pair)"
     "Session_RevokedAt x = None" "insert_session x (srv w) = (Inr i, srv w')"
    using app_auth.Login_Inr [OF assms [unfolded Inr]]
    unfolding hashToken_app by (auto simp: app_auth_def app_libs_def)
  with session_insert [OF user(6)] Inr show ?thesis by (auto simp: active_in_def has_token_def)
qed

theorem Login_checks_password_witness:
  "active_in ''R1'' 1 (data (srv sample_logged_in)) \<and>
   fst (Login (app_auth sample_crypto default_config) ''ann'' ''guess'' [] [] sample_world) = Inl ErrInvalidCredentials"
proof -
  have "fst (Login (app_auth sample_crypto default_config) ''ann'' ''guess'' [] [] sample_world) = Inl ErrInvalidCredentials"
    by code_simp
  moreover have "user_by_username ''ann'' (data (srv sample_world)) =
      Some \<lparr>User_ID = 1, User_Email = ''a@x.io'', User_Username = ''ann'', User_PasswordHash = ''h1''\<rparr>"
    by code_simp
  ultimately show ?thesis
    using Login_checks_password [OF run_result [of "Login (app_auth sample_crypto default_config) ''ann'' ''h1'' [] []", OF sample_login]]
    by (simp add: sample_logged_in_def sample_crypto_def)
qed

section \<open>Validation\<close>

lemma Split_append: "c \<notin> set a \<Longrightarrow> Split c (a @ c # b) = a # Split c b"
  by (induction a) (auto split: list.split)

lemma Split_none: "c \<notin> set a \<Longrightarrow> Split c a = [a]"
  by (induction a) auto

lemma Split_not_Nil: "Split c s \<noteq> []"
  by (induction s) (auto split: list.split)

lemma Split_two:
  assumes "Split c s = [a, b]"
  shows "s = a @ c # b \<and> c \<notin> set a \<and> c \<notin> set b"
proof (cases "c \<in> set s")
  case False
  with assms show ?thesis by (simp add: Split_none)
next
  case True
  then obtain x y where s: "s = x @ c # y" "c \<notin> set x" using split_list_first by metis
  with assms have a: "x = a" "Split c y = [b]" by (simp_all add: Split_append)
  have "c \<notin> set y"
  proof
    assume "c \<in> set y"
    then obtain u v where "y = u @ c # v" "c \<notin> set u" using split_list_first by metis
    with a(2) Split_not_Nil [of c v] show False by (simp add: Split_append)
  qed
  with a s show ?thesis by (simp add: Split_none)
qed

lemma dot_inside: "CHR ''.'' \<in> set (butlast (tl d)) \<longleftrightarrow> (\<exists>b c. d = b @ CHR ''.'' # c \<and> b \<noteq> [] \<and> c \<noteq> [])"
proof
  assume dot: "CHR ''.'' \<in> set (butlast (tl d))"
  then obtain u v where uv: "butlast (tl d) = u @ CHR ''.'' # v" by (meson split_list)
  from dot obtain x d' where d: "d = x # d'" and "d' \<noteq> []" by (cases d; cases "tl d") auto
  have "d' = butlast d' @ [last d']" using \<open>d' \<noteq> []\<close> by simp
  moreover have "butlast d' = u @ CHR ''.'' # v" using uv d by simp
  ultimately have "d' = u @ CHR ''.'' # (v @ [last d'])" by (metis append.assoc append_Cons)
  then have "d = (x # u) @ CHR ''.'' # (v @ [last d'])" by (simp add: d)
  then show "\<exists>b c. d = b @ CHR ''.'' # c \<and> b \<noteq> [] \<and> c \<noteq> []" by blast
next
  assume "\<exists>b c. d = b @ CHR ''.'' # c \<and> b \<noteq> [] \<and> c \<noteq> []"
  then obtain b c where d: "d = b @ CHR ''.'' # c" "b \<noteq> []" "c \<noteq> []" by blast
  then show "CHR ''.'' \<in> set (butlast (tl d))" by (cases b) (simp_all add: butlast_append)
qed

lemma mailchar_at: "list_all mailchar a \<Longrightarrow> CHR ''@'' \<notin> set a"
  by (auto simp: list_all_iff mailchar_def)

text \<open>The check of an address is membership in the language of the expression
  \<open>^[^@\s]+@[^@\s]+\.[^@\s]+$\<close>.\<close>

theorem validateEmail_language:
  "validateEmail s = Inr () \<longleftrightarrow>
     (\<exists>a b c. s = a @ CHR ''@'' # b @ CHR ''.'' # c \<and> a \<noteq> [] \<and> b \<noteq> [] \<and> c \<noteq> [] \<and>
        list_all mailchar a \<and> list_all mailchar b \<and> list_all mailchar c)"
  (is "_ = ?R")
proof
  assume "validateEmail s = Inr ()"
  then have "emailRegex s" by (simp add: validateEmail_def split: if_splits)
  then obtain a d where sp: "Split CHR ''@'' s = [a, d]" and a: "a \<noteq> []" "list_all mailchar a" "list_all mailchar d"
    and dot: "CHR ''.'' \<in> set (butlast (tl d))"
    by (auto simp: emailRegex_def split: list.splits)
  obtain b c where "d = b @ CHR ''.'' # c" "b \<noteq> []" "c \<noteq> []" using dot dot_inside by blast
  with Split_two [OF sp] a show ?R by auto
next
  assume ?R
  then obtain a b c where s: "s = a @ CHR ''@'' # (b @ CHR ''.'' # c)" and ne: "a \<noteq> []" "b \<noteq> []" "c \<noteq> []"
    and ok: "list_all mailchar a" "list_all mailchar b" "list_all mailchar c" by auto
  have "mailchar CHR ''.''" by code_simp
  then have d: "list_all mailchar (b @ CHR ''.'' # c)" using ok by simp
  have "Split CHR ''@'' s = [a, b @ CHR ''.'' # c]"
    using Split_append [OF mailchar_at [OF ok(1)]] Split_none [OF mailchar_at [OF d]] by (simp add: s)
  moreover have "CHR ''.'' \<in> set (butlast (tl (b @ CHR ''.'' # c)))" using ne dot_inside by blast
  ultimately have "emailRegex s" using ne ok d by (simp add: emailRegex_def)
  then show "validateEmail s = Inr ()" by (simp add: validateEmail_def)
qed

lemma fold_scanPassword:
  "fold scanPassword p (l, g) =
     (l \<or> list_ex (\<lambda>r. char_in CHR ''a'' CHR ''z'' r \<or> char_in CHR ''A'' CHR ''Z'' r) p,
      g \<or> list_ex (\<lambda>r. char_in CHR ''0'' CHR ''9'' r) p)"
proof (induction p arbitrary: l g)
  case (Cons r p)
  have "\<not> (char_in CHR ''0'' CHR ''9'' r \<and> (char_in CHR ''a'' CHR ''z'' r \<or> char_in CHR ''A'' CHR ''Z'' r))"
    by (auto simp: char_in_def)
  with Cons show ?case by (auto simp: scanPassword_def)
qed simp

text \<open>A password passes exactly when it has ten bytes or more, a Latin letter and a digit.\<close>

theorem validatePassword_rule:
  "validatePassword p = Inr () \<longleftrightarrow>
     10 \<le> length p \<and> (\<exists>r \<in> set p. char_in CHR ''a'' CHR ''z'' r \<or> char_in CHR ''A'' CHR ''Z'' r) \<and>
     (\<exists>r \<in> set p. char_in CHR ''0'' CHR ''9'' r)"
  by (auto simp: validatePassword_def fold_scanPassword list_ex_iff)

end
