(* ===== verification/RateLimit.thy ===== *)
theory RateLimit
  imports Redis Metrics
begin

text \<open>
  \<open>internal/infra/ratelimit\<close>: the limiter in memory, with one counter per key and fixed
  windows, and the limiter over Redis, which falls back on it. Calls read the clock at
  \<open>now\<close>; under the mutex they run one after the other.
\<close>

section \<open>The limiter in memory\<close>

record entry =
  entry_count :: int
  entry_reset :: time

record memoryLimiter =
  ml_limit :: int
  ml_window :: duration
  ml_entries :: "string \<Rightarrow> entry option"
  ml_cleanup :: duration

text \<open>The goroutine that \<open>NewMemory\<close> starts besides (\<open>go l.startCleanup()\<close>) is one of theory \<open>Lifecycle\<close>.\<close>

definition NewMemory :: "int \<Rightarrow> duration \<Rightarrow> memoryLimiter" where
  "NewMemory limit window =
     \<lparr>ml_limit = limit, ml_window = window, ml_entries = (\<lambda>_. None),
      ml_cleanup = (if wrap64 (window * 2) < minute then minute else wrap64 (window * 2))\<rparr>"

definition fixedWindowReset :: "time \<Rightarrow> duration \<Rightarrow> time" where
  "fixedWindowReset tm window =
     (if window \<le> 0 then tm + second
      else let ws = whole_seconds window in
        if ws \<le> 0 then tm + second
        else quot (Unix tm) ws * ws * second + window)"

text \<open>
  A call reads the clock (\<open>tm\<close>) before it waits for the mutex; a refused call reads it again under the
  mutex, in \<open>time.Until\<close> (\<open>until\<close>). The rest runs under the mutex.
\<close>

definition memory_Allow_at :: "time \<Rightarrow> time \<Rightarrow> string \<Rightarrow> memoryLimiter \<Rightarrow> (bool \<times> duration) \<times> memoryLimiter" where
  "memory_Allow_at tm until key l =
     (if key = [] \<or> ml_limit l \<le> 0 then ((True, 0), l)
      else
        let reset = fixedWindowReset tm (ml_window l);
            e = (case ml_entries l key of
                   Some e \<Rightarrow> if tm > entry_reset e then \<lparr>entry_count = 0, entry_reset = reset\<rparr> else e
                 | None \<Rightarrow> \<lparr>entry_count = 0, entry_reset = reset\<rparr>)
        in if entry_count e \<ge> ml_limit l then
             let ra = entry_reset e - until
             in ((False, if ra \<le> 0 then second else ra), l\<lparr>ml_entries := (ml_entries l)(key := Some e)\<rparr>)
           else ((True, 0),
             l\<lparr>ml_entries := (ml_entries l)(key := Some (e\<lparr>entry_count := entry_count e + 1\<rparr>))\<rparr>))"

text \<open>A call during which the clock stands still.\<close>

definition memory_Allow :: "time \<Rightarrow> string \<Rightarrow> memoryLimiter \<Rightarrow> (bool \<times> duration) \<times> memoryLimiter" where
  "memory_Allow tm = memory_Allow_at tm tm"

lemmas memory_Allow_eq = memory_Allow_def memory_Allow_at_def

text \<open>One round of the endless loop of \<open>startCleanup\<close>, with the reading of the clock that it makes before it takes the mutex.\<close>

definition memory_cleanup :: "time \<Rightarrow> memoryLimiter \<Rightarrow> memoryLimiter" where
  "memory_cleanup tm l =
     l\<lparr>ml_entries := (\<lambda>k. case ml_entries l k of
        Some e \<Rightarrow> if tm > entry_reset e then None else Some e | None \<Rightarrow> None)\<rparr>"

section \<open>Windows\<close>

lemma whole_seconds_of: "whole_seconds (ws * second) = ws"
  by (simp add: whole_seconds_def second_def sgn_mult abs_mult sgn_mult_abs)

lemma fixedWindowReset_eq:
  assumes "0 < ws" and "0 \<le> tm"
  shows "fixedWindowReset tm (ws * second) = (tm div (ws * second) + 1) * (ws * second)"
proof -
  have sec: "0 < second" by (simp add: second_def)
  then have pos: "0 < ws * second" and unix: "0 \<le> Unix tm"
    using assms by (simp_all add: Unix_def pos_imp_zdiv_nonneg_iff)
  have "Unix tm div ws = tm div (ws * second)"
    using assms sec by (simp add: Unix_def zdiv_zmult2_eq [symmetric] mult.commute [of ws])
  with pos unix assms(1) have "fixedWindowReset tm (ws * second) = tm div (ws * second) * ws * second + ws * second"
    by (simp add: fixedWindowReset_def whole_seconds_of Let_def quot_nonneg)
  then show ?thesis by (simp add: algebra_simps)
qed

lemma fixedWindowReset_bounds:
  assumes "0 < ws" and "0 \<le> tm"
  shows "tm < fixedWindowReset tm (ws * second)" "fixedWindowReset tm (ws * second) \<le> tm + ws * second"
proof -
  define W where "W = ws * second"
  have pos: "0 < W" using assms by (simp add: W_def second_def)
  note divmod = div_mult_mod_eq [of tm W] pos_mod_sign [OF pos, of tm] pos_mod_bound [OF pos, of tm]
  have "fixedWindowReset tm (ws * second) = tm div W * W + W"
    by (simp only: fixedWindowReset_eq [OF assms] W_def) (simp add: algebra_simps)
  then show "tm < fixedWindowReset tm (ws * second)" "fixedWindowReset tm (ws * second) \<le> tm + ws * second"
    using divmod W_def by linarith+
qed

lemma fixedWindowReset_mono:
  assumes "0 < ws" and "0 \<le> t1" and "t1 \<le> t2"
  shows "fixedWindowReset t1 (ws * second) \<le> fixedWindowReset t2 (ws * second)"
proof -
  have pos: "0 < ws * second" using assms by (simp add: second_def)
  then have "t1 div (ws * second) \<le> t2 div (ws * second)" using assms(3) by (simp add: zdiv_mono1)
  with pos show ?thesis
    using assms unfolding fixedWindowReset_eq [OF assms(1,2)] fixedWindowReset_eq [OF assms(1) order_trans [OF assms(2,3)]]
    by (simp add: mult_right_mono)
qed

text \<open>Two ends of windows are equal or a window apart.\<close>

lemma fixedWindowReset_apart:
  assumes "0 < ws" and "0 \<le> t1" and "0 \<le> t2"
    and "fixedWindowReset t1 (ws * second) < fixedWindowReset t2 (ws * second)"
  shows "fixedWindowReset t1 (ws * second) \<le> fixedWindowReset t2 (ws * second) - ws * second"
proof -
  have pos: "0 < ws * second" using assms by (simp add: second_def)
  have "t1 div (ws * second) < t2 div (ws * second)"
    using assms(4) pos unfolding fixedWindowReset_eq [OF assms(1,2)] fixedWindowReset_eq [OF assms(1,3)]
    by (simp add: mult_less_cancel_right)
  then have "(t1 div (ws * second) + 1) * (ws * second) \<le> (t2 div (ws * second)) * (ws * second)"
    using pos by (simp add: mult_le_cancel_right)
  then show ?thesis
    unfolding fixedWindowReset_eq [OF assms(1,2)] fixedWindowReset_eq [OF assms(1,3)]
    by (simp add: algebra_simps)
qed

section \<open>Runs of the limiter in memory\<close>

text \<open>The calls of a run, in order, and what each was answered.\<close>

fun memory_run :: "(time \<times> string) list \<Rightarrow> memoryLimiter \<Rightarrow> bool list" where
  "memory_run [] l = []"
| "memory_run ((tm, key) # cs) l =
     (let ((ok, _), l') = memory_Allow tm key l in ok # memory_run cs l')"

definition allowed_in :: "time \<Rightarrow> time \<Rightarrow> string \<Rightarrow> (time \<times> string) list \<Rightarrow> bool list \<Rightarrow> nat" where
  "allowed_in a b key cs oks =
     length (filter (\<lambda>((tm, k), ok). ok \<and> k = key \<and> a < tm \<and> tm < b) (zip cs oks))"

lemma memory_Allow_frame:
  assumes "memory_Allow tm key l = (r, l')"
  shows "ml_limit l' = ml_limit l" "ml_window l' = ml_window l"
    "k \<noteq> key \<Longrightarrow> ml_entries l' k = ml_entries l k"
  using assms by (auto simp: memory_Allow_eq Let_def split: if_splits)

text \<open>Every counter belongs to a window that began at or before \<open>T\<close>, and never exceeds the limit.\<close>

definition begun :: "time \<Rightarrow> duration \<Rightarrow> time \<Rightarrow> bool" where
  "begun T window reset \<longleftrightarrow> (\<exists>t. 0 \<le> t \<and> t \<le> T \<and> reset = fixedWindowReset t window)"

lemma begun_now: "0 \<le> tm \<Longrightarrow> begun tm window (fixedWindowReset tm window)"
  by (auto simp: begun_def)

lemma begun_mono: "begun T window x \<Longrightarrow> T \<le> tm \<Longrightarrow> begun tm window x"
  by (force simp: begun_def)

definition limiter_ok :: "time \<Rightarrow> memoryLimiter \<Rightarrow> bool" where
  "limiter_ok T l \<longleftrightarrow> (\<forall>k e. ml_entries l k = Some e \<longrightarrow>
     0 \<le> entry_count e \<and> entry_count e \<le> ml_limit l \<and> begun T (ml_window l) (entry_reset e))"

lemma limiter_ok_Allow:
  assumes "limiter_ok T l" and "T \<le> tm" and "0 \<le> tm" and "memory_Allow tm key l = (r, l')"
  shows "limiter_ok tm l'"
proof -
  have "0 \<le> entry_count e \<and> entry_count e \<le> ml_limit l \<and> begun tm (ml_window l) (entry_reset e)"
    if "ml_entries l k = Some e" for k e
    using assms(1,2) that begun_mono unfolding limiter_ok_def by blast
  with begun_now [OF assms(3), of "ml_window l"] show ?thesis
    using assms(4) unfolding limiter_ok_def
    by (auto simp: memory_Allow_eq Let_def split: if_splits option.splits)
qed

lemma limiter_ok_NewMemory: "limiter_ok T (NewMemory limit window)"
  by (simp add: limiter_ok_def NewMemory_def)

text \<open>What is left of the limit for \<open>key\<close> in the window that ends at \<open>r\<close>.\<close>

definition left_in :: "time \<Rightarrow> string \<Rightarrow> memoryLimiter \<Rightarrow> int" where
  "left_in r key l = (case ml_entries l key of
     Some e \<Rightarrow> if entry_reset e = r then ml_limit l - entry_count e else ml_limit l
   | None \<Rightarrow> ml_limit l)"

lemma memory_Allow_left:
  assumes "limiter_ok T l" and "T \<le> tm" and "0 \<le> tm" and "0 < ws" and "ml_window l = ws * second"
    and "0 < ml_limit l" and "key \<noteq> []"
    and "r = fixedWindowReset t0 (ws * second)" "0 \<le> t0" "r - ws * second < tm" "tm < r"
    and "memory_Allow tm key l = ((ok, ra), l')"
  shows "left_in r key l' = (if ok then left_in r key l - 1 else left_in r key l)"
    and "ok \<Longrightarrow> 0 < left_in r key l"
proof -
  have r: "fixedWindowReset tm (ml_window l) = r"
  proof -
    have "\<not> fixedWindowReset tm (ws * second) < r"
      using fixedWindowReset_apart [OF assms(4,3,9)] fixedWindowReset_bounds(1) [OF assms(4,3)] assms(8,10) by auto
    moreover have "\<not> r < fixedWindowReset tm (ws * second)"
      using fixedWindowReset_apart [OF assms(4,9,3)] fixedWindowReset_bounds(2) [OF assms(4,3)] assms(8,11) by auto
    ultimately show ?thesis using assms(5) by simp
  qed
  have stale: "entry_reset e \<noteq> r \<Longrightarrow> entry_reset e < tm" if "ml_entries l key = Some e" for e
  proof -
    assume ne: "entry_reset e \<noteq> r"
    obtain t where t: "0 \<le> t" "t \<le> T" "entry_reset e = fixedWindowReset t (ws * second)"
      using assms(1,5) \<open>ml_entries l key = Some e\<close> unfolding limiter_ok_def begun_def by metis
    have "entry_reset e \<le> r"
      using fixedWindowReset_mono [OF assms(4) t(1), of tm] t assms(2) r assms(5) by simp
    with ne have "entry_reset e < fixedWindowReset t0 (ws * second)" using assms(8) by simp
    then have "entry_reset e \<le> r - ws * second"
      using fixedWindowReset_apart [OF assms(4) t(1) assms(9)] t(3) assms(8) by simp
    with assms(10) show "entry_reset e < tm" by simp
  qed
  show "left_in r key l' = (if ok then left_in r key l - 1 else left_in r key l)"
    and "ok \<Longrightarrow> 0 < left_in r key l"
    using assms(6,7,11,12) r stale
    by (auto simp: memory_Allow_eq left_in_def Let_def split: if_splits option.splits)
qed

lemma left_in_nonneg: "limiter_ok T l \<Longrightarrow> 0 < ml_limit l \<Longrightarrow> 0 \<le> left_in r key l"
  by (auto simp: left_in_def limiter_ok_def split: option.splits)

lemma left_in_le: "limiter_ok T l \<Longrightarrow> left_in r key l \<le> ml_limit l"
  by (auto simp: left_in_def limiter_ok_def split: option.splits)

lemma memory_Allow_left_mono:
  assumes "limiter_ok T l" and "T \<le> tm" and "0 \<le> tm" and "tm < r" and "memory_Allow tm k l = (x, l')"
  shows "left_in r key l' \<le> left_in r key l"
proof -
  note le = left_in_le [OF limiter_ok_Allow [OF assms(1-3,5)], of r key]
  show ?thesis
  proof (cases "k = key \<and> key \<noteq> [] \<and> \<not> ml_limit l \<le> 0")
    case True
    show ?thesis
    proof (cases "\<exists>e. ml_entries l key = Some e \<and> entry_reset e = r")
      case True
      with assms(4,5) \<open>k = key \<and> key \<noteq> [] \<and> \<not> ml_limit l \<le> 0\<close> show ?thesis
        by (auto simp: memory_Allow_eq left_in_def Let_def split: if_splits)
    next
      case False
      then have "left_in r key l = ml_limit l" by (auto simp: left_in_def split: option.splits)
      with le memory_Allow_frame(1) [OF assms(5)] show ?thesis by simp
    qed
  next
    case False
    with assms(5) have "ml_entries l' key = ml_entries l key"
      using memory_Allow_frame(3) [OF assms(5), of key] by (auto simp: memory_Allow_eq split: if_splits)
    with memory_Allow_frame(1) [OF assms(5)] show ?thesis by (simp add: left_in_def split: option.split)
  qed
qed

lemma allowed_in_Cons:
  "allowed_in a b key ((tm, k) # cs) (ok # oks) =
     (if ok \<and> k = key \<and> a < tm \<and> tm < b then 1 else 0) + allowed_in a b key cs oks"
  by (simp add: allowed_in_def)

lemma allowed_in_late: "\<forall>c \<in> set cs. b \<le> fst c \<Longrightarrow> allowed_in a b key cs oks = 0"
  by (force simp: allowed_in_def filter_empty_conv dest: set_zip_leftD)

lemma memory_run_left:
  assumes "limiter_ok T l" and "sorted (map fst cs)" and "\<forall>c \<in> set cs. T \<le> fst c \<and> 0 \<le> fst c"
    and "0 < ws" and "ml_window l = ws * second" and "0 < ml_limit l" and "key \<noteq> []"
    and "r = fixedWindowReset t0 (ws * second)" and "0 \<le> t0"
  shows "int (allowed_in (r - ws * second) r key cs (memory_run cs l)) \<le> left_in r key l"
  using assms(1-3,5,6)
proof (induction cs arbitrary: l T)
  case Nil
  then show ?case using left_in_nonneg by (simp add: allowed_in_def)
next
  case (Cons c cs)
  obtain tm k where c: "c = (tm, k)" by (cases c)
  obtain ok ra l' where run: "memory_Allow tm k l = ((ok, ra), l')" by (cases "memory_Allow tm k l") auto
  have tm: "T \<le> tm" "0 \<le> tm" using Cons.prems c by auto
  note ok' = limiter_ok_Allow [OF Cons.prems(1) tm run] and frame = memory_Allow_frame [OF run]
  have IH: "int (allowed_in (r - ws * second) r key cs (memory_run cs l')) \<le> left_in r key l'"
    using Cons.prems c frame by (intro Cons.IH [OF ok']) auto
  show ?case
  proof (cases "tm < r")
    case False
    then have "\<forall>x \<in> set (c # cs). r \<le> fst x" using Cons.prems c by fastforce
    with left_in_nonneg [OF Cons.prems(1,5)] show ?thesis by (simp add: allowed_in_late)
  next
    case True
    note mono = memory_Allow_left_mono [OF Cons.prems(1) tm True run, of key]
    show ?thesis
    proof (cases "ok \<and> k = key \<and> r - ws * second < tm")
      case in_window: True
      note left = memory_Allow_left [OF Cons.prems(1) tm assms(4) Cons.prems(4,5) assms(7-9) _ True, of ok ra l']
      from left(1) in_window run IH c True show ?thesis by (simp add: allowed_in_Cons)
    next
      case False
      with IH mono run c show ?thesis by (auto simp: allowed_in_Cons)
    qed
  qed
qed

text \<open>C27. The limiter in memory admits at most \<open>limit\<close> calls per key in a window: over any
  run of calls whose readings of the clock come in the order of the mutex, for a window of whole seconds, the calls
  admitted strictly inside the window that ends at \<open>r\<close> are at most \<open>limit\<close>.\<close>

theorem memory_limiter_bound:
  assumes "sorted (map fst cs)" and "\<forall>c \<in> set cs. 0 \<le> fst c" and "0 < ws" and "0 < limit"
    and "key \<noteq> []" and "0 \<le> t0" and "r = fixedWindowReset t0 (ws * second)"
  shows "int (allowed_in (r - ws * second) r key cs (memory_run cs (NewMemory limit (ws * second)))) \<le> limit"
proof -
  have "limiter_ok 0 (NewMemory limit (ws * second))" by (rule limiter_ok_NewMemory)
  from memory_run_left [OF this assms(1) _ assms(3) _ _ assms(5,7,6)] assms(2,4)
  show ?thesis by (simp add: NewMemory_def left_in_def)
qed

text \<open>Three calls a second apart with a limit of two per minute: the third is refused.\<close>

theorem memory_limiter_bound_witness:
  "memory_run [(1, ''u''), (second, ''u''), (2 * second, ''u'')] (NewMemory 2 (60 * second)) = [True, True, False] \<and>
   allowed_in 0 (60 * second) ''u'' [(1, ''u''), (second, ''u''), (2 * second, ''u'')]
     (memory_run [(1, ''u''), (second, ''u''), (2 * second, ''u'')] (NewMemory 2 (60 * second))) \<le> 2"
proof -
  have r: "60 * second = fixedWindowReset 0 (60 * second)" by code_simp
  have "memory_run [(1, ''u''), (second, ''u''), (2 * second, ''u'')] (NewMemory 2 (60 * second)) = [True, True, False]"
    by code_simp
  with memory_limiter_bound [of "[(1, ''u''), (second, ''u''), (2 * second, ''u'')]" 60 2 "''u''" 0, OF _ _ _ _ _ _ r]
  show ?thesis by (simp add: second_def)
qed

section \<open>The cleanup loop\<close>

text \<open>Calls and sweeps of the cleanup loop in the order in which they take the mutex, each with the reading of the clock that it made before.\<close>

datatype limiter_event = Call time string | Sweep time

fun event_time :: "limiter_event \<Rightarrow> time" where
  "event_time (Call tm _) = tm"
| "event_time (Sweep tm) = tm"

fun event_run :: "limiter_event list \<Rightarrow> memoryLimiter \<Rightarrow> (bool \<times> duration) list" where
  "event_run [] l = []"
| "event_run (Call tm key # es) l = (let (r, l') = memory_Allow tm key l in r # event_run es l')"
| "event_run (Sweep tm # es) l = event_run es (memory_cleanup tm l)"

fun is_call :: "limiter_event \<Rightarrow> bool" where
  "is_call (Call _ _) \<longleftrightarrow> True"
| "is_call (Sweep _) \<longleftrightarrow> False"

text \<open>Up to counters that are over at \<open>T\<close>, the two limiters are the same.\<close>

definition same_limiter :: "time \<Rightarrow> memoryLimiter \<Rightarrow> memoryLimiter \<Rightarrow> bool" where
  "same_limiter T a b \<longleftrightarrow> ml_limit a = ml_limit b \<and> ml_window a = ml_window b \<and>
     (\<forall>k. ml_entries a k = ml_entries b k \<or>
        (ml_entries a k = None \<and> (\<exists>e. ml_entries b k = Some e \<and> entry_reset e < T)))"

lemma same_limiter_Allow:
  assumes "same_limiter T a b" and "T \<le> tm" and "memory_Allow tm key a = (r, a')" and "memory_Allow tm key b = (r', b')"
  shows "r = r' \<and> same_limiter tm a' b'"
proof -
  have *: "ml_entries a key = ml_entries b key \<or>
      (ml_entries a key = None \<and> (\<exists>e. ml_entries b key = Some e \<and> entry_reset e < tm))"
    using assms(1,2) unfolding same_limiter_def by fastforce
  have others: "ml_entries a k = ml_entries b k \<or>
      (ml_entries a k = None \<and> (\<exists>e. ml_entries b k = Some e \<and> entry_reset e < tm))" for k
    using assms(1,2) unfolding same_limiter_def by fastforce
  have eq: "ml_limit a = ml_limit b" "ml_window a = ml_window b" using assms(1) by (simp_all add: same_limiter_def)
  have "r = r' \<and> (key \<noteq> [] \<and> \<not> ml_limit b \<le> 0 \<longrightarrow> ml_entries a' key = ml_entries b' key)"
    using * assms(3,4) eq by (auto simp: memory_Allow_eq Let_def split: if_splits option.splits)
  moreover have "key = [] \<or> ml_limit b \<le> 0 \<Longrightarrow> a' = a \<and> b' = b"
    using assms(3,4) eq by (auto simp: memory_Allow_eq)
  ultimately show ?thesis
    using others memory_Allow_frame [OF assms(3)] memory_Allow_frame [OF assms(4)] eq
    unfolding same_limiter_def by metis
qed

lemma same_limiter_cleanup:
  assumes "same_limiter T a b" and "T \<le> tm"
  shows "same_limiter tm (memory_cleanup tm a) b"
  using assms unfolding same_limiter_def memory_cleanup_def
  by (auto split: option.splits) (metis option.distinct(1) option.inject order_less_le_trans)+

lemma event_run_same:
  assumes "same_limiter T a b" and "sorted (map event_time es)" and "\<forall>e \<in> set es. T \<le> event_time e"
  shows "event_run es a = event_run (filter is_call es) b"
  using assms
proof (induction es arbitrary: a b T)
  case (Cons e es)
  show ?case
  proof (cases e)
    case (Call tm key)
    obtain r a' r' b' where run: "memory_Allow tm key a = (r, a')" "memory_Allow tm key b = (r', b')"
      by (cases "memory_Allow tm key a"; cases "memory_Allow tm key b") auto
    have step: "r = r' \<and> same_limiter tm a' b'"
      using same_limiter_Allow [OF Cons.prems(1) _ run] Cons.prems(3) Call by simp
    moreover have "event_run es a' = event_run (filter is_call es) b'"
      using Cons.prems Call step by (intro Cons.IH [of tm]) auto
    ultimately show ?thesis by (simp add: Call run)
  next
    case (Sweep tm)
    have "same_limiter tm (memory_cleanup tm a) b"
      using same_limiter_cleanup [OF Cons.prems(1)] Cons.prems(3) Sweep by simp
    then show ?thesis using Cons.prems Sweep by (simp add: Cons.IH [of tm])
  qed
qed simp

text \<open>While the readings come in the order of the mutex, a run of calls is answered the same whether or not sweeps happen in between.\<close>

lemma cleanup_unobservable:
  assumes "sorted (map event_time es)"
  shows "event_run es (NewMemory limit window) = event_run (filter is_call es) (NewMemory limit window)"
proof -
  let ?T = "if es = [] then 0 else event_time (hd es)"
  have "same_limiter ?T (NewMemory limit window) (NewMemory limit window)"
    by (simp add: same_limiter_def NewMemory_def)
  moreover have "\<forall>e \<in> set es. ?T \<le> event_time e" using assms by (cases es) auto
  ultimately show ?thesis using event_run_same assms by blast
qed






section \<open>The limiter over Redis\<close>

record 'w redisLimiter =
  rl_client :: "'w redisClient option"
  rl_limit :: int
  rl_window :: duration
  rl_fallback :: "string \<Rightarrow> 'w \<Rightarrow> (bool \<times> duration) \<times> 'w"
  rl_metrics :: "'w Metrics option"
  rl_errCount :: "'w \<Rightarrow> 'w"
  rl_now :: "'w \<Rightarrow> time"

definition redisLimiter_onRedisError :: "'w redisLimiter \<Rightarrow> 'w \<Rightarrow> 'w" where
  "redisLimiter_onRedisError l w = inc (rl_metrics l) ''RedisDegraded'' [''ratelimit''] (rl_errCount l w)"

definition ceilDuration :: "duration \<Rightarrow> duration" where
  "ceilDuration d = (if d \<le> 0 then 0 else ceil_seconds d * second)"

definition remainingDuration :: "duration \<Rightarrow> time \<Rightarrow> duration" where
  "remainingDuration window tm =
     (let ws = whole_seconds window in
      if ws \<le> 0 then second
      else let r = ws - rem (Unix tm) ws in (if r \<le> 0 then 1 else r) * second)"

definition redis_Allow :: "'w redisLimiter \<Rightarrow> string \<Rightarrow> 'w \<Rightarrow> (bool \<times> duration) \<times> 'w" where
  "redis_Allow l key w =
     (if key = [] \<or> rl_limit l \<le> 0 then ((True, 0), w)
      else case rl_client l of
        None \<Rightarrow> rl_fallback l key w
      | Some c \<Rightarrow>
        (case redis_Incr c key w of
           (Inl e, w1) \<Rightarrow> rl_fallback l key (redisLimiter_onRedisError l w1)
         | (Inr count, w1) \<Rightarrow>
           let w2 = (if count = 1 then
                       (case redis_Expire c key (rl_window l) w1 of
                          (Inl e, w') \<Rightarrow> redisLimiter_onRedisError l w'
                        | (Inr _, w') \<Rightarrow> w')
                     else w1)
           in if count > rl_limit l then
                (case redis_TTL c key w2 of
                   (Inl e, w3) \<Rightarrow>
                     let w4 = redisLimiter_onRedisError l w3
                     in ((False, remainingDuration (rl_window l) (rl_now l w4)), w4)
                 | (Inr ttl, w3) \<Rightarrow>
                     if ttl \<le> 0 then ((False, remainingDuration (rl_window l) (rl_now l w3)), w3)
                     else ((False, ceilDuration ttl), w3))
              else ((True, 0), w2)))"

lemma remainingDuration_pos: "0 < remainingDuration window tm"
  by (simp add: remainingDuration_def Let_def second_def)

lemma ceilDuration_pos: "0 < d \<Longrightarrow> d \<le> ceilDuration d"
  using ceil_seconds_bounds(1) [of d] by (simp add: ceilDuration_def)

end
