(* ===== verification/RateLimitRuns.thy ===== *)
theory RateLimitRuns
  imports RateLimit Sample
begin

text \<open>
  What the limiter over Redis guarantees while Redis answers, and what one lost
  \<open>EXPIRE\<close> does to a key.
\<close>

locale redis_limiter = redis_api ks up c
  for ks :: "'w \<Rightarrow> keyspace" and up :: "'w \<Rightarrow> bool" and c :: "'w redisClient" +
  fixes l :: "'w redisLimiter"
  assumes client: "rl_client l = Some c"
    and quiet: "uncounted ks (rl_metrics l)" "uncounted up (rl_metrics l)"
    and errs: "ks (rl_errCount l w) = ks w" "up (rl_errCount l w) = up w"
begin

lemma Allow_healthy:
  assumes "up w" and "counts (ks w) key n e" and "n < int64_max" and "key \<noteq> []" and "0 < rl_limit l"
    and "0 < rl_window l"
  shows "(fst (fst (redis_Allow l key w)) \<longleftrightarrow> n + 1 \<le> rl_limit l)"
    "up (snd (redis_Allow l key w))"
    "ks (snd (redis_Allow l key w)) = put key (FormatInt (n + 1),
        if n = 0 then Some (redis_time (ks w) + whole_ttl (rl_window l)) else e) (ks w)"
proof -
  obtain w1 where w1: "redis_Incr c key w = (Inr (n + 1), w1)" "up w1"
      "ks w1 = put key (FormatInt (n + 1), if n = 0 then None else e) (ks w)"
    using incr_up [OF assms(1-3)] by blast
  have n: "0 \<le> n" using assms(2) by (auto simp: counts_def split: if_splits)
  obtain w2 where w2: "(if n + 1 = 1 then (case redis_Expire c key (rl_window l) w1 of
      (Inl e, w') \<Rightarrow> redisLimiter_onRedisError l w' | (Inr _, w') \<Rightarrow> w') else w1) = w2" "up w2"
      "ks w2 = put key (FormatInt (n + 1),
        if n = 0 then Some (redis_time (ks w) + whole_ttl (rl_window l)) else e) (ks w)"
  proof (cases "n = 0")
    case True
    obtain b w' where "redis_Expire c key (rl_window l) w1 = (Inr b, w')" "up w'"
      "ks w' = snd (cmd_expire key (rl_window l) (ks w1))" using expire_up [OF w1(2)] by blast
    with True w1 that show ?thesis by (auto simp: cmd_expire_def)
  qed (use w1 that in auto)
  obtain t w3 where w3: "redis_TTL c key w2 = (Inr t, w3)" "up w3" "ks w3 = ks w2"
    using ttl_up [OF w2(2)] by blast
  have "redis_Allow l key w = (if n + 1 > rl_limit l then
      (if t \<le> 0 then ((False, remainingDuration (rl_window l) (rl_now l w3)), w3) else ((False, ceilDuration t), w3))
      else ((True, 0), w2))"
    using assms(4,5) client w1(1) w2(1) w3(1) by (cases "n = 0") (simp_all add: redis_Allow_def Let_def)
  with w2 w3 show "(fst (fst (redis_Allow l key w)) \<longleftrightarrow> n + 1 \<le> rl_limit l)"
    "up (snd (redis_Allow l key w))"
    "ks (snd (redis_Allow l key w)) = put key (FormatInt (n + 1),
        if n = 0 then Some (redis_time (ks w) + whole_ttl (rl_window l)) else e) (ks w)"
    by auto
qed

text \<open>Whatever the keyspace holds, a call changes at most its own key: it keeps the expiry that the key had, or sets the one of the window.\<close>

lemma Allow_keyspace:
  assumes "up w" and fb: "\<And>k v. ks (snd (rl_fallback l k v)) = ks v" "\<And>k v. up (snd (rl_fallback l k v)) = up v"
  shows "up (snd (redis_Allow l key w))"
    "ks (snd (redis_Allow l key w)) = ks w \<or>
     (\<exists>x e. ks (snd (redis_Allow l key w)) = put key (x, e) (ks w) \<and>
        (e = Some (redis_time (ks w) + whole_ttl (rl_window l)) \<or> (\<exists>v. live (ks w) key = Some (v, e))))"
proof -
  let ?goal = "up (snd (redis_Allow l key w)) \<and> (ks (snd (redis_Allow l key w)) = ks w \<or>
     (\<exists>x e. ks (snd (redis_Allow l key w)) = put key (x, e) (ks w) \<and>
        (e = Some (redis_time (ks w) + whole_ttl (rl_window l)) \<or> (\<exists>v. live (ks w) key = Some (v, e)))))"
  have err: "ks (redisLimiter_onRedisError l v) = ks v" "up (redisLimiter_onRedisError l v) = up v" for v
    by (simp_all add: redisLimiter_onRedisError_def uncountedD [OF quiet(1)] uncountedD [OF quiet(2)] errs)
  have ?goal
  proof (cases "key = [] \<or> rl_limit l \<le> 0")
    case True
    then show ?thesis using assms(1) by (auto simp: redis_Allow_def)
  next
    case False
    obtain r w1 where w1: "redis_Incr c key w = (r, w1)" "up w1" "cmd_incr key (ks w) = (r, ks w1)"
      using executes_healthy [OF redis_incr assms(1), of key] by (cases "redis_Incr c key w") auto
    show ?thesis
    proof (cases r)
      case (Inl e)
      then have "ks w1 = ks w" using w1(3) by (auto simp: cmd_incr_def split: option.splits if_splits)
      with Inl False w1 client show ?thesis by (simp add: redis_Allow_def err fb)
    next
      case (Inr n)
      obtain e where e: "ks w1 = put key (FormatInt n, e) (ks w)" "live (ks w1) key = Some (FormatInt n, e)"
        "n = 1 \<or> (\<exists>v. live (ks w) key = Some (v, e))"
      proof (cases "live (ks w) key")
        case None
        then have "ks w1 = put key (FormatInt n, None) (ks w)" "n = 1" using w1(3) Inr by (auto simp: cmd_incr_def)
        then show thesis using that [of None] by simp
      next
        case (Some ve)
        then obtain v e where live: "live (ks w) key = Some (v, e)" by (cases ve) auto
        then have "case e of None \<Rightarrow> True | Some t \<Rightarrow> redis_time (ks w) < t" by (auto simp: live_def split: option.splits if_splits)
        with live w1(3) Inr that [of e] show thesis by (auto simp: cmd_incr_def split: option.splits if_splits)
      qed
      obtain w2 x where w2: "(if n = 1 then (case redis_Expire c key (rl_window l) w1 of
          (Inl e, w') \<Rightarrow> redisLimiter_onRedisError l w' | (Inr _, w') \<Rightarrow> w') else w1) = w2" "up w2"
        "ks w2 = put key (FormatInt n, x) (ks w)"
        "x = Some (redis_time (ks w) + whole_ttl (rl_window l)) \<or> (\<exists>v. live (ks w) key = Some (v, x))"
      proof (cases "n = 1")
        case True
        obtain b w' where "redis_Expire c key (rl_window l) w1 = (Inr b, w')" "up w'"
          "ks w' = snd (cmd_expire key (rl_window l) (ks w1))" using expire_up [OF w1(2)] by blast
        with True e(1,2) that show thesis by (auto simp: cmd_expire_def)
      qed (use w1(2) e that in auto)
      obtain t w3 where w3: "redis_TTL c key w2 = (Inr t, w3)" "up w3" "ks w3 = ks w2" using ttl_up [OF w2(2)] by blast
      have "snd (redis_Allow l key w) = w2 \<or> snd (redis_Allow l key w) = w3"
        using False client w1(1) Inr w2(1) w3(1) by (cases "n = 1") (simp_all add: redis_Allow_def Let_def)
      then have "up (snd (redis_Allow l key w))" "ks (snd (redis_Allow l key w)) = put key (FormatInt n, x) (ks w)"
        using w2(2,3) w3(2,3) by metis+
      then show ?thesis using w2(4) by blast
    qed
  qed
  then show "up (snd (redis_Allow l key w))"
    "ks (snd (redis_Allow l key w)) = ks w \<or>
     (\<exists>x e. ks (snd (redis_Allow l key w)) = put key (x, e) (ks w) \<and>
        (e = Some (redis_time (ks w) + whole_ttl (rl_window l)) \<or> (\<exists>v. live (ks w) key = Some (v, e))))" by simp_all
qed

end

section \<open>On the application's Redis\<close>

definition NewRedis :: "int \<Rightarrow> duration \<Rightarrow> (string \<Rightarrow> 'x world_scheme \<Rightarrow> (bool \<times> duration) \<times> 'x world_scheme)
    \<Rightarrow> 'x world_scheme redisLimiter" where
  "NewRedis limit window fallback =
     \<lparr>rl_client = Some redis_client, rl_limit = limit, rl_window = window, rl_fallback = fallback,
      rl_metrics = Some app_metrics, rl_errCount = (\<lambda>w. w), rl_now = now\<rparr>"

interpretation app_limiter: redis_limiter redis redis_up redis_client "NewRedis limit window fallback"
  by unfold_locales (simp_all add: NewRedis_def)

text \<open>Calls with the same key, each after a pause, and their answers.\<close>

fun redis_run :: "('x world_scheme) redisLimiter \<Rightarrow> string \<Rightarrow> duration list \<Rightarrow> 'x world_scheme \<Rightarrow> bool list" where
  "redis_run l key [] w = []"
| "redis_run l key (d # ds) w =
     (let ((ok, _), w') = redis_Allow l key (pass d w) in ok # redis_run l key ds w')"

text \<open>A counter without expiry only grows.\<close>

lemma redis_run_counts:
  assumes "redis_up w" and "counts (redis w) key n None" and "0 < n" and "n + int (length ds) < int64_max"
    and "key \<noteq> []" and "0 < limit" and "0 < window"
  shows "redis_run (NewRedis limit window fallback) key ds w = map (\<lambda>i. n + int i < limit) [0..<length ds]"
  using assms(1-4)
proof (induction ds arbitrary: w n)
  case (Cons d ds)
  obtain ok ra w' where run: "redis_Allow (NewRedis limit window fallback) key (pass d w) = ((ok, ra), w')"
    by (cases "redis_Allow (NewRedis limit window fallback) key (pass d w)") auto
  have "counts (redis (pass d w)) key n None" using Cons.prems by (simp add: counts_wait_None)
  then have step: "ok \<longleftrightarrow> n < limit" "redis_up w'" "redis w' = put key (FormatInt (n + 1), None) (redis (pass d w))"
    using app_limiter.Allow_healthy [of "pass d w" key n None limit window fallback] Cons.prems assms(5-7) run
    by (auto simp: NewRedis_def)
  then have "counts (redis w') key (n + 1) None" using Cons.prems(3) by (simp add: counts_def)
  from Cons.IH [OF step(2) this] Cons.prems have "redis_run (NewRedis limit window fallback) key ds w' = map (\<lambda>i. n + 1 + int i < limit) [0..<length ds]"
    by simp
  moreover have "map (\<lambda>i. n + int i < limit) [0..<length (d # ds)] = (n < limit) # map (\<lambda>i. n + 1 + int i < limit) [0..<length ds]"
    by (simp add: upt_conv_Cons map_Suc_upt [symmetric] add.assoc del: upt_Suc)
  ultimately show ?case by (simp add: run step(1) del: upt_Suc)
qed simp

text \<open>While Redis answers, the limiter over Redis admits a call exactly when the key's
  counter has not reached the limit, counts it, and starts the window with the first call.\<close>

theorem redis_limiter_counts:
  assumes "redis_up w" and "counts (redis w) key n e" and "n < int64_max" and "key \<noteq> []"
    and "0 < limit" and "0 < window"
  shows "(fst (fst (redis_Allow (NewRedis limit window fallback) key w)) \<longleftrightarrow> n < limit) \<and>
     counts (redis (snd (redis_Allow (NewRedis limit window fallback) key w))) key (n + 1)
       (if n = 0 then Some (redis_time (redis w) + whole_ttl window) else e)"
proof -
  note res = app_limiter.Allow_healthy [of w key n e limit window fallback]
  have pos: "0 < whole_ttl window"
    using assms(6) by (auto simp: whole_ttl_def second_def quot_nonneg pos_imp_zdiv_pos_iff)
  have live: "0 < n \<Longrightarrow> live (redis w) key = Some (FormatInt n, e)" and n: "0 \<le> n"
    using assms(2) by (auto simp: counts_def split: if_splits)
  have alive: "case e of Some t \<Rightarrow> redis_time (redis w) < t | None \<Rightarrow> True" if "0 < n"
    using live [OF that] by (auto simp: live_def split: option.splits if_splits)
  show ?thesis
    using res assms pos n alive
    by (cases "n = 0") (auto simp: NewRedis_def counts_def split: option.splits)
qed

theorem redis_limiter_counts_witness:
  "\<not> fst (fst (redis_Allow (NewRedis 1 second (\<lambda>k w. ((True, 0), w))) ''k''
      (snd (redis_Allow (NewRedis 1 second (\<lambda>k w. ((True, 0), w))) ''k'' sample_world))))"
proof -
  let ?l = "NewRedis 1 second (\<lambda>k w. ((True, 0), w)) :: world redisLimiter"
  have up: "redis_up sample_world" by code_simp
  have "counts (redis sample_world) ''k'' 0 None" by code_simp
  from redis_limiter_counts [OF up this, of 1 second "\<lambda>k w. ((True, 0), w)"]
  have one: "counts (redis (snd (redis_Allow ?l ''k'' sample_world))) ''k'' 1 (Some (redis_time (redis sample_world) + whole_ttl second))"
    by (simp add: second_def int64_max_def)
  have "redis_up (snd (redis_Allow ?l ''k'' sample_world))" by code_simp
  from redis_limiter_counts [OF this one, of 1 second "\<lambda>k w. ((True, 0), w)"] show ?thesis
    by (simp add: second_def int64_max_def)
qed

text \<open>The first call of a key, of which Redis receives the \<open>INCR\<close> and not the \<open>EXPIRE\<close>.\<close>

lemma lossy_first_call:
  assumes "redis_faults w = None # Some e # fs" and "list_all (\<lambda>f. f = None) fs" and "live (redis w) key = None"
    and "key \<noteq> []" and "0 < limit"
  shows "fst (redis_Allow (NewRedis limit window fallback) key w) = (True, 0)"
    "redis_up (snd (redis_Allow (NewRedis limit window fallback) key w))"
    "counts (redis (snd (redis_Allow (NewRedis limit window fallback) key w))) key 1 None"
  using assms
  by (simp_all add: redis_Allow_def NewRedis_def redis_client_def run_redis_def cmd_incr_def redisLimiter_onRedisError_def redis_up_def
      counts_def inc_def app_metrics_def)

text \<open>C30. One lost \<open>EXPIRE\<close> blocks a key for good. The error is only logged: when Redis receives the \<open>INCR\<close> of the first call of a key and not the \<open>EXPIRE\<close>
  after it, the call is admitted and the counter stays without an expiry. From then on, with a Redis that answers every command and however much time passes
  between the calls, the next \<open>limit - 1\<close> calls are admitted and all calls after them are refused, without end (up to the \<open>2^63\<close> that a counter can hold).\<close>

theorem lost_expire_blocks_forever:
  assumes "redis_faults w = None # Some e # fs" and "list_all (\<lambda>f. f = None) fs" and "live (redis w) key = None"
    and "key \<noteq> []" and "0 < limit" and "0 < window" and "1 + int (length ds) < int64_max"
  shows "fst (redis_Allow (NewRedis limit window fallback) key w) = (True, 0) \<and>
    redis_run (NewRedis limit window fallback) key ds (snd (redis_Allow (NewRedis limit window fallback) key w)) =
      map (\<lambda>i. 1 + int i < limit) [0..<length ds]"
  using lossy_first_call [OF assms(1-5)] redis_run_counts [OF lossy_first_call(2,3) [OF assms(1-5)] zero_less_one assms(7,4-6)] by blast

text \<open>With a limit of one per minute, the calls after an hour and after a day are refused.\<close>

definition sample_lossy :: world where
  "sample_lossy = sample_world\<lparr>redis_faults := [None, Some (OtherError ''timeout'')]\<rparr>"

theorem lost_expire_blocks_forever_witness:
  "fst (redis_Allow (NewRedis 1 minute (\<lambda>k w. ((True, 0), w))) ''k'' sample_lossy) = (True, 0) \<and>
   redis_run (NewRedis 1 minute (\<lambda>k w. ((True, 0), w))) ''k'' [60 * minute, 1440 * minute]
     (snd (redis_Allow (NewRedis 1 minute (\<lambda>k w. ((True, 0), w))) ''k'' sample_lossy)) = [False, False]"
proof -
  have "live (redis sample_lossy) ''k'' = None" by code_simp
  from lost_expire_blocks_forever [OF _ _ this, of "OtherError ''timeout''" "[]" 1 minute "[60 * minute, 1440 * minute]" "\<lambda>k w. ((True, 0), w)"]
  show ?thesis by (simp add: sample_lossy_def int64_max_def minute_def second_def)
qed

end
