(* ===== verification/RedisLock.thy ===== *)
theory RedisLock
  imports Redis Metrics
begin

text \<open>
  \<open>internal/infra/redislock/locker.go\<close>: a lock is a key with a random token and a time to
  live; releasing it compares the token and deletes the key in one script.
\<close>

section \<open>The locker\<close>

record 'w Locker =
  locker_client :: "'w redisClient option"
  locker_metrics :: "'w Metrics option"
  locker_uuid :: "'w \<Rightarrow> string \<times> 'w"

definition releaseScript :: "string \<Rightarrow> string \<Rightarrow> (keyspace, int) comp" where
  "releaseScript key token s = (if value_at s key = Some token then cmd_del [key] s else (Inr 0, s))"

definition Locker_onRedisError :: "'w Locker \<Rightarrow> 'w \<Rightarrow> 'w" where
  "Locker_onRedisError l = inc (locker_metrics l) ''RedisDegraded'' [''lock'']"

definition Acquire :: "'w Locker \<Rightarrow> string \<Rightarrow> duration \<Rightarrow> ('w, string \<times> bool) comp" where
  "Acquire l key ttl w =
     (case locker_client l of
        None \<Rightarrow> (Inl (OtherError ''redis lock unavailable''), w)
      | Some c \<Rightarrow>
          if key = [] then (Inl (OtherError ''empty lock key''), w)
          else
            let ttl' = (if ttl \<le> 0 then 15 * second else ttl);
                (token, w1) = locker_uuid l w
            in (case redis_SetNX c key token ttl' w1 of
                  (Inl e, w2) \<Rightarrow> (Inl e, Locker_onRedisError l w2)
                | (Inr ok, w2) \<Rightarrow> (Inr (if ok then (token, True) else ([], False)), w2)))"

definition Release :: "'w Locker \<Rightarrow> string \<Rightarrow> string \<Rightarrow> ('w, unit) comp" where
  "Release l key token w =
     (case locker_client l of
        None \<Rightarrow> (Inr (), w)
      | Some c \<Rightarrow>
          if key = [] \<or> token = [] then (Inr (), w)
          else (case redis_Run c (releaseScript key token) w of
                  (Inl e, w1) \<Rightarrow> (Inl e, Locker_onRedisError l w1)
                | (Inr _, w1) \<Rightarrow> (Inr (), w1)))"

section \<open>What the locker promises\<close>

text \<open>
  A lock as its users see it: whoever acquired \<open>key\<close> finds its token there until the
  lease ends, and a release with another token takes nothing away.
\<close>

locale lock_service = redis_api ks up c
  for ks :: "'w \<Rightarrow> keyspace" and up :: "'w \<Rightarrow> bool" and c :: "'w redisClient" +
  fixes l :: "'w Locker"
  assumes client: "locker_client l = Some c"
    and uuid_ks: "ks (snd (locker_uuid l w)) = ks w"
    and uuid_up: "up (snd (locker_uuid l w)) = up w"
    and quiet: "uncounted ks (locker_metrics l)" "uncounted up (locker_metrics l)"
begin

lemma setnx_Inr:
  "redis_SetNX c k v ttl w = (Inr b, w') \<Longrightarrow> cmd_setnx k v ttl (ks w) = (Inr b, ks w')"
  using executes_Inr [OF redis_setnx] .

lemma setnx_Inl: "redis_SetNX c k v ttl w = (Inl e, w') \<Longrightarrow> ks w' = ks w"
  using executes_clean [OF redis_setnx fails_clean_cmds(3)] .

lemma onRedisError_ks [simp]: "ks (Locker_onRedisError l w) = ks w"
  using quiet by (simp add: Locker_onRedisError_def)

lemma Acquire_granted:
  assumes "Acquire l key ttl w = (Inr (token, True), w')"
  shows "live (ks w) key = None" "token = fst (locker_uuid l w)"
    "ks w' = put key (token, Some (redis_time (ks w) + (if ttl \<le> 0 then 15 * second else ttl))) (ks w)"
proof -
  obtain t w1 where u: "locker_uuid l w = (t, w1)" by (cases "locker_uuid l w")
  have w1: "ks w1 = ks w" using uuid_ks [of w] u by simp
  define ttl' where "ttl' = (if ttl \<le> 0 then 15 * second else ttl)"
  have pos: "0 < ttl'" by (simp add: ttl'_def second_def)
  have run: "redis_SetNX c key t ttl' w1 = (Inr True, w')" and t: "token = t"
    using assms by (auto simp: Acquire_def client u ttl'_def [symmetric] split: if_splits prod.splits sum.splits)
  from setnx_Inr [OF run] pos show "live (ks w) key = None"
    "ks w' = put key (token, Some (redis_time (ks w) + (if ttl \<le> 0 then 15 * second else ttl))) (ks w)"
    by (auto simp: cmd_setnx_def w1 t expiry_def ttl'_def [symmetric] split: if_splits)
  show "token = fst (locker_uuid l w)" by (simp add: u t)
qed

lemma Acquire_refused:
  assumes "Acquire l key ttl w = (r, w')" and "\<And>t. r \<noteq> Inr (t, True)"
  shows "ks w' = ks w"
proof -
  obtain t w1 where u: "locker_uuid l w = (t, w1)" by (cases "locker_uuid l w")
  have w1: "ks w1 = ks w" using uuid_ks [of w] u by simp
  show ?thesis
    using assms
    by (auto simp: Acquire_def client u w1 cmd_setnx_def Let_def dest!: setnx_Inl setnx_Inr
        split: if_splits prod.splits sum.splits)
qed

lemma Release_ks:
  assumes "Release l key token w = (r, w')"
  shows "ks w' = ks w \<or> ks w' = snd (releaseScript key token (ks w))"
proof -
  obtain x w1 where run: "redis_Run c (releaseScript key token) w = (x, w1)"
    by (cases "redis_Run c (releaseScript key token) w")
  have "ks w1 = ks w \<or> ks w1 = snd (releaseScript key token (ks w))"
    using executes_Inl [OF redis_run, of "releaseScript key token" w _ w1]
      executes_Inr [OF redis_run, of "releaseScript key token" w _ w1] run by (cases x) auto
  with assms run show ?thesis
    by (auto simp: Release_def client split: if_splits sum.splits)
qed

lemma redis_time_drop [simp]: "redis_time (snd (drop_keys keys s)) = redis_time s"
  by (induction keys arbitrary: s) (simp_all add: Let_def split_beta)

lemma Release_other:
  assumes "Release l key token w = (r, w')" and "k \<noteq> key \<or> value_at (ks w) key \<noteq> Some token"
  shows "live (ks w') k = live (ks w) k"
  using Release_ks [OF assms(1)] assms(2) live_drop_other [of k "[key]" "ks w"]
  by (auto simp: releaseScript_def cmd_del_def split_beta split: if_splits)

lemma Release_time:
  assumes "Release l key token w = (r, w')"
  shows "redis_time (ks w') = redis_time (ks w)"
  using Release_ks [OF assms] redis_time_drop [of "[key]" "ks w"]
  by (auto simp: releaseScript_def cmd_del_def split_beta simp del: drop_keys.simps)

text \<open>A release that reports success has freed the key its token holds.\<close>

lemma Release_frees:
  assumes "Release l key token w = (Inr (), w')" and "value_at (ks w) key = Some token"
    and "key \<noteq> []" and "token \<noteq> []"
  shows "live (ks w') key = None"
proof -
  obtain n where "redis_Run c (releaseScript key token) w = (Inr n, w')"
    using assms by (auto simp: Release_def client split: prod.splits sum.splits)
  from executes_Inr [OF redis_run this] assms(2) have "ks w' = snd (drop_keys [key] (ks w))"
    by (auto simp: releaseScript_def cmd_del_def split_beta)
  with live_drop [of key "[key]" "ks w"] show ?thesis by simp
qed

end

end
