(* ===== verification/LockRuns.thy ===== *)
theory LockRuns
  imports RedisLock Sample
begin

text \<open>
  The lock under concurrency: any number of processes acquire, release and let time pass in
  any order, while Redis loses commands and other code uses other keys. A lease is a granted
  lock: its key, its token and the time it ends.
\<close>

type_synonym lease = "string \<times> string \<times> time"

abbreviation lease_token :: "lease \<Rightarrow> string" where "lease_token x \<equiv> fst (snd x)"

inductive lock_run :: "('w \<Rightarrow> keyspace) \<Rightarrow> 'w Locker \<Rightarrow> 'w \<Rightarrow> lease list \<Rightarrow> bool" for ks l where
  start: "lock_run ks l w []"
| granted: "lock_run ks l w L \<Longrightarrow> Acquire l key ttl w = (Inr (token, True), w') \<Longrightarrow>
    token \<notin> lease_token ` set L \<Longrightarrow>
    lock_run ks l w' ((key, token, redis_time (ks w) + (if ttl \<le> 0 then 15 * second else ttl)) # L)"
| refused: "lock_run ks l w L \<Longrightarrow> Acquire l key ttl w = (r, w') \<Longrightarrow> (\<And>t. r \<noteq> Inr (t, True)) \<Longrightarrow>
    lock_run ks l w' L"
| released: "lock_run ks l w L \<Longrightarrow> (key, token, e) \<in> set L \<Longrightarrow> Release l key token w = (r, w') \<Longrightarrow>
    lock_run ks l w' (filter (\<lambda>x. x \<noteq> (key, token, e)) L)"
| other: "lock_run ks l w L \<Longrightarrow> redis_time (ks w) \<le> redis_time (ks w') \<Longrightarrow>
    (\<And>x. x \<in> set L \<Longrightarrow> kv (ks w') (fst x) = kv (ks w) (fst x)) \<Longrightarrow> lock_run ks l w' L"

text \<open>Every lease that has not ended is what the keyspace holds under its key.\<close>

definition leases_ok :: "keyspace \<Rightarrow> lease list \<Rightarrow> bool" where
  "leases_ok s L \<longleftrightarrow> distinct (map lease_token L) \<and>
     (\<forall>(k, t, e) \<in> set L. redis_time s < e \<longrightarrow> kv s k = Some (t, Some e))"

lemma leases_ok_live:
  "leases_ok s L \<Longrightarrow> (k, t, e) \<in> set L \<Longrightarrow> redis_time s < e \<Longrightarrow> live s k = Some (t, Some e)"
  by (auto simp: leases_ok_def live_def)

lemma leases_ok_grant:
  assumes "leases_ok s L" and "live s key = None" and "token \<notin> lease_token ` set L"
  shows "leases_ok (put key (token, Some e) s) ((key, token, e) # L)"
proof -
  have "k \<noteq> key" if "(k, t, e') \<in> set L" "redis_time s < e'" for k t e'
    using leases_ok_live [OF assms(1) that] assms(2) by auto
  with assms show ?thesis by (fastforce simp: leases_ok_def put_def)
qed

lemma kv_drop_other: "k \<noteq> key \<Longrightarrow> kv (snd (drop_keys [key] s)) k = kv s k"
  by (simp add: Let_def)

lemma leases_ok_script:
  assumes "leases_ok s L" and "(key, token, e) \<in> set L"
  shows "leases_ok (snd (releaseScript key token s)) (filter (\<lambda>x. x \<noteq> (key, token, e)) L)"
proof -
  have time: "redis_time (snd (releaseScript key token s)) = redis_time s"
    by (simp add: releaseScript_def cmd_del_def Let_def)
  have "kv (snd (releaseScript key token s)) k = Some (t, Some e')"
    if x: "(k, t, e') \<in> set L" "(k, t, e') \<noteq> (key, token, e)" "redis_time s < e'" for k t e'
  proof -
    have kv: "kv s k = Some (t, Some e')" using assms(1) x by (auto simp: leases_ok_def)
    have "t \<noteq> token"
      using assms x eq_key_imp_eq_value [of "map (\<lambda>x. (lease_token x, x)) L" token "(key, token, e)" "(k, t, e')"]
      by (force simp: leases_ok_def comp_def)
    then have "k = key \<Longrightarrow> value_at s key \<noteq> Some token"
      using leases_ok_live [OF assms(1) x(1,3)] by (auto simp: value_at_def)
    then show ?thesis
      using kv kv_drop_other [of k key s] by (cases "k = key") (auto simp: releaseScript_def cmd_del_def split_beta)
  qed
  then show ?thesis using assms(1) by (auto simp: leases_ok_def time intro: distinct_map_filterI)
qed

lemma leases_ok_filter: "leases_ok s L \<Longrightarrow> leases_ok s (filter P L)"
  by (auto simp: leases_ok_def intro: distinct_map_filterI)

context lock_service
begin

lemma lock_run_ok: "lock_run ks l w L \<Longrightarrow> leases_ok (ks w) L"
proof (induction rule: lock_run.induct)
  case (granted w L key ttl token w')
  then show ?case using Acquire_granted [OF granted.hyps(2)] leases_ok_grant by auto
next
  case (refused w L key ttl r w')
  then show ?case using Acquire_refused by metis
next
  case (released w L key token e r w')
  then show ?case
    using Release_ks [OF released.hyps(3)] leases_ok_script leases_ok_filter by metis
next
  case (other w L w')
  then show ?case by (fastforce simp: leases_ok_def)
qed (simp add: leases_ok_def)

lemma lock_exclusive:
  assumes "lock_run ks l w L" and "(k, t1, e1) \<in> set L" and "(k, t2, e2) \<in> set L"
    and "redis_time (ks w) < e1" and "redis_time (ks w) < e2"
  shows "t1 = t2 \<and> e1 = e2"
  using leases_ok_live [OF lock_run_ok [OF assms(1)] assms(2,4)]
    leases_ok_live [OF lock_run_ok [OF assms(1)] assms(3,5)] by simp

end

section \<open>The locker of the application\<close>

definition app_locker :: "'x world_scheme Locker" where
  "app_locker = \<lparr>locker_client = Some redis_client, locker_metrics = Some app_metrics, locker_uuid = NewString\<rparr>"

interpretation app_lock: lock_service redis redis_up redis_client app_locker
  by unfold_locales (simp_all add: app_locker_def)

text \<open>C9. In every run of acquisitions, releases, lost commands and passing time in which the
  random tokens do not repeat, two leases of the same key that have not ended are the same
  lease: at most one process holds a lock.\<close>

theorem lock_mutual_exclusion:
  assumes "lock_run redis app_locker w L" and "(k, t1, e1) \<in> set L" and "(k, t2, e2) \<in> set L"
    and "redis_time (redis w) < e1" and "redis_time (redis w) < e2"
  shows "t1 = t2 \<and> e1 = e2"
  using app_lock.lock_exclusive [OF assms] .

text \<open>A second process is refused while the first holds the lock, and the first one's token
  stays in place.\<close>

theorem lock_mutual_exclusion_witness:
  "fst (Acquire app_locker ''k'' 9 (snd (Acquire app_locker ''k'' 9 sample_world))) = Inr ([], False) \<and>
   (\<exists>L. lock_run redis app_locker (snd (Acquire app_locker ''k'' 9 (snd (Acquire app_locker ''k'' 9 sample_world)))) L \<and>
      (\<exists>t e. (''k'', t, e) \<in> set L) \<and>
      (\<forall>t1 e1 t2 e2. (''k'', t1, e1) \<in> set L \<longrightarrow> (''k'', t2, e2) \<in> set L \<longrightarrow> t1 = t2))"
proof -
  define w1 where "w1 = snd (Acquire app_locker ''k'' 9 sample_world)"
  define w2 where "w2 = snd (Acquire app_locker ''k'' 9 w1)"
  have a1: "Acquire app_locker ''k'' 9 sample_world = (Inr (''u0'', True), w1)"
    unfolding w1_def by (rule run_result) code_simp
  have r2: "fst (Acquire app_locker ''k'' 9 w1) = Inr ([], False)"
    unfolding w1_def by code_simp
  then have a2: "Acquire app_locker ''k'' 9 w1 = (Inr ([], False), w2)"
    unfolding w2_def by (rule run_result)
  let ?L = "[(''k'', ''u0'', redis_time (redis sample_world) + 9)]"
  have "lock_run redis app_locker w1 ?L"
    using lock_run.granted [OF lock_run.start a1, of redis] by simp
  from lock_run.refused [OF this a2] have run: "lock_run redis app_locker w2 ?L" by simp
  have "redis_time (redis w2) < redis_time (redis sample_world) + 9"
    unfolding w2_def w1_def by code_simp
  with lock_mutual_exclusion [OF run, of "''k''"] run r2 show ?thesis
    unfolding w1_def [symmetric] w2_def [symmetric] by fastforce
qed

end
