(* ===== verification/TeamService.thy ===== *)
theory TeamService
  imports TaskService Metrics
begin

text \<open>
  \<open>internal/service/team.go\<close>: creating teams and inviting members. The invitation takes a
  lock that may be unavailable, sends an e-mail, and only then adds the member.
\<close>

section \<open>Interfaces and the service\<close>

record 'w userStore =
  userStore_GetByEmail :: "string \<Rightarrow> ('w, User option) comp"

record 'w EmailSender =
  EmailSender_SendInvite :: "string \<Rightarrow> string \<Rightarrow> ('w, unit) comp"

record 'w InviteLocker =
  InviteLocker_Acquire :: "string \<Rightarrow> duration \<Rightarrow> ('w, string \<times> bool) comp"
  InviteLocker_Release :: "string \<Rightarrow> string \<Rightarrow> ('w, unit) comp"

record 'w TeamService =
  teamsvc_db :: "'w sqlxDB"
  teamsvc_teams :: "'w teamStore"
  teamsvc_members :: "'w teamMemberStore"
  teamsvc_users :: "'w userStore"
  teamsvc_email :: "'w EmailSender option"
  teamsvc_locker :: "'w InviteLocker option"
  teamsvc_lockTTL :: duration
  teamsvc_metrics :: "'w Metrics option"

definition NewTeamService ::
    "'w sqlxDB \<Rightarrow> 'w teamStore \<Rightarrow> 'w teamMemberStore \<Rightarrow> 'w userStore \<Rightarrow> 'w EmailSender option
     \<Rightarrow> 'w InviteLocker option \<Rightarrow> duration \<Rightarrow> 'w Metrics option \<Rightarrow> 'w TeamService" where
  "NewTeamService db ts ms us em lk ttl mt =
     \<lparr>teamsvc_db = db, teamsvc_teams = ts, teamsvc_members = ms, teamsvc_users = us, teamsvc_email = em,
      teamsvc_locker = lk, teamsvc_lockTTL = ttl, teamsvc_metrics = mt\<rparr>"

section \<open>Operations\<close>

text \<open>\<open>defer tx.Rollback()\<close>: after a commit it finds the transaction done.\<close>

definition deferTxRollback :: "'w sqlxDB \<Rightarrow> ('w, 'a) comp \<Rightarrow> ('w, 'a) comp" where
  "deferTxRollback D m w = (fst (m w), tx_Rollback D (snd (m w)))"

definition CreateTeam :: "'w TeamService \<Rightarrow> int \<Rightarrow> string \<Rightarrow> ('w, int) comp" where
  "CreateTeam s userID name =
     bindE (db_BeginTxx (teamsvc_db s)) (\<lambda>_. deferTxRollback (teamsvc_db s) (
     bindE (teamStore_CreateTx (teamsvc_teams s) name userID) (\<lambda>teamID.
     bindE (teamMemberStore_AddTx (teamsvc_members s) teamID userID RoleOwner) (\<lambda>_.
     bindE (tx_Commit (teamsvc_db s)) (\<lambda>_.
     returnE teamID)))))"

definition ListTeams :: "'w TeamService \<Rightarrow> int \<Rightarrow> ('w, Team list) comp" where
  "ListTeams s userID = teamStore_ListByUser (teamsvc_teams s) userID"

definition EnsureMemberRole :: "'w TeamService \<Rightarrow> int \<Rightarrow> int \<Rightarrow> ('w, string) comp" where
  "EnsureMemberRole s teamID userID =
     bindE (teamStore_GetByID (teamsvc_teams s) teamID) (\<lambda>team.
     case team of None \<Rightarrow> raiseE ErrNotFound | Some _ \<Rightarrow>
     bindE (teamMemberStore_GetRole (teamsvc_members s) teamID userID) (\<lambda>role.
     case role of None \<Rightarrow> raiseE ErrForbidden | Some r \<Rightarrow> returnE r))"

definition canInvite :: "string \<Rightarrow> string \<Rightarrow> bool" where
  "canInvite inviterRole targetRole \<longleftrightarrow>
     (if inviterRole = RoleOwner then targetRole = RoleMember \<or> targetRole = RoleAdmin
      else if inviterRole = RoleAdmin then targetRole = RoleMember
      else False)"

definition isDuplicate :: "err \<Rightarrow> bool" where
  "isDuplicate e \<longleftrightarrow> e = MySQLError 1062"

text \<open>The deferred release: its error is counted, never returned.\<close>

definition deferRelease :: "'w TeamService \<Rightarrow> 'w InviteLocker \<Rightarrow> string \<Rightarrow> string \<Rightarrow> ('w, 'a) comp \<Rightarrow> ('w, 'a) comp" where
  "deferRelease s L lockKey lockToken m w =
     (case m w of (r, w1) \<Rightarrow>
        (case InviteLocker_Release L lockKey lockToken w1 of
           (Inl _, w2) \<Rightarrow> (r, IncLockReleaseError (teamsvc_metrics s) w2)
         | (Inr _, w2) \<Rightarrow> (r, w2)))"

definition inviteLockKey :: "int \<Rightarrow> int \<Rightarrow> string" where
  "inviteLockKey teamID userID = ''lock:invite:'' @ FormatInt teamID @ '':'' @ FormatInt userID"

text \<open>What follows once the lock is taken or bypassed.\<close>

definition addInvited :: "'w TeamService \<Rightarrow> Team \<Rightarrow> User \<Rightarrow> int \<Rightarrow> string \<Rightarrow> string \<Rightarrow> ('w, unit) comp" where
  "addInvited s team user teamID email role =
     bindE (teamMemberStore_IsMember (teamsvc_members s) teamID (User_ID user)) (\<lambda>ok.
     if ok then raiseE ErrConflict else
     bindE (case teamsvc_email s of
              None \<Rightarrow> returnE ()
            | Some em \<Rightarrow> bindR (EmailSender_SendInvite em email (Team_Name team)) (\<lambda>r.
                case r of Inl _ \<Rightarrow> raiseE ErrUnavailable | Inr _ \<Rightarrow> returnE ())) (\<lambda>_.
     bindR (teamMemberStore_Add (teamsvc_members s) teamID (User_ID user) role) (\<lambda>r.
     case r of Inl e \<Rightarrow> raiseE (if isDuplicate e then ErrConflict else e) | Inr _ \<Rightarrow> returnE ())))"

definition InviteByEmail :: "'w TeamService \<Rightarrow> int \<Rightarrow> int \<Rightarrow> string \<Rightarrow> string \<Rightarrow> ('w, unit) comp" where
  "InviteByEmail s inviterID teamID email role =
     bindE (teamStore_GetByID (teamsvc_teams s) teamID) (\<lambda>team.
     case team of None \<Rightarrow> raiseE ErrNotFound | Some t \<Rightarrow>
     bindE (teamMemberStore_GetRole (teamsvc_members s) teamID inviterID) (\<lambda>inviterRole.
     case inviterRole of None \<Rightarrow> raiseE ErrForbidden | Some ir \<Rightarrow>
     if \<not> canInvite ir role then raiseE ErrForbidden else
     bindE (userStore_GetByEmail (teamsvc_users s) email) (\<lambda>user.
     case user of None \<Rightarrow> raiseE ErrNotFound | Some u \<Rightarrow>
     (case teamsvc_locker s of
        None \<Rightarrow> addInvited s t u teamID email role
      | Some L \<Rightarrow>
          bindR (InviteLocker_Acquire L (inviteLockKey teamID (User_ID u)) (teamsvc_lockTTL s)) (\<lambda>r.
          case r of
            Inl _ \<Rightarrow> addInvited s t u teamID email role
          | Inr (lockToken, ok) \<Rightarrow>
              if \<not> ok then raiseE ErrConflict
              else deferRelease s L (inviteLockKey teamID (User_ID u)) lockToken
                (addInvited s t u teamID email role))))))"

end
