(* ===== verification/TeamContracts.thy ===== *)
theory TeamContracts
  imports TeamService TaskTransactions
begin

text \<open>
  What the team service guarantees over any stores that keep their contracts, with a lock
  and an e-mail sender that leave the database alone.
\<close>

locale team_service = tx_scope db healthy "teamsvc_db s"
  for db :: "'w \<Rightarrow> server" and healthy :: "'w \<Rightarrow> bool" and s :: "'w TeamService" +
  assumes team_create: "executes db healthy (teamStore_CreateTx (teamsvc_teams s) n u) (insert_team n u)"
    and team_get: "executes db healthy (teamStore_GetByID (teamsvc_teams s) t) (select (team_by_id t))"
    and team_list: "executes db healthy (teamStore_ListByUser (teamsvc_teams s) u) (select (teams_by_user u))"
    and member_add_tx: "executes db healthy (teamMemberStore_AddTx (teamsvc_members s) t u r) (insert_member t u r)"
    and member_add: "executes db healthy (teamMemberStore_Add (teamsvc_members s) t u r) (insert_member t u r)"
    and member_role: "executes db healthy (teamMemberStore_GetRole (teamsvc_members s) t u) (select (role_of t u))"
    and member_check: "executes db healthy (teamMemberStore_IsMember (teamsvc_members s) t u) (select (is_member t u))"
    and user_get: "executes db healthy (userStore_GetByEmail (teamsvc_users s) e) (select (user_by_email e))"
    and email_db: "teamsvc_email s = Some em \<Longrightarrow> db (snd (EmailSender_SendInvite em a n w)) = db w"
    and locker_db: "teamsvc_locker s = Some L \<Longrightarrow> db (snd (InviteLocker_Acquire L k ttl w)) = db w"
      "teamsvc_locker s = Some L \<Longrightarrow> db (snd (InviteLocker_Release L k tok w)) = db w"
    and metrics_db: "uncounted db (teamsvc_metrics s)"
begin

lemmas team_queries = executes_bind_select [OF team_get] executes_bind_select [OF member_role]
  executes_bind_select [OF member_check] executes_bind_select [OF user_get]

section \<open>Creating a team\<close>

lemma deferTx_atomic:
  assumes "bindE (db_BeginTxx (teamsvc_db s)) (\<lambda>u. deferTxRollback (teamsvc_db s) (k u)) w = (Inl e, w')"
    and "open_tx (db w) = None"
    and "\<And>d. fails_to (\<lambda>w. open_tx (db w) = Some d) (\<lambda>w. restores d (db w)) (k ())"
  shows "data (db w') = data (db w) \<and> open_tx (db w') = None"
proof (cases "db_BeginTxx (teamsvc_db s) w")
  case (Pair r w1)
  show ?thesis
  proof (cases r)
    case (Inl e')
    with assms Pair show ?thesis by (auto simp: bindE_apply dest: begin_Inl)
  next
    case (Inr u)
    with assms(1) Pair obtain w2 where body: "k () w1 = (Inl e, w2)" and w': "w' = tx_Rollback (teamsvc_db s) w2"
      by (cases "k () w1") (auto simp: bindE_apply deferTxRollback_def)
    have "open_tx (db w1) = Some (data (db w))" using begin_Inr Pair Inr by simp
    with fails_toD [OF assms(3) body] have "restores (data (db w)) (db w2)" .
    then show ?thesis by (simp add: w' tx_rollback restores_def)
  qed
qed

lemma CreateTeam_atomic:
  assumes "CreateTeam s u n w = (Inl e, w')" and "open_tx (db w) = None"
  shows "data (db w') = data (db w) \<and> open_tx (db w') = None"
  using assms(1) [unfolded CreateTeam_def] assms(2)
  by (rule deferTx_atomic)
    (intro fails_intros fails_bindE_returnE fails_commit executes_keeps [OF team_create keeps_open_tx(4)]
      executes_keeps [OF member_add_tx keeps_open_tx(5)])

lemma CreateTeam_Inr:
  assumes "CreateTeam s u n w = (Inr i, w')"
  shows "\<exists>s1 s2. insert_team n u ((db w)\<lparr>open_tx := Some (data (db w))\<rparr>) = (Inr i, s1) \<and>
     insert_member i u RoleOwner s1 = (Inr (), s2) \<and> db w' = s2\<lparr>open_tx := None\<rparr>"
proof -
  from assms obtain w0 w1 w2 w3 where b: "db_BeginTxx (teamsvc_db s) w = (Inr (), w0)"
    and t: "teamStore_CreateTx (teamsvc_teams s) n u w0 = (Inr i, w1)"
    and m: "teamMemberStore_AddTx (teamsvc_members s) i u RoleOwner w1 = (Inr (), w2)"
    and c: "tx_Commit (teamsvc_db s) w2 = (Inr (), w3)" and w': "w' = tx_Rollback (teamsvc_db s) w3"
    by (auto simp: CreateTeam_def deferTxRollback_def success prod_eq_iff bindE_apply split: sum.splits)
  have "db w' = db w3" using commit_Inr [OF c] by (simp add: w' tx_rollback rollback_tx_def)
  with executes_Inr [OF team_create t] executes_Inr [OF member_add_tx m] commit_Inr [OF c] begin_Inr [OF b]
  show ?thesis by simp
qed

section \<open>Inviting a member\<close>

lemma sendInvite_db:
  "db (snd ((case teamsvc_email s of None \<Rightarrow> returnE ()
      | Some em \<Rightarrow> bindR (EmailSender_SendInvite em a n) (\<lambda>r.
          case r of Inl _ \<Rightarrow> raiseE ErrUnavailable | Inr _ \<Rightarrow> returnE ())) w)) = db w"
  using email_db by (auto simp: bindR_apply split: option.split sum.split)

lemma addInvited_cases:
  assumes "addInvited s t u team email role w = (r, w')"
  shows "case r of Inl e \<Rightarrow> db w' = db w
    | Inr _ \<Rightarrow> \<not> is_member team (User_ID u) (data (db w)) \<and> insert_member team (User_ID u) role (db w) = (Inr (), db w')"
proof -
  let ?send = "case teamsvc_email s of None \<Rightarrow> returnE ()
      | Some em \<Rightarrow> bindR (EmailSender_SendInvite em email (Team_Name t)) (\<lambda>r.
          case r of Inl _ \<Rightarrow> raiseE ErrUnavailable | Inr _ \<Rightarrow> returnE ())"
  let ?add = "bindR (teamMemberStore_Add (teamsvc_members s) team (User_ID u) role) (\<lambda>r.
     case r of Inl e \<Rightarrow> raiseE (if isDuplicate e then ErrConflict else e) | Inr _ \<Rightarrow> returnE ())"
  have add: "case r of Inl e \<Rightarrow> db w2 = db w1 | Inr _ \<Rightarrow> insert_member team (User_ID u) role (db w1) = (Inr (), db w2)"
    if "?add w1 = (r, w2)" for w1 r w2
  proof -
    obtain x w3 where "teamMemberStore_Add (teamsvc_members s) team (User_ID u) role w1 = (x, w3)"
      by (cases "teamMemberStore_Add (teamsvc_members s) team (User_ID u) role w1")
    with that executes_clean [OF member_add fails_clean_stmts(4)] executes_Inr [OF member_add] show ?thesis
      by (cases x) (auto simp: bindR_apply)
  qed
  consider (fail) e where "r = Inl e" "db w' = db w"
    | (go) w1 where "db w1 = db w" "\<not> is_member team (User_ID u) (data (db w))" "bindE ?send (\<lambda>_. ?add) w1 = (r, w')"
    using assms unfolding addInvited_def by (auto dest!: team_queries split: if_split_asm)
  then show ?thesis
  proof cases
    case go
    obtain y w2 where y: "?send w1 = (y, w2)" by (cases "?send w1")
    have "db w2 = db w" using sendInvite_db [of email "Team_Name t" w1] y go(1) by simp
    with go y add [of w2 r w'] show ?thesis by (cases y) (auto simp: bindE_apply split: sum.splits)
  qed simp
qed

lemma deferRelease_result:
  assumes "deferRelease s L k tok m w = (r, w')" and "teamsvc_locker s = Some L"
  shows "\<exists>w1. m w = (r, w1) \<and> db w' = db w1"
  using assms(1) locker_db(2) [OF assms(2)] metrics_db
  by (auto simp: deferRelease_def split: prod.splits sum.splits) (metis snd_conv)+

lemma InviteByEmail_cases:
  assumes "InviteByEmail s inviter team email role w = (r, w')"
  shows "case r of Inl e \<Rightarrow> db w' = db w
    | Inr _ \<Rightarrow> (\<exists>ir u. team_by_id team (data (db w)) \<noteq> None \<and> role_of team inviter (data (db w)) = Some ir \<and>
        canInvite ir role \<and> user_by_email email (data (db w)) = Some u \<and>
        \<not> is_member team (User_ID u) (data (db w)) \<and> insert_member team (User_ID u) role (db w) = (Inr (), db w'))"
proof -
  consider (fail) e where "r = Inl e" "db w' = db w"
    | (go) t ir u w1 where "db w1 = db w" "team_by_id team (data (db w)) = Some t" "role_of team inviter (data (db w)) = Some ir"
      "canInvite ir role" "user_by_email email (data (db w)) = Some u"
      "(case teamsvc_locker s of
        None \<Rightarrow> addInvited s t u team email role
      | Some L \<Rightarrow>
          bindR (InviteLocker_Acquire L (inviteLockKey team (User_ID u)) (teamsvc_lockTTL s)) (\<lambda>r.
          case r of
            Inl _ \<Rightarrow> addInvited s t u team email role
          | Inr (lockToken, ok) \<Rightarrow>
              if \<not> ok then raiseE ErrConflict
              else deferRelease s L (inviteLockKey team (User_ID u)) lockToken
                (addInvited s t u team email role))) w1 = (r, w')"
    using assms unfolding InviteByEmail_def
    by (auto dest!: team_queries split: option.splits if_split_asm)
  then show ?thesis
  proof cases
    case go
    have "(\<exists>w2 w3. db w2 = db w \<and> addInvited s t u team email role w2 = (r, w3) \<and> db w' = db w3) \<or>
        (\<exists>e. r = Inl e \<and> db w' = db w)"
    proof (cases "teamsvc_locker s")
      case None
      with go show ?thesis by auto
    next
      case (Some L)
      obtain x w2 where acq: "InviteLocker_Acquire L (inviteLockKey team (User_ID u)) (teamsvc_lockTTL s) w1 = (x, w2)"
        by (cases "InviteLocker_Acquire L (inviteLockKey team (User_ID u)) (teamsvc_lockTTL s) w1")
      have "db w2 = db w" using locker_db(1) [OF Some, of "inviteLockKey team (User_ID u)" "teamsvc_lockTTL s" w1] acq go(1) by simp
      with go(6) Some acq show ?thesis
        by (cases x) (auto simp: bindR_apply dest!: deferRelease_result [OF _ Some] split: if_splits)
    qed
    then show ?thesis
    proof
      assume "\<exists>w2 w3. db w2 = db w \<and> addInvited s t u team email role w2 = (r, w3) \<and> db w' = db w3"
      with addInvited_cases go(2-5) show ?thesis by (fastforce split: sum.splits)
    qed auto
  qed simp
qed

lemma team_writes_ok:
  "keeps (\<lambda>w. server_ok (db w)) (CreateTeam s u n)"
  "keeps (\<lambda>w. server_ok (db w)) (InviteByEmail s inviter team email role)"
proof -
  have tx: "keeps (\<lambda>w. server_ok (db w)) (deferTxRollback (teamsvc_db s) m)" if "keeps (\<lambda>w. server_ok (db w)) m"
    for m :: "('w, int) comp"
    using that server_ok_rollback by (simp add: keeps_def deferTxRollback_def tx_rollback)
  show "keeps (\<lambda>w. server_ok (db w)) (CreateTeam s u n)"
    unfolding CreateTeam_def
    by (intro keeps_intros tx commit_ok executes_keeps [OF tx_begin keeps_begin_tx]
        executes_keeps [OF team_create keeps_insert_team] executes_keeps [OF member_add_tx keeps_insert_member])
  show "keeps (\<lambda>w. server_ok (db w)) (InviteByEmail s inviter team email role)"
  proof (rule keepsI)
    fix w
    assume ok: "server_ok (db w)"
    obtain r w' where run: "InviteByEmail s inviter team email role w = (r, w')"
      by (cases "InviteByEmail s inviter team email role w")
    from InviteByEmail_cases [OF run] ok keepsE [OF keeps_insert_member]
    show "server_ok (db (snd (InviteByEmail s inviter team email role w)))"
      by (cases r) (auto simp: run)
  qed
qed

end

end
