(* ===== verification/TeamApp.thy ===== *)
theory TeamApp
  imports TeamContracts LockRuns
begin

text \<open>
  The team service as the application builds it: over the MySQL repositories, the Redis lock
  and the e-mail sender behind its circuit breaker.
\<close>

section \<open>Wiring\<close>

definition app_http_sender :: "string \<Rightarrow> 'x world_scheme HTTPSender" where
  "app_http_sender url = \<lparr>sender_baseURL = url, sender_client = world_http\<rparr>"

definition app_sender :: "string \<Rightarrow> 'x world_scheme BreakerSender" where
  "app_sender url = \<lparr>breaker_next = Some (HTTPSender_SendInvite (app_http_sender url)), breaker_cb = world_breaker,
     breaker_metrics = Some app_metrics\<rparr>"

definition app_team :: "string \<Rightarrow> duration \<Rightarrow> 'x world_scheme TeamService" where
  "app_team url lockTTL = NewTeamService NewMySQL NewTeamStore NewTeamMemberStore
     \<lparr>userStore_GetByEmail = UserRepository_GetByEmail\<rparr>
     (Some \<lparr>EmailSender_SendInvite = BreakerSender_SendInvite (app_sender url)\<rparr>)
     (Some \<lparr>InviteLocker_Acquire = Acquire app_locker, InviteLocker_Release = Release app_locker\<rparr>)
     lockTTL (Some app_metrics)"

lemma app_team_sel [simp]:
  "teamsvc_db (app_team url ttl) = NewMySQL" "teamsvc_teams (app_team url ttl) = NewTeamStore"
  "teamsvc_members (app_team url ttl) = NewTeamMemberStore"
  "teamsvc_users (app_team url ttl) = \<lparr>userStore_GetByEmail = UserRepository_GetByEmail\<rparr>"
  "teamsvc_email (app_team url ttl) = Some \<lparr>EmailSender_SendInvite = BreakerSender_SendInvite (app_sender url)\<rparr>"
  "teamsvc_locker (app_team url ttl) = Some \<lparr>InviteLocker_Acquire = Acquire app_locker, InviteLocker_Release = Release app_locker\<rparr>"
  "teamsvc_lockTTL (app_team url ttl) = ttl" "teamsvc_metrics (app_team url ttl) = Some app_metrics"
  by (simp_all add: app_team_def NewTeamService_def)

lemma HTTPSender_frame:
  "srv (snd (HTTPSender_SendInvite (app_http_sender url) a n w)) = srv w"
  "redis (snd (HTTPSender_SendInvite (app_http_sender url) a n w)) = redis w"
  "redis_up (snd (HTTPSender_SendInvite (app_http_sender url) a n w)) = redis_up w"
  by (auto simp: HTTPSender_SendInvite_def app_http_sender_def world_http_def bindE_apply redis_up_def
      split: list.splits sum.splits)

lemma redis_up_breaker: "redis_up (v\<lparr>breaker_rejects := xs\<rparr>) = redis_up v"
  by (simp add: redis_up_def)

lemma execute_frame:
  assumes "\<And>v. f (snd (m v)) = f v" and "\<And>v xs. f (v\<lparr>breaker_rejects := xs\<rparr>) = f v"
  shows "f (snd (cb_Execute world_breaker m w)) = f w"
  using assms by (auto simp: world_breaker_def split: list.splits option.splits)

lemma observeState_frame:
  "uncounted v (Some app_metrics) \<Longrightarrow> v (observeState (app_sender url) w) = v w"
  by (auto simp: observeState_def app_sender_def uncounted_def split: cbState.split)

lemma SendInvite_frame:
  "srv (snd (BreakerSender_SendInvite (app_sender url) a n w)) = srv w"
  "redis (snd (BreakerSender_SendInvite (app_sender url) a n w)) = redis w"
  "redis_up (snd (BreakerSender_SendInvite (app_sender url) a n w)) = redis_up w"
proof -
  obtain r w1 where run: "cb_Execute world_breaker (HTTPSender_SendInvite (app_http_sender url) a n) w = (r, w1)"
    by (cases "cb_Execute world_breaker (HTTPSender_SendInvite (app_http_sender url) a n) w")
  have w1: "srv w1 = srv w" "redis w1 = redis w" "redis_up w1 = redis_up w"
    using execute_frame [of srv "HTTPSender_SendInvite (app_http_sender url) a n" w]
      execute_frame [of redis "HTTPSender_SendInvite (app_http_sender url) a n" w]
      execute_frame [of redis_up "HTTPSender_SendInvite (app_http_sender url) a n" w] run
    by (simp_all add: HTTPSender_frame redis_up_breaker)
  have sel: "breaker_next (app_sender url) = Some (HTTPSender_SendInvite (app_http_sender url))"
    "breaker_cb (app_sender url) = world_breaker" "breaker_metrics (app_sender url) = Some app_metrics"
    by (simp_all add: app_sender_def)
  show "srv (snd (BreakerSender_SendInvite (app_sender url) a n w)) = srv w"
    "redis (snd (BreakerSender_SendInvite (app_sender url) a n w)) = redis w"
    "redis_up (snd (BreakerSender_SendInvite (app_sender url) a n w)) = redis_up w"
    by (cases r; simp add: BreakerSender_SendInvite_def sel run Let_def observeState_frame w1)+
qed

lemma run_redis_srv: "run_redis p w = (r, w') \<Longrightarrow> srv w' = srv w"
  by (metis run_redis_frame(1) snd_conv)

lemma lock_srv:
  "srv (snd (Acquire app_locker k ttl w)) = srv w" "srv (snd (Release app_locker k tok w)) = srv w"
proof -
  have sel: "locker_client app_locker = Some redis_client" "locker_metrics app_locker = Some app_metrics"
    "locker_uuid app_locker = NewString" by (simp_all add: app_locker_def)
  obtain t w1 where u: "NewString w = (t, w1)" by (cases "NewString w")
  have w1: "srv w1 = srv w" using NewString_frame(1) [of w] u by simp
  then show "srv (snd (Acquire app_locker k ttl w)) = srv w"
    by (auto simp: Acquire_def sel u Locker_onRedisError_def redis_client_def Let_def
        dest!: run_redis_srv split: prod.splits sum.splits)
  show "srv (snd (Release app_locker k tok w)) = srv w"
    by (auto simp: Release_def sel Locker_onRedisError_def redis_client_def
        dest!: run_redis_srv split: prod.splits sum.splits)
qed

interpretation app_teams: team_service srv no_faults "app_team url ttl"
proof unfold_locales
  fix em a n w
  show "srv (snd (EmailSender_SendInvite em a n w)) = srv w" if "teamsvc_email (app_team url ttl) = Some em"
    using that SendInvite_frame(1) by auto
qed (auto simp: repo_records(1-9) repo_methods executes_run_stmt mysql_tx.tx_begin mysql_tx.tx_rollback
      mysql_tx.tx_rollback_healthy mysql_tx.tx_commit_healthy lock_srv
      dest: mysql_tx.tx_commit mysql_tx.tx_commit_fails)

section \<open>Creating a team\<close>

definition owners :: "int \<Rightarrow> tables \<Rightarrow> int list" where
  "owners team d = map TeamMember_UserID (filter (\<lambda>m. TeamMember_TeamID m = team \<and> TeamMember_Role m = RoleOwner) (team_members d))"

lemma no_members_of_new_team:
  assumes "server_ok s"
  shows "\<not> is_member (auto_inc s TTeams) u (data s)" "owners (auto_inc s TTeams) (data s) = []"
proof -
  have "TeamMember_TeamID m \<noteq> auto_inc s TTeams" if "m \<in> set (team_members (data s))" for m
  proof -
    have "TeamMember_TeamID m \<in> set (team_ids (data s))"
      using server_okD(1) [OF assms] that by (auto simp: tables_ok_def members_ok_def)
    then have "TeamMember_TeamID m < auto_inc s TTeams"
      using server_okD(2) [OF assms] by (auto simp: ids_below_def team_ids_def)
    then show ?thesis by simp
  qed
  then show "\<not> is_member (auto_inc s TTeams) u (data s)" "owners (auto_inc s TTeams) (data s) = []"
    by (auto simp: is_member_def member_row_def owners_def find_None_iff_ball filter_empty_conv)
qed

lemma insert_team_Inr:
  assumes "insert_team n u s = (Inr i, s')"
  shows "i = auto_inc s TTeams" "data s' = (data s)\<lparr>teams := teams (data s) @
     [\<lparr>Team_ID = i, Team_Name = n, Team_CreatedBy = Some u, Team_CreatedAt = clock s\<rparr>]\<rparr>"
  using assms by (simp_all add: insert_team_def Let_def split: if_split_asm) auto

lemma insert_member_Inr:
  assumes "insert_member t u r s = (Inr x, s')"
  shows "data s' = (data s)\<lparr>team_members := team_members (data s) @
     [\<lparr>TeamMember_TeamID = t, TeamMember_UserID = u, TeamMember_Role = r, TeamMember_CreatedAt = clock s\<rparr>]\<rparr>"
  using assms by (auto simp: insert_member_def Let_def split: if_split_asm)

text \<open>C22. \<open>CreateTeam\<close> is all or nothing: on success there is a new team, which had no members
  before and whose only member, its owner, is the caller; on an error the tables are unchanged.
  A commit that takes effect although its acknowledgement is lost is not among the faults.\<close>

theorem CreateTeam_effect:
  assumes "CreateTeam (app_team url ttl) u name w = (r, w')" and "server_ok (srv w)" and "open_tx (srv w) = None"
  shows "(case r of
      Inl e \<Rightarrow> data (srv w') = data (srv w)
    | Inr i \<Rightarrow> team_by_id i (data (srv w)) = None \<and>
        team_by_id i (data (srv w')) = Some \<lparr>Team_ID = i, Team_Name = name, Team_CreatedBy = Some u, Team_CreatedAt = clock (srv w)\<rparr> \<and>
        owners i (data (srv w')) = [u] \<and>
        (\<forall>v. is_member i v (data (srv w')) \<longleftrightarrow> v = u) \<and>
        (\<forall>j. j \<noteq> i \<longrightarrow> owners j (data (srv w')) = owners j (data (srv w))))
     \<and> open_tx (srv w') = None"
proof (cases r)
  case (Inl e)
  with app_teams.CreateTeam_atomic [of url ttl u name w e w'] assms show ?thesis by simp
next
  case (Inr i)
  obtain s1 s2 where team: "insert_team name u ((srv w)\<lparr>open_tx := Some (data (srv w))\<rparr>) = (Inr i, s1)"
    and member: "insert_member i u RoleOwner s1 = (Inr (), s2)" and w': "srv w' = s2\<lparr>open_tx := None\<rparr>"
    using app_teams.CreateTeam_Inr [of url ttl u name w i w'] assms(1) Inr by blast
  let ?t = "\<lparr>Team_ID = i, Team_Name = name, Team_CreatedBy = Some u, Team_CreatedAt = clock (srv w)\<rparr>"
  let ?m = "\<lparr>TeamMember_TeamID = i, TeamMember_UserID = u, TeamMember_Role = RoleOwner, TeamMember_CreatedAt = clock s1\<rparr>"
  have i: "i = auto_inc (srv w) TTeams" and s1: "data s1 = (data (srv w))\<lparr>teams := teams (data (srv w)) @ [?t]\<rparr>"
    using insert_team_Inr [OF team] by simp_all
  have s2: "data s2 = (data s1)\<lparr>team_members := team_members (data s1) @ [?m]\<rparr>"
    by (rule insert_member_Inr [OF member])
  have fresh: "find (\<lambda>t. Team_ID t = i) (teams (data (srv w))) = None"
  proof -
    have "Team_ID t < i" if "t \<in> set (teams (data (srv w)))" for t
      using server_okD(2) [OF assms(2)] that unfolding ids_below_def i by blast
    then show ?thesis by (fastforce simp: find_None_iff_ball)
  qed
  note none = no_members_of_new_team [OF assms(2)]
  have mem: "is_member i v (data (srv w')) \<longleftrightarrow> v = u" for v
    using none(1) [of v, folded i] by (auto simp: w' s2 s1 is_member_def member_row_def find_append)
  show ?thesis
    using Inr fresh none(2) [folded i] mem
    by (simp add: w' s2 s1 team_by_id_def find_append owners_def)
qed

theorem CreateTeam_effect_witness:
  "owners 5 (data (srv (snd (CreateTeam (app_team ''http://m'' 9) 4 ''ops'' sample_world)))) = [4]"
proof -
  have run: "CreateTeam (app_team ''http://m'' 9) 4 ''ops'' sample_world =
     (Inr 5, snd (CreateTeam (app_team ''http://m'' 9) 4 ''ops'' sample_world))"
    by (rule run_result) code_simp
  from CreateTeam_effect [OF run] sample_ok show ?thesis by simp
qed

section \<open>Inviting\<close>

lemma canInvite_roles: "canInvite ir r \<Longrightarrow> (ir = RoleOwner \<or> ir = RoleAdmin) \<and> (r = RoleMember \<or> r = RoleAdmin \<and> ir = RoleOwner)"
  by (auto simp: canInvite_def split: if_splits)

text \<open>C23. A successful \<open>InviteByEmail\<close> was asked for by an owner or an admin of the team, and only
  an owner can make an admin; it adds exactly one row, for the user with that address, who was
  no member, with the role asked for, never as an owner. On an error the database is unchanged.
  A commit that takes effect although its acknowledgement is lost is not among the faults.\<close>

theorem InviteByEmail_effect:
  assumes "InviteByEmail (app_team url ttl) inviter team email role w = (r, w')"
  shows "case r of
      Inl e \<Rightarrow> srv w' = srv w
    | Inr _ \<Rightarrow> (\<exists>u. user_by_email email (data (srv w)) = Some u \<and>
        \<not> is_member team (User_ID u) (data (srv w)) \<and>
        role_of team inviter (data (srv w)) \<in> {Some RoleOwner, Some RoleAdmin} \<and>
        (role = RoleMember \<or> role = RoleAdmin \<and> role_of team inviter (data (srv w)) = Some RoleOwner) \<and>
        data (srv w') = (data (srv w))\<lparr>team_members := team_members (data (srv w)) @
          [\<lparr>TeamMember_TeamID = team, TeamMember_UserID = User_ID u, TeamMember_Role = role,
            TeamMember_CreatedAt = clock (srv w)\<rparr>]\<rparr> \<and>
        owners team (data (srv w')) = owners team (data (srv w)))"
proof (cases r)
  case (Inl e)
  with app_teams.InviteByEmail_cases [OF assms] show ?thesis by simp
next
  case (Inr x)
  then obtain ir u where inv: "role_of team inviter (data (srv w)) = Some ir" "canInvite ir role"
      "user_by_email email (data (srv w)) = Some u" "\<not> is_member team (User_ID u) (data (srv w))"
      "insert_member team (User_ID u) role (srv w) = (Inr (), srv w')"
    using app_teams.InviteByEmail_cases [OF assms] by auto
  have "data (srv w') = (data (srv w))\<lparr>team_members := team_members (data (srv w)) @
          [\<lparr>TeamMember_TeamID = team, TeamMember_UserID = User_ID u, TeamMember_Role = role,
            TeamMember_CreatedAt = clock (srv w)\<rparr>]\<rparr>"
    by (rule insert_member_Inr [OF inv(5)])
  with inv canInvite_roles [OF inv(2)] Inr show ?thesis by (auto simp: owners_def)
qed

theorem InviteByEmail_effect_witness:
  "is_member 1 4 (data (srv (snd (InviteByEmail (app_team ''http://m'' 9) 2 1 ''d@x.io'' ''member'' sample_world)))) \<and>
   srv (snd (InviteByEmail (app_team ''http://m'' 9) 2 1 ''d@x.io'' ''admin'' sample_world)) = srv sample_world"
proof -
  have ok: "InviteByEmail (app_team ''http://m'' 9) 2 1 ''d@x.io'' ''member'' sample_world =
     (Inr (), snd (InviteByEmail (app_team ''http://m'' 9) 2 1 ''d@x.io'' ''member'' sample_world))"
    by (rule run_result) code_simp
  have no: "InviteByEmail (app_team ''http://m'' 9) 2 1 ''d@x.io'' ''admin'' sample_world =
     (Inl ErrForbidden, snd (InviteByEmail (app_team ''http://m'' 9) 2 1 ''d@x.io'' ''admin'' sample_world))"
    by (rule run_result) code_simp
  have "user_by_email ''d@x.io'' (data (srv sample_world)) =
     Some \<lparr>User_ID = 4, User_Email = ''d@x.io'', User_Username = ''dan'', User_PasswordHash = ''h4''\<rparr>" by code_simp
  with InviteByEmail_effect [OF ok] InviteByEmail_effect [OF no] show ?thesis
    by (auto simp: is_member_def member_row_def find_append split: option.split)
qed

end
