(* ===== verification/Analytics.thy ===== *)
theory Analytics
  imports Repositories "HOL-Library.Option_ord" "HOL-Library.Multiset"
begin

text \<open>
  \<open>internal/repository/analytics_repo.go\<close>: the three queries behind the statistics. The
  queries have no \<open>ORDER BY\<close> at the top, so the order of their rows is the server's; here it
  is the order of the tables. The bounds of a window are instants that the driver passes on
  exactly (whole microseconds).
\<close>

section \<open>Rows\<close>

record TeamDoneStat =
  Done_TeamID :: int
  Done_TeamName :: string
  Done_MembersCount :: int
  Done_DoneCount :: int

record TeamTopCreator =
  Top_TeamID :: int
  Top_UserID :: int
  Top_CreatedCount :: int
  Top_Rank :: int

record TaskIntegrityIssue =
  Issue_TaskID :: int
  Issue_TeamID :: int
  Issue_AssigneeID :: int

section \<open>The queries\<close>

text \<open>\<open>SELECT k, COUNT(*) ... GROUP BY k\<close>.\<close>

fun bump :: "'k \<Rightarrow> ('k \<times> int) list \<Rightarrow> ('k \<times> int) list" where
  "bump k [] = [(k, 1)]"
| "bump k ((j, n) # gs) = (if j = k then (j, n + 1) # gs else (j, n) # bump k gs)"

definition group_count :: "('a \<Rightarrow> 'k) \<Rightarrow> 'a list \<Rightarrow> ('k \<times> int) list" where
  "group_count f xs = fold (\<lambda>x. bump (f x)) xs []"

text \<open>\<open>SELECT team_id FROM team_members WHERE user_id = ? AND role IN ('owner','admin')\<close>.\<close>

definition administered :: "int \<Rightarrow> tables \<Rightarrow> int list" where
  "administered u d =
     map TeamMember_TeamID (filter (\<lambda>m. TeamMember_UserID m = u \<and>
       (TeamMember_Role m = ''owner'' \<or> TeamMember_Role m = ''admin'')) (team_members d))"

definition coalesce :: "'a option \<Rightarrow> 'a \<Rightarrow> 'a" where
  "coalesce x y = (case x of None \<Rightarrow> y | Some v \<Rightarrow> v)"

definition teamDoneStatsSQL :: "int \<Rightarrow> time \<Rightarrow> time \<Rightarrow> tables \<Rightarrow> TeamDoneStat list" where
  "teamDoneStatsSQL u from until d =
     (let m = group_count TeamMember_TeamID (team_members d);
          dn = group_count Task_TeamID (filter (\<lambda>t. Task_Status t = ''done'' \<and>
                 from \<le> Task_UpdatedAt t \<and> Task_UpdatedAt t < until) (tasks d))
      in map (\<lambda>t. \<lparr>Done_TeamID = Team_ID t, Done_TeamName = Team_Name t,
                   Done_MembersCount = coalesce (map_of m (Team_ID t)) 0,
                   Done_DoneCount = coalesce (map_of dn (Team_ID t)) 0\<rparr>)
           (filter (\<lambda>t. List.member (administered u d) (Team_ID t)) (teams d)))"

text \<open>The groups of the inner query: team, author (possibly \<open>NULL\<close>) and number of tasks.\<close>

definition created_base :: "int \<Rightarrow> time \<Rightarrow> time \<Rightarrow> tables \<Rightarrow> ((int \<times> int option) \<times> int) list" where
  "created_base u from until d =
     group_count (\<lambda>t. (Task_TeamID t, Task_CreatedBy t))
       (filter (\<lambda>t. from \<le> Task_CreatedAt t \<and> Task_CreatedAt t < until \<and>
          List.member (administered u d) (Task_TeamID t)) (tasks d))"

text \<open>\<open>ROW_NUMBER() OVER (PARTITION BY team_id ORDER BY created_count DESC, user_id ASC)\<close>.\<close>

definition partition_ranks :: "((int \<times> int option) \<times> int) list \<Rightarrow> ((int \<times> int option) \<times> int \<times> int) list" where
  "partition_ranks gs =
     (let sorted = sort_key (\<lambda>((_, u), c). (- c, u)) gs
      in map (\<lambda>(i, g, c). (g, c, int i + 1)) (enumerate 0 sorted))"

definition topCreatorsSQL :: "int \<Rightarrow> time \<Rightarrow> time \<Rightarrow> int \<Rightarrow> tables \<Rightarrow> ((int \<times> int option) \<times> int \<times> int) list" where
  "topCreatorsSQL u from until limit d =
     (let base = created_base u from until d
      in filter (\<lambda>(_, _, rn). rn \<le> limit)
           (concat (map (\<lambda>team. partition_ranks (filter (\<lambda>((t, _), _). t = team) base))
              (remdups (map (\<lambda>((t, _), _). t) base)))))"

definition integrityIssuesSQL :: "tables \<Rightarrow> TaskIntegrityIssue list" where
  "integrityIssuesSQL d =
     concat (map (\<lambda>t. case Task_AssigneeID t of
         None \<Rightarrow> []
       | Some a \<Rightarrow> if is_member (Task_TeamID t) a d then []
           else [\<lparr>Issue_TaskID = Task_ID t, Issue_TeamID = Task_TeamID t, Issue_AssigneeID = a\<rparr>]) (tasks d))"

section \<open>AnalyticsRepository\<close>

definition AnalyticsRepository_GetTeamDoneStats ::
    "int \<Rightarrow> time \<Rightarrow> time \<Rightarrow> ('x dbw_scheme, TeamDoneStat list) comp" where
  "AnalyticsRepository_GetTeamDoneStats u from until = run_stmt (select (teamDoneStatsSQL u from until))"

text \<open>A row is scanned into integers; a \<open>NULL\<close> author cannot be, and fails the call.\<close>

fun scanTop :: "((int \<times> int option) \<times> int \<times> int) list \<Rightarrow> TeamTopCreator list option" where
  "scanTop [] = Some []"
| "scanTop (((t, None), c, r) # rows) = None"
| "scanTop (((t, Some u), c, r) # rows) =
     map_option (\<lambda>xs. \<lparr>Top_TeamID = t, Top_UserID = u, Top_CreatedCount = c, Top_Rank = r\<rparr> # xs) (scanTop rows)"

definition AnalyticsRepository_GetTopCreatorsByTeam ::
    "int \<Rightarrow> time \<Rightarrow> time \<Rightarrow> int \<Rightarrow> ('x dbw_scheme, TeamTopCreator list) comp" where
  "AnalyticsRepository_GetTopCreatorsByTeam u from until limit =
     bindE (run_stmt (select (topCreatorsSQL u from until limit))) (\<lambda>rows.
     case scanTop rows of
       None \<Rightarrow> raiseE (OtherError ''sql: Scan error: converting NULL to int64 is unsupported'')
     | Some xs \<Rightarrow> returnE xs)"

definition AnalyticsRepository_FindTasksWithAssigneeNotMember :: "('x dbw_scheme, TaskIntegrityIssue list) comp" where
  "AnalyticsRepository_FindTasksWithAssigneeNotMember = run_stmt (select integrityIssuesSQL)"

record 'w analyticsStore =
  analytics_GetTeamDoneStats :: "int \<Rightarrow> time \<Rightarrow> time \<Rightarrow> ('w, TeamDoneStat list) comp"
  analytics_GetTopCreatorsByTeam :: "int \<Rightarrow> time \<Rightarrow> time \<Rightarrow> int \<Rightarrow> ('w, TeamTopCreator list) comp"
  analytics_FindTasksWithAssigneeNotMember :: "('w, TaskIntegrityIssue list) comp"

definition NewAnalyticsRepository :: "'x dbw_scheme analyticsStore" where
  "NewAnalyticsRepository = \<lparr>
     analytics_GetTeamDoneStats = AnalyticsRepository_GetTeamDoneStats,
     analytics_GetTopCreatorsByTeam = AnalyticsRepository_GetTopCreatorsByTeam,
     analytics_FindTasksWithAssigneeNotMember = AnalyticsRepository_FindTasksWithAssigneeNotMember\<rparr>"

section \<open>Grouping is counting\<close>

definition occurs :: "('a \<Rightarrow> 'k) \<Rightarrow> 'k \<Rightarrow> 'a list \<Rightarrow> int" where
  "occurs f k xs = int (length (filter (\<lambda>x. f x = k) xs))"

lemma map_of_bump: "map_of (bump k gs) = (map_of gs)(k \<mapsto> coalesce (map_of gs k) 0 + 1)"
  by (induction k gs rule: bump.induct) (auto simp: coalesce_def fun_eq_iff)

lemma keys_bump: "map fst (bump k gs) = (if k \<in> fst ` set gs then map fst gs else map fst gs @ [k])"
  by (induction k gs rule: bump.induct) auto

lemma distinct_bump: "distinct (map fst gs) \<Longrightarrow> distinct (map fst (bump k gs))"
  by (auto simp: keys_bump)

lemma occurs_simps [simp]:
  "occurs f k [] = 0" "occurs f k (x # xs) = (if f x = k then 1 else 0) + occurs f k xs" "0 \<le> occurs f k xs"
  by (simp_all add: occurs_def)

lemma fold_bump:
  "coalesce (map_of (fold (\<lambda>x. bump (f x)) xs gs) k) 0 = coalesce (map_of gs k) 0 + occurs f k xs"
  by (induction xs arbitrary: gs) (auto simp: map_of_bump coalesce_def)

lemma fold_bump_keys:
  "map_of (fold (\<lambda>x. bump (f x)) xs gs) k \<noteq> None \<longleftrightarrow> map_of gs k \<noteq> None \<or> 0 < occurs f k xs"
  by (induction xs arbitrary: gs) (auto simp: map_of_bump add_pos_nonneg)

lemma coalesce_group_count: "coalesce (map_of (group_count f xs) k) 0 = occurs f k xs"
  by (simp add: group_count_def fold_bump) (simp add: coalesce_def)

lemma map_of_group_count: "map_of (group_count f xs) k = (if 0 < occurs f k xs then Some (occurs f k xs) else None)"
  using coalesce_group_count [of f xs k] fold_bump_keys [of f xs "[]" k]
  by (auto simp: group_count_def coalesce_def split: option.splits)

lemma distinct_group_count: "distinct (map fst (group_count f xs))"
proof -
  have "distinct (map fst gs) \<Longrightarrow> distinct (map fst (fold (\<lambda>x. bump (f x)) xs gs))" for gs
    by (induction xs arbitrary: gs) (simp_all add: distinct_bump)
  then show ?thesis by (simp add: group_count_def)
qed

lemma set_group_count: "(k, n) \<in> set (group_count f xs) \<longleftrightarrow> n = occurs f k xs \<and> 0 < n"
  using map_of_eq_Some_iff [OF distinct_group_count, of f xs k n]
  by (auto simp: map_of_group_count split: if_splits)

section \<open>Ranks\<close>

lemma filter_less_strict:
  fixes key :: "'a \<Rightarrow> 'b :: linorder"
  assumes "sorted_wrt (<) (map key ys)" and "i < length ys"
  shows "length (filter (\<lambda>y. key y < key (ys ! i)) ys) = i"
proof -
  have "key (ys ! j) < key (ys ! i) \<longleftrightarrow> j < i" if "j < length ys" for j
    using sorted_wrt_nth_less [OF assms(1), of j i] sorted_wrt_nth_less [OF assms(1), of i j] that assms(2)
    by (cases j i rule: linorder_cases) auto
  then have "{j. j < length ys \<and> key (ys ! j) < key (ys ! i)} = {..<i}"
    using assms(2) by auto
  then show ?thesis by (simp add: length_filter_conv_card)
qed

lemma enumerate_sort_rank:
  fixes key :: "'a \<Rightarrow> 'b :: linorder"
  assumes "distinct (map key xs)"
  shows "(i, x) \<in> set (enumerate 0 (sort_key key xs)) \<longleftrightarrow>
     x \<in> set xs \<and> i = length (filter (\<lambda>y. key y < key x) xs)"
proof -
  let ?ys = "sort_key key xs"
  have "distinct (map key ?ys)"
    using assms by (simp add: distinct_map)
  then have strict: "sorted_wrt (<) (map key ?ys)" by (simp add: strict_sorted_iff)
  have len: "length (filter (\<lambda>y. key y < k) ?ys) = length (filter (\<lambda>y. key y < k) xs)" for k
    by (metis mset_filter mset_sort size_mset)
  show ?thesis
  proof
    assume "(i, x) \<in> set (enumerate 0 ?ys)"
    then have "i < length ?ys" "?ys ! i = x" by (auto simp: in_set_enumerate_eq)
    with filter_less_strict [OF strict this(1)] len [of "key x"] show "x \<in> set xs \<and> i = length (filter (\<lambda>y. key y < key x) xs)"
      by (metis nth_mem set_sort)
  next
    assume R: "x \<in> set xs \<and> i = length (filter (\<lambda>y. key y < key x) xs)"
    then obtain j where j: "j < length ?ys" "?ys ! j = x" by (metis in_set_conv_nth set_sort)
    with filter_less_strict [OF strict j(1)] len [of "key x"] R have "i = j" by simp
    with j show "(i, x) \<in> set (enumerate 0 ?ys)" by (simp add: in_set_enumerate_eq)
  qed
qed

end
