(* ===== verification/Http.thy ===== *)
theory Http
  imports GoStd
begin

text \<open>
  Requests and responses as the handlers of \<open>internal/api\<close> see them, with
  \<open>pkg/api/response\<close> and \<open>internal/api/helpers.go\<close>. A handler is a function from the request
  and the state of the world to the response and the new state: no handler writes to the
  response before it decides what to answer, so the writer is the value it returns.

  The text of JSON values is left to the library \<open>encoding/json\<close>, the record \<open>jsonlib\<close>: reading
  the first value of a stream or a whole text, writing a value, the normal form of a value that went through
  the type \<open>any\<close>, and the case folding of member names beyond ASCII. How a value fills a struct
  is modelled here.
\<close>

section \<open>Requests and responses\<close>

record http_request =
  req_Method :: string
  req_Path :: string
  req_Route :: string
  req_ID :: string
  req_Query :: "(string \<times> string list) list"
  req_Header :: "string \<Rightarrow> string"
  req_RemoteAddr :: string
  req_Body :: string
  req_User :: "int option"

record http_response =
  resp_Status :: int
  resp_Header :: "(string \<times> string) list"
  resp_Body :: string

type_synonym 'w handler = "http_request \<Rightarrow> 'w \<Rightarrow> http_response \<times> 'w"

text \<open>\<open>r.URL.Query().Get(k)\<close>: the first value of \<open>k\<close>, or the empty string.\<close>

definition query_Get :: "http_request \<Rightarrow> string \<Rightarrow> string" where
  "query_Get r k = (case map_of (req_Query r) k of Some (v # _) \<Rightarrow> v | _ \<Rightarrow> [])"

text \<open>\<open>middleware.UserIDFromContext\<close>: the value that the middleware for tokens left in the context.\<close>

definition UserIDFromContext :: "http_request \<Rightarrow> int option" where
  "UserIDFromContext r = req_User r"

definition header_Get :: "http_response \<Rightarrow> string \<Rightarrow> string" where
  "header_Get r k = (case map_of (resp_Header r) k of None \<Rightarrow> [] | Some v \<Rightarrow> v)"

definition header_Set :: "string \<Rightarrow> string \<Rightarrow> http_response \<Rightarrow> http_response" where
  "header_Set k v r = r\<lparr>resp_Header := (k, v) # filter (\<lambda>(k', _). k' \<noteq> k) (resp_Header r)\<rparr>"

section \<open>JSON\<close>

record jsonlib =
  json_Decode :: "string \<Rightarrow> json option"
  json_Unmarshal :: "string \<Rightarrow> json option"
  json_Encode :: "json \<Rightarrow> string"
  json_Any :: "json \<Rightarrow> json"
  json_Fold :: "string \<Rightarrow> string"

text \<open>
  The members of an object that fill the fields of a struct, under the names of the fields:
  a name is matched exactly or up to case; a name that fits no field is an error for a
  decoder with \<open>DisallowUnknownFields\<close> and skipped otherwise. \<open>null\<close> fills nothing, and what is
  neither an object nor \<open>null\<close> is an error.
\<close>

definition fold_name :: "jsonlib \<Rightarrow> string \<Rightarrow> string" where
  "fold_name L k = (if is_ascii k then map ascii_upper k else json_Fold L k)"

definition field_of :: "jsonlib \<Rightarrow> string list \<Rightarrow> string \<Rightarrow> string option" where
  "field_of L fs k =
     (if List.member fs k then Some k else find (\<lambda>f. fold_name L f = fold_name L k) fs)"

fun members_of :: "jsonlib \<Rightarrow> bool \<Rightarrow> string list \<Rightarrow> (string \<times> json) list \<Rightarrow> (string \<times> json) list option" where
  "members_of L strict fs [] = Some []"
| "members_of L strict fs ((k, v) # kvs) =
     (case field_of L fs k of
        None \<Rightarrow> if strict then None else members_of L strict fs kvs
      | Some f \<Rightarrow> map_option (\<lambda>ms. (f, v) # ms) (members_of L strict fs kvs))"

definition struct_members :: "jsonlib \<Rightarrow> bool \<Rightarrow> string list \<Rightarrow> json \<Rightarrow> (string \<times> json) list option" where
  "struct_members L strict fs v =
     (case v of JObj kvs \<Rightarrow> members_of L strict fs kvs | JNull \<Rightarrow> Some [] | _ \<Rightarrow> None)"

text \<open>A field after the members that name it, in their order.\<close>

fun fill_string :: "string \<Rightarrow> string \<Rightarrow> (string \<times> json) list \<Rightarrow> string option" where
  "fill_string f x [] = Some x"
| "fill_string f x ((k, v) # ms) =
     (if k \<noteq> f then fill_string f x ms
      else case v of JStr s \<Rightarrow> fill_string f s ms | JNull \<Rightarrow> fill_string f x ms | _ \<Rightarrow> None)"

fun fill_string_ptr :: "string \<Rightarrow> string option \<Rightarrow> (string \<times> json) list \<Rightarrow> string option option" where
  "fill_string_ptr f x [] = Some x"
| "fill_string_ptr f x ((k, v) # ms) =
     (if k \<noteq> f then fill_string_ptr f x ms
      else case v of JStr s \<Rightarrow> fill_string_ptr f (Some s) ms | JNull \<Rightarrow> fill_string_ptr f None ms | _ \<Rightarrow> None)"

fun fill_int64 :: "string \<Rightarrow> int \<Rightarrow> (string \<times> json) list \<Rightarrow> int option" where
  "fill_int64 f x [] = Some x"
| "fill_int64 f x ((k, v) # ms) =
     (if k \<noteq> f then fill_int64 f x ms
      else case v of
        JNum l \<Rightarrow> (case ParseInt l of Some n \<Rightarrow> fill_int64 f n ms | None \<Rightarrow> None)
      | JNull \<Rightarrow> fill_int64 f x ms
      | _ \<Rightarrow> None)"

fun fill_int64_ptr :: "string \<Rightarrow> int option \<Rightarrow> (string \<times> json) list \<Rightarrow> int option option" where
  "fill_int64_ptr f x [] = Some x"
| "fill_int64_ptr f x ((k, v) # ms) =
     (if k \<noteq> f then fill_int64_ptr f x ms
      else case v of
        JNum l \<Rightarrow> (case ParseInt l of Some n \<Rightarrow> fill_int64_ptr f (Some n) ms | None \<Rightarrow> None)
      | JNull \<Rightarrow> fill_int64_ptr f None ms
      | _ \<Rightarrow> None)"

text \<open>\<open>decodeJSON\<close>, up to filling the struct with the given fields.\<close>

definition decodeJSON :: "jsonlib \<Rightarrow> string list \<Rightarrow> http_request \<Rightarrow> (string \<times> json) list option" where
  "decodeJSON L fs r = Option.bind (json_Decode L (req_Body r)) (struct_members L True fs)"

section \<open>Package response\<close>

definition response_JSON :: "jsonlib \<Rightarrow> int \<Rightarrow> json \<Rightarrow> http_response" where
  "response_JSON L status payload =
     \<lparr>resp_Status = status, resp_Header = [(''Content-Type'', ''application/json; charset=utf-8'')],
      resp_Body = json_Encode L payload @ bytes [10]\<rparr>"

definition response_Error :: "jsonlib \<Rightarrow> int \<Rightarrow> string \<Rightarrow> http_response" where
  "response_Error L status msg = response_JSON L status (JObj [(''status'', JStr ''error''), (''error'', JStr msg)])"

definition writeJSONBytes :: "int \<Rightarrow> string \<Rightarrow> http_response" where
  "writeJSONBytes status payload =
     \<lparr>resp_Status = status, resp_Header = [(''Content-Type'', ''application/json; charset=utf-8'')],
      resp_Body = payload\<rparr>"

definition mapServiceError :: "jsonlib \<Rightarrow> err \<Rightarrow> http_response" where
  "mapServiceError L e =
     (if e = ErrNotFound then response_Error L 404 ''not found''
      else if e = ErrForbidden then response_Error L 403 ''forbidden''
      else if e = ErrConflict then response_Error L 409 ''conflict''
      else if e = ErrBadRequest then response_Error L 400 ''invalid request''
      else if e = ErrUnavailable then response_Error L 503 ''service unavailable''
      else response_Error L 500 ''internal error'')"

definition badRequest :: "jsonlib \<Rightarrow> http_response" where
  "badRequest L = response_Error L 400 ''invalid request''"

definition unauthorized :: "jsonlib \<Rightarrow> http_response" where
  "unauthorized L = response_Error L 401 ''unauthorized''"

definition statusOK :: json where
  "statusOK = JObj [(''status'', JStr ''ok'')]"

text \<open>A \<open>map[string]any\<close> is written with its keys in order.\<close>

definition createdOK :: "int \<Rightarrow> json" where
  "createdOK i = JObj [(''id'', JNum (FormatInt i)), (''status'', JStr ''ok'')]"

text \<open>The answer to a service call: its error mapped, or the handler's own continuation.\<close>

definition answer :: "jsonlib \<Rightarrow> ('w, 'a) comp \<Rightarrow> ('a \<Rightarrow> 'w \<Rightarrow> http_response \<times> 'w) \<Rightarrow> 'w \<Rightarrow> http_response \<times> 'w" where
  "answer L m k = bindR m (\<lambda>r. case r of Inl e \<Rightarrow> (\<lambda>w. (mapServiceError L e, w)) | Inr a \<Rightarrow> k a)"

definition reply :: "http_response \<Rightarrow> 'w \<Rightarrow> http_response \<times> 'w" where
  "reply r w = (r, w)"

text \<open>The start of every protected handler, then of one that takes an id from the path.\<close>

definition with_user :: "jsonlib \<Rightarrow> http_request \<Rightarrow> (int \<Rightarrow> 'w \<Rightarrow> http_response \<times> 'w) \<Rightarrow> 'w \<Rightarrow> http_response \<times> 'w" where
  "with_user L r k = (case UserIDFromContext r of None \<Rightarrow> reply (unauthorized L) | Some u \<Rightarrow> k u)"

definition with_id :: "jsonlib \<Rightarrow> http_request \<Rightarrow> (int \<Rightarrow> 'w \<Rightarrow> http_response \<times> 'w) \<Rightarrow> 'w \<Rightarrow> http_response \<times> 'w" where
  "with_id L r k =
     (case ParseInt (req_ID r) of
        None \<Rightarrow> reply (badRequest L)
      | Some i \<Rightarrow> if i \<le> 0 then reply (badRequest L) else k i)"

section \<open>Query parameters\<close>

definition parseQueryInt :: "string \<Rightarrow> int \<Rightarrow> int" where
  "parseQueryInt v d = (if v = [] then d else case ParseInt v of None \<Rightarrow> d | Some n \<Rightarrow> if n < 0 then d else n)"

definition parseStrictPositiveInt :: "string \<Rightarrow> int \<Rightarrow> int \<Rightarrow> int option" where
  "parseStrictPositiveInt v d m =
     (if v = [] then Some d
      else case ParseInt v of None \<Rightarrow> None | Some n \<Rightarrow> if n \<le> 0 \<or> n > m then None else Some n)"

definition parseStrictNonNegativeInt :: "string \<Rightarrow> int \<Rightarrow> int option" where
  "parseStrictNonNegativeInt v d =
     (if v = [] then Some d else case ParseInt v of None \<Rightarrow> None | Some n \<Rightarrow> if n < 0 then None else Some n)"

definition parseRequiredLimit :: "string \<Rightarrow> int option" where
  "parseRequiredLimit v = (if v = [] then None else ParseInt v)"

lemma resp_Status_Error [simp]: "resp_Status (response_Error L s m) = s" "resp_Status (response_JSON L s v) = s"
  by (simp_all add: response_Error_def response_JSON_def)

lemma mapServiceError_status: "resp_Status (mapServiceError L e) \<in> {400, 403, 404, 409, 500, 503}"
  by (simp add: mapServiceError_def)

lemma parseQueryInt_nonneg: "0 \<le> d \<Longrightarrow> 0 \<le> parseQueryInt v d"
  by (simp add: parseQueryInt_def split: option.split)

end
