(* ===== verification/GoTime.thy ===== *)
theory GoTime
  imports GoStd
begin

text \<open>
  The parts of package \<open>time\<close> that print and read instants: the calendar date of an instant in
  UTC (Gregorian, without limits), the layouts \<open>20060102\<close> and \<open>RFC3339Nano\<close>, and reading
  \<open>RFC3339\<close> as far as the code accepts it, that is with the zone \<open>Z\<close>.
\<close>

definition day :: duration where "day = 24 * 60 * minute"

text \<open>Days since 1970-01-01 and the calendar, by years that begin in March.\<close>

definition civil_of_days :: "int \<Rightarrow> int \<times> int \<times> int" where
  "civil_of_days n =
     (let z = n + 719468; era = z div 146097; doe = z mod 146097;
          yoe = (doe - doe div 1460 + doe div 36524 - doe div 146096) div 365;
          doy = doe - (365 * yoe + yoe div 4 - yoe div 100);
          mp = (5 * doy + 2) div 153;
          d = doy - (153 * mp + 2) div 5 + 1;
          m = (if mp < 10 then mp + 3 else mp - 9)
      in (yoe + era * 400 + (if m \<le> 2 then 1 else 0), m, d))"

definition days_of_civil :: "int \<Rightarrow> int \<Rightarrow> int \<Rightarrow> int" where
  "days_of_civil y m d =
     (let y' = (if m \<le> 2 then y - 1 else y); era = y' div 400; yoe = y' mod 400;
          mp = (if m > 2 then m - 3 else m + 9);
          doy = (153 * mp + 2) div 5 + d - 1;
          doe = yoe * 365 + yoe div 4 - yoe div 100 + doy
      in era * 146097 + doe - 719468)"

text \<open>The last \<open>n\<close> decimal digits of a number.\<close>

definition digits :: "nat \<Rightarrow> int \<Rightarrow> string" where
  "digits n x = map (\<lambda>k. digit_char (nat (x div 10 ^ k mod 10))) (rev [0..<n])"

text \<open>A year as Go prints it: at least four digits, the sign first.\<close>

definition FormatYear :: "int \<Rightarrow> string" where
  "FormatYear y =
     (if \<bar>y\<bar> < 10000 then (if y < 0 then ''-'' else []) @ digits 4 \<bar>y\<bar> else FormatInt y)"

definition pad2 :: "int \<Rightarrow> string" where
  "pad2 n = digits 2 n"

text \<open>\<open>tm.UTC().Format("20060102")\<close>.\<close>

definition dayKey :: "time \<Rightarrow> string" where
  "dayKey t = (case civil_of_days (t div day) of (y, m, d) \<Rightarrow> FormatYear y @ pad2 m @ pad2 d)"

text \<open>The fraction of a second without its trailing zeros, nothing for a whole second.\<close>

definition FormatFrac :: "int \<Rightarrow> string" where
  "FormatFrac ns =
     (if ns = 0 then [] else CHR ''.'' # rev (dropWhile (\<lambda>c. c = CHR ''0'') (rev (digits 9 ns))))"

definition FormatRFC3339Nano :: "time \<Rightarrow> string" where
  "FormatRFC3339Nano t =
     (case civil_of_days (t div day) of (y, m, d) \<Rightarrow>
      let s = (t mod day) div second
      in FormatYear y @ ''-'' @ pad2 m @ ''-'' @ pad2 d @ ''T'' @
         pad2 (s div 3600) @ '':'' @ pad2 (s div 60 mod 60) @ '':'' @ pad2 (s mod 60) @
         FormatFrac (t mod second) @ ''Z'')"

section \<open>Reading RFC 3339\<close>

text \<open>One or two digits (exactly two where \<open>fixed\<close>), as \<open>getnum\<close> of package \<open>time\<close>.\<close>

definition getnum :: "bool \<Rightarrow> string \<Rightarrow> (nat \<times> string) option" where
  "getnum fixed s =
     (case s of
        [] \<Rightarrow> None
      | a # s' \<Rightarrow>
          (case digit_val a of
             None \<Rightarrow> None
           | Some x \<Rightarrow>
               (case (case s' of [] \<Rightarrow> None | b # _ \<Rightarrow> digit_val b) of
                  None \<Rightarrow> if fixed then None else Some (x, s')
                | Some y \<Rightarrow> Some (10 * x + y, tl s'))))"

definition literal :: "char \<Rightarrow> string \<Rightarrow> string option" where
  "literal c s = (case s of x # s' \<Rightarrow> if x = c then Some s' else None | [] \<Rightarrow> None)"

definition getyear :: "string \<Rightarrow> (nat \<times> string) option" where
  "getyear s = (if length s < 4 then None else map_option (\<lambda>n. (n, drop 4 s)) (parse_nat (take 4 s)))"

text \<open>
  A fraction after the seconds, introduced by a dot or a comma and at least one digit; of
  more than nine digits the first nine count.
\<close>

fun frac_value :: "int \<Rightarrow> string \<Rightarrow> int" where
  "frac_value unit [] = 0"
| "frac_value unit (c # cs) =
     (case digit_val c of None \<Rightarrow> 0 | Some x \<Rightarrow> int x * unit + frac_value (unit div 10) cs)"

definition getfrac :: "string \<Rightarrow> int \<times> string" where
  "getfrac s =
     (case s of
        c # s' \<Rightarrow>
          let ds = takeWhile (\<lambda>x. digit_val x \<noteq> None) s'
          in if (c = CHR ''.'' \<or> c = CHR '','') \<and> ds \<noteq> []
             then (frac_value 100000000 (take 9 ds), drop (length ds) s')
             else (0, s)
      | [] \<Rightarrow> (0, s))"

definition parseRFC3339UTC :: "string \<Rightarrow> time option" where
  "parseRFC3339UTC v =
     Option.bind (getyear v) (\<lambda>(y, v).
     Option.bind (literal CHR ''-'' v) (\<lambda>v.
     Option.bind (getnum True v) (\<lambda>(mo, v).
     Option.bind (literal CHR ''-'' v) (\<lambda>v.
     Option.bind (getnum True v) (\<lambda>(d, v).
     Option.bind (literal CHR ''T'' v) (\<lambda>v.
     Option.bind (getnum False v) (\<lambda>(h, v).
     Option.bind (literal CHR '':'' v) (\<lambda>v.
     Option.bind (getnum True v) (\<lambda>(mi, v).
     Option.bind (literal CHR '':'' v) (\<lambda>v.
     Option.bind (getnum True v) (\<lambda>(s, v).
     let (ns, v) = getfrac v in
     if v = ''Z'' \<and> valid_date (Date y mo d) \<and> h < 24 \<and> mi < 60 \<and> s < 60
     then Some (days_of_civil (int y) (int mo) (int d) * day + (int h * 3600 + int mi * 60 + int s) * second + ns)
     else None)))))))))))"

text \<open>Some instants, read and printed.\<close>

lemma sample_instants:
  "FormatRFC3339Nano 951807600500000000 = ''2000-02-29T07:00:00.5Z''"
  "dayKey 951807600500000000 = ''20000229''"
  "parseRFC3339UTC ''0004-02-29T7:00:00,5Z'' = Some (- 62035865999500000000)"
  "parseRFC3339UTC ''0001-02-29T07:00:00Z'' = None"
  "parseRFC3339UTC ''0001-02-28T07:00:00+00:00'' = None"
  by code_simp+

end
