(* ===== verification/Stats.thy ===== *)
theory Stats
  imports Analytics Http GoTime World
begin

text \<open>
  \<open>internal/service/stats.go\<close> with its cache \<open>internal/infra/cache/stats_cache.go\<close>.
\<close>

section \<open>The service\<close>

text \<open>A lookup in the cache answers \<open>None\<close> for a miss.\<close>

record 'w statsCache =
  statsCache_GetDone :: "int \<Rightarrow> time \<Rightarrow> time \<Rightarrow> ('w, TeamDoneStat list option) comp"
  statsCache_SetDone :: "int \<Rightarrow> time \<Rightarrow> time \<Rightarrow> TeamDoneStat list \<Rightarrow> ('w, unit) comp"
  statsCache_GetTop :: "int \<Rightarrow> time \<Rightarrow> time \<Rightarrow> int \<Rightarrow> ('w, TeamTopCreator list option) comp"
  statsCache_SetTop :: "int \<Rightarrow> time \<Rightarrow> time \<Rightarrow> int \<Rightarrow> TeamTopCreator list \<Rightarrow> ('w, unit) comp"

record 'w StatsService =
  statssvc_repo :: "'w analyticsStore"
  statssvc_cache :: "'w statsCache option"
  statssvc_adminUsers :: "int list"

definition NewStatsService :: "'w analyticsStore \<Rightarrow> 'w statsCache option \<Rightarrow> int list \<Rightarrow> 'w StatsService" where
  "NewStatsService repo cache adminUserIDs =
     \<lparr>statssvc_repo = repo, statssvc_cache = cache, statssvc_adminUsers = filter (\<lambda>i. i > 0) adminUserIDs\<rparr>"

definition maxStatsRange :: duration where "maxStatsRange = 365 * day"

definition validateStatsRange :: "time \<Rightarrow> time \<Rightarrow> unit result" where
  "validateStatsRange from until =
     (if \<not> from < until then Inl ErrBadRequest
      else if until - from > maxStatsRange then Inl ErrBadRequest else Inr ())"

definition isAdmin :: "'w StatsService \<Rightarrow> int \<Rightarrow> bool" where
  "isAdmin s u = List.member (statssvc_adminUsers s) u"

text \<open>A hit of the cache ends the call; a miss or an error goes on.\<close>

definition on_miss :: "('w, 'a option) comp \<Rightarrow> ('w, 'a) comp \<Rightarrow> ('w, 'a) comp" where
  "on_miss look k = bindR look (\<lambda>r. case r of Inr (Some rows) \<Rightarrow> returnE rows | _ \<Rightarrow> k)"

definition ignoring :: "('w, unit) comp \<Rightarrow> 'a \<Rightarrow> ('w, 'a) comp" where
  "ignoring m a = bindR m (\<lambda>_. returnE a)"

definition GetTeamDoneStats :: "'w StatsService \<Rightarrow> int \<Rightarrow> time \<Rightarrow> time \<Rightarrow> ('w, TeamDoneStat list) comp" where
  "GetTeamDoneStats s u from until =
     (case validateStatsRange from until of
        Inl e \<Rightarrow> raiseE e
      | Inr _ \<Rightarrow>
          (case statssvc_cache s of
             None \<Rightarrow> analytics_GetTeamDoneStats (statssvc_repo s) u from until
           | Some c \<Rightarrow>
               on_miss (statsCache_GetDone c u from until)
                 (bindE (analytics_GetTeamDoneStats (statssvc_repo s) u from until) (\<lambda>rows.
                  ignoring (statsCache_SetDone c u from until rows) rows))))"

definition GetTopCreatorsByTeam ::
    "'w StatsService \<Rightarrow> int \<Rightarrow> time \<Rightarrow> time \<Rightarrow> int \<Rightarrow> ('w, TeamTopCreator list) comp" where
  "GetTopCreatorsByTeam s u from until limit =
     (case validateStatsRange from until of
        Inl e \<Rightarrow> raiseE e
      | Inr _ \<Rightarrow>
          if limit \<le> 0 \<or> limit > 10 then raiseE ErrBadRequest
          else (case statssvc_cache s of
             None \<Rightarrow> analytics_GetTopCreatorsByTeam (statssvc_repo s) u from until limit
           | Some c \<Rightarrow>
               on_miss (statsCache_GetTop c u from until limit)
                 (bindE (analytics_GetTopCreatorsByTeam (statssvc_repo s) u from until limit) (\<lambda>rows.
                  ignoring (statsCache_SetTop c u from until limit rows) rows))))"

definition FindTasksWithAssigneeNotMember :: "'w StatsService \<Rightarrow> int \<Rightarrow> ('w, TaskIntegrityIssue list) comp" where
  "FindTasksWithAssigneeNotMember s u =
     (if \<not> isAdmin s u then raiseE ErrForbidden
      else analytics_FindTasksWithAssigneeNotMember (statssvc_repo s))"

section \<open>The cache\<close>

record 'w StatsCache =
  stc_client :: "'w redisClient option"
  stc_ttl :: duration
  stc_enabled :: bool
  stc_metrics :: "'w Metrics option"
  stc_json :: jsonlib

definition doneKey :: "int \<Rightarrow> time \<Rightarrow> time \<Rightarrow> string" where
  "doneKey u from until = ''stats:done:u:'' @ FormatInt u @ '':f:'' @ dayKey from @ '':t:'' @ dayKey until"

definition topKey :: "int \<Rightarrow> time \<Rightarrow> time \<Rightarrow> int \<Rightarrow> string" where
  "topKey u from until limit =
     ''stats:top:u:'' @ FormatInt u @ '':f:'' @ dayKey from @ '':t:'' @ dayKey until @ '':l:'' @ FormatInt limit"

definition StatsCache_onRedisError :: "'w StatsCache \<Rightarrow> 'w \<Rightarrow> 'w" where
  "StatsCache_onRedisError c = inc (stc_metrics c) ''RedisDegraded'' [''stats_cache'']"

text \<open>The rows as JSON: an object per row, under the names of the Go fields; no rows are \<open>null\<close>.\<close>

definition done_json :: "TeamDoneStat \<Rightarrow> json" where
  "done_json r = JObj [(''TeamID'', JNum (FormatInt (Done_TeamID r))), (''TeamName'', JStr (Done_TeamName r)),
     (''MembersCount'', JNum (FormatInt (Done_MembersCount r))), (''DoneCount'', JNum (FormatInt (Done_DoneCount r)))]"

definition top_json :: "TeamTopCreator \<Rightarrow> json" where
  "top_json r = JObj [(''TeamID'', JNum (FormatInt (Top_TeamID r))), (''UserID'', JNum (FormatInt (Top_UserID r))),
     (''CreatedCount'', JNum (FormatInt (Top_CreatedCount r))), (''Rank'', JNum (FormatInt (Top_Rank r)))]"

definition rows_json :: "('a \<Rightarrow> json) \<Rightarrow> 'a list \<Rightarrow> json" where
  "rows_json f rows = (if rows = [] then JNull else JArr (map f rows))"

definition done_of_json :: "jsonlib \<Rightarrow> json \<Rightarrow> TeamDoneStat option" where
  "done_of_json L v =
     Option.bind (struct_members L False [''TeamID'', ''TeamName'', ''MembersCount'', ''DoneCount''] v) (\<lambda>ms.
     Option.bind (fill_int64 ''TeamID'' 0 ms) (\<lambda>t.
     Option.bind (fill_string ''TeamName'' [] ms) (\<lambda>n.
     Option.bind (fill_int64 ''MembersCount'' 0 ms) (\<lambda>m.
     Option.bind (fill_int64 ''DoneCount'' 0 ms) (\<lambda>d.
     Some \<lparr>Done_TeamID = t, Done_TeamName = n, Done_MembersCount = m, Done_DoneCount = d\<rparr>)))))"

definition top_of_json :: "jsonlib \<Rightarrow> json \<Rightarrow> TeamTopCreator option" where
  "top_of_json L v =
     Option.bind (struct_members L False [''TeamID'', ''UserID'', ''CreatedCount'', ''Rank''] v) (\<lambda>ms.
     Option.bind (fill_int64 ''TeamID'' 0 ms) (\<lambda>t.
     Option.bind (fill_int64 ''UserID'' 0 ms) (\<lambda>u.
     Option.bind (fill_int64 ''CreatedCount'' 0 ms) (\<lambda>c.
     Option.bind (fill_int64 ''Rank'' 0 ms) (\<lambda>r.
     Some \<lparr>Top_TeamID = t, Top_UserID = u, Top_CreatedCount = c, Top_Rank = r\<rparr>)))))"

fun rows_of :: "(json \<Rightarrow> 'a option) \<Rightarrow> json list \<Rightarrow> 'a list option" where
  "rows_of f [] = Some []"
| "rows_of f (v # vs) =
     (case f v of None \<Rightarrow> None | Some x \<Rightarrow> map_option (\<lambda>xs. x # xs) (rows_of f vs))"

definition rows_of_json :: "(json \<Rightarrow> 'a option) \<Rightarrow> json \<Rightarrow> 'a list option" where
  "rows_of_json f v = (case v of JArr vs \<Rightarrow> rows_of f vs | JNull \<Rightarrow> Some [] | _ \<Rightarrow> None)"

text \<open>What \<open>GetDone\<close> and \<open>GetTop\<close> share, then what \<open>SetDone\<close> and \<open>SetTop\<close> share.\<close>

definition StatsCache_get :: "'w StatsCache \<Rightarrow> (json \<Rightarrow> 'a option) \<Rightarrow> string \<Rightarrow> ('w, 'a list option) comp" where
  "StatsCache_get c f key w =
     (case stc_client c of
        None \<Rightarrow> (Inr None, w)
      | Some R \<Rightarrow>
          if \<not> stc_enabled c then (Inr None, w)
          else (case redis_Get R key w of
                  (Inl e, w1) \<Rightarrow> (Inl e, StatsCache_onRedisError c w1)
                | (Inr None, w1) \<Rightarrow> (Inr None, w1)
                | (Inr (Some raw), w1) \<Rightarrow>
                    (case Option.bind (json_Unmarshal (stc_json c) raw) (rows_of_json f) of
                       None \<Rightarrow> (Inl (OtherError ''json''), w1)
                     | Some items \<Rightarrow> (Inr (Some items), w1))))"

definition StatsCache_set :: "'w StatsCache \<Rightarrow> string \<Rightarrow> json \<Rightarrow> ('w, unit) comp" where
  "StatsCache_set c key v w =
     (case stc_client c of
        None \<Rightarrow> (Inr (), w)
      | Some R \<Rightarrow>
          if \<not> stc_enabled c then (Inr (), w)
          else (case redis_Set R key (json_Encode (stc_json c) v) (stc_ttl c) w of
                  (Inl e, w1) \<Rightarrow> (Inl e, StatsCache_onRedisError c w1)
                | (Inr _, w1) \<Rightarrow> (Inr (), w1)))"

definition StatsCache_GetDone :: "'w StatsCache \<Rightarrow> int \<Rightarrow> time \<Rightarrow> time \<Rightarrow> ('w, TeamDoneStat list option) comp" where
  "StatsCache_GetDone c u from until = StatsCache_get c (done_of_json (stc_json c)) (doneKey u from until)"

definition StatsCache_SetDone :: "'w StatsCache \<Rightarrow> int \<Rightarrow> time \<Rightarrow> time \<Rightarrow> TeamDoneStat list \<Rightarrow> ('w, unit) comp" where
  "StatsCache_SetDone c u from until items = StatsCache_set c (doneKey u from until) (rows_json done_json items)"

definition StatsCache_GetTop :: "'w StatsCache \<Rightarrow> int \<Rightarrow> time \<Rightarrow> time \<Rightarrow> int \<Rightarrow> ('w, TeamTopCreator list option) comp" where
  "StatsCache_GetTop c u from until limit = StatsCache_get c (top_of_json (stc_json c)) (topKey u from until limit)"

definition StatsCache_SetTop ::
    "'w StatsCache \<Rightarrow> int \<Rightarrow> time \<Rightarrow> time \<Rightarrow> int \<Rightarrow> TeamTopCreator list \<Rightarrow> ('w, unit) comp" where
  "StatsCache_SetTop c u from until limit items =
     StatsCache_set c (topKey u from until limit) (rows_json top_json items)"

definition NewStatsCache :: "'w redisClient option \<Rightarrow> duration \<Rightarrow> bool \<Rightarrow> 'w Metrics option \<Rightarrow> jsonlib \<Rightarrow> 'w StatsCache" where
  "NewStatsCache client ttl enabled metrics L =
     \<lparr>stc_client = client, stc_ttl = ttl, stc_enabled = enabled, stc_metrics = metrics, stc_json = L\<rparr>"

definition StatsCache_iface :: "'w StatsCache \<Rightarrow> 'w statsCache" where
  "StatsCache_iface c = \<lparr>statsCache_GetDone = StatsCache_GetDone c, statsCache_SetDone = StatsCache_SetDone c,
     statsCache_GetTop = StatsCache_GetTop c, statsCache_SetTop = StatsCache_SetTop c\<rparr>"

section \<open>Rows survive the cache\<close>

text \<open>The library writes and reads a value back.\<close>

definition json_faithful :: "jsonlib \<Rightarrow> json \<Rightarrow> bool" where
  "json_faithful L v \<longleftrightarrow> json_Unmarshal L (json_Encode L v) = Some v"

definition int64 :: "int \<Rightarrow> bool" where
  "int64 i \<longleftrightarrow> int64_min \<le> i \<and> i \<le> int64_max"

lemma ParseInt_int64: "int64 i \<Longrightarrow> ParseInt (FormatInt i) = Some i"
  by (simp add: int64_def ParseInt_FormatInt)

definition done_ok :: "TeamDoneStat \<Rightarrow> bool" where
  "done_ok r \<longleftrightarrow> int64 (Done_TeamID r) \<and> int64 (Done_MembersCount r) \<and> int64 (Done_DoneCount r)"

definition top_ok :: "TeamTopCreator \<Rightarrow> bool" where
  "top_ok r \<longleftrightarrow> int64 (Top_TeamID r) \<and> int64 (Top_UserID r) \<and> int64 (Top_CreatedCount r) \<and> int64 (Top_Rank r)"

lemma done_roundtrip: "done_ok r \<Longrightarrow> done_of_json L (done_json r) = Some r"
  by (simp add: done_of_json_def done_json_def struct_members_def field_of_def done_ok_def ParseInt_int64)

lemma top_roundtrip: "top_ok r \<Longrightarrow> top_of_json L (top_json r) = Some r"
  by (simp add: top_of_json_def top_json_def struct_members_def field_of_def top_ok_def ParseInt_int64)

lemma rows_roundtrip:
  assumes "\<And>r. r \<in> set rows \<Longrightarrow> g (f r) = Some r"
  shows "rows_of_json g (rows_json f rows) = Some rows"
proof -
  have "rows_of g (map f rows) = Some rows"
    using assms by (induction rows) simp_all
  then show ?thesis by (simp add: rows_of_json_def rows_json_def)
qed

end
