(* ===== verification/StatsApp.thy ===== *)
theory StatsApp
  imports Stats Sample
begin

text \<open>
  The statistics service over the MySQL repository and the cache in Redis: what its answers
  mean, and what the keys of the cache confuse.
\<close>

section \<open>The cache while Redis answers\<close>

locale stats_cache = redis_api ks up R
  for ks :: "'w \<Rightarrow> keyspace" and up :: "'w \<Rightarrow> bool" and R :: "'w redisClient" +
  fixes c :: "'w StatsCache"
  assumes client: "stc_client c = Some R" and enabled: "stc_enabled c"
    and quiet: "uncounted ks (stc_metrics c)" "uncounted up (stc_metrics c)"
begin

lemma get_miss:
  assumes "live (ks w) key = None" and "StatsCache_get c f key w = (r, w')"
  shows "(r = Inr None \<or> (\<exists>e. r = Inl e)) \<and> ks w' = ks w"
proof -
  obtain x w1 where run: "redis_Get R key w = (x, w1)" by (cases "redis_Get R key w")
  have ks: "ks w1 = ks w"
    using executes_Inr [OF redis_get, of key w] executes_clean [OF redis_get fails_clean_cmds(1), of key w] run
    by (cases x) (auto simp: cmd_get_def)
  have "x = Inr None \<or> (\<exists>e. x = Inl e)"
    using executes_Inr [OF redis_get, of key w] run assms(1) by (cases x) (auto simp: cmd_get_def value_at_def)
  with assms(2) run ks quiet client enabled show ?thesis
    by (auto simp: StatsCache_get_def StatsCache_onRedisError_def)
qed

lemma get_hit:
  assumes "up w" and "live (ks w) key = Some (json_Encode (stc_json c) v, e)" and "json_faithful (stc_json c) v"
    and "rows_of_json f v = Some rows"
  shows "\<exists>w'. StatsCache_get c f key w = (Inr (Some rows), w') \<and> up w' \<and> ks w' = ks w"
  using get_up [OF assms(1), of key] assms client enabled
  by (auto simp: StatsCache_get_def value_at_def json_faithful_def)

lemma set_stores:
  assumes "up w"
  shows "\<exists>w'. StatsCache_set c key v w = (Inr (), w') \<and> up w' \<and>
     ks w' = put key (json_Encode (stc_json c) v, expiry (ks w) (stc_ttl c)) (ks w)"
  using set_up [OF assms, of key "json_Encode (stc_json c) v" "stc_ttl c"] client enabled
  by (auto simp: StatsCache_set_def)

end

definition app_stats_cache :: "duration \<Rightarrow> jsonlib \<Rightarrow> 'x world_scheme StatsCache" where
  "app_stats_cache ttl L = NewStatsCache (Some redis_client) ttl True (Some app_metrics) L"

lemma app_stats_cache_sel [simp]:
  "stc_client (app_stats_cache ttl L) = Some redis_client" "stc_ttl (app_stats_cache ttl L) = ttl"
  "stc_enabled (app_stats_cache ttl L)" "stc_metrics (app_stats_cache ttl L) = Some app_metrics"
  "stc_json (app_stats_cache ttl L) = L"
  by (simp_all add: app_stats_cache_def NewStatsCache_def)

interpretation app_stats_cache: stats_cache redis redis_up redis_client "app_stats_cache ttl L"
  by unfold_locales simp_all

definition app_stats :: "duration \<Rightarrow> jsonlib \<Rightarrow> int list \<Rightarrow> 'x world_scheme StatsService" where
  "app_stats ttl L admins =
     NewStatsService NewAnalyticsRepository (Some (StatsCache_iface (app_stats_cache ttl L))) admins"

lemma app_stats_sel [simp]:
  "statssvc_repo (app_stats ttl L admins) = NewAnalyticsRepository"
  "statssvc_cache (app_stats ttl L admins) = Some (StatsCache_iface (app_stats_cache ttl L))"
  "statssvc_adminUsers (app_stats ttl L admins) = filter (\<lambda>i. i > 0) admins"
  by (simp_all add: app_stats_def NewStatsService_def)

lemma StatsCache_srv [simp]:
  "srv (snd (StatsCache_get (app_stats_cache ttl L) f key w)) = srv w"
  "srv (snd (StatsCache_set (app_stats_cache ttl L) key v w)) = srv w"
proof -
  show "srv (snd (StatsCache_get (app_stats_cache ttl L) f key w)) = srv w"
    using run_redis_frame(1) [of "cmd_get key" w]
    by (cases "run_redis (cmd_get key) w")
      (auto simp: StatsCache_get_def redis_client_def StatsCache_onRedisError_def split: sum.split option.split)
  show "srv (snd (StatsCache_set (app_stats_cache ttl L) key v w)) = srv w"
    using run_redis_frame(1) [of "cmd_set key (json_Encode L v) ttl" w]
    by (cases "run_redis (cmd_set key (json_Encode L v) ttl) w")
      (auto simp: StatsCache_set_def redis_client_def StatsCache_onRedisError_def split: sum.split)
qed

section \<open>What an answer means\<close>

lemma select_Inr:
  "run_stmt (select q) w = (Inr x, w') \<Longrightarrow> x = q (data (srv w)) \<and> srv w' = srv w"
  by (auto simp: run_stmt_def select_def split: list.splits option.splits)

lemma validateStatsRange_Inr [simp]:
  "validateStatsRange from until = Inr x \<longleftrightarrow> from < until \<and> until - from \<le> maxStatsRange"
  by (auto simp: validateStatsRange_def)

lemma on_miss_query:
  assumes "on_miss look (bindE q (\<lambda>rows. ignoring (st rows) rows)) w = (Inr rows, w')"
    and "fst (look w) = Inr None \<or> (\<exists>e. fst (look w) = Inl e)"
  shows "\<exists>w1. q (snd (look w)) = (Inr rows, w1) \<and> w' = snd (st rows w1)"
  using assms by (auto simp: on_miss_def bindR_apply ignoring_def success)

lemma GetTeamDoneStats_miss:
  assumes "GetTeamDoneStats (app_stats ttl L admins) u from until w = (Inr rows, w')"
    and "live (redis w) (doneKey u from until) = None"
  shows "from < until \<and> until - from \<le> maxStatsRange \<and> rows = teamDoneStatsSQL u from until (data (srv w)) \<and>
     (\<exists>w1. redis w1 = redis w \<and> (redis_up w \<longrightarrow> redis_up w1) \<and>
        w' = snd (StatsCache_SetDone (app_stats_cache ttl L) u from until rows w1))"
proof -
  let ?c = "app_stats_cache ttl L"
  let ?look = "StatsCache_get ?c (done_of_json L) (doneKey u from until)"
  obtain x v where look: "?look w = (x, v)" by (cases "?look w")
  have miss: "x = Inr None \<or> (\<exists>e. x = Inl e)" "redis v = redis w"
    using app_stats_cache.get_miss [OF assms(2) look] by auto
  have "srv v = srv w" using StatsCache_srv(1) [of ttl L "done_of_json L" "doneKey u from until" w] look by simp
  have range: "from < until \<and> until - from \<le> maxStatsRange"
    using assms(1) by (auto simp: GetTeamDoneStats_def split: sum.splits)
  then have "on_miss ?look (bindE (AnalyticsRepository_GetTeamDoneStats u from until)
      (\<lambda>rows. ignoring (StatsCache_SetDone ?c u from until rows) rows)) w = (Inr rows, w')"
    using assms(1) by (simp add: GetTeamDoneStats_def StatsCache_iface_def NewAnalyticsRepository_def
        StatsCache_GetDone_def validateStatsRange_def)
  from on_miss_query [OF this] miss look obtain w1 where
    q: "AnalyticsRepository_GetTeamDoneStats u from until v = (Inr rows, w1)" and w': "w' = snd (StatsCache_SetDone ?c u from until rows w1)"
    by auto
  have "redis_up v" if "redis_up w"
    using that look redis_world.get_up [OF that, of "doneKey u from until"]
    by (auto simp: StatsCache_get_def split: option.splits)
  moreover have "redis w1 = redis v" "redis_up w1 = redis_up v"
    using q run_stmt_frame(1,3) [of "select (teamDoneStatsSQL u from until)" v]
    by (simp_all add: AnalyticsRepository_GetTeamDoneStats_def)
  ultimately show ?thesis
    using range select_Inr q w' \<open>srv v = srv w\<close> miss(2)
    unfolding AnalyticsRepository_GetTeamDoneStats_def by metis
qed


lemma member_row_iff:
  assumes "tables_ok d"
  shows "member_row t u d = Some m \<longleftrightarrow> m \<in> set (team_members d) \<and> TeamMember_TeamID m = t \<and> TeamMember_UserID m = u"
  using assms find_Some_iff_unique [of "\<lambda>m. (TeamMember_TeamID m, TeamMember_UserID m)" "team_members d" "(t, u)" m]
  by (simp add: tables_ok_def members_ok_def member_row_def)

lemma administers_role:
  assumes "tables_ok d"
  shows "t \<in> set (administered u d) \<longleftrightarrow> role_of t u d \<in> {Some ''owner'', Some ''admin''}"
proof -
  have "t \<in> set (administered u d) \<longleftrightarrow>
      (\<exists>m. member_row t u d = Some m \<and> (TeamMember_Role m = ''owner'' \<or> TeamMember_Role m = ''admin''))"
    unfolding member_row_iff [OF assms] by (auto simp: administered_def)
  then show ?thesis by (cases "member_row t u d") (simp_all add: role_of_def)
qed

text \<open>C32. The statistics of finished tasks: without a cached answer, \<open>GetTeamDoneStats\<close> accepts exactly
  windows of positive length up to 365 days and answers one row for every team that the user
  owns or administers, and no other, with the number of its members and the number of its
  tasks that are done and were last changed in the window.\<close>

theorem GetTeamDoneStats_rows:
  assumes "GetTeamDoneStats (app_stats ttl L admins) u from until w = (Inr rows, w')"
    and "live (redis w) (doneKey u from until) = None" and "server_ok (srv w)"
  shows "from < until \<and> until - from \<le> maxStatsRange \<and>
    rows = map (\<lambda>t. \<lparr>Done_TeamID = Team_ID t, Done_TeamName = Team_Name t,
         Done_MembersCount = int (length (filter (\<lambda>m. TeamMember_TeamID m = Team_ID t) (team_members (data (srv w))))),
         Done_DoneCount = int (length (filter (\<lambda>k. Task_TeamID k = Team_ID t \<and> Task_Status k = ''done'' \<and>
            from \<le> Task_UpdatedAt k \<and> Task_UpdatedAt k < until) (tasks (data (srv w)))))\<rparr>)
      (filter (\<lambda>t. role_of (Team_ID t) u (data (srv w)) \<in> {Some ''owner'', Some ''admin''}) (teams (data (srv w))))"
proof -
  have ok: "tables_ok (data (srv w))" using assms(3) by (rule server_okD)
  have *: "occurs Task_TeamID i (filter P ks) = int (length (filter (\<lambda>k. Task_TeamID k = i \<and> P k) ks))" for i P ks
    by (simp add: occurs_def conj_commute)
  show ?thesis
    using GetTeamDoneStats_miss [OF assms(1,2)]
    by (simp add: teamDoneStatsSQL_def coalesce_group_count administers_role [OF ok] *)
      (simp add: occurs_def)
qed

definition sample_done :: "TeamDoneStat list" where
  "sample_done = [\<lparr>Done_TeamID = 1, Done_TeamName = ''core'', Done_MembersCount = 3, Done_DoneCount = 0\<rparr>]"

text \<open>A JSON library that knows one value.\<close>

definition sample_json :: jsonlib where
  "sample_json = \<lparr>json_Decode = (\<lambda>_. None),
     json_Unmarshal = (\<lambda>s. if s = ''rows'' then Some (rows_json done_json sample_done) else None),
     json_Encode = (\<lambda>v. if v = rows_json done_json sample_done then ''rows'' else ''?''),
     json_Any = (\<lambda>v. v), json_Fold = (\<lambda>s. s)\<rparr>"

lemma sample_done_run:
  "GetTeamDoneStats (app_stats second sample_json []) 2 0 100 sample_world =
     (Inr sample_done, snd (GetTeamDoneStats (app_stats second sample_json []) 2 0 100 sample_world))"
  by (rule run_result) code_simp

theorem GetTeamDoneStats_rows_witness:
  "sample_done = map (\<lambda>t. \<lparr>Done_TeamID = Team_ID t, Done_TeamName = Team_Name t,
         Done_MembersCount = int (length (filter (\<lambda>m. TeamMember_TeamID m = Team_ID t) (team_members sample_tables))),
         Done_DoneCount = int (length (filter (\<lambda>k. Task_TeamID k = Team_ID t \<and> Task_Status k = ''done'' \<and>
            0 \<le> Task_UpdatedAt k \<and> Task_UpdatedAt k < 100) (tasks sample_tables)))\<rparr>)
      (filter (\<lambda>t. role_of (Team_ID t) 2 sample_tables \<in> {Some ''owner'', Some ''admin''}) (teams sample_tables))"
proof -
  have "live (redis sample_world) (doneKey 2 0 100) = None" by code_simp
  from GetTeamDoneStats_rows [OF sample_done_run this] sample_ok show ?thesis by simp
qed

section \<open>The keys of the cache\<close>

lemma doneKey_days:
  "from div day = from' div day \<Longrightarrow> until div day = until' div day \<Longrightarrow> doneKey u from until = doneKey u from' until'"
  by (simp add: doneKey_def dayKey_def)

text \<open>C34. The cache of the statistics confuses windows: its keys name only the days of the bounds. For
  as long as an answer is cached, a question by the same user about any other window between
  the same two days (other hours, even disjoint ones) gets the first answer, whatever the
  database holds by then.\<close>

theorem stats_cache_confuses_windows:
  assumes "GetTeamDoneStats (app_stats ttl L admins) u from until w = (Inr rows, w1)"
    and "live (redis w) (doneKey u from until) = None" and "redis_up w"
    and "redis w2 = wait d (redis w1)" and "redis_up w2" and "0 \<le> d" and "d < ttl"
    and "from' div day = from div day" and "until' div day = until div day"
    and "from' < until'" and "until' - from' \<le> maxStatsRange"
    and "json_faithful L (rows_json done_json rows)" and "list_all done_ok rows"
  shows "fst (GetTeamDoneStats (app_stats ttl L admins) u from' until' w2) = Inr rows"
proof -
  let ?c = "app_stats_cache ttl L" and ?key = "doneKey u from until"
  obtain v where v: "redis v = redis w" "redis_up v" "w1 = snd (StatsCache_SetDone ?c u from until rows v)"
    using GetTeamDoneStats_miss [OF assms(1,2)] assms(3) by blast
  have "redis w1 = put ?key (json_Encode L (rows_json done_json rows), expiry (redis v) ttl) (redis v)"
    using app_stats_cache.set_stores [OF v(2), of ttl L ?key "rows_json done_json rows"] v(3)
    by (auto simp: StatsCache_SetDone_def)
  then have "live (redis w2) ?key = Some (json_Encode L (rows_json done_json rows), Some (redis_time (redis w) + ttl))"
    using assms(4,6,7) v(1) by (simp add: live_def wait_def put_def expiry_def)
  moreover have "rows_of_json (done_of_json L) (rows_json done_json rows) = Some rows"
    using assms(13) by (auto simp: list_all_iff intro!: rows_roundtrip done_roundtrip)
  ultimately obtain w3 where "StatsCache_get ?c (done_of_json L) ?key w2 = (Inr (Some rows), w3)"
    using app_stats_cache.get_hit [where ttl = ttl and L = L and w = w2 and key = ?key and
        v = "rows_json done_json rows" and f = "done_of_json L" and rows = rows
        and e = "Some (redis_time (redis w) + ttl)"] assms(5,12)
    by auto
  then show ?thesis
    using assms(8-11) doneKey_days [of "from'" "from" "until'" "until" u]
    by (simp add: GetTeamDoneStats_def StatsCache_iface_def StatsCache_GetDone_def on_miss_def bindR_apply validateStatsRange_def)
qed

theorem stats_cache_confuses_windows_witness:
  "fst (GetTeamDoneStats (app_stats second sample_json []) 2 1000 2000
     (snd (GetTeamDoneStats (app_stats second sample_json []) 2 0 100 sample_world))) = Inr sample_done"
proof -
  let ?w = "snd (GetTeamDoneStats (app_stats second sample_json []) 2 0 100 sample_world)"
  have up: "redis_up sample_world" by code_simp
  have up1: "redis_up ?w" by code_simp
  have miss: "live (redis sample_world) (doneKey 2 0 100) = None" by code_simp
  have same: "redis ?w = wait 0 (redis ?w)" by (simp add: wait_def)
  have faith: "json_faithful sample_json (rows_json done_json sample_done)" by (simp add: json_faithful_def sample_json_def)
  have rows: "list_all done_ok sample_done" by (simp add: sample_done_def done_ok_def int64_def int64_min_def int64_max_def)
  show ?thesis
    by (rule stats_cache_confuses_windows [OF sample_done_run miss up same up1 _ _ _ _ _ _ faith rows])
      (simp_all add: second_def day_def minute_def maxStatsRange_def)
qed

section \<open>Ranks\<close>

text \<open>The number of tasks of a team that \<open>v\<close> created in a window; \<open>v\<close> may be \<open>NULL\<close>.\<close>

definition created_in :: "time \<Rightarrow> time \<Rightarrow> tables \<Rightarrow> int \<Rightarrow> int option \<Rightarrow> int" where
  "created_in from until d t v = int (length (filter (\<lambda>k. Task_TeamID k = t \<and> Task_CreatedBy k = v \<and>
     from \<le> Task_CreatedAt k \<and> Task_CreatedAt k < until) (tasks d)))"

text \<open>The authors of a team that come before \<open>v\<close>: more tasks, or as many and a smaller id.\<close>

definition ahead :: "time \<Rightarrow> time \<Rightarrow> tables \<Rightarrow> int \<Rightarrow> int option \<Rightarrow> int option set" where
  "ahead from until d t v = {x. 0 < created_in from until d t x \<and>
     (created_in from until d t v < created_in from until d t x \<or>
      created_in from until d t v = created_in from until d t x \<and> x < v)}"

lemma set_created_base:
  "((t, v), c) \<in> set (created_base u from until d) \<longleftrightarrow>
     t \<in> set (administered u d) \<and> c = created_in from until d t v \<and> 0 < c"
proof -
  have "occurs (\<lambda>t. (Task_TeamID t, Task_CreatedBy t)) (t, v) (filter (\<lambda>t. from \<le> Task_CreatedAt t \<and>
      Task_CreatedAt t < until \<and> Task_TeamID t \<in> set (administered u d)) (tasks d)) =
      (if t \<in> set (administered u d) then created_in from until d t v else 0)"
    unfolding occurs_def created_in_def by (auto intro: arg_cong [of _ _ length] filter_cong)
  then show ?thesis
    unfolding created_base_def set_group_count by auto
qed

lemma distinct_created_base: "distinct (map fst (created_base u from until d))"
  unfolding created_base_def by (rule distinct_group_count)

lemma set_partition_ranks:
  assumes "distinct (map fst gs)" and "\<And>g c. (g, c) \<in> set gs \<Longrightarrow> fst g = t"
  shows "((t', v), c, r) \<in> set (partition_ranks gs) \<longleftrightarrow> ((t', v), c) \<in> set gs \<and>
     r = int (card {x. \<exists>k. ((t, x), k) \<in> set gs \<and> (c < k \<or> k = c \<and> x < v)}) + 1"
proof -
  let ?key = "\<lambda>((t :: int, u :: int option), c :: int). (- c, u)"
  have inj: "inj_on ?key (set gs)"
  proof (rule inj_onI)
    fix x y
    assume "x \<in> set gs" "y \<in> set gs" "?key x = ?key y"
    with assms(2) show "x = y" by (cases x; cases y) fastforce
  qed
  have dist: "distinct gs" using assms(1) by (metis distinct_map)
  have "distinct (map ?key gs)" using inj dist by (simp add: distinct_map)
  note rank = enumerate_sort_rank [OF this]
  have count: "length (filter (\<lambda>y. ?key y < ?key ((t', v), c)) gs) =
      card {x. \<exists>k. ((t, x), k) \<in> set gs \<and> (c < k \<or> k = c \<and> x < v)}"
  proof -
    let ?S = "set (filter (\<lambda>y. ?key y < ?key ((t', v), c)) gs)"
    have "bij_betw (\<lambda>y. snd (fst y)) ?S {x. \<exists>k. ((t, x), k) \<in> set gs \<and> (c < k \<or> k = c \<and> x < v)}"
    proof (rule bij_betwI')
      fix x y
      assume xy: "x \<in> ?S" "y \<in> ?S"
      have team: "fst (fst z) = t" if "z \<in> set gs" for z using assms(2) [of "fst z" "snd z"] that by simp
      have inj: "inj_on fst (set gs)" using assms(1) by (simp add: distinct_map)
      have "x = y" if "snd (fst x) = snd (fst y)"
        by (rule inj_onD [OF inj]) (use that xy team [of x] team [of y] in \<open>auto simp: prod_eq_iff\<close>)
      then show "(snd (fst x) = snd (fst y)) = (x = y)" by auto
    next
      fix x
      assume "x \<in> ?S"
      moreover obtain t0 u0 k where x: "x = ((t0, u0), k)" by (metis prod.exhaust)
      ultimately show "snd (fst x) \<in> {x. \<exists>k. ((t, x), k) \<in> set gs \<and> (c < k \<or> k = c \<and> x < v)}"
        using assms(2) [of "(t0, u0)" k] by auto
    next
      fix y
      assume "y \<in> {x. \<exists>k. ((t, x), k) \<in> set gs \<and> (c < k \<or> k = c \<and> x < v)}"
      then show "\<exists>x \<in> ?S. y = snd (fst x)" by force
    qed
    then have "card ?S = card {x. \<exists>k. ((t, x), k) \<in> set gs \<and> (c < k \<or> k = c \<and> x < v)}"
      by (rule bij_betw_same_card)
    moreover have "card ?S = length (filter (\<lambda>y. ?key y < ?key ((t', v), c)) gs)"
      by (rule distinct_card) (simp add: dist)
    ultimately show ?thesis by simp
  qed
  have "((t', v), c, r) \<in> set (partition_ranks gs) \<longleftrightarrow>
      (\<exists>i. (i, ((t', v), c)) \<in> set (enumerate 0 (sort_key ?key gs)) \<and> r = int i + 1)"
    by (auto simp: partition_ranks_def Let_def image_iff) force
  also have "\<dots> \<longleftrightarrow> ((t', v), c) \<in> set gs \<and>
      r = int (card {x. \<exists>k. ((t, x), k) \<in> set gs \<and> (c < k \<or> k = c \<and> x < v)}) + 1"
    unfolding rank count by auto
  finally show ?thesis .
qed


lemma set_topCreators:
  "((t, v), c, r) \<in> set (topCreatorsSQL u from until limit d) \<longleftrightarrow>
     t \<in> set (administered u d) \<and> c = created_in from until d t v \<and> 0 < c \<and>
     r = int (card (ahead from until d t v)) + 1 \<and> r \<le> limit"
proof -
  let ?base = "created_base u from until d"
  let ?part = "\<lambda>team. filter (\<lambda>((t, _), _). t = team) ?base"
  have dist: "distinct (map fst (?part t))" for t
    using distinct_created_base [of u "from" "until" d] by (rule distinct_map_filterI)
  have team: "(g, c) \<in> set (?part t) \<Longrightarrow> fst g = t" for g c t by auto
  have mem: "((t', v), c) \<in> set (?part t) \<longleftrightarrow> t' = t \<and> ((t, v), c) \<in> set ?base" for t' t v c by auto
  have "((t, v), c, r) \<in> set (topCreatorsSQL u from until limit d) \<longleftrightarrow>
      r \<le> limit \<and> (\<exists>t' \<in> set (map (\<lambda>((t, _), _). t) ?base). ((t, v), c, r) \<in> set (partition_ranks (?part t')))"
    by (auto simp: topCreatorsSQL_def Let_def) force+
  also have "\<dots> \<longleftrightarrow> r \<le> limit \<and> ((t, v), c) \<in> set ?base \<and>
      r = int (card {x. \<exists>k. ((t, x), k) \<in> set ?base \<and> (c < k \<or> k = c \<and> x < v)}) + 1"
  proof -
    have rank: "((t, v), c, r) \<in> set (partition_ranks (?part t')) \<longleftrightarrow> t = t' \<and> ((t, v), c) \<in> set ?base \<and>
        r = int (card {x. \<exists>k. ((t, x), k) \<in> set ?base \<and> (c < k \<or> k = c \<and> x < v)}) + 1" for t'
      using set_partition_ranks [where gs = "?part t'" and t = t' and t' = t and v = v and c = c and r = r]
        dist [of t'] team [where t = t'] unfolding mem by auto
    have "t \<in> set (map (\<lambda>((t, _), _). t) ?base)" if "((t, v), c) \<in> set ?base" using that by force
    then show ?thesis unfolding rank by blast
  qed
  also have "\<dots> \<longleftrightarrow> t \<in> set (administered u d) \<and> c = created_in from until d t v \<and> 0 < c \<and>
     r = int (card (ahead from until d t v)) + 1 \<and> r \<le> limit"
  proof -
    have eq: "{x. \<exists>k. ((t, x), k) \<in> set ?base \<and> (c < k \<or> k = c \<and> x < v)} = ahead from until d t v"
      if "t \<in> set (administered u d)" "c = created_in from until d t v"
      unfolding set_created_base ahead_def using that by auto
    show ?thesis
    proof (cases "t \<in> set (administered u d) \<and> c = created_in from until d t v")
      case True
      then show ?thesis
        unfolding eq [OF conjunct1 [OF True] conjunct2 [OF True]]
        unfolding set_created_base by blast
    next
      case False
      then show ?thesis unfolding set_created_base by blast
    qed
  qed
  finally show ?thesis .
qed

lemma scanTop_Some:
  "scanTop rows = Some xs \<Longrightarrow>
     (\<lparr>Top_TeamID = t, Top_UserID = u, Top_CreatedCount = c, Top_Rank = r\<rparr> \<in> set xs \<longleftrightarrow> ((t, Some u), c, r) \<in> set rows) \<and>
     (\<forall>t c r. ((t, None), c, r) \<notin> set rows)"
  by (induction rows arbitrary: xs rule: scanTop.induct) auto


lemma GetTopCreatorsByTeam_miss:
  assumes "GetTopCreatorsByTeam (app_stats ttl L admins) u from until limit w = (Inr rows, w')"
    and "live (redis w) (topKey u from until limit) = None"
  shows "from < until \<and> until - from \<le> maxStatsRange \<and> 1 \<le> limit \<and> limit \<le> 10 \<and>
     scanTop (topCreatorsSQL u from until limit (data (srv w))) = Some rows"
proof -
  let ?c = "app_stats_cache ttl L"
  let ?look = "StatsCache_get ?c (top_of_json L) (topKey u from until limit)"
  obtain x v where look: "?look w = (x, v)" by (cases "?look w")
  have miss: "x = Inr None \<or> (\<exists>e. x = Inl e)"
    using app_stats_cache.get_miss [OF assms(2) look] by auto
  have srv: "srv v = srv w" using StatsCache_srv(1) [of ttl L "top_of_json L" "topKey u from until limit" w] look by simp
  have range: "from < until \<and> until - from \<le> maxStatsRange \<and> 1 \<le> limit \<and> limit \<le> 10"
    using assms(1) by (auto simp: GetTopCreatorsByTeam_def split: sum.splits if_splits)
  then have "on_miss ?look (bindE (AnalyticsRepository_GetTopCreatorsByTeam u from until limit)
      (\<lambda>rows. ignoring (StatsCache_SetTop ?c u from until limit rows) rows)) w = (Inr rows, w')"
    using assms(1) by (simp add: GetTopCreatorsByTeam_def StatsCache_iface_def NewAnalyticsRepository_def
        StatsCache_GetTop_def validateStatsRange_def)
  from on_miss_query [OF this] miss look obtain w1 where
    q: "AnalyticsRepository_GetTopCreatorsByTeam u from until limit v = (Inr rows, w1)"
    by auto
  have "scanTop (topCreatorsSQL u from until limit (data (srv v))) = Some rows"
    using q by (auto simp: AnalyticsRepository_GetTopCreatorsByTeam_def success dest!: select_Inr split: option.splits)
  with range srv show ?thesis by simp
qed

text \<open>C33. The ranking of authors: without a cached answer, \<open>GetTopCreatorsByTeam\<close> accepts exactly windows
  of positive length up to 365 days with a limit from 1 to 10, and its rows are exactly those
  authors, in the teams the user owns or administers, who created tasks in the window, with
  their number and with the rank one more than the number of authors of the team ahead of
  them (more tasks, or as many and a smaller id), as far as that rank is within the limit.\<close>

theorem GetTopCreatorsByTeam_ranks:
  assumes "GetTopCreatorsByTeam (app_stats ttl L admins) u from until limit w = (Inr rows, w')"
    and "live (redis w) (topKey u from until limit) = None" and "server_ok (srv w)"
  shows "from < until \<and> until - from \<le> maxStatsRange \<and> 1 \<le> limit \<and> limit \<le> 10 \<and>
     (\<lparr>Top_TeamID = t, Top_UserID = v, Top_CreatedCount = c, Top_Rank = r\<rparr> \<in> set rows \<longleftrightarrow>
        role_of t u (data (srv w)) \<in> {Some ''owner'', Some ''admin''} \<and>
        c = created_in from until (data (srv w)) t (Some v) \<and> 0 < c \<and>
        r = int (card (ahead from until (data (srv w)) t (Some v))) + 1 \<and> r \<le> limit)"
proof -
  note miss = GetTopCreatorsByTeam_miss [OF assms(1,2)]
  then have "scanTop (topCreatorsSQL u from until limit (data (srv w))) = Some rows" by simp
  note row = scanTop_Some [OF this, THEN conjunct1, of t v c r]
  show ?thesis
    unfolding row set_topCreators administers_role [OF server_okD(1) [OF assms(3)]] using miss by blast
qed

lemma sample_top_run:
  "GetTopCreatorsByTeam (app_stats second sample_json []) 2 0 100 3 sample_world =
     (Inr [\<lparr>Top_TeamID = 1, Top_UserID = 1, Top_CreatedCount = 1, Top_Rank = 1\<rparr>],
      snd (GetTopCreatorsByTeam (app_stats second sample_json []) 2 0 100 3 sample_world))"
  by (rule run_result) code_simp

theorem GetTopCreatorsByTeam_ranks_witness:
  "role_of 1 2 sample_tables \<in> {Some ''owner'', Some ''admin''} \<and> created_in 0 100 sample_tables 1 (Some 1) = 1 \<and>
   card (ahead 0 100 sample_tables 1 (Some 1)) = 0"
proof -
  have "live (redis sample_world) (topKey 2 0 100 3) = None" by code_simp
  from GetTopCreatorsByTeam_ranks [OF sample_top_run this, of 1 1 1 1] sample_ok show ?thesis by simp
qed

end
