(* ===== verification/TaskCache.thy ===== *)
theory TaskCache
  imports Redis Metrics
begin

text \<open>
  \<open>internal/infra/cache/task_cache.go\<close>: pages of task lists in Redis, under keys that carry a
  version per team; a write to the team's tasks increments the version.
\<close>

section \<open>The cache\<close>

text \<open>
  \<open>tc_sha1\<close> is SHA-1 in hexadecimal. The version is the text that \<open>SETNX\<close> and \<open>INCR\<close> write, on
  which \<open>fmt.Sscan\<close> reads the number; what it makes of any other text is \<open>tc_Sscan\<close>.
\<close>

record 'w TaskCache =
  tc_client :: "'w redisClient option"
  tc_ttl :: duration
  tc_enabled :: bool
  tc_metrics :: "'w Metrics option"
  tc_sha1 :: "string \<Rightarrow> string"
  tc_Sscan :: "string \<Rightarrow> int option"

definition NewTaskCache ::
    "'w redisClient option \<Rightarrow> duration \<Rightarrow> bool \<Rightarrow> 'w Metrics option \<Rightarrow> (string \<Rightarrow> string) \<Rightarrow> (string \<Rightarrow> int option)
     \<Rightarrow> 'w TaskCache" where
  "NewTaskCache client ttl enabled metrics sha1 sscan =
     \<lparr>tc_client = client, tc_ttl = ttl, tc_enabled = enabled, tc_metrics = metrics, tc_sha1 = sha1, tc_Sscan = sscan\<rparr>"

definition versionKey :: "int \<Rightarrow> string" where
  "versionKey teamID = ''tasks:team:'' @ FormatInt teamID @ '':ver''"

text \<open>A map of filters is an association list with distinct keys.\<close>

definition canonicalQueryString :: "(string \<times> string) list \<Rightarrow> string" where
  "canonicalQueryString filters =
     Join (map (\<lambda>k. k @ ''='' @ (case map_of filters k of None \<Rightarrow> [] | Some v \<Rightarrow> v)) (sort (map fst filters))) ''&''"

definition filtersHash :: "'w TaskCache \<Rightarrow> (string \<times> string) list \<Rightarrow> string" where
  "filtersHash c filters = tc_sha1 c (canonicalQueryString filters)"

definition cacheKey :: "'w TaskCache \<Rightarrow> int \<Rightarrow> int \<Rightarrow> (string \<times> string) list \<Rightarrow> string" where
  "cacheKey c teamID ver filters =
     ''tasks:team:'' @ FormatInt teamID @ '':v:'' @ FormatInt ver @ '':'' @ filtersHash c filters"

definition TaskCache_parseInt64 :: "'w TaskCache \<Rightarrow> string \<Rightarrow> int option" where
  "TaskCache_parseInt64 c s =
     (case ParseInt s of
        Some n \<Rightarrow> if FormatInt n = s then Some n else tc_Sscan c s
      | None \<Rightarrow> tc_Sscan c s)"

definition TaskCache_onRedisError :: "'w TaskCache \<Rightarrow> 'w \<Rightarrow> 'w" where
  "TaskCache_onRedisError c = inc (tc_metrics c) ''RedisDegraded'' [''cache'']"

definition getVersion :: "'w TaskCache \<Rightarrow> 'w redisClient \<Rightarrow> int \<Rightarrow> ('w, int) comp" where
  "getVersion c R teamID w =
     (case redis_Get R (versionKey teamID) w of
        (Inl e, w1) \<Rightarrow> (Inl e, TaskCache_onRedisError c w1)
      | (Inr None, w1) \<Rightarrow> (Inr 1, snd (redis_SetNX R (versionKey teamID) ''1'' 0 w1))
      | (Inr (Some val), w1) \<Rightarrow>
          (case TaskCache_parseInt64 c val of None \<Rightarrow> (Inr 1, w1) | Some ver \<Rightarrow> (Inr ver, w1)))"

definition GetList :: "'w TaskCache \<Rightarrow> int \<Rightarrow> (string \<times> string) list \<Rightarrow> ('w, string option) comp" where
  "GetList c teamID filters w =
     (case tc_client c of
        None \<Rightarrow> (Inr None, w)
      | Some R \<Rightarrow>
          if \<not> tc_enabled c then (Inr None, w)
          else bindE (getVersion c R teamID) (\<lambda>ver.
               bindR (redis_Get R (cacheKey c teamID ver filters)) (\<lambda>r w.
                 case r of Inl e \<Rightarrow> (Inl e, TaskCache_onRedisError c w) | Inr x \<Rightarrow> (Inr x, w))) w)"

definition SetList :: "'w TaskCache \<Rightarrow> int \<Rightarrow> (string \<times> string) list \<Rightarrow> string \<Rightarrow> ('w, unit) comp" where
  "SetList c teamID filters val w =
     (case tc_client c of
        None \<Rightarrow> (Inr (), w)
      | Some R \<Rightarrow>
          if \<not> tc_enabled c then (Inr (), w)
          else (case getVersion c R teamID w of
                  (Inl e, w1) \<Rightarrow> (Inl e, TaskCache_onRedisError c w1)
                | (Inr ver, w1) \<Rightarrow>
                    (case redis_Set R (cacheKey c teamID ver filters) val (tc_ttl c) w1 of
                       (Inl e, w2) \<Rightarrow> (Inl e, TaskCache_onRedisError c w2)
                     | (Inr _, w2) \<Rightarrow> (Inr (), w2))))"

definition InvalidateTeam :: "'w TaskCache \<Rightarrow> int \<Rightarrow> ('w, unit) comp" where
  "InvalidateTeam c teamID w =
     (case tc_client c of
        None \<Rightarrow> (Inr (), w)
      | Some R \<Rightarrow>
          if \<not> tc_enabled c then (Inr (), w)
          else (case redis_Incr R (versionKey teamID) w of
                  (Inl e, w1) \<Rightarrow> (Inl e, TaskCache_onRedisError c w1)
                | (Inr _, w1) \<Rightarrow> (Inr (), w1)))"

text \<open>The interface \<open>cache.TaskCache\<close> of the handlers.\<close>

record 'w taskCache =
  taskCache_GetList :: "int \<Rightarrow> (string \<times> string) list \<Rightarrow> ('w, string option) comp"
  taskCache_SetList :: "int \<Rightarrow> (string \<times> string) list \<Rightarrow> string \<Rightarrow> ('w, unit) comp"
  taskCache_InvalidateTeam :: "int \<Rightarrow> ('w, unit) comp"

definition TaskCache_iface :: "'w TaskCache \<Rightarrow> 'w taskCache" where
  "TaskCache_iface c = \<lparr>taskCache_GetList = GetList c, taskCache_SetList = SetList c,
     taskCache_InvalidateTeam = InvalidateTeam c\<rparr>"

section \<open>Keys\<close>

lemma colon_not_digit: "CHR '':'' \<notin> set (FormatInt i)"
proof
  assume "CHR '':'' \<in> set (FormatInt i)"
  then have "CHR '':'' \<in> set (nat_digits (nat \<bar>i\<bar>))" by (auto simp: FormatInt_def abs_if split: if_splits)
  then show False using nat_digits_digits by fastforce
qed

lemma append_sep_eq:
  "c \<notin> set xs \<Longrightarrow> c \<notin> set ys \<Longrightarrow> xs @ c # us = ys @ c # vs \<longleftrightarrow> xs = ys \<and> us = vs"
proof (induction xs arbitrary: ys)
  case Nil
  then show ?case by (cases ys) auto
next
  case (Cons x xs)
  then show ?case by (cases ys) auto
qed

lemma FormatInt_sep: "FormatInt i @ CHR '':'' # us = FormatInt j @ CHR '':'' # vs \<longleftrightarrow> i = j \<and> us = vs"
  by (simp add: append_sep_eq colon_not_digit)

lemma cacheKey_inject: "cacheKey c t v f = cacheKey c t' v' f' \<longleftrightarrow> t = t' \<and> v = v' \<and> filtersHash c f = filtersHash c f'"
  by (simp add: cacheKey_def FormatInt_sep)

lemma versionKey_inject [simp]: "versionKey t = versionKey t' \<longleftrightarrow> t = t'"
  by (simp add: versionKey_def FormatInt_sep)

lemma versionKey_apart [simp]: "versionKey t \<noteq> cacheKey c t' v f" "cacheKey c t' v f \<noteq> versionKey t"
  by (simp_all add: versionKey_def cacheKey_def FormatInt_sep)

lemma parseInt64_FormatInt: "int64_min \<le> n \<Longrightarrow> n \<le> int64_max \<Longrightarrow> TaskCache_parseInt64 c (FormatInt n) = Some n"
  by (simp add: TaskCache_parseInt64_def ParseInt_FormatInt)

end
