(* ===== verification/TaskCacheRuns.thy ===== *)
theory TaskCacheRuns
  imports TaskCache Sample
begin

text \<open>
  What the versions of the task cache guarantee: over any run of the cache's operations, with
  lost commands and passing time, no page is stored under a version that is still to come, so
  an invalidation that succeeds on an existing version hides every page stored before.
\<close>

section \<open>Versions\<close>

definition current :: "'w TaskCache \<Rightarrow> keyspace \<Rightarrow> int \<Rightarrow> int" where
  "current c s team =
     (case value_at s (versionKey team) of
        None \<Rightarrow> 1
      | Some v \<Rightarrow> (case TaskCache_parseInt64 c v of None \<Rightarrow> 1 | Some n \<Rightarrow> n))"

text \<open>A version that exists is a positive number and does not expire; no page is ahead of it.\<close>

definition version_at :: "keyspace \<Rightarrow> int \<Rightarrow> int \<Rightarrow> bool" where
  "version_at s team n \<longleftrightarrow> live s (versionKey team) = Some (FormatInt n, None) \<and> 1 \<le> n \<and> n \<le> int64_max"

definition versions_ok :: "'w TaskCache \<Rightarrow> keyspace \<Rightarrow> bool" where
  "versions_ok c s \<longleftrightarrow>
     (\<forall>team. (live s (versionKey team) = None \<or> (\<exists>n. version_at s team n)) \<and>
        (\<forall>ver f. live s (cacheKey c team ver f) \<noteq> None \<longrightarrow> ver \<le> current c s team))"

lemma current_version: "version_at s team n \<Longrightarrow> current c s team = n"
  by (simp add: version_at_def current_def value_at_def parseInt64_FormatInt int64_min_def)

lemma current_missing: "live s (versionKey team) = None \<Longrightarrow> current c s team = 1"
  by (simp add: current_def value_at_def)

lemma versions_okI:
  assumes "\<And>team. live s (versionKey team) \<noteq> None \<Longrightarrow> \<exists>n. version_at s team n"
    and "\<And>team ver f x. live s (cacheKey c team ver f) = Some x \<Longrightarrow> ver \<le> current c s team"
  shows "versions_ok c s"
  using assms unfolding versions_ok_def by blast

lemma versions_ok_cases:
  assumes "versions_ok c s"
  obtains "live s (versionKey team) = None" | n where "version_at s team n"
  using assms [unfolded versions_ok_def, THEN spec, of team] by auto

lemma versions_okD: "versions_ok c s \<Longrightarrow> live s (cacheKey c team ver f) = Some x \<Longrightarrow> ver \<le> current c s team"
  unfolding versions_ok_def by (metis option.distinct(1))

lemma live_wait_None: "0 \<le> d \<Longrightarrow> live s k = None \<Longrightarrow> live (wait d s) k = None"
  using live_wait [of d s k] by (cases "live (wait d s) k") auto

lemma version_at_wait: "version_at s team n \<Longrightarrow> version_at (wait d s) team n"
  by (simp add: version_at_def live_wait_persistent)

lemma current_wait:
  assumes "versions_ok c s" and "0 \<le> d"
  shows "current c (wait d s) team = current c s team"
  using assms(1)
proof (cases rule: versions_ok_cases [where team = team])
  case 1
  then show ?thesis using live_wait_None [OF assms(2)] by (simp add: current_missing)
next
  case (2 n)
  then show ?thesis using version_at_wait [OF 2] by (simp add: current_version)
qed

lemma versions_ok_wait:
  assumes "versions_ok c s" and "0 \<le> d"
  shows "versions_ok c (wait d s)"
proof (rule versions_okI)
  show "\<exists>n. version_at (wait d s) team n" if "live (wait d s) (versionKey team) \<noteq> None" for team
    using assms(1)
  proof (cases rule: versions_ok_cases [where team = team])
    case 1
    with that live_wait_None [OF assms(2)] show ?thesis by simp
  next
    case (2 n)
    then show ?thesis by (blast intro: version_at_wait)
  qed
  show "ver \<le> current c (wait d s) team" if "live (wait d s) (cacheKey c team ver f) = Some x" for team ver f x
    using versions_okD [OF assms(1) live_wait [OF assms(2) that]] current_wait [OF assms] by simp
qed

lemma versions_ok_page:
  assumes "versions_ok c s"
  shows "versions_ok c (put (cacheKey c team (current c s team) f) (v, e) s)"
proof (rule versions_okI)
  let ?s = "put (cacheKey c team (current c s team) f) (v, e) s"
  have same: "live ?s (versionKey t) = live s (versionKey t)" for t by simp
  have cur: "current c ?s t = current c s t" for t by (simp add: current_def value_at_def)
  show "\<exists>n. version_at ?s t n" if "live ?s (versionKey t) \<noteq> None" for t
    using assms by (cases rule: versions_ok_cases [where team = t]) (use that in \<open>auto simp: version_at_def\<close>)
  show "ver \<le> current c ?s t" if "live ?s (cacheKey c t ver g) = Some x" for t ver g x
    using that versions_okD [OF assms] unfolding cur by (auto simp: cacheKey_inject split: if_splits)
qed

lemma versions_ok_version:
  assumes "versions_ok c s" and "current c s team \<le> n" and "1 \<le> n" and "n \<le> int64_max"
  shows "versions_ok c (put (versionKey team) (FormatInt n, None) s)"
proof (rule versions_okI)
  let ?s = "put (versionKey team) (FormatInt n, None) s"
  have new: "version_at ?s team n" using assms(3,4) by (simp add: version_at_def)
  have cur: "current c s t \<le> current c ?s t" for t
  proof (cases "t = team")
    case True
    then show ?thesis using assms(2) by (simp add: current_version [OF new])
  qed (simp add: current_def value_at_def)
  show "\<exists>n. version_at ?s t n" if "live ?s (versionKey t) \<noteq> None" for t
    using assms(1) by (cases rule: versions_ok_cases [where team = t])
      (use that new in \<open>auto simp: version_at_def split: if_splits\<close>)
  show "ver \<le> current c ?s t" if "live ?s (cacheKey c t ver g) = Some x" for t ver g x
    using that versions_okD [OF assms(1), of t ver g x] cur [of t] by simp
qed

section \<open>The operations\<close>

locale list_cache = redis_api ks up R
  for ks :: "'w \<Rightarrow> keyspace" and up :: "'w \<Rightarrow> bool" and R :: "'w redisClient" +
  fixes c :: "'w TaskCache"
  assumes client: "tc_client c = Some R" and enabled: "tc_enabled c"
    and quiet: "uncounted ks (tc_metrics c)" "uncounted up (tc_metrics c)"
begin

lemma get_ks: "redis_Get R k w = (r, w') \<Longrightarrow> ks w' = ks w \<and> (case r of Inl e \<Rightarrow> True | Inr x \<Rightarrow> x = value_at (ks w) k)"
  using executes_Inr [OF redis_get, of k w] executes_clean [OF redis_get fails_clean_cmds(1), of k w]
  by (cases r) (auto simp: cmd_get_def)

lemma setnx_ks:
  "redis_SetNX R k v ttl w = (r, w') \<Longrightarrow> ks w' = ks w \<or> live (ks w) k = None \<and> ks w' = put k (v, expiry (ks w) ttl) (ks w)"
  using executes_Inr [OF redis_setnx, of k v ttl w] executes_clean [OF redis_setnx fails_clean_cmds(3), of k v ttl w]
  by (cases r) (auto simp: cmd_setnx_def split: if_splits)

lemma set_ks: "redis_Set R k v ttl w = (r, w') \<Longrightarrow> ks w' = ks w \<or> ks w' = put k (v, expiry (ks w) ttl) (ks w)"
  using executes_Inr [OF redis_set, of k v ttl w] executes_clean [OF redis_set fails_clean_cmds(2), of k v ttl w]
  by (cases r) (auto simp: cmd_set_def)

lemma incr_ks: "redis_Incr R k w = (r, w') \<Longrightarrow> ks w' = ks w \<or> (\<exists>n. cmd_incr k (ks w) = (Inr n, ks w'))"
  using executes_Inr [OF redis_incr, of k w] executes_clean [OF redis_incr fails_clean_cmds(6), of k w]
  by (cases r) auto

lemma onRedisError_ks [simp]: "ks (TaskCache_onRedisError c w) = ks w" "up (TaskCache_onRedisError c w) = up w"
  using quiet by (simp_all add: TaskCache_onRedisError_def)

lemma one_text: "(''1'' :: string) = FormatInt 1"
  by code_simp

lemma getVersion_ks:
  assumes "getVersion c R team w = (r, w')"
  shows "(case r of Inl e \<Rightarrow> True | Inr ver \<Rightarrow> ver = current c (ks w) team) \<and>
     (ks w' = ks w \<or> live (ks w) (versionKey team) = None \<and> ks w' = put (versionKey team) (FormatInt 1, None) (ks w))"
proof -
  obtain x w1 where get: "redis_Get R (versionKey team) w = (x, w1)" by (cases "redis_Get R (versionKey team) w")
  note ks1 = get_ks [OF get]
  show ?thesis
  proof (cases x)
    case (Inl e)
    with assms get ks1 show ?thesis by (auto simp: getVersion_def)
  next
    case (Inr v)
    show ?thesis
    proof (cases v)
      case None
      obtain y w2 where nx: "redis_SetNX R (versionKey team) ''1'' 0 w1 = (y, w2)"
        by (cases "redis_SetNX R (versionKey team) ''1'' 0 w1")
      have "live (ks w) (versionKey team) = None" using ks1 Inr None by (simp add: value_at_def)
      with assms get ks1 Inr None nx setnx_ks [OF nx] show ?thesis
        by (auto simp: getVersion_def current_def value_at_def expiry_def one_text)
    next
      case (Some t)
      with assms get ks1 Inr show ?thesis
        by (auto simp: getVersion_def current_def split: option.splits)
    qed
  qed
qed

lemma getVersion_ok:
  assumes "versions_ok c (ks w)" and "getVersion c R team w = (r, w')"
  shows "versions_ok c (ks w')" "current c (ks w') t = current c (ks w) t"
proof -
  have *: "versions_ok c (put (versionKey team) (FormatInt 1, None) (ks w))"
      "current c (put (versionKey team) (FormatInt 1, None) (ks w)) t = current c (ks w) t"
    if none: "live (ks w) (versionKey team) = None"
  proof -
    show "versions_ok c (put (versionKey team) (FormatInt 1, None) (ks w))"
      by (rule versions_ok_version [OF assms(1)]) (simp_all add: current_missing [OF none] int64_max_def)
    show "current c (put (versionKey team) (FormatInt 1, None) (ks w)) t = current c (ks w) t"
    proof (cases "t = team")
      case True
      have "version_at (put (versionKey team) (FormatInt 1, None) (ks w)) team 1"
        by (simp add: version_at_def int64_max_def)
      with True current_missing [OF none] show ?thesis by (simp add: current_version)
    qed (simp add: current_def value_at_def)
  qed
  show "versions_ok c (ks w')" "current c (ks w') t = current c (ks w) t"
    using getVersion_ks [OF assms(2)] * assms(1) by auto
qed

lemma GetList_ok: "versions_ok c (ks w) \<Longrightarrow> versions_ok c (ks (snd (GetList c team f w)))"
proof -
  assume ok: "versions_ok c (ks w)"
  obtain r w1 where gv: "getVersion c R team w = (r, w1)" by (cases "getVersion c R team w")
  show ?thesis
  proof (cases r)
    case (Inr ver)
    obtain x w2 where "redis_Get R (cacheKey c team ver f) w1 = (x, w2)" by (cases "redis_Get R (cacheKey c team ver f) w1")
    with get_ks [OF this] gv Inr getVersion_ok(1) [OF ok gv] client enabled show ?thesis
      by (auto simp: GetList_def bindE_apply bindR_apply split: sum.split)
  qed (use gv getVersion_ok(1) [OF ok gv] client enabled in \<open>simp add: GetList_def bindE_apply\<close>)
qed

lemma SetList_ok: "versions_ok c (ks w) \<Longrightarrow> versions_ok c (ks (snd (SetList c team f v w)))"
proof -
  assume ok: "versions_ok c (ks w)"
  obtain r w1 where gv: "getVersion c R team w = (r, w1)" by (cases "getVersion c R team w")
  note ok1 = getVersion_ok [OF ok gv]
  show ?thesis
  proof (cases r)
    case (Inr ver)
    obtain x w2 where set: "redis_Set R (cacheKey c team ver f) v (tc_ttl c) w1 = (x, w2)"
      by (cases "redis_Set R (cacheKey c team ver f) v (tc_ttl c) w1")
    have "ver = current c (ks w1) team" using getVersion_ks [OF gv] ok1(2) [of team] Inr by simp
    with set_ks [OF set] versions_ok_page [OF ok1(1), of team] ok1(1) have "versions_ok c (ks w2)" by auto
    with set gv Inr client enabled show ?thesis by (auto simp: SetList_def split: sum.split)
  qed (use gv ok1 client enabled in \<open>simp add: SetList_def\<close>)
qed

lemma InvalidateTeam_ok: "versions_ok c (ks w) \<Longrightarrow> versions_ok c (ks (snd (InvalidateTeam c team w)))"
proof -
  assume ok: "versions_ok c (ks w)"
  obtain r w1 where run: "redis_Incr R (versionKey team) w = (r, w1)" by (cases "redis_Incr R (versionKey team) w")
  have "versions_ok c (ks w1)"
  proof (cases "ks w1 = ks w")
    case False
    with incr_ks [OF run] obtain n where inc: "cmd_incr (versionKey team) (ks w) = (Inr n, ks w1)" by auto
    from ok show ?thesis
    proof (cases rule: versions_ok_cases [where team = team, case_names none some])
      case none
      with inc have "ks w1 = put (versionKey team) (FormatInt 1, None) (ks w)" by (simp add: cmd_incr_def)
      with versions_ok_version [OF ok, of team 1] show ?thesis by (simp add: current_missing [OF none] int64_max_def)
    next
      case (some m)
      then have "ParseInt (FormatInt m) = Some m" by (simp add: version_at_def ParseInt_FormatInt int64_min_def)
      with inc some have "ks w1 = put (versionKey team) (FormatInt (m + 1), None) (ks w)" "m + 1 \<le> int64_max"
        by (auto simp: cmd_incr_def version_at_def split: if_splits)
      with versions_ok_version [OF ok, of team "m + 1"] some show ?thesis
        by (simp add: current_version [OF some] version_at_def)
    qed
  qed (use ok in simp)
  with run client enabled show ?thesis by (auto simp: InvalidateTeam_def split: sum.split)
qed

lemma getVersion_up:
  assumes "up w"
  shows "\<exists>w1. getVersion c R team w = (Inr (current c (ks w) team), w1) \<and> up w1"
proof -
  obtain w1 where get: "redis_Get R (versionKey team) w = (Inr (value_at (ks w) (versionKey team)), w1)" "up w1"
    using get_up [OF assms] by blast
  have "up (snd (redis_SetNX R (versionKey team) ''1'' 0 w1))"
    using executes_healthy [OF redis_setnx get(2), of "versionKey team" "''1''" 0]
    by (cases "cmd_setnx (versionKey team) ''1'' 0 (ks w1)") auto
  with get show ?thesis
    by (auto simp: getVersion_def current_def split: option.splits)
qed

lemma GetList_up:
  assumes "up w"
  shows "fst (GetList c team f w) = Inr (value_at (ks w) (cacheKey c team (current c (ks w) team) f))"
proof -
  obtain w1 where gv: "getVersion c R team w = (Inr (current c (ks w) team), w1)" "up w1"
    using getVersion_up [OF assms] by blast
  let ?key = "cacheKey c team (current c (ks w) team) f"
  obtain w2 where "redis_Get R ?key w1 = (Inr (value_at (ks w1) ?key), w2)" using get_up [OF gv(2)] by blast
  moreover have "value_at (ks w1) ?key = value_at (ks w) ?key"
    using getVersion_ks [OF gv(1)] by (auto simp: value_at_def)
  ultimately show ?thesis
    using gv client enabled by (simp add: GetList_def bindE_apply bindR_apply)
qed

lemma InvalidateTeam_up:
  assumes "up w" and "version_at (ks w) team n" and "n < int64_max"
  shows "up (snd (InvalidateTeam c team w)) \<and>
     ks (snd (InvalidateTeam c team w)) = put (versionKey team) (FormatInt (n + 1), None) (ks w)"
  using incr_up [OF assms(1), of "versionKey team" n None] assms(2,3) client enabled
  by (auto simp: InvalidateTeam_def version_at_def counts_def)

lemma InvalidateTeam_missing:
  assumes "up w" and "live (ks w) (versionKey team) = None"
  shows "up (snd (InvalidateTeam c team w)) \<and>
     ks (snd (InvalidateTeam c team w)) = put (versionKey team) (FormatInt 1, None) (ks w)"
  using incr_up [OF assms(1), of "versionKey team" 0 None] assms(2) client enabled
  by (auto simp: InvalidateTeam_def counts_def int64_max_def)

lemma SetList_up:
  assumes "up w" and "versions_ok c (ks w)"
  shows "up (snd (SetList c team f v w)) \<and>
     (\<exists>s. versions_ok c s \<and> redis_time s = redis_time (ks w) \<and> current c s team = current c (ks w) team \<and>
        ks (snd (SetList c team f v w)) = put (cacheKey c team (current c s team) f) (v, expiry s (tc_ttl c)) s)"
proof -
  obtain w1 where gv: "getVersion c R team w = (Inr (current c (ks w) team), w1)" "up w1"
    using getVersion_up [OF assms(1)] by blast
  let ?key = "cacheKey c team (current c (ks w) team) f"
  obtain w2 where set: "redis_Set R ?key v (tc_ttl c) w1 = (Inr (), w2)" "up w2"
      "ks w2 = put ?key (v, expiry (ks w1) (tc_ttl c)) (ks w1)"
    using set_up [OF gv(2)] by blast
  have "redis_time (ks w1) = redis_time (ks w)" using getVersion_ks [OF gv(1)] by auto
  moreover have "SetList c team f v w = (Inr (), w2)"
    using gv(1) set(1) client enabled by (simp add: SetList_def)
  ultimately show ?thesis
    using set(2,3) getVersion_ok [OF assms(2) gv(1)] by (intro conjI exI [of _ "ks w1"]) simp_all
qed

lemma invalidated:
  assumes "up w" and "versions_ok c (ks w)" and "version_at (ks w) team n" and "n < int64_max"
  shows "fst (GetList c team f (snd (InvalidateTeam c team w))) = Inr None"
proof -
  let ?s = "put (versionKey team) (FormatInt (n + 1), None) (ks w)"
  note inv = InvalidateTeam_up [OF assms(1,3,4)]
  have "version_at ?s team (n + 1)" using assms(3,4) by (simp add: version_at_def)
  then have cur: "current c ?s team = n + 1" by (rule current_version)
  have "live (ks w) (cacheKey c team (n + 1) f) = None"
  proof (cases "live (ks w) (cacheKey c team (n + 1) f)")
    case (Some x)
    from versions_okD [OF assms(2) this] show ?thesis by (simp add: current_version [OF assms(3)])
  qed
  then show ?thesis using GetList_up [of "snd (InvalidateTeam c team w)" team f] inv cur
    by (simp add: value_at_def)
qed

lemma page_kept:
  assumes "up w" and "versions_ok c (ks w)" and "0 \<le> d" and "0 < tc_ttl c"
    and "up w'" and "ks w' = wait d (ks (snd (SetList c team f v w)))"
  shows "fst (GetList c team f w') = Inr (if d < tc_ttl c then Some v else None)"
proof -
  obtain s where s: "versions_ok c s" "redis_time s = redis_time (ks w)"
      "ks (snd (SetList c team f v w)) = put (cacheKey c team (current c s team) f) (v, expiry s (tc_ttl c)) s"
    using SetList_up [OF assms(1,2)] by blast
  let ?s = "put (cacheKey c team (current c s team) f) (v, expiry s (tc_ttl c)) s"
  have "current c ?s team = current c s team" by (simp add: current_def value_at_def)
  then have "current c (wait d ?s) team = current c s team"
    using current_wait [OF versions_ok_page [OF s(1)] assms(3), of team] by simp
  moreover have "value_at (wait d ?s) (cacheKey c team (current c s team) f) = (if d < tc_ttl c then Some v else None)"
    using assms(4) by (simp add: value_at_def live_def wait_def put_def expiry_def)
  ultimately show ?thesis
    using GetList_up [OF assms(5), of team f] assms(6) s(3) by simp
qed

end

section \<open>On the application's Redis\<close>

definition app_task_cache :: "duration \<Rightarrow> (string \<Rightarrow> string) \<Rightarrow> (string \<Rightarrow> int option) \<Rightarrow> 'x world_scheme TaskCache" where
  "app_task_cache ttl sha1 sscan = NewTaskCache (Some redis_client) ttl True (Some app_metrics) sha1 sscan"

lemma app_task_cache_sel [simp]:
  "tc_client (app_task_cache ttl sha1 sscan) = Some redis_client" "tc_ttl (app_task_cache ttl sha1 sscan) = ttl"
  "tc_enabled (app_task_cache ttl sha1 sscan)" "tc_metrics (app_task_cache ttl sha1 sscan) = Some app_metrics"
  by (simp_all add: app_task_cache_def NewTaskCache_def)

interpretation app_list_cache: list_cache redis redis_up redis_client "app_task_cache ttl sha1 sscan"
  by unfold_locales simp_all

text \<open>Runs of the cache's operations from an empty Redis, by any number of processes, while commands
  may be lost and time passes.\<close>

inductive cache_run :: "'x world_scheme TaskCache \<Rightarrow> 'x world_scheme \<Rightarrow> bool" for c where
  start: "(\<And>k. kv (redis w) k = None) \<Longrightarrow> cache_run c w"
| read: "cache_run c w \<Longrightarrow> cache_run c (snd (GetList c team f w))"
| store: "cache_run c w \<Longrightarrow> cache_run c (snd (SetList c team f v w))"
| invalidate: "cache_run c w \<Longrightarrow> cache_run c (snd (InvalidateTeam c team w))"
| elapse: "cache_run c w \<Longrightarrow> 0 \<le> d \<Longrightarrow> cache_run c (pass d w)"
| outage: "cache_run c w \<Longrightarrow> cache_run c (w\<lparr>redis_faults := fs\<rparr>)"

lemma cache_run_ok:
  "cache_run (app_task_cache ttl sha1 sscan) (w :: 'x world_scheme) \<Longrightarrow>
   versions_ok (app_task_cache ttl sha1 sscan :: 'x world_scheme TaskCache) (redis w)"
proof (induction rule: cache_run.induct)
  case (start w)
  then have "live (redis w) k = None" for k by (simp add: live_def)
  then show ?case by (simp add: versions_ok_def)
qed (simp_all add: app_list_cache.GetList_ok app_list_cache.SetList_ok app_list_cache.InvalidateTeam_ok versions_ok_wait)

text \<open>C35. Invalidation: in every run of the task cache's operations, with lost commands and passing
  time, once a team has a version, an invalidation that reaches Redis hides every page of the
  team stored before, for all filters.\<close>

theorem invalidation_hides_pages:
  assumes "cache_run (app_task_cache ttl sha1 sscan) w" and "redis_up w"
    and "version_at (redis w) team n" and "n < int64_max"
  shows "fst (GetList (app_task_cache ttl sha1 sscan) team f
      (snd (InvalidateTeam (app_task_cache ttl sha1 sscan) team w))) = Inr None"
  by (rule app_list_cache.invalidated [OF assms(2) cache_run_ok [OF assms(1)] assms(3,4)])

text \<open>A page is kept: what was stored is read back under the same filters until its time to live
  is over, and not after.\<close>

theorem page_read_back:
  fixes w :: "'x world_scheme"
  assumes "cache_run (app_task_cache ttl sha1 sscan) w" and "redis_up w" and "0 \<le> d" and "0 < ttl"
  shows "fst (GetList (app_task_cache ttl sha1 sscan) team f
      (pass d (snd (SetList (app_task_cache ttl sha1 sscan) team f v w)))) = Inr (if d < ttl then Some v else None)"
proof -
  have ok: "versions_ok (app_task_cache ttl sha1 sscan :: 'x world_scheme TaskCache) (redis w)" by (rule cache_run_ok [OF assms(1)])
  have "redis_up (pass d (snd (SetList (app_task_cache ttl sha1 sscan) team f v w)))"
    using app_list_cache.SetList_up [OF assms(2) ok] by simp
  from app_list_cache.page_kept [OF assms(2) ok assms(3) _ this] assms(4) show ?thesis by simp
qed

text \<open>C37. A lost version defeats invalidation: while a team has no version key (its \<open>SETNX\<close> was lost; the
  error is ignored), pages are stored under version 1, and the next invalidation creates
  exactly version 1: pages from before the write go on being served.\<close>

theorem lost_version_keeps_pages:
  fixes w :: "'x world_scheme"
  assumes "redis_up w" and "live (redis w) (versionKey team) = None"
    and "live (redis w) (cacheKey (app_task_cache ttl sha1 sscan :: 'x world_scheme TaskCache) team 1 f) = Some (body, e)"
  shows "fst (GetList (app_task_cache ttl sha1 sscan) team f
      (snd (InvalidateTeam (app_task_cache ttl sha1 sscan) team w))) = Inr (Some body)"
proof -
  let ?c = "app_task_cache ttl sha1 sscan :: 'x world_scheme TaskCache" and ?s = "put (versionKey team) (FormatInt 1, None) (redis w)"
  note inv = app_list_cache.InvalidateTeam_missing [OF assms(1,2), of ttl sha1 sscan]
  have "version_at ?s team 1" by (simp add: version_at_def int64_max_def)
  then have "current ?c ?s team = 1" by (rule current_version)
  then show ?thesis
    using app_list_cache.GetList_up [of "snd (InvalidateTeam ?c team w)" ttl sha1 sscan team f] inv assms(3)
    by (simp add: value_at_def)
qed

text \<open>A first listing stores its page; it creates the version, or loses it.\<close>

abbreviation sample_tc :: "world TaskCache" where
  "sample_tc \<equiv> app_task_cache minute (\<lambda>s. s) (\<lambda>_. None)"

definition sample_listed :: world where
  "sample_listed = snd (SetList sample_tc 1 [(''limit'', ''20'')] ''page'' sample_world)"

definition sample_unversioned :: world where
  "sample_unversioned = snd (SetList sample_tc 1 [(''limit'', ''20'')] ''page''
     (sample_world\<lparr>redis_faults := [None, Some (OtherError ''timeout'')]\<rparr>))"

lemma sample_cache_run: "cache_run sample_tc sample_world" "cache_run sample_tc sample_listed"
proof -
  show "cache_run sample_tc sample_world"
    by (rule cache_run.start) (simp add: sample_world_def dbw.defs sample_def)
  then show "cache_run sample_tc sample_listed" unfolding sample_listed_def by (rule cache_run.store)
qed

theorem invalidation_hides_pages_witness:
  "fst (GetList sample_tc 1 [(''limit'', ''20'')] sample_listed) = Inr (Some ''page'') \<and>
   fst (GetList sample_tc 1 [(''limit'', ''20'')] (snd (InvalidateTeam sample_tc 1 sample_listed))) = Inr None"
proof -
  have "redis_up sample_listed" "version_at (redis sample_listed) 1 1" by code_simp+
  moreover have "fst (GetList sample_tc 1 [(''limit'', ''20'')] sample_listed) = Inr (Some ''page'')" by code_simp
  ultimately show ?thesis
    using invalidation_hides_pages [OF sample_cache_run(2)] by (simp add: int64_max_def)
qed

theorem page_read_back_witness:
  "fst (GetList sample_tc 1 [(''limit'', ''20'')] (pass second sample_listed)) = Inr (Some ''page'')"
proof -
  have "redis_up sample_world" by code_simp
  from page_read_back [OF sample_cache_run(1) this, of second 1 "[(''limit'', ''20'')]" "''page''"]
  show ?thesis by (simp add: sample_listed_def second_def minute_def)
qed

theorem lost_version_keeps_pages_witness:
  "fst (GetList sample_tc 1 [(''limit'', ''20'')] (snd (InvalidateTeam sample_tc 1 sample_unversioned))) = Inr (Some ''page'')"
proof -
  have "redis_up sample_unversioned" "live (redis sample_unversioned) (versionKey 1) = None" by code_simp+
  moreover have "map_option fst (live (redis sample_unversioned) (cacheKey sample_tc 1 1 [(''limit'', ''20'')])) = Some ''page''"
    by code_simp
  then obtain e where "live (redis sample_unversioned) (cacheKey sample_tc 1 1 [(''limit'', ''20'')]) = Some (''page'', e)"
    by auto
  ultimately show ?thesis by (rule lost_version_keeps_pages)
qed

end
