(* ===== verification/SampleJson.thy ===== *)
theory SampleJson
  imports Stats
begin

text \<open>
  A small self-delimiting text format for JSON values, with its decoder: an instance of the
  library that writes and reads every value back, on which properties are evaluated.
\<close>

fun quote :: "string \<Rightarrow> string" where
  "quote [] = ''.''"
| "quote (c # s) = CHR ''-'' # c # quote s"

fun unquote :: "string \<Rightarrow> (string \<times> string) option" where
  "unquote (a # s) =
     (if a = CHR ''.'' then Some ([], s)
      else case s of
        c # t \<Rightarrow> map_option (\<lambda>(x, r). (c # x, r)) (unquote t)
      | [] \<Rightarrow> None)"
| "unquote [] = None"

fun text_of :: "json \<Rightarrow> string" where
  "text_of JNull = ''n''"
| "text_of (JBool b) = (if b then ''t'' else ''f'')"
| "text_of (JNum s) = CHR ''#'' # quote s"
| "text_of (JStr s) = CHR ''s'' # quote s"
| "text_of (JArr xs) = CHR ''['' # concat (map text_of xs) @ '']''"
| "text_of (JObj kvs) = CHR ''{'' # concat (map (\<lambda>(k, v). quote k @ text_of v) kvs) @ ''}''"

fun read_value :: "nat \<Rightarrow> string \<Rightarrow> (json \<times> string) option"
and read_array :: "nat \<Rightarrow> string \<Rightarrow> (json list \<times> string) option"
and read_object :: "nat \<Rightarrow> string \<Rightarrow> ((string \<times> json) list \<times> string) option" where
  "read_value (Suc n) (c # s) =
     (if c = CHR ''n'' then Some (JNull, s)
      else if c = CHR ''t'' then Some (JBool True, s)
      else if c = CHR ''f'' then Some (JBool False, s)
      else if c = CHR ''#'' then map_option (\<lambda>(x, r). (JNum x, r)) (unquote s)
      else if c = CHR ''s'' then map_option (\<lambda>(x, r). (JStr x, r)) (unquote s)
      else if c = CHR ''['' then map_option (\<lambda>(x, r). (JArr x, r)) (read_array n s)
      else if c = CHR ''{'' then map_option (\<lambda>(x, r). (JObj x, r)) (read_object n s)
      else None)"
| "read_value _ _ = None"
| "read_array (Suc n) (c # s) =
     (if c = CHR '']'' then Some ([], s)
      else case read_value n (c # s) of
        None \<Rightarrow> None
      | Some (v, r) \<Rightarrow> map_option (\<lambda>(vs, r'). (v # vs, r')) (read_array n r))"
| "read_array _ _ = None"
| "read_object (Suc n) (c # s) =
     (if c = CHR ''}'' then Some ([], s)
      else case unquote (c # s) of
        None \<Rightarrow> None
      | Some (k, r) \<Rightarrow>
          (case read_value n r of
             None \<Rightarrow> None
           | Some (v, r') \<Rightarrow> map_option (\<lambda>(kvs, q). ((k, v) # kvs, q)) (read_object n r')))"
| "read_object _ _ = None"

lemma unquote_quote: "unquote (quote x @ r) = Some (x, r)"
  by (induction x) simp_all

lemma quote_hd: "\<exists>s. quote x @ r = CHR ''.'' # s \<or> quote x @ r = CHR ''-'' # s"
  by (cases x) auto

lemma text_of_hd: "\<exists>c s. text_of v = c # s \<and> c \<noteq> CHR '']''"
  by (cases v) auto

lemma read_array_ok:
  assumes "\<And>x n r. x \<in> set xs \<Longrightarrow> length (text_of x) \<le> n \<Longrightarrow> read_value n (text_of x @ r) = Some (x, r)"
    and "length (concat (map text_of xs)) < n"
  shows "read_array n (concat (map text_of xs) @ CHR '']'' # r) = Some (xs, r)"
  using assms
proof (induction xs arbitrary: n)
  case Nil
  then show ?case by (cases n) auto
next
  case (Cons x xs)
  then obtain n' where n: "n = Suc n'" by (cases n) auto
  obtain c s where hd: "text_of x = c # s" "c \<noteq> CHR '']''" using text_of_hd [of x] by blast
  let ?rest = "concat (map text_of xs) @ CHR '']'' # r"
  have "read_value n' (text_of x @ ?rest) = Some (x, ?rest)" using Cons.prems n by simp
  moreover have "read_array n' ?rest = Some (xs, r)" using Cons.prems n hd by (intro Cons.IH) auto
  ultimately show ?case using n hd by simp
qed

lemma read_object_ok:
  assumes "\<And>k x n r. (k, x) \<in> set kvs \<Longrightarrow> length (text_of x) \<le> n \<Longrightarrow> read_value n (text_of x @ r) = Some (x, r)"
    and "length (concat (map (\<lambda>(k, v). quote k @ text_of v) kvs)) < n"
  shows "read_object n (concat (map (\<lambda>(k, v). quote k @ text_of v) kvs) @ CHR ''}'' # r) = Some (kvs, r)"
  using assms
proof (induction kvs arbitrary: n)
  case Nil
  then show ?case by (cases n) auto
next
  case (Cons kv kvs)
  then obtain n' where n: "n = Suc n'" by (cases n) auto
  obtain k x where kv: "kv = (k, x)" by (cases kv)
  let ?rest = "concat (map (\<lambda>(k, v). quote k @ text_of v) kvs) @ CHR ''}'' # r"
  have "read_value n' (text_of x @ ?rest) = Some (x, ?rest)"
    by (rule Cons.prems(1) [of k]) (use Cons.prems(2) n kv in auto)
  moreover have "read_object n' ?rest = Some (kvs, r)"
    by (rule Cons.IH) (use Cons.prems n kv text_of_hd [of x] in auto)
  ultimately show ?case
    using n kv quote_hd [of k "text_of x @ ?rest"] unquote_quote [of k "text_of x @ ?rest"] by (auto split: if_splits)
qed

lemma read_value_text: "length (text_of v) \<le> n \<Longrightarrow> read_value n (text_of v @ r) = Some (v, r)"
proof (induction v arbitrary: n r)
  case (JNum x)
  then show ?case by (cases n) (simp_all add: unquote_quote)
next
  case (JStr x)
  then show ?case by (cases n) (simp_all add: unquote_quote)
next
  case JNull
  then show ?case by (cases n) simp_all
next
  case (JBool b)
  then show ?case by (cases n; cases b) simp_all
next
  case (JArr xs)
  then show ?case using read_array_ok [of xs "n - 1" r] by (cases n) auto
next
  case (JObj kvs)
  have "read_value m (text_of x @ q) = Some (x, q)" if "(k, x) \<in> set kvs" "length (text_of x) \<le> m" for k x m q
    using JObj.IH [of "(k, x)" x] that by simp
  with JObj.prems show ?case using read_object_ok [of kvs "n - 1" r] by (cases n) auto
qed

definition text_json :: jsonlib where
  "text_json =
     \<lparr>json_Decode = (\<lambda>s. map_option fst (read_value (length s) s)),
      json_Unmarshal = (\<lambda>s. case read_value (length s) s of Some (v, []) \<Rightarrow> Some v | _ \<Rightarrow> None),
      json_Encode = text_of, json_Any = (\<lambda>v. v), json_Fold = (\<lambda>s. s)\<rparr>"

lemma text_json_faithful: "json_faithful text_json v" "json_Decode text_json (text_of v) = Some v"
  using read_value_text [of v "length (text_of v)" "[]"] by (simp_all add: json_faithful_def text_json_def)

end
