(* ===== verification/TaskHandlers.thy ===== *)
theory TaskHandlers
  imports Http GoTime TaskCache TaskService TeamService
begin

text \<open>
  \<open>internal/api/tasks.go\<close>, \<open>comments.go\<close> and \<open>teams.go\<close>: from a request to the calls of the
  services, the cache and the response. The timeout of five seconds that every handler sets
  is a deadline of the calls below, which then return errors.
\<close>

section \<open>Tasks\<close>

record 'w TaskHandler =
  th_tasks :: "'w TaskService"
  th_teams :: "'w TeamService"
  th_cache :: "'w taskCache option"
  th_json :: jsonlib

definition NewTaskHandler :: "'w TaskService \<Rightarrow> 'w TeamService \<Rightarrow> 'w taskCache option \<Rightarrow> jsonlib \<Rightarrow> 'w TaskHandler" where
  "NewTaskHandler ts tms c L = \<lparr>th_tasks = ts, th_teams = tms, th_cache = c, th_json = L\<rparr>"

record createTaskRequest =
  ctr_TeamID :: int
  ctr_Title :: string
  ctr_Description :: string
  ctr_Status :: string
  ctr_Priority :: string
  ctr_AssigneeID :: "int option"
  ctr_DueDate :: "string option"

definition decodeCreateTask :: "jsonlib \<Rightarrow> http_request \<Rightarrow> createTaskRequest option" where
  "decodeCreateTask L r =
     Option.bind (decodeJSON L [''team_id'', ''title'', ''description'', ''status'', ''priority'', ''assignee_id'', ''due_date''] r) (\<lambda>ms.
     Option.bind (fill_int64 ''team_id'' 0 ms) (\<lambda>team.
     Option.bind (fill_string ''title'' [] ms) (\<lambda>title.
     Option.bind (fill_string ''description'' [] ms) (\<lambda>desc.
     Option.bind (fill_string ''status'' [] ms) (\<lambda>status.
     Option.bind (fill_string ''priority'' [] ms) (\<lambda>prio.
     Option.bind (fill_int64_ptr ''assignee_id'' None ms) (\<lambda>assignee.
     Option.bind (fill_string_ptr ''due_date'' None ms) (\<lambda>due.
     Some \<lparr>ctr_TeamID = team, ctr_Title = title, ctr_Description = desc, ctr_Status = status,
           ctr_Priority = prio, ctr_AssigneeID = assignee, ctr_DueDate = due\<rparr>))))))))"

text \<open>\<open>if h.cache != nil { _ = h.cache.InvalidateTeam(ctx, teamID) }\<close>, then the response.\<close>

definition invalidate_then :: "'w TaskHandler \<Rightarrow> int \<Rightarrow> http_response \<Rightarrow> 'w \<Rightarrow> http_response \<times> 'w" where
  "invalidate_then h teamID resp w =
     (case th_cache h of
        None \<Rightarrow> (resp, w)
      | Some c \<Rightarrow> (resp, snd (taskCache_InvalidateTeam c teamID w)))"

definition TaskHandler_Create :: "'w TaskHandler \<Rightarrow> 'w handler" where
  "TaskHandler_Create h r =
     (let L = th_json h in
      with_user L r (\<lambda>userID.
      case decodeCreateTask L r of
        None \<Rightarrow> reply (badRequest L)
      | Some req \<Rightarrow>
          if ctr_TeamID req \<le> 0 \<or> TrimSpace (ctr_Title req) = [] then reply (badRequest L)
          else
            (case (case ctr_DueDate req of None \<Rightarrow> Some None | Some s \<Rightarrow> map_option Some (ParseDate s)) of
               None \<Rightarrow> reply (badRequest L)
             | Some due \<Rightarrow>
                 answer L (CreateTask (th_tasks h) userID
                   \<lparr>CTI_TeamID = ctr_TeamID req, CTI_Title = TrimSpace (ctr_Title req),
                    CTI_Description = ctr_Description req, CTI_Status = TrimSpace (ctr_Status req),
                    CTI_Priority = TrimSpace (ctr_Priority req), CTI_AssigneeID = ctr_AssigneeID req,
                    CTI_DueDate = due\<rparr>)
                   (\<lambda>i. invalidate_then h (ctr_TeamID req) (response_JSON L 201 (createdOK i))))))"

text \<open>A field with \<open>omitempty\<close> is left out when its pointer is \<open>nil\<close>.\<close>

definition opt_member :: "string \<Rightarrow> ('a \<Rightarrow> json) \<Rightarrow> 'a option \<Rightarrow> (string \<times> json) list" where
  "opt_member k f x = (case x of None \<Rightarrow> [] | Some v \<Rightarrow> [(k, f v)])"

definition json_of_int :: "int \<Rightarrow> json" where
  "json_of_int i = JNum (FormatInt i)"

record taskResponse =
  tr_ID :: int
  tr_TeamID :: int
  tr_Title :: string
  tr_Description :: "string option"
  tr_Status :: string
  tr_Priority :: string
  tr_AssigneeID :: "int option"
  tr_CreatedBy :: "int option"
  tr_DueDate :: "string option"
  tr_CreatedAt :: string
  tr_UpdatedAt :: string

text \<open>The JSON of a struct by its field tags.\<close>

definition taskResponse_json :: "taskResponse \<Rightarrow> json" where
  "taskResponse_json x = JObj
     ([(''id'', json_of_int (tr_ID x)), (''team_id'', json_of_int (tr_TeamID x)), (''title'', JStr (tr_Title x))] @
      opt_member ''description'' JStr (tr_Description x) @
      [(''status'', JStr (tr_Status x)), (''priority'', JStr (tr_Priority x))] @
      opt_member ''assignee_id'' json_of_int (tr_AssigneeID x) @
      opt_member ''created_by'' json_of_int (tr_CreatedBy x) @
      opt_member ''due_date'' JStr (tr_DueDate x) @
      [(''created_at'', JStr (tr_CreatedAt x)), (''updated_at'', JStr (tr_UpdatedAt x))])"

definition toTaskResponse :: "Task \<Rightarrow> taskResponse" where
  "toTaskResponse t =
     \<lparr>tr_ID = Task_ID t, tr_TeamID = Task_TeamID t, tr_Title = Task_Title t, tr_Description = Task_Description t,
      tr_Status = Task_Status t, tr_Priority = Task_Priority t, tr_AssigneeID = Task_AssigneeID t,
      tr_CreatedBy = Task_CreatedBy t, tr_DueDate = map_option FormatDate (Task_DueDate t),
      tr_CreatedAt = FormatRFC3339Nano (Task_CreatedAt t), tr_UpdatedAt = FormatRFC3339Nano (Task_UpdatedAt t)\<rparr>"

definition listTasksResponse :: "Task list \<Rightarrow> int \<Rightarrow> int \<Rightarrow> int \<Rightarrow> json" where
  "listTasksResponse items n limit offset = JObj
     [(''items'', JArr (map (taskResponse_json \<circ> toTaskResponse) items)), (''total'', json_of_int n),
      (''limit'', json_of_int limit), (''offset'', json_of_int offset)]"

text \<open>The end of \<open>List\<close>: the page that was read is stored in the cache, under the version that the cache finds by then, and sent.\<close>

definition storeList ::
    "'w TaskHandler \<Rightarrow> int \<Rightarrow> int \<Rightarrow> int \<Rightarrow> (string \<times> string) list \<Rightarrow> Task list \<times> int \<Rightarrow> 'w \<Rightarrow> http_response \<times> 'w" where
  "storeList h teamID limit offset filters res w =
     (case res of (items, n) \<Rightarrow>
        let val = json_Encode (th_json h) (listTasksResponse items n limit offset)
        in (writeJSONBytes 200 val,
            case th_cache h of None \<Rightarrow> w | Some c \<Rightarrow> snd (taskCache_SetList c teamID filters val w)))"

text \<open>The part of \<open>List\<close> after the lookup in the cache.\<close>

definition listUncached ::
    "'w TaskHandler \<Rightarrow> int \<Rightarrow> int \<Rightarrow> int \<Rightarrow> int \<Rightarrow> (string \<times> string) list \<Rightarrow> 'w handler" where
  "listUncached h userID teamID limit offset filters r =
     (let L = th_json h;
          status = TrimSpace (query_Get r ''status'');
          assignee = TrimSpace (query_Get r ''assignee_id'')
      in case (if assignee = [] then Some None else map_option Some (ParseInt assignee)) of
           None \<Rightarrow> reply (badRequest L)
         | Some assigneeID \<Rightarrow>
             answer L (ListTasks (th_tasks h) userID
               \<lparr>TLI_TeamID = teamID, TLI_Status = (if status = [] then None else Some status),
                TLI_AssigneeID = assigneeID, TLI_Limit = limit, TLI_Offset = offset\<rparr>)
               (storeList h teamID limit offset filters))"

definition listFilters :: "http_request \<Rightarrow> int \<Rightarrow> int \<Rightarrow> (string \<times> string) list" where
  "listFilters r limit offset =
     [(''status'', query_Get r ''status''), (''assignee_id'', query_Get r ''assignee_id''),
      (''limit'', FormatInt limit), (''offset'', FormatInt offset)]"

definition TaskHandler_List :: "'w TaskHandler \<Rightarrow> 'w handler" where
  "TaskHandler_List h r =
     (let L = th_json h in
      with_user L r (\<lambda>userID.
      case ParseInt (query_Get r ''team_id'') of
        None \<Rightarrow> reply (badRequest L)
      | Some teamID \<Rightarrow>
          if teamID \<le> 0 then reply (badRequest L)
          else answer L (EnsureMemberRole (th_teams h) teamID userID) (\<lambda>_.
            let n = parseQueryInt (query_Get r ''limit'') 20;
                limit = (if n > 100 then 100 else n);
                offset = parseQueryInt (query_Get r ''offset'') 0;
                filters = listFilters r limit offset
            in case th_cache h of
                 None \<Rightarrow> listUncached h userID teamID limit offset filters r
               | Some c \<Rightarrow>
                   bindR (taskCache_GetList c teamID filters) (\<lambda>res.
                   case res of
                     Inr (Some val) \<Rightarrow> reply (writeJSONBytes 200 val)
                   | _ \<Rightarrow> listUncached h userID teamID limit offset filters r))))"

definition TaskHandler_Get :: "'w TaskHandler \<Rightarrow> 'w handler" where
  "TaskHandler_Get h r =
     (let L = th_json h in
      with_user L r (\<lambda>userID. with_id L r (\<lambda>taskID.
      answer L (GetTask (th_tasks h) userID taskID) (\<lambda>task. reply (response_JSON L 200 (taskResponse_json (toTaskResponse task)))))))"

text \<open>A body that is \<open>null\<close> or an empty object leaves the map empty; a later member replaces an
  earlier one of the same name.\<close>

fun last_wins :: "(string \<times> json) list \<Rightarrow> (string \<times> json) list" where
  "last_wins [] = []"
| "last_wins ((k, v) # kvs) = (if List.member (map fst kvs) k then last_wins kvs else (k, v) # last_wins kvs)"

definition decodePatch :: "jsonlib \<Rightarrow> http_request \<Rightarrow> (string \<times> json) list option" where
  "decodePatch L r =
     (case json_Decode L (req_Body r) of
        Some (JObj kvs) \<Rightarrow> Some (last_wins kvs)
      | Some JNull \<Rightarrow> Some []
      | _ \<Rightarrow> None)"

definition TaskHandler_Update :: "'w TaskHandler \<Rightarrow> 'w handler" where
  "TaskHandler_Update h r =
     (let L = th_json h in
      with_user L r (\<lambda>userID. with_id L r (\<lambda>taskID.
      case decodePatch L r of
        None \<Rightarrow> reply (badRequest L)
      | Some raw \<Rightarrow>
          if raw = [] then reply (badRequest L)
          else answer L (UpdateTask (th_tasks h) userID taskID raw) (\<lambda>teamID.
            invalidate_then h teamID (response_JSON L 200 statusOK)))))"

definition TaskHandler_Delete :: "'w TaskHandler \<Rightarrow> 'w handler" where
  "TaskHandler_Delete h r =
     (let L = th_json h in
      with_user L r (\<lambda>userID. with_id L r (\<lambda>taskID.
      answer L (DeleteTask (th_tasks h) userID taskID) (\<lambda>teamID.
      invalidate_then h teamID (response_JSON L 200 statusOK)))))"

record taskHistoryItemResponse =
  thr_ID :: int
  thr_TaskID :: int
  thr_ChangedBy :: "int option"
  thr_FieldName :: string
  thr_OldValue :: "json option"
  thr_NewValue :: "json option"
  thr_CreatedAt :: string

definition taskHistoryItemResponse_json :: "taskHistoryItemResponse \<Rightarrow> json" where
  "taskHistoryItemResponse_json x = JObj
     ([(''id'', json_of_int (thr_ID x)), (''task_id'', json_of_int (thr_TaskID x))] @
      opt_member ''changed_by'' json_of_int (thr_ChangedBy x) @
      [(''field_name'', JStr (thr_FieldName x))] @
      opt_member ''old_value'' id (thr_OldValue x) @
      opt_member ''new_value'' id (thr_NewValue x) @
      [(''created_at'', JStr (thr_CreatedAt x))])"

definition listTaskHistoryResponse :: "taskHistoryItemResponse list \<Rightarrow> int \<Rightarrow> int \<Rightarrow> int \<Rightarrow> json" where
  "listTaskHistoryResponse items n limit offset = JObj
     [(''items'', JArr (map taskHistoryItemResponse_json items)), (''total'', json_of_int n),
      (''limit'', json_of_int limit), (''offset'', json_of_int offset)]"

text \<open>A value of the history goes through \<open>any\<close>; \<open>null\<close> becomes \<open>nil\<close>.\<close>

definition history_value :: "jsonlib \<Rightarrow> json option \<Rightarrow> json option" where
  "history_value L x = (case x of None \<Rightarrow> None | Some v \<Rightarrow> if v = JNull then None else Some (json_Any L v))"

definition toTaskHistoryResponse :: "jsonlib \<Rightarrow> TaskHistory \<Rightarrow> taskHistoryItemResponse" where
  "toTaskHistoryResponse L x =
     \<lparr>thr_ID = TaskHistory_ID x, thr_TaskID = TaskHistory_TaskID x, thr_ChangedBy = TaskHistory_ChangedBy x,
      thr_FieldName = TaskHistory_FieldName x, thr_OldValue = history_value L (TaskHistory_OldValue x),
      thr_NewValue = history_value L (TaskHistory_NewValue x), thr_CreatedAt = FormatRFC3339Nano (TaskHistory_CreatedAt x)\<rparr>"

definition TaskHandler_History :: "'w TaskHandler \<Rightarrow> 'w handler" where
  "TaskHandler_History h r =
     (let L = th_json h in
      with_user L r (\<lambda>userID. with_id L r (\<lambda>taskID.
      case parseStrictPositiveInt (query_Get r ''limit'') 20 100 of
        None \<Rightarrow> reply (badRequest L)
      | Some limit \<Rightarrow>
          (case parseStrictNonNegativeInt (query_Get r ''offset'') 0 of
             None \<Rightarrow> reply (badRequest L)
           | Some offset \<Rightarrow>
               answer L (GetTaskHistory (th_tasks h) userID taskID limit offset) (\<lambda>(items, n).
               reply (response_JSON L 200 (listTaskHistoryResponse (map (toTaskHistoryResponse L) items) n limit offset)))))))"

section \<open>Comments\<close>

record 'w CommentHandler =
  ch_tasks :: "'w TaskService"
  ch_json :: jsonlib

definition NewCommentHandler :: "'w TaskService \<Rightarrow> jsonlib \<Rightarrow> 'w CommentHandler" where
  "NewCommentHandler ts L = \<lparr>ch_tasks = ts, ch_json = L\<rparr>"

text \<open>The body of a \<open>commentRequest\<close> without surrounding space, where there is one.\<close>

definition decodeComment :: "jsonlib \<Rightarrow> http_request \<Rightarrow> string option" where
  "decodeComment L r =
     Option.bind (decodeJSON L [''body''] r) (\<lambda>ms.
     Option.bind (fill_string ''body'' [] ms) (\<lambda>body.
     if TrimSpace body = [] then None else Some (TrimSpace body)))"

definition CommentHandler_Create :: "'w CommentHandler \<Rightarrow> 'w handler" where
  "CommentHandler_Create h r =
     (let L = ch_json h in
      with_user L r (\<lambda>userID. with_id L r (\<lambda>taskID.
      case decodeComment L r of
        None \<Rightarrow> reply (badRequest L)
      | Some body \<Rightarrow>
          answer L (CreateComment (ch_tasks h) userID taskID body) (\<lambda>i.
          reply (response_JSON L 201 (createdOK i))))))"

definition commentResponse :: "TaskComment \<Rightarrow> json" where
  "commentResponse c = JObj
     [(''id'', json_of_int (TaskComment_ID c)), (''task_id'', json_of_int (TaskComment_TaskID c)),
      (''user_id'', json_of_int (TaskComment_UserID c)), (''body'', JStr (TaskComment_Body c)),
      (''created_at'', JStr (FormatRFC3339Nano (TaskComment_CreatedAt c))),
      (''updated_at'', JStr (FormatRFC3339Nano (TaskComment_UpdatedAt c)))]"

definition CommentHandler_ListByTask :: "'w CommentHandler \<Rightarrow> 'w handler" where
  "CommentHandler_ListByTask h r =
     (let L = ch_json h in
      with_user L r (\<lambda>userID. with_id L r (\<lambda>taskID.
      answer L (ListComments (ch_tasks h) userID taskID) (\<lambda>items.
      reply (response_JSON L 200 (JObj [(''comments'', JArr (map commentResponse items))]))))))"

definition CommentHandler_Update :: "'w CommentHandler \<Rightarrow> 'w handler" where
  "CommentHandler_Update h r =
     (let L = ch_json h in
      with_user L r (\<lambda>userID. with_id L r (\<lambda>commentID.
      case decodeComment L r of
        None \<Rightarrow> reply (badRequest L)
      | Some body \<Rightarrow>
          answer L (UpdateComment (ch_tasks h) userID commentID body) (\<lambda>_.
          reply (response_JSON L 200 statusOK)))))"

definition CommentHandler_Delete :: "'w CommentHandler \<Rightarrow> 'w handler" where
  "CommentHandler_Delete h r =
     (let L = ch_json h in
      with_user L r (\<lambda>userID. with_id L r (\<lambda>commentID.
      answer L (DeleteComment (ch_tasks h) userID commentID) (\<lambda>_.
      reply (response_JSON L 200 statusOK)))))"

section \<open>Teams\<close>

record 'w TeamHandler =
  tmh_teams :: "'w TeamService"
  tmh_json :: jsonlib

definition NewTeamHandler :: "'w TeamService \<Rightarrow> jsonlib \<Rightarrow> 'w TeamHandler" where
  "NewTeamHandler tms L = \<lparr>tmh_teams = tms, tmh_json = L\<rparr>"

definition decodeCreateTeam :: "jsonlib \<Rightarrow> http_request \<Rightarrow> string option" where
  "decodeCreateTeam L r = Option.bind (decodeJSON L [''name''] r) (fill_string ''name'' [])"

definition teamResponse :: "Team \<Rightarrow> json" where
  "teamResponse t = JObj [(''id'', json_of_int (Team_ID t)), (''name'', JStr (Team_Name t))]"

definition TeamHandler_Create :: "'w TeamHandler \<Rightarrow> 'w handler" where
  "TeamHandler_Create h r =
     (let L = tmh_json h in
      with_user L r (\<lambda>userID.
      case decodeCreateTeam L r of
        None \<Rightarrow> reply (badRequest L)
      | Some name \<Rightarrow>
          if TrimSpace name = [] then reply (badRequest L)
          else answer L (CreateTeam (tmh_teams h) userID (TrimSpace name)) (\<lambda>i.
            reply (response_JSON L 201 (createdOK i)))))"

definition TeamHandler_List :: "'w TeamHandler \<Rightarrow> 'w handler" where
  "TeamHandler_List h r =
     (let L = tmh_json h in
      with_user L r (\<lambda>userID.
      bindR (ListTeams (tmh_teams h) userID) (\<lambda>res.
      case res of
        Inl _ \<Rightarrow> reply (response_Error L 500 ''internal error'')
      | Inr items \<Rightarrow>
          reply (response_JSON L 200 (JObj [(''teams'', JArr (map teamResponse items))])))))"

definition decodeInvite :: "jsonlib \<Rightarrow> http_request \<Rightarrow> (string \<times> string) option" where
  "decodeInvite L r =
     Option.bind (decodeJSON L [''email'', ''role''] r) (\<lambda>ms.
     Option.bind (fill_string ''email'' [] ms) (\<lambda>email.
     Option.bind (fill_string ''role'' [] ms) (\<lambda>role. Some (email, role))))"

definition TeamHandler_Invite :: "'w TeamHandler \<Rightarrow> 'w handler" where
  "TeamHandler_Invite h r =
     (let L = tmh_json h in
      with_user L r (\<lambda>userID. with_id L r (\<lambda>teamID.
      case decodeInvite L r of
        None \<Rightarrow> reply (badRequest L)
      | Some (e, ro) \<Rightarrow>
          let email = TrimSpace e; role = (if TrimSpace ro = [] then RoleMember else TrimSpace ro)
          in if email = [] then reply (badRequest L)
             else if role \<noteq> RoleMember \<and> role \<noteq> RoleAdmin then reply (badRequest L)
             else answer L (InviteByEmail (tmh_teams h) userID teamID email role) (\<lambda>_.
               reply (response_JSON L 200 statusOK)))))"

lemma distinct_last_wins: "distinct (map fst (last_wins kvs))"
proof -
  have "fst ` set (last_wins kvs) \<subseteq> fst ` set kvs" for kvs :: "(string \<times> json) list"
    by (induction kvs rule: last_wins.induct) auto
  then show ?thesis by (induction kvs rule: last_wins.induct) auto
qed

end
