(* ===== verification/StatsAuthHandlers.thy ===== *)
theory StatsAuthHandlers
  imports TaskHandlers Stats AuthService LoginGuard
begin

text \<open>
  \<open>internal/api/stats.go\<close> and \<open>internal/api/auth.go\<close>.
\<close>

section \<open>Statistics\<close>

record 'w StatsHandler =
  sth_stats :: "'w StatsService"
  sth_json :: jsonlib

definition NewStatsHandler :: "'w StatsService \<Rightarrow> jsonlib \<Rightarrow> 'w StatsHandler" where
  "NewStatsHandler s L = \<lparr>sth_stats = s, sth_json = L\<rparr>"

definition parseFromToUTC :: "http_request \<Rightarrow> (time \<times> time) option" where
  "parseFromToUTC r =
     (let fromStr = query_Get r ''from''; toStr = query_Get r ''to''
      in if fromStr = [] \<or> toStr = [] then None
         else case parseRFC3339UTC fromStr of
           None \<Rightarrow> None
         | Some fr \<Rightarrow> (case parseRFC3339UTC toStr of None \<Rightarrow> None | Some un \<Rightarrow> Some (fr, un)))"

record teamDoneStatResponse =
  dsr_TeamID :: int
  dsr_TeamName :: string
  dsr_MembersCount :: int
  dsr_DoneCount :: int

definition teamDoneStatResponse_json :: "teamDoneStatResponse \<Rightarrow> json" where
  "teamDoneStatResponse_json x = JObj
     [(''team_id'', json_of_int (dsr_TeamID x)), (''team_name'', JStr (dsr_TeamName x)),
      (''members_count'', json_of_int (dsr_MembersCount x)), (''done_count'', json_of_int (dsr_DoneCount x))]"

definition teamDoneStatsResponse :: "teamDoneStatResponse list \<Rightarrow> json" where
  "teamDoneStatsResponse items = JObj [(''items'', JArr (map teamDoneStatResponse_json items))]"

record teamTopCreatorResponse =
  tcr_TeamID :: int
  tcr_UserID :: int
  tcr_CreatedCount :: int
  tcr_Rank :: int

definition teamTopCreatorResponse_json :: "teamTopCreatorResponse \<Rightarrow> json" where
  "teamTopCreatorResponse_json x = JObj
     [(''team_id'', json_of_int (tcr_TeamID x)), (''user_id'', json_of_int (tcr_UserID x)),
      (''created_count'', json_of_int (tcr_CreatedCount x)), (''rank'', json_of_int (tcr_Rank x))]"

definition teamTopCreatorsResponse :: "teamTopCreatorResponse list \<Rightarrow> json" where
  "teamTopCreatorsResponse items = JObj [(''items'', JArr (map teamTopCreatorResponse_json items))]"

record taskIntegrityIssueResponse =
  tir_TaskID :: int
  tir_TeamID :: int
  tir_AssigneeID :: int

definition taskIntegrityIssueResponse_json :: "taskIntegrityIssueResponse \<Rightarrow> json" where
  "taskIntegrityIssueResponse_json x = JObj
     [(''task_id'', json_of_int (tir_TaskID x)), (''team_id'', json_of_int (tir_TeamID x)),
      (''assignee_id'', json_of_int (tir_AssigneeID x))]"

definition taskIntegrityResponse :: "taskIntegrityIssueResponse list \<Rightarrow> json" where
  "taskIntegrityResponse items = JObj [(''items'', JArr (map taskIntegrityIssueResponse_json items))]"

definition toTeamDoneStatResponse :: "TeamDoneStat \<Rightarrow> teamDoneStatResponse" where
  "toTeamDoneStatResponse s =
     \<lparr>dsr_TeamID = Done_TeamID s, dsr_TeamName = Done_TeamName s, dsr_MembersCount = Done_MembersCount s, dsr_DoneCount = Done_DoneCount s\<rparr>"

definition toTeamTopCreatorResponse :: "TeamTopCreator \<Rightarrow> teamTopCreatorResponse" where
  "toTeamTopCreatorResponse s =
     \<lparr>tcr_TeamID = Top_TeamID s, tcr_UserID = Top_UserID s, tcr_CreatedCount = Top_CreatedCount s, tcr_Rank = Top_Rank s\<rparr>"

definition toTaskIntegrityResponse :: "TaskIntegrityIssue \<Rightarrow> taskIntegrityIssueResponse" where
  "toTaskIntegrityResponse s = \<lparr>tir_TaskID = Issue_TaskID s, tir_TeamID = Issue_TeamID s, tir_AssigneeID = Issue_AssigneeID s\<rparr>"

definition StatsHandler_TeamDoneStats :: "'w StatsHandler \<Rightarrow> 'w handler" where
  "StatsHandler_TeamDoneStats h r =
     (let L = sth_json h in
      with_user L r (\<lambda>userID.
      case parseFromToUTC r of
        None \<Rightarrow> reply (badRequest L)
      | Some (fr, un) \<Rightarrow>
          answer L (GetTeamDoneStats (sth_stats h) userID fr un) (\<lambda>rows.
          reply (response_JSON L 200 (teamDoneStatsResponse (map toTeamDoneStatResponse rows))))))"

definition StatsHandler_TopCreators :: "'w StatsHandler \<Rightarrow> 'w handler" where
  "StatsHandler_TopCreators h r =
     (let L = sth_json h in
      with_user L r (\<lambda>userID.
      case parseFromToUTC r of
        None \<Rightarrow> reply (badRequest L)
      | Some (fr, un) \<Rightarrow>
          (case parseRequiredLimit (query_Get r ''limit'') of
             None \<Rightarrow> reply (badRequest L)
           | Some limit \<Rightarrow>
               answer L (GetTopCreatorsByTeam (sth_stats h) userID fr un limit) (\<lambda>rows.
               reply (response_JSON L 200 (teamTopCreatorsResponse (map toTeamTopCreatorResponse rows)))))))"

definition StatsHandler_IntegrityTasks :: "'w StatsHandler \<Rightarrow> 'w handler" where
  "StatsHandler_IntegrityTasks h r =
     (let L = sth_json h in
      with_user L r (\<lambda>userID.
      answer L (FindTasksWithAssigneeNotMember (sth_stats h) userID) (\<lambda>rows.
      reply (response_JSON L 200 (taskIntegrityResponse (map toTaskIntegrityResponse rows))))))"

section \<open>Authentication\<close>

text \<open>The interface \<open>ratelimit.Limiter\<close>: whether a call is allowed, and when to retry.\<close>

type_synonym 'w Limiter = "string \<Rightarrow> 'w \<Rightarrow> (bool \<times> duration) \<times> 'w"

record 'w AuthHandler =
  ah_auth :: "'w AuthService"
  ah_loginLimiter :: "'w Limiter"
  ah_refreshLimiter :: "'w Limiter"
  ah_lockout :: "'w Lockout option"
  ah_json :: jsonlib

definition NewAuthHandler ::
    "'w AuthService \<Rightarrow> 'w Limiter \<Rightarrow> 'w Limiter \<Rightarrow> 'w Lockout option \<Rightarrow> jsonlib \<Rightarrow> 'w AuthHandler" where
  "NewAuthHandler s ll rl lk L =
     \<lparr>ah_auth = s, ah_loginLimiter = ll, ah_refreshLimiter = rl, ah_lockout = lk, ah_json = L\<rparr>"

text \<open>The requests are decoded without \<open>DisallowUnknownFields\<close>.\<close>

definition decodeLoose :: "jsonlib \<Rightarrow> string list \<Rightarrow> http_request \<Rightarrow> (string \<times> json) list option" where
  "decodeLoose L fs r = Option.bind (json_Decode L (req_Body r)) (struct_members L False fs)"

definition decodeRegister :: "jsonlib \<Rightarrow> http_request \<Rightarrow> (string \<times> string \<times> string) option" where
  "decodeRegister L r =
     Option.bind (decodeLoose L [''email'', ''username'', ''password''] r) (\<lambda>ms.
     Option.bind (fill_string ''email'' [] ms) (\<lambda>email.
     Option.bind (fill_string ''username'' [] ms) (\<lambda>username.
     Option.bind (fill_string ''password'' [] ms) (\<lambda>password. Some (email, username, password)))))"

definition decodeLogin :: "jsonlib \<Rightarrow> http_request \<Rightarrow> (string \<times> string) option" where
  "decodeLogin L r =
     Option.bind (decodeLoose L [''login'', ''password''] r) (\<lambda>ms.
     Option.bind (fill_string ''login'' [] ms) (\<lambda>login.
     Option.bind (fill_string ''password'' [] ms) (\<lambda>password. Some (login, password))))"

definition decodeRefresh :: "jsonlib \<Rightarrow> http_request \<Rightarrow> string option" where
  "decodeRefresh L r =
     Option.bind (decodeLoose L [''refresh_token''] r) (fill_string ''refresh_token'' [])"

text \<open>\<open>net.SplitHostPort\<close>: the host before the last colon, in brackets where it contains colons.\<close>

definition SplitHostPort :: "string \<Rightarrow> (string \<times> string) option" where
  "SplitHostPort s =
     (if CHR '':'' \<notin> set s then None
      else
        let port = rev (takeWhile (\<lambda>c. c \<noteq> CHR '':'') (rev s)); i = length s - length port - 1
        in if take 1 s = ''['' then
             (let e = length (takeWhile (\<lambda>c. c \<noteq> CHR '']'') s)
              in if e + 1 \<noteq> i \<or> CHR ''['' \<in> set (drop 1 s) \<or> CHR '']'' \<in> set (drop (e + 1) s) then None
                 else Some (take (e - 1) (drop 1 s), port))
           else if CHR '':'' \<in> set (take i s) \<or> CHR ''['' \<in> set s \<or> CHR '']'' \<in> set s then None
           else Some (take i s, port))"

definition clientIP :: "http_request \<Rightarrow> string" where
  "clientIP r =
     (let xff = req_Header r ''X-Forwarded-For''
      in if xff \<noteq> [] then TrimSpace (hd (Split CHR '','' xff))
         else case SplitHostPort (req_RemoteAddr r) of Some (host, _) \<Rightarrow> host | None \<Rightarrow> req_RemoteAddr r)"

definition setRetryAfter :: "duration \<Rightarrow> http_response \<Rightarrow> http_response" where
  "setRetryAfter d resp =
     (if d \<le> 0 then resp
      else let secs = ceil_seconds d
           in header_Set ''Retry-After'' (FormatInt (if secs < 1 then 1 else secs)) resp)"

definition tooManyRequests :: "jsonlib \<Rightarrow> duration \<Rightarrow> http_response" where
  "tooManyRequests L retry = setRetryAfter retry (response_Error L 429 ''too many requests'')"

definition tokenResponse :: "TokenPair \<Rightarrow> json" where
  "tokenResponse p = JObj [(''access_token'', JStr (AccessToken p)), (''refresh_token'', JStr (RefreshToken p))]"

definition registerResponse :: "string \<Rightarrow> int \<Rightarrow> json" where
  "registerResponse status i = JObj [(''status'', JStr status), (''id'', json_of_int i)]"

definition api_isDuplicate :: "err \<Rightarrow> bool" where
  "api_isDuplicate e \<longleftrightarrow> e = MySQLError 1062"

definition AuthHandler_Register :: "'w AuthHandler \<Rightarrow> 'w handler" where
  "AuthHandler_Register h r =
     (let L = ah_json h in
      case decodeRegister L r of
        None \<Rightarrow> reply (badRequest L)
      | Some (email, username, password) \<Rightarrow>
          bindR (Register (ah_auth h) (TrimSpace email) (TrimSpace username) password) (\<lambda>res.
          case res of
            Inl e \<Rightarrow> reply (if api_isDuplicate e then response_Error L 409 ''conflict'' else badRequest L)
          | Inr i \<Rightarrow>
              reply (header_Set ''Location'' (''/api/v1/users/'' @ FormatInt i)
                (response_JSON L 201 (registerResponse ''ok'' i)))))"

text \<open>The part of \<open>Login\<close> that calls the service, with the name it goes on with.\<close>

definition loginAttempt :: "'w AuthHandler \<Rightarrow> http_request \<Rightarrow> string \<Rightarrow> string \<Rightarrow> string \<Rightarrow> 'w \<Rightarrow> http_response \<times> 'w" where
  "loginAttempt h r ip name password =
     (let L = ah_json h in
      bindR (Login (ah_auth h) name password ip (req_Header r ''User-Agent'')) (\<lambda>res.
      case res of
        Inl e \<Rightarrow>
          (case ah_lockout h of
             None \<Rightarrow> reply (response_Error L 401 ''invalid credentials'')
           | Some lk \<Rightarrow>
               if e = ErrInvalidCredentials then
                 bindR (OnFailure lk name) (\<lambda>x.
                 case x of
                   Inr (True, retry) \<Rightarrow> reply (tooManyRequests L retry)
                 | _ \<Rightarrow> reply (response_Error L 401 ''invalid credentials''))
               else reply (response_Error L 401 ''invalid credentials''))
      | Inr pair \<Rightarrow>
          (case ah_lockout h of
             None \<Rightarrow> reply (response_JSON L 200 (tokenResponse pair))
           | Some lk \<Rightarrow> bindR (OnSuccess lk name) (\<lambda>_. reply (response_JSON L 200 (tokenResponse pair))))))"

definition AuthHandler_Login :: "'w AuthHandler \<Rightarrow> 'w handler" where
  "AuthHandler_Login h r w =
     (let L = ah_json h; ip = clientIP r in
      case ah_loginLimiter h ip w of ((ok, retry), w1) \<Rightarrow>
      if \<not> ok then (tooManyRequests L retry, w1)
      else case decodeLogin L r of
        None \<Rightarrow> (badRequest L, w1)
      | Some (login, password) \<Rightarrow>
          (case ah_lockout h of
             None \<Rightarrow> loginAttempt h r ip (TrimSpace login) password w1
           | Some lk \<Rightarrow>
               (case Normalize lk (TrimSpace login) of
                  Inl _ \<Rightarrow> (badRequest L, w1)
                | Inr normalized \<Rightarrow>
                    bindR (IsLocked lk normalized) (\<lambda>x.
                    case x of
                      Inr (True, retry) \<Rightarrow> reply (tooManyRequests L retry)
                    | _ \<Rightarrow> loginAttempt h r ip normalized password) w1)))"

definition AuthHandler_Refresh :: "'w AuthHandler \<Rightarrow> 'w handler" where
  "AuthHandler_Refresh h r =
     (let L = ah_json h in
      case decodeRefresh L r of
        None \<Rightarrow> reply (badRequest L)
      | Some token \<Rightarrow>
          if TrimSpace token = [] then reply (badRequest L)
          else bindR (ParseRefreshTokenUserID (ah_auth h) token) (\<lambda>res.
            case res of
              Inl _ \<Rightarrow> reply (response_Error L 401 ''invalid token'')
            | Inr userID \<Rightarrow> (\<lambda>w.
                case ah_refreshLimiter h (FormatInt userID) w of ((ok, retry), w1) \<Rightarrow>
                if \<not> ok then (tooManyRequests L retry, w1)
                else bindR (Refresh (ah_auth h) token (clientIP r) (req_Header r ''User-Agent'')) (\<lambda>res.
                  case res of
                    Inl _ \<Rightarrow> reply (response_Error L 401 ''invalid token'')
                  | Inr pair \<Rightarrow> reply (response_JSON L 200 (tokenResponse pair))) w1)))"

end
