(* ===== verification/Idempotency.thy ===== *)
theory Idempotency
  imports Http RedisLock World
begin

text \<open>
  \<open>internal/infra/idempotency/store.go\<close> and \<open>internal/api/middleware/idempotency.go\<close>: the answer
  to a mutating request with an \<open>Idempotency-Key\<close> is stored in Redis and replayed to a retry.
\<close>

section \<open>Stored responses\<close>

record StoredResponse =
  stored_Status :: int
  stored_Body :: string
  stored_ContentType :: string
  stored_Headers :: "(string \<times> string) list"
  stored_RequestHash :: string
  stored_CreatedAt :: int

text \<open>
  The libraries the code uses: JSON, base64 (for a field of bytes), SHA-256 in hexadecimal and
  the case tables beyond ASCII.
\<close>

record idemLibs =
  idem_json :: jsonlib
  idem_base64 :: "string \<Rightarrow> string"
  idem_unbase64 :: "string \<Rightarrow> string option"
  idem_sha256 :: "string \<Rightarrow> string"
  idem_lower :: "string \<Rightarrow> string"
  idem_upper :: "string \<Rightarrow> string"

definition stored_json :: "idemLibs \<Rightarrow> StoredResponse \<Rightarrow> json" where
  "stored_json I v = JObj
     ([(''status'', JNum (FormatInt (stored_Status v))),
       (''body'', if stored_Body v = [] then JNull else JStr (idem_base64 I (stored_Body v))),
       (''content_type'', JStr (stored_ContentType v))] @
      (if stored_Headers v = [] then [] else [(''headers'', JObj (map (\<lambda>(k, x). (k, JStr x)) (stored_Headers v)))]) @
      [(''request_hash'', JStr (stored_RequestHash v)),
       (''created_at'', JNum (FormatInt (stored_CreatedAt v)))])"

fun fill_bytes :: "idemLibs \<Rightarrow> string \<Rightarrow> string \<Rightarrow> (string \<times> json) list \<Rightarrow> string option" where
  "fill_bytes I f x [] = Some x"
| "fill_bytes I f x ((k, v) # ms) =
     (if k \<noteq> f then fill_bytes I f x ms
      else case v of
        JStr s \<Rightarrow> (case idem_unbase64 I s of None \<Rightarrow> None | Some b \<Rightarrow> fill_bytes I f b ms)
      | JNull \<Rightarrow> fill_bytes I f [] ms
      | _ \<Rightarrow> None)"

text \<open>A map of strings: members are added to what is there, \<open>null\<close> is an empty string in it.\<close>

fun put_members :: "(string \<times> json) list \<Rightarrow> (string \<times> string) list \<Rightarrow> (string \<times> string) list option" where
  "put_members [] m = Some m"
| "put_members ((k, v) # kvs) m =
     (case unmarshal_string v of
        None \<Rightarrow> None
      | Some s \<Rightarrow> put_members kvs (filter (\<lambda>(j, _). j \<noteq> k) m @ [(k, s)]))"

fun fill_map :: "string \<Rightarrow> (string \<times> string) list \<Rightarrow> (string \<times> json) list \<Rightarrow> (string \<times> string) list option" where
  "fill_map f x [] = Some x"
| "fill_map f x ((k, v) # ms) =
     (if k \<noteq> f then fill_map f x ms
      else case v of
        JObj kvs \<Rightarrow> (case put_members kvs x of None \<Rightarrow> None | Some y \<Rightarrow> fill_map f y ms)
      | JNull \<Rightarrow> fill_map f [] ms
      | _ \<Rightarrow> None)"

definition stored_of_json :: "idemLibs \<Rightarrow> json \<Rightarrow> StoredResponse option" where
  "stored_of_json I v =
     Option.bind (struct_members (idem_json I) False
       [''status'', ''body'', ''content_type'', ''headers'', ''request_hash'', ''created_at''] v) (\<lambda>ms.
     Option.bind (fill_int64 ''status'' 0 ms) (\<lambda>st.
     Option.bind (fill_bytes I ''body'' [] ms) (\<lambda>b.
     Option.bind (fill_string ''content_type'' [] ms) (\<lambda>ct.
     Option.bind (fill_map ''headers'' [] ms) (\<lambda>hs.
     Option.bind (fill_string ''request_hash'' [] ms) (\<lambda>rh.
     Option.bind (fill_int64 ''created_at'' 0 ms) (\<lambda>ca.
     Some \<lparr>stored_Status = st, stored_Body = b, stored_ContentType = ct, stored_Headers = hs,
           stored_RequestHash = rh, stored_CreatedAt = ca\<rparr>)))))))"

record 'w Store =
  store_client :: "'w redisClient option"
  store_libs :: idemLibs

definition NewStore :: "'w redisClient option \<Rightarrow> idemLibs \<Rightarrow> 'w Store" where
  "NewStore client I = \<lparr>store_client = client, store_libs = I\<rparr>"

definition Store_Get :: "'w Store \<Rightarrow> string \<Rightarrow> ('w, StoredResponse option) comp" where
  "Store_Get s key =
     (case store_client s of
        None \<Rightarrow> returnE None
      | Some R \<Rightarrow>
          bindE (redis_Get R key) (\<lambda>raw.
          case raw of
            None \<Rightarrow> returnE None
          | Some t \<Rightarrow>
              (case Option.bind (json_Unmarshal (idem_json (store_libs s)) t) (stored_of_json (store_libs s)) of
                 None \<Rightarrow> raiseE (OtherError ''json'')
               | Some v \<Rightarrow> returnE (Some v))))"

definition Store_Set :: "'w Store \<Rightarrow> string \<Rightarrow> duration \<Rightarrow> StoredResponse \<Rightarrow> ('w, unit) comp" where
  "Store_Set s key ttl v =
     (case store_client s of
        None \<Rightarrow> returnE ()
      | Some R \<Rightarrow> redis_Set R key (json_Encode (idem_json (store_libs s)) (stored_json (store_libs s) v)) ttl)"

section \<open>Hashes of requests\<close>

definition canonicalQuery :: "(string \<times> string list) list \<Rightarrow> string" where
  "canonicalQuery v =
     Join (concat (map (\<lambda>k. map (\<lambda>one. k @ ''='' @ one)
       (sort (case map_of v k of None \<Rightarrow> [] | Some vals \<Rightarrow> vals))) (sort (map fst v)))) ''&''"

definition canonicalJSON :: "idemLibs \<Rightarrow> string \<Rightarrow> string" where
  "canonicalJSON I raw =
     (let raw' = TrimSpace raw
      in if raw' = [] then []
         else case json_Unmarshal (idem_json I) raw' of
           None \<Rightarrow> raw'
         | Some v \<Rightarrow> json_Encode (idem_json I) (json_Any (idem_json I) v))"

definition BuildRequestHash ::
    "idemLibs \<Rightarrow> string \<Rightarrow> string \<Rightarrow> string \<Rightarrow> (string \<times> string list) list \<Rightarrow> string \<Rightarrow> string" where
  "BuildRequestHash I meth routePattern contentType query body =
     idem_sha256 I (Join
       [ToUpper (idem_upper I) (TrimSpace meth), TrimSpace routePattern,
        TrimSpace (ToLower (idem_lower I) (hd (Split CHR '';'' contentType))),
        canonicalQuery query, canonicalJSON I body] (bytes [10]))"

text \<open>The first eight bytes of the digest are sixteen hexadecimal digits.\<close>

definition BuildRouteHash :: "idemLibs \<Rightarrow> string \<Rightarrow> string" where
  "BuildRouteHash I routePattern = take 16 (idem_sha256 I (TrimSpace routePattern))"

definition IsCacheableStatus :: "int \<Rightarrow> bool" where
  "IsCacheableStatus status \<longleftrightarrow>
     200 \<le> status \<and> status < 300 \<or> status = 400 \<or> status = 403 \<or> status = 404 \<or> status = 409"

section \<open>The middleware\<close>

record 'w idemStore =
  idemStore_Get :: "string \<Rightarrow> ('w, StoredResponse option) comp"
  idemStore_Set :: "string \<Rightarrow> duration \<Rightarrow> StoredResponse \<Rightarrow> ('w, unit) comp"

record 'w distLocker =
  distLocker_Acquire :: "string \<Rightarrow> duration \<Rightarrow> ('w, string \<times> bool) comp"
  distLocker_Release :: "string \<Rightarrow> string \<Rightarrow> ('w, unit) comp"

record 'w IdempotencyMiddleware =
  im_enabled :: bool
  im_store :: "'w idemStore option"
  im_locker :: "'w distLocker option"
  im_lockTTL :: duration
  im_responseTTL :: duration
  im_metrics :: "'w Metrics option"
  im_libs :: idemLibs
  im_now :: "'w \<Rightarrow> time"

definition NewIdempotencyMiddleware ::
    "bool \<Rightarrow> 'w Store \<Rightarrow> 'w Locker \<Rightarrow> duration \<Rightarrow> duration \<Rightarrow> 'w Metrics option \<Rightarrow> idemLibs \<Rightarrow> ('w \<Rightarrow> time)
     \<Rightarrow> 'w IdempotencyMiddleware" where
  "NewIdempotencyMiddleware enabled st lk lockTTL responseTTL metrics I tm =
     \<lparr>im_enabled = enabled,
      im_store = Some \<lparr>idemStore_Get = Store_Get st, idemStore_Set = Store_Set st\<rparr>,
      im_locker = Some \<lparr>distLocker_Acquire = Acquire lk, distLocker_Release = Release lk\<rparr>,
      im_lockTTL = lockTTL, im_responseTTL = responseTTL, im_metrics = metrics, im_libs = I, im_now = tm\<rparr>"

definition isMutatingMethod :: "string \<Rightarrow> bool" where
  "isMutatingMethod m \<longleftrightarrow> m = ''POST'' \<or> m = ''PATCH'' \<or> m = ''PUT'' \<or> m = ''DELETE''"

text \<open>
  The middleware runs on routed requests, whose pattern the router knows; for a request
  without a pattern the path stands in. The application registers it inside chi's router only:
  the branches for a request without a route context, and for a context with parts of a pattern
  but no pattern, are not modelled.
\<close>

definition routePatternFromRequest :: "http_request \<Rightarrow> string" where
  "routePatternFromRequest r = (if req_Route r \<noteq> [] then req_Route r else TrimSpace (req_Path r))"

definition onRedisUnavailable :: "'w IdempotencyMiddleware \<Rightarrow> string \<Rightarrow> 'w \<Rightarrow> 'w" where
  "onRedisUnavailable m reason w =
     inc (im_metrics m) ''IdempotencyBypass'' [reason] (inc (im_metrics m) ''RedisDegraded'' [''idempotency''] w)"

definition replayStoredResponse :: "StoredResponse \<Rightarrow> http_response" where
  "replayStoredResponse v =
     fold (\<lambda>(k, x) resp. if x \<noteq> [] then header_Set k x resp else resp) (stored_Headers v)
       \<lparr>resp_Status = stored_Status v,
        resp_Header = (if stored_ContentType v \<noteq> [] then [(''Content-Type'', stored_ContentType v)] else []),
        resp_Body = stored_Body v\<rparr>"

definition extractReplayHeaders :: "http_response \<Rightarrow> (string \<times> string) list" where
  "extractReplayHeaders resp =
     (let v = header_Get resp ''Location'' in if v \<noteq> [] then [(''Location'', v)] else [])"

definition responseKey :: "idemLibs \<Rightarrow> int \<Rightarrow> string \<Rightarrow> string \<Rightarrow> string" where
  "responseKey I userID routePattern idemKey =
     ''idem:resp:'' @ FormatInt userID @ '':'' @ BuildRouteHash I routePattern @ '':'' @ idemKey"

definition idemLockKey :: "idemLibs \<Rightarrow> int \<Rightarrow> string \<Rightarrow> string \<Rightarrow> string" where
  "idemLockKey I userID routePattern idemKey =
     ''lock:idem:'' @ FormatInt userID @ '':'' @ BuildRouteHash I routePattern @ '':'' @ idemKey"

text \<open>What runs under the lock: the next handler, and storing its answer; then the deferred release.\<close>

definition recordResponse ::
    "'w IdempotencyMiddleware \<Rightarrow> 'w idemStore \<Rightarrow> string \<Rightarrow> string \<Rightarrow> http_response \<Rightarrow> 'w \<Rightarrow> 'w" where
  "recordResponse m st key reqHash resp w =
     (if \<not> IsCacheableStatus (resp_Status resp) then w
      else case idemStore_Set st key (im_responseTTL m)
             \<lparr>stored_Status = resp_Status resp, stored_Body = resp_Body resp,
              stored_ContentType = header_Get resp ''Content-Type'',
              stored_Headers = extractReplayHeaders resp, stored_RequestHash = reqHash,
              stored_CreatedAt = Unix (im_now m w)\<rparr> w of
        (Inl e, w1) \<Rightarrow> onRedisUnavailable m ''store_set_error'' w1
      | (Inr _, w1) \<Rightarrow> w1)"

definition releaseLock :: "'w IdempotencyMiddleware \<Rightarrow> 'w distLocker \<Rightarrow> string \<Rightarrow> string \<Rightarrow> 'w \<Rightarrow> 'w" where
  "releaseLock m lk key token w =
     (case distLocker_Release lk key token w of
        (Inl e, w1) \<Rightarrow> inc (im_metrics m) ''LockReleaseErrors'' [] w1
      | (Inr _, w1) \<Rightarrow> w1)"

text \<open>What a request does after the look-up has found nothing: take the lock, run the next handler, store its answer, release.\<close>

definition runUnderLock ::
    "'w IdempotencyMiddleware \<Rightarrow> 'w idemStore \<Rightarrow> 'w distLocker \<Rightarrow> 'w handler \<Rightarrow> http_request
     \<Rightarrow> int \<Rightarrow> string \<Rightarrow> string \<Rightarrow> 'w \<Rightarrow> http_response \<times> 'w" where
  "runUnderLock m st lk nxt r userID route idemKey w1 =
     (let I = im_libs m; lockKey = idemLockKey I userID route idemKey in
      case distLocker_Acquire lk lockKey (im_lockTTL m) w1 of
        (Inl e, w2) \<Rightarrow> nxt r (onRedisUnavailable m ''lock_acquire_error'' w2)
      | (Inr (token, ok), w2) \<Rightarrow>
          if \<not> ok then (response_Error (idem_json I) 409 ''request already in progress'', w2)
          else case nxt r w2 of (resp, w3) \<Rightarrow>
            (resp, releaseLock m lk lockKey token
              (recordResponse m st (responseKey I userID route idemKey)
                (BuildRequestHash I (req_Method r) route (req_Header r ''Content-Type'') (req_Query r) (req_Body r)) resp w3)))"

definition Idempotency_Handler :: "'w IdempotencyMiddleware \<Rightarrow> 'w handler \<Rightarrow> 'w handler" where
  "Idempotency_Handler m nxt r w =
     (if \<not> im_enabled m \<or> \<not> isMutatingMethod (req_Method r) then nxt r w
      else
        let idemKey = TrimSpace (req_Header r ''Idempotency-Key'') in
        if idemKey = [] then nxt r w
        else case UserIDFromContext r of
          None \<Rightarrow> nxt r w
        | Some userID \<Rightarrow>
            let I = im_libs m; L = idem_json I; route = routePatternFromRequest r in
            if route = [] then nxt r (inc (im_metrics m) ''IdempotencyBypass'' [''empty_route_pattern''] w)
            else
              let reqHash = BuildRequestHash I (req_Method r) route (req_Header r ''Content-Type'') (req_Query r) (req_Body r);
                  key = responseKey I userID route idemKey
              in case (im_store m, im_locker m) of
                   (Some st, Some lk) \<Rightarrow>
                     (case idemStore_Get st key w of
                        (Inl e, w1) \<Rightarrow> nxt r (onRedisUnavailable m ''store_get_error'' w1)
                      | (Inr (Some cached), w1) \<Rightarrow>
                          if stored_RequestHash cached \<noteq> reqHash
                          then (response_Error L 409 ''idempotency key reused with different payload'',
                                inc (im_metrics m) ''IdempotencyConflict'' [] w1)
                          else (replayStoredResponse cached, inc (im_metrics m) ''IdempotencyHits'' [] w1)
                      | (Inr None, w1) \<Rightarrow> runUnderLock m st lk nxt r userID route idemKey w1)
                 | _ \<Rightarrow> nxt r (inc (im_metrics m) ''IdempotencyBypass'' [''unavailable''] w))"

end
