(* ===== verification/Middleware.thy ===== *)
theory Middleware
  imports StatsAuthHandlers Idempotency
begin

text \<open>
  \<open>internal/api/middleware\<close> without the idempotency: the check of access tokens, the limit per user,
  the request log and the request metrics. A middleware maps a handler to a handler.
\<close>

section \<open>Tokens\<close>

text \<open>\<open>strings.SplitN(s, " ", 2)\<close>, where it has two parts.\<close>

definition split_space :: "string \<Rightarrow> (string \<times> string) option" where
  "split_space s =
     (let a = takeWhile (\<lambda>c. c \<noteq> CHR '' '') s
      in if a = s then None else Some (a, drop (length a + 1) s))"

text \<open>\<open>strings.EqualFold(s, "Bearer")\<close>: no letter of the word has a fold beyond ASCII.\<close>

definition is_bearer :: "string \<Rightarrow> bool" where
  "is_bearer s \<longleftrightarrow> map ascii_upper s = ''BEARER''"

definition AuthMiddleware :: "jsonlib \<Rightarrow> 'w AuthService \<Rightarrow> 'w handler \<Rightarrow> 'w handler" where
  "AuthMiddleware L auth nxt r =
     (let authHeader = req_Header r ''Authorization'' in
      if authHeader = [] then reply (unauthorized L)
      else case split_space authHeader of
        None \<Rightarrow> reply (unauthorized L)
      | Some (scheme, token) \<Rightarrow>
          if \<not> is_bearer scheme then reply (unauthorized L)
          else bindR (ParseAccessTokenCtx auth token) (\<lambda>res.
            case res of
              Inl _ \<Rightarrow> reply (unauthorized L)
            | Inr userID \<Rightarrow> nxt (r\<lparr>req_User := Some userID\<rparr>)))"

section \<open>The limit per user\<close>

definition userRateLimitKey :: "int \<Rightarrow> int \<Rightarrow> time \<Rightarrow> string" where
  "userRateLimitKey userID windowSeconds tm =
     ''rl:user:'' @ FormatInt userID @ '':'' @ FormatInt (quot (Unix tm) windowSeconds)"

definition setRetryAfterHeader :: "duration \<Rightarrow> http_response \<Rightarrow> http_response" where
  "setRetryAfterHeader d resp =
     (if d \<le> 0 then resp
      else let secs = ceil_seconds d
           in header_Set ''Retry-After'' (FormatInt (if secs < 1 then 1 else secs)) resp)"

definition UserRateLimit ::
    "jsonlib \<Rightarrow> 'w Limiter option \<Rightarrow> int \<Rightarrow> ('w \<Rightarrow> time) \<Rightarrow> 'w handler \<Rightarrow> 'w handler" where
  "UserRateLimit L limiter windowSeconds tm nxt r w =
     (case limiter of
        None \<Rightarrow> nxt r w
      | Some allow \<Rightarrow>
          if windowSeconds \<le> 0 then nxt r w
          else if req_Path r = ''/health'' \<or> req_Path r = ''/ready'' then nxt r w
          else case UserIDFromContext r of
            None \<Rightarrow> (response_Error L 500 ''internal error'', w)
          | Some userID \<Rightarrow>
              (case allow (userRateLimitKey userID windowSeconds (tm w)) w of ((ok, retry), w1) \<Rightarrow>
                 if \<not> ok then (setRetryAfterHeader retry (response_Error L 429 ''too many requests''), w1)
                 else nxt r w1))"

section \<open>Log and metrics\<close>

record logEntry =
  log_method :: string
  log_path :: string
  log_status :: int
  log_bytes :: int
  log_duration_ms :: int

text \<open>Every handler writes its status, so the recorded status is the one of the response.\<close>

definition Logger :: "(logEntry \<Rightarrow> 'w \<Rightarrow> 'w) \<Rightarrow> ('w \<Rightarrow> time) \<Rightarrow> 'w handler \<Rightarrow> 'w handler" where
  "Logger info tm nxt r w =
     (case nxt r w of (resp, w1) \<Rightarrow>
        (resp, info \<lparr>log_method = req_Method r, log_path = req_Path r, log_status = resp_Status resp,
                     log_bytes = int (length (resp_Body resp)),
                     log_duration_ms = quot (tm w1 - tm w) 1000000\<rparr> w1))"

definition Metrics_middleware :: "'w Metrics option \<Rightarrow> ('w \<Rightarrow> time) \<Rightarrow> 'w handler \<Rightarrow> 'w handler" where
  "Metrics_middleware metrics tm nxt r w =
     (case metrics of
        None \<Rightarrow> nxt r w
      | Some m \<Rightarrow>
          (case nxt r (metrics_Add m ''HTTPInFlight'' 1 w) of (resp, w1) \<Rightarrow>
             let path = (if req_Route r = [] then ''unmatched'' else req_Route r);
                 code = FormatInt (resp_Status resp);
                 w2 = metrics_Inc m ''HTTPRequests'' [req_Method r, path, code] w1;
                 w3 = metrics_Observe m ''HTTPDuration'' [req_Method r, path] (tm w2 - tm w) w2;
                 w4 = (if resp_Status resp \<ge> 500 then metrics_Inc m ''HTTPErrors'' [req_Method r, path, code] w3 else w3)
             in (resp, metrics_Add m ''HTTPInFlight'' (- 1) w4)))"

section \<open>Facts\<close>

text \<open>What the token check finds out about a request: the user it goes on with.\<close>

definition bearer_token :: "http_request \<Rightarrow> string option" where
  "bearer_token r =
     (case split_space (req_Header r ''Authorization'') of
        None \<Rightarrow> None
      | Some (scheme, token) \<Rightarrow> if is_bearer scheme then Some token else None)"

lemma split_space_empty [simp]: "split_space [] = None"
  by (simp add: split_space_def)

lemma AuthMiddleware_cases:
  "AuthMiddleware L auth nxt r w =
     (case bearer_token r of
        None \<Rightarrow> (unauthorized L, w)
      | Some token \<Rightarrow>
          (case ParseAccessTokenCtx auth token w of
             (Inl e, w1) \<Rightarrow> (unauthorized L, w1)
           | (Inr userID, w1) \<Rightarrow> nxt (r\<lparr>req_User := Some userID\<rparr>) w1))"
  by (auto simp: AuthMiddleware_def bearer_token_def reply_def bindR_apply Let_def split: option.splits sum.splits prod.splits)

lemma split_space_app: "CHR '' '' \<notin> set a \<Longrightarrow> split_space (a @ '' '' @ b) = Some (a, b)"
proof -
  assume a: "CHR '' '' \<notin> set a"
  then have "takeWhile (\<lambda>c. c \<noteq> CHR '' '') (a @ '' '' @ b) = a" by (induction a) auto
  then show ?thesis by (simp add: split_space_def)
qed

lemma Logger_response: "fst (Logger info tm nxt r w) = fst (nxt r w)"
  by (simp add: Logger_def split_beta)

lemma Logger_frame: "(\<And>x u. v (info x u) = v u) \<Longrightarrow> v (snd (Logger info tm nxt r w)) = v (snd (nxt r w))"
  by (simp add: Logger_def split_beta)

lemma Metrics_response:
  "fst (Metrics_middleware m tm nxt r w) = fst (nxt r (case m of None \<Rightarrow> w | Some M \<Rightarrow> metrics_Add M ''HTTPInFlight'' 1 w))"
  by (simp add: Metrics_middleware_def split_beta Let_def split: option.split)

lemma Metrics_frame:
  assumes "uncounted v m"
  shows "v (snd (Metrics_middleware m tm nxt r w)) =
    v (snd (nxt r (case m of None \<Rightarrow> w | Some M \<Rightarrow> metrics_Add M ''HTTPInFlight'' 1 w)))"
  using assms by (cases m) (simp_all add: Metrics_middleware_def split_beta Let_def uncounted_Some)

end
