(* ===== verification/Router.thy ===== *)
theory Router
  imports Middleware World
begin

text \<open>
  \<open>internal/api/router.go\<close>: the table of routes and the middleware around them. Matching a
  path against the patterns, the answers where nothing matches, the file server and the
  Swagger pages are other packages and parameters; \<open>RequestID\<close> and \<open>Recoverer\<close> of \<open>chi\<close> change neither
  the requests nor the answers modelled here.
\<close>

type_synonym route = "string \<times> string"

text \<open>
  \<open>chi_Match table method path\<close> is the route that a request takes, with the value of \<open>{id}\<close>;
  \<open>chi_NoRoute\<close> gives the pattern seen by the metrics and the answer (404 or 405) otherwise.
\<close>

record 'w chiLib =
  chi_Match :: "route list \<Rightarrow> string \<Rightarrow> string \<Rightarrow> (route \<times> string) option"
  chi_NoRoute :: "route list \<Rightarrow> string \<Rightarrow> string \<Rightarrow> string \<times> http_response"
  chi_FileServer :: "'w handler"
  chi_Swagger :: "'w handler"

record 'w routerDeps =
  rd_cfg :: Config
  rd_auth :: "'w AuthService"
  rd_teams :: "'w TeamService"
  rd_tasks :: "'w TaskService"
  rd_stats :: "'w StatsService"
  rd_taskCache :: "'w taskCache option"
  rd_loginLimiter :: "'w Limiter"
  rd_refreshLimiter :: "'w Limiter"
  rd_userLimiter :: "'w Limiter option"
  rd_lockout :: "'w Lockout option"
  rd_idemStore :: "'w Store"
  rd_locker :: "'w Locker"
  rd_metrics :: "'w Metrics option"
  rd_json :: jsonlib
  rd_now :: "'w \<Rightarrow> time"
  rd_log :: "logEntry \<Rightarrow> 'w \<Rightarrow> 'w"
  rd_chi :: "'w chiLib"

definition health :: "'w handler" where
  "health r = reply \<lparr>resp_Status = 200, resp_Header = [], resp_Body = ''ok''\<rparr>"

text \<open>A method \<open>*\<close> stands for a mount, which takes every method.\<close>

definition public_routes :: "'w routerDeps \<Rightarrow> (route \<times> 'w handler) list" where
  "public_routes d =
     (let h = NewAuthHandler (rd_auth d) (rd_loginLimiter d) (rd_refreshLimiter d) (rd_lockout d) (rd_json d)
      in [((''GET'', ''/health''), health),
          ((''*'', ''/static/*''), chi_FileServer (rd_chi d)),
          ((''GET'', ''/swagger/*''), chi_Swagger (rd_chi d)),
          ((''POST'', ''/api/v1/register''), AuthHandler_Register h),
          ((''POST'', ''/api/v1/login''), AuthHandler_Login h),
          ((''POST'', ''/api/v1/refresh''), AuthHandler_Refresh h)])"

definition group_routes :: "'w routerDeps \<Rightarrow> (route \<times> 'w handler) list" where
  "group_routes d =
     (let teams = NewTeamHandler (rd_teams d) (rd_json d);
          tasks = NewTaskHandler (rd_tasks d) (rd_teams d) (rd_taskCache d) (rd_json d);
          comments = NewCommentHandler (rd_tasks d) (rd_json d);
          stats = NewStatsHandler (rd_stats d) (rd_json d)
      in [((''POST'', ''/api/v1/teams''), TeamHandler_Create teams),
          ((''GET'', ''/api/v1/teams''), TeamHandler_List teams),
          ((''POST'', ''/api/v1/teams/{id}/invite''), TeamHandler_Invite teams),
          ((''POST'', ''/api/v1/tasks''), TaskHandler_Create tasks),
          ((''GET'', ''/api/v1/tasks''), TaskHandler_List tasks),
          ((''GET'', ''/api/v1/tasks/{id}''), TaskHandler_Get tasks),
          ((''GET'', ''/api/v1/tasks/{id}/history''), TaskHandler_History tasks),
          ((''PUT'', ''/api/v1/tasks/{id}''), TaskHandler_Update tasks),
          ((''DELETE'', ''/api/v1/tasks/{id}''), TaskHandler_Delete tasks),
          ((''POST'', ''/api/v1/tasks/{id}/comments''), CommentHandler_Create comments),
          ((''GET'', ''/api/v1/tasks/{id}/comments''), CommentHandler_ListByTask comments),
          ((''PATCH'', ''/api/v1/comments/{id}''), CommentHandler_Update comments),
          ((''DELETE'', ''/api/v1/comments/{id}''), CommentHandler_Delete comments),
          ((''GET'', ''/api/v1/stats/teams/done''), StatsHandler_TeamDoneStats stats),
          ((''GET'', ''/api/v1/stats/teams/top-creators''), StatsHandler_TopCreators stats),
          ((''GET'', ''/api/v1/admin/integrity/tasks''), StatsHandler_IntegrityTasks stats)])"

text \<open>The middleware of the group, in the order of its \<open>Use\<close> calls.\<close>

definition group_middleware :: "'w routerDeps \<Rightarrow> 'w handler \<Rightarrow> 'w handler" where
  "group_middleware d nxt =
     AuthMiddleware (rd_json d) (rd_auth d)
       (Idempotency_Handler
         (NewIdempotencyMiddleware (Idem_Enabled (cfg_Idem (rd_cfg d))) (rd_idemStore d) (rd_locker d)
           (Idem_LockTTL (cfg_Idem (rd_cfg d))) (Idem_ResponseTTL (cfg_Idem (rd_cfg d))) (rd_metrics d)
           (store_libs (rd_idemStore d)) (rd_now d))
         (UserRateLimit (rd_json d) (rd_userLimiter d) (RateLimit_WindowSeconds (cfg_RateLimit (rd_cfg d))) (rd_now d) nxt))"

definition route_table :: "'w routerDeps \<Rightarrow> (route \<times> 'w handler) list" where
  "route_table d = public_routes d @ map (\<lambda>(rt, h). (rt, group_middleware d h)) (group_routes d)"

text \<open>A request starts with an empty context; the router fills in the pattern and the id.\<close>

definition dispatch :: "'w routerDeps \<Rightarrow> 'w handler" where
  "dispatch d r w =
     (case chi_Match (rd_chi d) (map fst (route_table d)) (req_Method r) (req_Path r) of
        None \<Rightarrow> (snd (chi_NoRoute (rd_chi d) (map fst (route_table d)) (req_Method r) (req_Path r)), w)
      | Some (rt, i) \<Rightarrow>
          (case map_of (route_table d) rt of
             None \<Rightarrow> (snd (chi_NoRoute (rd_chi d) (map fst (route_table d)) (req_Method r) (req_Path r)), w)
           | Some h \<Rightarrow> h (r\<lparr>req_ID := i\<rparr>) w))"

definition matched_pattern :: "'w routerDeps \<Rightarrow> http_request \<Rightarrow> string" where
  "matched_pattern d r =
     (case chi_Match (rd_chi d) (map fst (route_table d)) (req_Method r) (req_Path r) of
        None \<Rightarrow> fst (chi_NoRoute (rd_chi d) (map fst (route_table d)) (req_Method r) (req_Path r))
      | Some (rt, _) \<Rightarrow> snd rt)"

text \<open>The metrics and the log read the pattern once the request has been routed.\<close>

definition Router_New :: "'w routerDeps \<Rightarrow> 'w handler" where
  "Router_New d r w =
     Logger (rd_log d) (rd_now d) (Metrics_middleware (rd_metrics d) (rd_now d) (dispatch d))
       (r\<lparr>req_Route := matched_pattern d r, req_User := None\<rparr>) w"

section \<open>What the table promises\<close>

text \<open>A match is a route of the table, for the method of the request.\<close>

definition matches_table :: "'w chiLib \<Rightarrow> bool" where
  "matches_table chi \<longleftrightarrow> (\<forall>ts m p rt i. chi_Match chi ts m p = Some (rt, i) \<longrightarrow>
     rt \<in> set ts \<and> (fst rt = m \<or> fst rt = ''*''))"

definition protected :: "route list" where
  "protected =
     [(''POST'', ''/api/v1/teams''), (''GET'', ''/api/v1/teams''), (''POST'', ''/api/v1/teams/{id}/invite''),
      (''POST'', ''/api/v1/tasks''), (''GET'', ''/api/v1/tasks''), (''GET'', ''/api/v1/tasks/{id}''),
      (''GET'', ''/api/v1/tasks/{id}/history''), (''PUT'', ''/api/v1/tasks/{id}''), (''DELETE'', ''/api/v1/tasks/{id}''),
      (''POST'', ''/api/v1/tasks/{id}/comments''), (''GET'', ''/api/v1/tasks/{id}/comments''),
      (''PATCH'', ''/api/v1/comments/{id}''), (''DELETE'', ''/api/v1/comments/{id}''),
      (''GET'', ''/api/v1/stats/teams/done''), (''GET'', ''/api/v1/stats/teams/top-creators''),
      (''GET'', ''/api/v1/admin/integrity/tasks'')]"

definition public :: "route list" where
  "public = [(''GET'', ''/health''), (''*'', ''/static/*''), (''GET'', ''/swagger/*''),
     (''POST'', ''/api/v1/register''), (''POST'', ''/api/v1/login''), (''POST'', ''/api/v1/refresh'')]"

lemma public_routes_fst: "map fst (public_routes d) = public"
  by (simp add: public_routes_def public_def Let_def)

lemma group_routes_fst: "map fst (group_routes d) = protected"
  by (simp add: group_routes_def protected_def Let_def)

lemma map_fst_wrap: "map fst (map (\<lambda>(rt, h). (rt, f h)) xs) = map fst xs"
  by (induction xs) auto

lemma route_table_fst: "map fst (route_table d) = public @ protected"
  by (simp only: route_table_def map_append map_fst_wrap public_routes_fst group_routes_fst)

lemma routes_distinct: "distinct (public @ protected)"
  by (simp add: public_def protected_def)

lemma map_of_group:
  assumes "(rt, h) \<in> set (group_routes d)"
  shows "map_of (route_table d) rt = Some (group_middleware d h)"
  by (rule map_of_is_SomeI)
    (use assms routes_distinct in \<open>force simp: route_table_fst, force simp: route_table_def\<close>)

lemma protected_handler:
  assumes "rt \<in> set protected"
  obtains h where "map_of (route_table d) rt = Some (group_middleware d h)"
  using assms map_of_group [of rt _ d] unfolding group_routes_fst [of d, symmetric] by auto

lemma dispatch_protected:
  assumes "chi_Match (rd_chi d) (map fst (route_table d)) (req_Method r) (req_Path r) = Some (rt, i)"
    and "rt \<in> set protected"
  obtains h where "dispatch d r w = group_middleware d h (r\<lparr>req_ID := i\<rparr>) w"
proof -
  obtain h where h: "map_of (route_table d) rt = Some (group_middleware d h)" using protected_handler [OF assms(2)] .
  show ?thesis by (rule that [of h]) (use assms h in \<open>simp add: dispatch_def\<close>)
qed

end
