(* ===== verification/Lifecycle.thy ===== *)
theory Lifecycle
  imports GoStd "HOL-Library.Multiset"
begin

text \<open>
  \<open>pkg/nethttp/runner\<close>, \<open>(*Application).Wait\<close> and \<open>cmd/api\<close>: the goroutines of the running
  process. \<open>RunServer\<close> starts two goroutines per server, one that serves and one that waits for the
  end of the context and shuts the server down; both report errors on an unbuffered channel. \<open>Wait\<close>
  starts the goroutine that collects the errors and cancels the context, and waits for all of them.
  Besides, every limiter in memory has a goroutine that sweeps its counters at the ticks of a timer,
  without end; nothing waits for it, and it goes when the process exits. The goroutines in which
  \<open>net/http\<close> runs the handlers belong to the calls of \<open>Serve\<close> and \<open>Shutdown\<close>.

  A goroutine is its program counter, and a move is one atomic step of one of them: a channel
  operation, an operation on a wait group, the return of a call into \<open>net/http\<close>. The scheduler is the
  list of moves. The two ways in which this program could panic, a send on a closed channel and a
  negative wait group, are states of the model, not assumptions.
\<close>

section \<open>Goroutines\<close>

text \<open>The goroutine around \<open>Serve\<close>: the call, the send of its error, the deferred \<open>wgr.Done()\<close>. The argument of
  the last two is the error that it has sent.\<close>

datatype serveState = Serving | SendingServe err | ServeLeaving "err option" | ServeEnded "err option"

text \<open>The goroutine around \<open>Shutdown\<close>; the argument of \<open>Stopping\<close> is the deadline of \<open>sdCtx\<close>, none when \<open>sdCtx\<close> is
  the context that is already done.\<close>

datatype shutdownState = AwaitingDone | Stopping "duration option" | SendingShutdown err
  | ShutdownLeaving "err option" | ShutdownEnded "err option"

record runningServer =
  rs_serve :: serveState
  rs_shutdown :: shutdownState
  rs_shutdownTimeout :: duration

text \<open>The goroutine inside \<open>Wait\<close> that ranges over the channel, and \<open>Wait\<close> itself.\<close>

datatype collectorState = CollectorIdle | Ranging | Received err | Recording err | CollectorEnded

datatype waitState = Waiting | AwaitingCtx | AwaitingWg | Closing | AwaitingErrWg | Returned "err option"

record lifecycle =
  lc_ctxDone :: bool
  lc_wg :: nat
  lc_errClosed :: bool
  lc_servers :: "runningServer list"
  lc_collector :: collectorState
  lc_wait :: waitState
  lc_appErr :: "err option"
  lc_logged :: "err list"
  lc_storesClosed :: bool
  lc_panicked :: bool
  lc_cleaners :: "nat list"

text \<open>\<open>application.New\<close>: the channel is open, nothing runs.\<close>

definition lifecycle_New :: lifecycle where
  "lifecycle_New = \<lparr>lc_ctxDone = False, lc_wg = 0, lc_errClosed = False, lc_servers = [], lc_collector = CollectorIdle,
     lc_wait = Waiting, lc_appErr = None, lc_logged = [], lc_storesClosed = False, lc_panicked = False,
     lc_cleaners = []\<rparr>"

text \<open>\<open>go l.startCleanup()\<close> of \<open>ratelimit.NewMemory\<close>: one more goroutine that sweeps; the number counts its rounds.\<close>

definition go_startCleanup :: "lifecycle \<Rightarrow> lifecycle" where
  "go_startCleanup s = s\<lparr>lc_cleaners := lc_cleaners s @ [0]\<rparr>"

text \<open>\<open>runner.RunServer\<close>: listen, then two goroutines and two on the wait group.\<close>

definition RunServer :: "(string \<Rightarrow> string \<Rightarrow> ('w, unit) comp) \<Rightarrow> string \<Rightarrow> duration \<Rightarrow> lifecycle \<Rightarrow> ('w, lifecycle) comp" where
  "RunServer listen port shutdownTimeout lc =
     bindE (listen ''tcp4'' ('':'' @ port)) (\<lambda>_. returnE
       (lc\<lparr>lc_wg := lc_wg lc + 1 + 1,
           lc_servers := lc_servers lc @ [\<lparr>rs_serve = Serving, rs_shutdown = AwaitingDone, rs_shutdownTimeout = shutdownTimeout\<rparr>]\<rparr>))"

section \<open>Moves\<close>

definition ErrServerClosed :: err where
  "ErrServerClosed = OtherError ''http: Server closed''"

definition reportable :: "err option \<Rightarrow> bool" where
  "reportable r = (case r of None \<Rightarrow> False | Some e \<Rightarrow> e \<noteq> ErrServerClosed)"

text \<open>\<open>wgr.Done()\<close> panics below zero.\<close>

definition wg_Done :: "lifecycle \<Rightarrow> lifecycle" where
  "wg_Done s = (if lc_wg s = 0 then s\<lparr>lc_panicked := True\<rparr> else s\<lparr>lc_wg := lc_wg s - 1\<rparr>)"

text \<open>\<open>errChan <- e\<close> on the unbuffered channel: a panic when the channel is closed, else the sender goes on (\<open>s'\<close>)
  when the collector is at its receive.\<close>

definition send_err :: "err \<Rightarrow> lifecycle \<Rightarrow> lifecycle \<Rightarrow> lifecycle option" where
  "send_err e s' s =
     (if lc_errClosed s then Some (s\<lparr>lc_panicked := True\<rparr>)
      else if lc_collector s = Ranging then Some (s'\<lparr>lc_collector := Received e\<rparr>)
      else None)"

text \<open>What \<open>net/http\<close> documents of \<open>Serve\<close>: it always returns an error, \<open>ErrServerClosed\<close> after a call of \<open>Shutdown\<close>
  and only then.\<close>

definition serve_may_return :: "runningServer \<Rightarrow> err option \<Rightarrow> bool" where
  "serve_may_return v r \<longleftrightarrow>
     (case r of None \<Rightarrow> False | Some e \<Rightarrow> e = ErrServerClosed \<longrightarrow> rs_shutdown v \<noteq> AwaitingDone)"

datatype move =
    Signal
  | ServeReturns nat "err option" | SendServe nat | LeaveServe nat
  | SeeDone nat | ShutdownReturns nat "err option" | SendShutdown nat | LeaveShutdown nat
  | Cancel | Record | RangeEnds
  | WaitGoes
  | CleanupTick nat

definition set_serve :: "nat \<Rightarrow> serveState \<Rightarrow> lifecycle \<Rightarrow> lifecycle" where
  "set_serve i x s = s\<lparr>lc_servers := (lc_servers s)[i := (lc_servers s ! i)\<lparr>rs_serve := x\<rparr>]\<rparr>"

definition set_shutdown :: "nat \<Rightarrow> shutdownState \<Rightarrow> lifecycle \<Rightarrow> lifecycle" where
  "set_shutdown i x s = s\<lparr>lc_servers := (lc_servers s)[i := (lc_servers s ! i)\<lparr>rs_shutdown := x\<rparr>]\<rparr>"

text \<open>The goroutine that serves.\<close>

definition serve_goes :: "nat \<Rightarrow> move \<Rightarrow> lifecycle \<Rightarrow> lifecycle option" where
  "serve_goes i m s =
     (case (m, rs_serve (lc_servers s ! i)) of
        (ServeReturns _ r, Serving) \<Rightarrow>
          if \<not> serve_may_return (lc_servers s ! i) r then None
          else if reportable r then Some (set_serve i (SendingServe (the r)) s)
          else Some (set_serve i (ServeLeaving None) s)
      | (SendServe _, SendingServe e) \<Rightarrow> send_err e (set_serve i (ServeLeaving (Some e)) s) s
      | (LeaveServe _, ServeLeaving r) \<Rightarrow> Some (wg_Done (set_serve i (ServeEnded r) s))
      | _ \<Rightarrow> None)"

text \<open>The goroutine that shuts down.\<close>

definition shutdown_goes :: "nat \<Rightarrow> move \<Rightarrow> lifecycle \<Rightarrow> lifecycle option" where
  "shutdown_goes i m s =
     (case (m, rs_shutdown (lc_servers s ! i)) of
        (SeeDone _, AwaitingDone) \<Rightarrow>
          if lc_ctxDone s then
            let d = rs_shutdownTimeout (lc_servers s ! i)
            in Some (set_shutdown i (Stopping (if d > 0 then Some d else None)) s)
          else None
      | (ShutdownReturns _ r, Stopping _) \<Rightarrow>
          if reportable r then Some (set_shutdown i (SendingShutdown (the r)) s)
          else Some (set_shutdown i (ShutdownLeaving None) s)
      | (SendShutdown _, SendingShutdown e) \<Rightarrow> send_err e (set_shutdown i (ShutdownLeaving (Some e)) s) s
      | (LeaveShutdown _, ShutdownLeaving r) \<Rightarrow> Some (wg_Done (set_shutdown i (ShutdownEnded r) s))
      | _ \<Rightarrow> None)"

text \<open>The loop \<open>for err := range a.errChan\<close>: \<open>cancel()\<close>, then the log and \<open>appErr\<close>.\<close>

definition collector_goes :: "move \<Rightarrow> lifecycle \<Rightarrow> lifecycle option" where
  "collector_goes m s =
     (case (m, lc_collector s) of
        (Cancel, Received e) \<Rightarrow> Some (s\<lparr>lc_ctxDone := True, lc_collector := Recording e\<rparr>)
      | (Record, Recording e) \<Rightarrow> Some (s\<lparr>lc_logged := lc_logged s @ [e], lc_appErr := Some e, lc_collector := Ranging\<rparr>)
      | (RangeEnds, Ranging) \<Rightarrow> if lc_errClosed s then Some (s\<lparr>lc_collector := CollectorEnded\<rparr>) else None
      | _ \<Rightarrow> None)"

text \<open>The body of \<open>Wait\<close>.\<close>

definition wait_goes :: "lifecycle \<Rightarrow> lifecycle option" where
  "wait_goes s =
     (case lc_wait s of
        Waiting \<Rightarrow> Some (s\<lparr>lc_collector := Ranging, lc_wait := AwaitingCtx\<rparr>)
      | AwaitingCtx \<Rightarrow> if lc_ctxDone s then Some (s\<lparr>lc_wait := AwaitingWg\<rparr>) else None
      | AwaitingWg \<Rightarrow> if lc_wg s = 0 then Some (s\<lparr>lc_wait := Closing\<rparr>) else None
      | Closing \<Rightarrow>
          if lc_errClosed s then Some (s\<lparr>lc_panicked := True\<rparr>)
          else Some (s\<lparr>lc_errClosed := True, lc_wait := AwaitingErrWg\<rparr>)
      | AwaitingErrWg \<Rightarrow>
          if lc_collector s = CollectorEnded then Some (s\<lparr>lc_storesClosed := True, lc_wait := Returned (lc_appErr s)\<rparr>)
          else None
      | Returned _ \<Rightarrow> None)"

text \<open>A round of the endless loop of \<open>startCleanup\<close>; what it does to the counters is \<open>memory_cleanup\<close> of theory \<open>RateLimit\<close>.\<close>

definition cleanup_goes :: "nat \<Rightarrow> lifecycle \<Rightarrow> lifecycle option" where
  "cleanup_goes i s =
     (if i < length (lc_cleaners s) then Some (s\<lparr>lc_cleaners := (lc_cleaners s)[i := lc_cleaners s ! i + 1]\<rparr>) else None)"

fun server_of :: "move \<Rightarrow> nat option" where
  "server_of (ServeReturns i _) = Some i"
| "server_of (SendServe i) = Some i"
| "server_of (LeaveServe i) = Some i"
| "server_of (SeeDone i) = Some i"
| "server_of (ShutdownReturns i _) = Some i"
| "server_of (SendShutdown i) = Some i"
| "server_of (LeaveShutdown i) = Some i"
| "server_of _ = None"

definition lifecycle_step :: "move \<Rightarrow> lifecycle \<Rightarrow> lifecycle option" where
  "lifecycle_step m s =
     (if lc_panicked s then None
      else case server_of m of
        Some i \<Rightarrow>
          if i < length (lc_servers s) then
            (case serve_goes i m s of Some s' \<Rightarrow> Some s' | None \<Rightarrow> shutdown_goes i m s)
          else None
      | None \<Rightarrow>
          (case m of
             Signal \<Rightarrow> if lc_ctxDone s then None else Some (s\<lparr>lc_ctxDone := True\<rparr>)
           | WaitGoes \<Rightarrow> wait_goes s
           | CleanupTick i \<Rightarrow> cleanup_goes i s
           | _ \<Rightarrow> collector_goes m s))"

fun lifecycle_run :: "move list \<Rightarrow> lifecycle \<Rightarrow> lifecycle option" where
  "lifecycle_run [] s = Some s"
| "lifecycle_run (m # ms) s = (case lifecycle_step m s of None \<Rightarrow> None | Some s' \<Rightarrow> lifecycle_run ms s')"

text \<open>\<open>main\<close> of \<open>cmd/api\<close>: the exit code, of a start that failed and of a \<open>Wait\<close> that returned.\<close>

definition api_main :: "'a result \<Rightarrow> err option \<Rightarrow> int" where
  "api_main start waited =
     (case start of Inl _ \<Rightarrow> 1 | Inr _ \<Rightarrow> (case waited of Some _ \<Rightarrow> 1 | None \<Rightarrow> 0))"

end
