(* ===== verification/LifecycleRuns.thy ===== *)
theory LifecycleRuns
  imports Lifecycle
begin

text \<open>
  Runs of the goroutines of theory \<open>Lifecycle\<close>, under every scheduler: an invariant, a bound on the number of
  moves, and what it means that no goroutine can move.
\<close>

section \<open>The invariant\<close>

lemma sum_list_map_update:
  fixes f :: "'a \<Rightarrow> 'b :: comm_monoid_add"
  shows "i < length xs \<Longrightarrow> sum_list (map f (xs[i := y])) + f (xs ! i) = sum_list (map f xs) + f y"
  by (induction xs arbitrary: i) (auto simp: ac_simps split: nat.splits)

primrec serve_live :: "serveState \<Rightarrow> nat" where
  "serve_live Serving = 1" | "serve_live (SendingServe _) = 1" | "serve_live (ServeLeaving _) = 1" | "serve_live (ServeEnded _) = 0"

primrec shutdown_live :: "shutdownState \<Rightarrow> nat" where
  "shutdown_live AwaitingDone = 1" | "shutdown_live (Stopping _) = 1" | "shutdown_live (SendingShutdown _) = 1"
| "shutdown_live (ShutdownLeaving _) = 1" | "shutdown_live (ShutdownEnded _) = 0"

definition goroutines :: "runningServer \<Rightarrow> nat" where
  "goroutines v = serve_live (rs_serve v) + shutdown_live (rs_shutdown v)"

definition sent :: "err option \<Rightarrow> err multiset" where
  "sent r = (case r of None \<Rightarrow> {#} | Some e \<Rightarrow> {#e#})"

lemma sent_simps [simp]: "sent None = {#}" "sent (Some e) = {#e#}"
  by (simp_all add: sent_def)

primrec serve_sent :: "serveState \<Rightarrow> err multiset" where
  "serve_sent Serving = {#}" | "serve_sent (SendingServe _) = {#}" | "serve_sent (ServeLeaving r) = sent r" | "serve_sent (ServeEnded r) = sent r"

primrec shutdown_sent :: "shutdownState \<Rightarrow> err multiset" where
  "shutdown_sent AwaitingDone = {#}" | "shutdown_sent (Stopping _) = {#}" | "shutdown_sent (SendingShutdown _) = {#}"
| "shutdown_sent (ShutdownLeaving r) = sent r" | "shutdown_sent (ShutdownEnded r) = sent r"

text \<open>The errors that the goroutines of a server have sent.\<close>

definition reported :: "runningServer \<Rightarrow> err multiset" where
  "reported v = serve_sent (rs_serve v) + shutdown_sent (rs_shutdown v)"

primrec in_hand :: "collectorState \<Rightarrow> err multiset" where
  "in_hand CollectorIdle = {#}" | "in_hand Ranging = {#}" | "in_hand (Received e) = {#e#}" | "in_hand (Recording e) = {#e#}"
| "in_hand CollectorEnded = {#}"

text \<open>Both over all servers.\<close>

definition all_live :: "runningServer list \<Rightarrow> nat" where
  "all_live vs = sum_list (map goroutines vs)"

definition all_reported :: "runningServer list \<Rightarrow> err multiset" where
  "all_reported vs = sum_list (map reported vs)"

lemma all_update:
  assumes "i < length vs"
  shows "all_live (vs[i := v]) + goroutines (vs ! i) = all_live vs + goroutines v"
    "all_reported (vs[i := v]) + reported (vs ! i) = all_reported vs + reported v"
  using sum_list_map_update [OF assms, of goroutines v] sum_list_map_update [OF assms, of reported v]
  by (simp_all add: all_live_def all_reported_def)

definition counted :: "lifecycle \<Rightarrow> bool" where
  "counted s \<longleftrightarrow> lc_wg s = all_live (lc_servers s)"

definition accounted :: "lifecycle \<Rightarrow> bool" where
  "accounted s \<longleftrightarrow> mset (lc_logged s) + in_hand (lc_collector s) = all_reported (lc_servers s) \<and>
     lc_appErr s = (if lc_logged s = [] then None else Some (last (lc_logged s)))"

text \<open>How far \<open>Wait\<close> and the collector are.\<close>

definition collecting :: "lifecycle \<Rightarrow> bool" where
  "collecting s \<longleftrightarrow> lc_collector s \<noteq> CollectorIdle \<and> lc_collector s \<noteq> CollectorEnded \<and> \<not> lc_errClosed s \<and> \<not> lc_storesClosed s"

definition phases :: "lifecycle \<Rightarrow> bool" where
  "phases s \<longleftrightarrow>
     (case lc_wait s of
        Waiting \<Rightarrow> lc_collector s = CollectorIdle \<and> \<not> lc_errClosed s \<and> \<not> lc_storesClosed s
      | AwaitingCtx \<Rightarrow> collecting s
      | AwaitingWg \<Rightarrow> collecting s \<and> lc_ctxDone s
      | Closing \<Rightarrow> collecting s \<and> lc_ctxDone s \<and> lc_wg s = 0
      | AwaitingErrWg \<Rightarrow> lc_collector s \<noteq> CollectorIdle \<and> lc_ctxDone s \<and> lc_wg s = 0 \<and> lc_errClosed s \<and> \<not> lc_storesClosed s
      | Returned r \<Rightarrow> lc_collector s = CollectorEnded \<and> lc_ctxDone s \<and> lc_wg s = 0 \<and> lc_errClosed s \<and> lc_storesClosed s \<and>
          r = lc_appErr s)"

lemma phases_closed: "phases s \<Longrightarrow> lc_errClosed s \<Longrightarrow> lc_wg s = 0"
  by (auto simp: phases_def collecting_def split: waitState.splits)

definition server_ok_at :: "lifecycle \<Rightarrow> runningServer \<Rightarrow> bool" where
  "server_ok_at s v \<longleftrightarrow> (rs_shutdown v \<noteq> AwaitingDone \<longrightarrow> lc_ctxDone s) \<and>
     (rs_serve v = ServeLeaving None \<or> rs_serve v = ServeEnded None \<longrightarrow> rs_shutdown v \<noteq> AwaitingDone)"

definition lifecycle_inv :: "lifecycle \<Rightarrow> bool" where
  "lifecycle_inv s \<longleftrightarrow> \<not> lc_panicked s \<and> counted s \<and> accounted s \<and> phases s \<and>
     (\<forall>v \<in> set (lc_servers s). server_ok_at s v) \<and> (lc_logged s \<noteq> [] \<longrightarrow> lc_ctxDone s) \<and>
     (\<forall>e. lc_collector s = Recording e \<longrightarrow> lc_ctxDone s)"

section \<open>The steps keep it\<close>

lemma live_pos:
  assumes "counted s" and "i < length (lc_servers s)" and "0 < goroutines (lc_servers s ! i)"
  shows "lc_wg s \<noteq> 0"
  using assms member_le_sum_list [of "goroutines (lc_servers s ! i)" "map goroutines (lc_servers s)"]
  by (auto simp: counted_def all_live_def)

text \<open>Replacing the goroutines of one server.\<close>

definition put_server :: "nat \<Rightarrow> runningServer \<Rightarrow> lifecycle \<Rightarrow> lifecycle" where
  "put_server i v s = s\<lparr>lc_servers := (lc_servers s)[i := v]\<rparr>"

lemma put_server_sel [simp]:
  "lc_servers (put_server i v s) = (lc_servers s)[i := v]" "lc_wg (put_server i v s) = lc_wg s"
  "lc_ctxDone (put_server i v s) = lc_ctxDone s" "lc_errClosed (put_server i v s) = lc_errClosed s"
  "lc_collector (put_server i v s) = lc_collector s" "lc_wait (put_server i v s) = lc_wait s"
  "lc_appErr (put_server i v s) = lc_appErr s" "lc_logged (put_server i v s) = lc_logged s"
  "lc_storesClosed (put_server i v s) = lc_storesClosed s" "lc_panicked (put_server i v s) = lc_panicked s"
  by (simp_all add: put_server_def)

lemma put_server_inv [simp]:
  "phases (put_server i v s) = phases s" "server_ok_at (put_server i v s) = server_ok_at s"
  "counted (put_server i v s) \<longleftrightarrow> lc_wg s = all_live ((lc_servers s)[i := v])"
  by (simp_all add: phases_def collecting_def server_ok_at_def fun_eq_iff counted_def split: waitState.split)

lemma server_ok_at_frame [simp]:
  "server_ok_at (s\<lparr>lc_collector := c\<rparr>) = server_ok_at s" "server_ok_at (s\<lparr>lc_wg := n\<rparr>) = server_ok_at s"
  "server_ok_at (s\<lparr>lc_wait := p\<rparr>) = server_ok_at s" "server_ok_at (s\<lparr>lc_logged := es\<rparr>) = server_ok_at s"
  "server_ok_at (s\<lparr>lc_appErr := r\<rparr>) = server_ok_at s" "server_ok_at (s\<lparr>lc_errClosed := b\<rparr>) = server_ok_at s"
  "server_ok_at (s\<lparr>lc_storesClosed := b\<rparr>) = server_ok_at s"
  by (simp_all add: server_ok_at_def fun_eq_iff)

lemma server_ok_at_done [simp]: "server_ok_at s v \<Longrightarrow> server_ok_at (s\<lparr>lc_ctxDone := True\<rparr>) v"
  by (simp add: server_ok_at_def)

lemma set_goroutine:
  "set_serve i x s = put_server i ((lc_servers s ! i)\<lparr>rs_serve := x\<rparr>) s"
  "set_shutdown i y s = put_server i ((lc_servers s ! i)\<lparr>rs_shutdown := y\<rparr>) s"
  by (simp_all add: put_server_def set_serve_def set_shutdown_def)

text \<open>A move of a goroutine of server \<open>i\<close> that sends nothing and does not end.\<close>

lemma inv_move:
  assumes "lifecycle_inv s" and "i < length (lc_servers s)" and "goroutines v = goroutines (lc_servers s ! i)"
    and "reported v = reported (lc_servers s ! i)" and "server_ok_at s v"
  shows "lifecycle_inv (put_server i v s)"
proof -
  have g: "all_live ((lc_servers s)[i := v]) = all_live (lc_servers s)"
    using all_update(1) [OF assms(2), of v] assms(3) by simp
  have r: "all_reported ((lc_servers s)[i := v]) = all_reported (lc_servers s)"
    using all_update(2) [OF assms(2), of v] assms(4) by simp
  have "\<forall>u \<in> set ((lc_servers s)[i := v]). server_ok_at s u"
    using assms(1,5) set_update_subset_insert [of "lc_servers s" i v] by (auto simp: lifecycle_inv_def)
  then show ?thesis
    using assms(1) by (simp add: lifecycle_inv_def counted_def accounted_def g r)
qed

text \<open>A move that hands an error to the collector.\<close>

lemma inv_send:
  assumes "lifecycle_inv s" and "i < length (lc_servers s)" and "goroutines v = goroutines (lc_servers s ! i)"
    and "reported v = add_mset e (reported (lc_servers s ! i))" and "server_ok_at s v" and "0 < goroutines v"
    and "send_err e (put_server i v s) s = Some s'"
  shows "lifecycle_inv s'"
proof -
  have "lc_wg s \<noteq> 0" using live_pos [of s i] assms(1,2,3,6) by (simp add: lifecycle_inv_def)
  then have "\<not> lc_errClosed s" using assms(1) phases_closed [of s] by (auto simp: lifecycle_inv_def)
  with assms(7) have ranging: "lc_collector s = Ranging" and s': "s' = (put_server i v s)\<lparr>lc_collector := Received e\<rparr>"
    by (auto simp: send_err_def split: if_splits)
  have g: "all_live ((lc_servers s)[i := v]) = all_live (lc_servers s)"
    using all_update(1) [OF assms(2), of v] assms(3) by simp
  have r: "all_reported ((lc_servers s)[i := v]) = add_mset e (all_reported (lc_servers s))"
    using all_update(2) [OF assms(2), of v] assms(4) by simp
  have "\<forall>u \<in> set ((lc_servers s)[i := v]). server_ok_at s u"
    using assms(1,5) set_update_subset_insert [of "lc_servers s" i v] by (auto simp: lifecycle_inv_def)
  then show ?thesis
    using assms(1) ranging unfolding s'
    by (auto simp: lifecycle_inv_def counted_def accounted_def phases_def collecting_def g r split: waitState.splits)
qed

text \<open>A goroutine that ends.\<close>

lemma inv_leave:
  assumes "lifecycle_inv s" and "i < length (lc_servers s)" and "Suc (goroutines v) = goroutines (lc_servers s ! i)"
    and "reported v = reported (lc_servers s ! i)" and "server_ok_at s v"
  shows "lifecycle_inv (wg_Done (put_server i v s))"
proof -
  have "lc_wg s \<noteq> 0" using live_pos [of s i] assms(1,2,3) by (simp add: lifecycle_inv_def)
  then have s': "wg_Done (put_server i v s) = (put_server i v s)\<lparr>lc_wg := lc_wg s - 1\<rparr>" by (simp add: wg_Done_def)
  have g: "Suc (all_live ((lc_servers s)[i := v])) = all_live (lc_servers s)"
    using all_update(1) [OF assms(2), of v] assms(3) by simp
  have r: "all_reported ((lc_servers s)[i := v]) = all_reported (lc_servers s)"
    using all_update(2) [OF assms(2), of v] assms(4) by simp
  have "\<forall>u \<in> set ((lc_servers s)[i := v]). server_ok_at s u"
    using assms(1,5) set_update_subset_insert [of "lc_servers s" i v] by (auto simp: lifecycle_inv_def)
  then show ?thesis
    using assms(1) g \<open>lc_wg s \<noteq> 0\<close> unfolding s'
    by (auto simp: lifecycle_inv_def counted_def accounted_def phases_def collecting_def r split: waitState.splits)
qed

lemma serve_goes_inv:
  assumes "lifecycle_inv s" and "i < length (lc_servers s)" and "serve_goes i m s = Some s'"
  shows "lifecycle_inv s'"
proof -
  let ?v = "lc_servers s ! i"
  have ok: "server_ok_at s ?v" using assms(1,2) by (auto simp: lifecycle_inv_def)
  show ?thesis
  proof (cases "rs_serve ?v")
    case Serving
    then obtain x where "s' = put_server i (?v\<lparr>rs_serve := x\<rparr>) s"
      "x = ServeLeaving None \<and> rs_shutdown ?v \<noteq> AwaitingDone \<or> (\<exists>e. x = SendingServe e)"
      using assms(3) that by (auto simp: serve_goes_def set_goroutine serve_may_return_def reportable_def split: move.splits if_splits option.splits)
    then show ?thesis using inv_move [OF assms(1,2)] Serving ok by (auto simp: goroutines_def reported_def server_ok_at_def)
  next
    case (SendingServe e)
    then have "send_err e (put_server i (?v\<lparr>rs_serve := ServeLeaving (Some e)\<rparr>) s) s = Some s'"
      using assms(3) by (auto simp: serve_goes_def set_goroutine split: move.splits)
    then show ?thesis
      by (rule inv_send [OF assms(1,2), rotated -1]) (use SendingServe ok in \<open>simp_all add: goroutines_def reported_def server_ok_at_def\<close>)
  next
    case (ServeLeaving r)
    then have "s' = wg_Done (put_server i (?v\<lparr>rs_serve := ServeEnded r\<rparr>) s)"
      using assms(3) by (auto simp: serve_goes_def set_goroutine split: move.splits)
    then show ?thesis
      using inv_leave [OF assms(1,2)] ServeLeaving ok by (simp add: goroutines_def reported_def server_ok_at_def)
  qed (use assms(3) in \<open>auto simp: serve_goes_def split: move.splits\<close>)
qed

lemma shutdown_goes_inv:
  assumes "lifecycle_inv s" and "i < length (lc_servers s)" and "shutdown_goes i m s = Some s'"
  shows "lifecycle_inv s'"
proof -
  let ?v = "lc_servers s ! i"
  have ok: "server_ok_at s ?v" using assms(1,2) by (auto simp: lifecycle_inv_def)
  show ?thesis
  proof (cases "rs_shutdown ?v")
    case AwaitingDone
    then obtain d where "s' = put_server i (?v\<lparr>rs_shutdown := Stopping d\<rparr>) s" "lc_ctxDone s"
      using assms(3) by (auto simp: shutdown_goes_def set_goroutine Let_def split: move.splits if_splits)
    then show ?thesis using inv_move [OF assms(1,2)] AwaitingDone ok by (auto simp: goroutines_def reported_def server_ok_at_def)
  next
    case (Stopping d)
    then obtain x where "s' = put_server i (?v\<lparr>rs_shutdown := x\<rparr>) s" "x = ShutdownLeaving None \<or> (\<exists>e. x = SendingShutdown e)"
      using assms(3) by (auto simp: shutdown_goes_def set_goroutine split: move.splits if_splits)
    then show ?thesis using inv_move [OF assms(1,2)] Stopping ok by (auto simp: goroutines_def reported_def server_ok_at_def)
  next
    case (SendingShutdown e)
    then have "send_err e (put_server i (?v\<lparr>rs_shutdown := ShutdownLeaving (Some e)\<rparr>) s) s = Some s'"
      using assms(3) by (auto simp: shutdown_goes_def set_goroutine split: move.splits)
    then show ?thesis
      by (rule inv_send [OF assms(1,2), rotated -1]) (use SendingShutdown ok in \<open>simp_all add: goroutines_def reported_def server_ok_at_def\<close>)
  next
    case (ShutdownLeaving r)
    then have "s' = wg_Done (put_server i (?v\<lparr>rs_shutdown := ShutdownEnded r\<rparr>) s)"
      using assms(3) by (auto simp: shutdown_goes_def set_goroutine split: move.splits)
    then show ?thesis
      using inv_leave [OF assms(1,2)] ShutdownLeaving ok by (simp add: goroutines_def reported_def server_ok_at_def)
  qed (use assms(3) in \<open>auto simp: shutdown_goes_def split: move.splits\<close>)
qed

lemmas inv_defs = lifecycle_inv_def counted_def accounted_def phases_def collecting_def

lemma collector_goes_inv: "lifecycle_inv s \<Longrightarrow> collector_goes m s = Some s' \<Longrightarrow> lifecycle_inv s'"
  by (cases "lc_collector s"; cases "lc_wait s")
    (auto simp: collector_goes_def inv_defs split: if_splits move.splits)

lemma wait_goes_inv: "lifecycle_inv s \<Longrightarrow> wait_goes s = Some s' \<Longrightarrow> lifecycle_inv s'"
  by (cases "lc_wait s") (auto simp: wait_goes_def inv_defs split: if_splits)

lemma signal_inv: "lifecycle_inv s \<Longrightarrow> lifecycle_inv (s\<lparr>lc_ctxDone := True\<rparr>)"
  by (auto simp: inv_defs split: waitState.splits)

lemma cleanup_goes_inv: "lifecycle_inv s \<Longrightarrow> cleanup_goes i s = Some s' \<Longrightarrow> lifecycle_inv s'"
proof -
  have "lifecycle_inv (s\<lparr>lc_cleaners := x\<rparr>) = lifecycle_inv s" for x
  proof -
    have "counted (s\<lparr>lc_cleaners := x\<rparr>) = counted s" "accounted (s\<lparr>lc_cleaners := x\<rparr>) = accounted s"
      "phases (s\<lparr>lc_cleaners := x\<rparr>) = phases s" "server_ok_at (s\<lparr>lc_cleaners := x\<rparr>) = server_ok_at s"
      by (simp_all add: counted_def accounted_def phases_def collecting_def server_ok_at_def fun_eq_iff split: waitState.split)
    then show ?thesis by (simp add: lifecycle_inv_def)
  qed
  then show "lifecycle_inv s \<Longrightarrow> cleanup_goes i s = Some s' \<Longrightarrow> lifecycle_inv s'" by (auto simp: cleanup_goes_def split: if_splits)
qed

lemma step_inv: "lifecycle_inv s \<Longrightarrow> lifecycle_step m s = Some s' \<Longrightarrow> lifecycle_inv s'"
  by (cases m) (auto simp: lifecycle_step_def dest: serve_goes_inv shutdown_goes_inv collector_goes_inv wait_goes_inv cleanup_goes_inv
      intro: signal_inv split: if_splits option.splits)

lemma run_inv: "lifecycle_inv s \<Longrightarrow> lifecycle_run ms s = Some s' \<Longrightarrow> lifecycle_inv s'"
  by (induction ms arbitrary: s) (auto split: option.splits dest: step_inv)

section \<open>Runs are finite but for the sweeps\<close>

definition is_tick :: "move \<Rightarrow> bool" where
  "is_tick m \<longleftrightarrow> (\<exists>i. m = CleanupTick i)"

lemma is_tick_simps [simp]: "is_tick (CleanupTick i)" "is_tick WaitGoes \<longleftrightarrow> False" "is_tick Signal \<longleftrightarrow> False"
  by (simp_all add: is_tick_def)

text \<open>The goroutines that sweep are as many as at the start, and can always go on.\<close>

lemma send_cleaners: "send_err e (put_server i v s) s = Some s' \<Longrightarrow> lc_cleaners s' = lc_cleaners s"
  by (auto simp: send_err_def put_server_def split: if_splits)

lemma goes_cleaners:
  "serve_goes i m s = Some s' \<Longrightarrow> lc_cleaners s' = lc_cleaners s"
  "shutdown_goes i m s = Some s' \<Longrightarrow> lc_cleaners s' = lc_cleaners s"
  "collector_goes m s = Some s' \<Longrightarrow> lc_cleaners s' = lc_cleaners s"
  "wait_goes s = Some s' \<Longrightarrow> lc_cleaners s' = lc_cleaners s"
  by (auto simp: serve_goes_def shutdown_goes_def collector_goes_def wait_goes_def set_goroutine wg_Done_def put_server_def send_err_def Let_def
      split: move.splits serveState.splits shutdownState.splits collectorState.splits waitState.splits if_splits)

lemma step_cleaners: "lifecycle_step m s = Some s' \<Longrightarrow> length (lc_cleaners s') = length (lc_cleaners s)"
  by (cases m) (auto simp: lifecycle_step_def cleanup_goes_def dest: goes_cleaners split: if_splits option.splits)

lemma run_cleaners: "lifecycle_run ms s = Some s' \<Longrightarrow> length (lc_cleaners s') = length (lc_cleaners s)"
  by (induction ms arbitrary: s) (auto split: option.splits dest: step_cleaners)

lemma tick_goes: "lifecycle_inv s \<Longrightarrow> i < length (lc_cleaners s) \<Longrightarrow> lifecycle_step (CleanupTick i) s \<noteq> None"
  by (simp add: lifecycle_step_def cleanup_goes_def lifecycle_inv_def)

text \<open>The moves that are left to a goroutine, with room for the two that the collector makes for a message.\<close>

primrec serve_rank :: "serveState \<Rightarrow> nat" where
  "serve_rank Serving = 5" | "serve_rank (SendingServe _) = 4" | "serve_rank (ServeLeaving _) = 1" | "serve_rank (ServeEnded _) = 0"

primrec shutdown_rank :: "shutdownState \<Rightarrow> nat" where
  "shutdown_rank AwaitingDone = 6" | "shutdown_rank (Stopping _) = 5" | "shutdown_rank (SendingShutdown _) = 4"
| "shutdown_rank (ShutdownLeaving _) = 1" | "shutdown_rank (ShutdownEnded _) = 0"

primrec collector_rank :: "collectorState \<Rightarrow> nat" where
  "collector_rank CollectorIdle = 2" | "collector_rank Ranging = 1" | "collector_rank (Received _) = 3"
| "collector_rank (Recording _) = 2" | "collector_rank CollectorEnded = 0"

primrec wait_rank :: "waitState \<Rightarrow> nat" where
  "wait_rank Waiting = 5" | "wait_rank AwaitingCtx = 4" | "wait_rank AwaitingWg = 3" | "wait_rank Closing = 2"
| "wait_rank AwaitingErrWg = 1" | "wait_rank (Returned _) = 0"

definition server_rank :: "runningServer \<Rightarrow> nat" where
  "server_rank v = serve_rank (rs_serve v) + shutdown_rank (rs_shutdown v)"

definition servers_rank :: "runningServer list \<Rightarrow> nat" where
  "servers_rank vs = sum_list (map server_rank vs)"

definition work :: "lifecycle \<Rightarrow> nat" where
  "work s = servers_rank (lc_servers s) + collector_rank (lc_collector s) + wait_rank (lc_wait s) + (if lc_ctxDone s then 0 else 1)"

lemma work_put:
  "i < length (lc_servers s) \<Longrightarrow> work (put_server i v s) + server_rank (lc_servers s ! i) = work s + server_rank v"
  using sum_list_map_update [of i "lc_servers s" server_rank v] by (simp add: work_def servers_rank_def)

lemma work_send:
  assumes "lifecycle_inv s" and "i < length (lc_servers s)" and "0 < goroutines (lc_servers s ! i)"
    and "server_rank v + 3 = server_rank (lc_servers s ! i)" and "send_err e (put_server i v s) s = Some s'"
  shows "work s' < work s"
proof -
  have "lc_wg s \<noteq> 0" using live_pos [of s i] assms(1-3) by (simp add: lifecycle_inv_def)
  then have "\<not> lc_errClosed s" using assms(1) phases_closed [of s] by (auto simp: lifecycle_inv_def)
  with assms(5) have "lc_collector s = Ranging" "s' = (put_server i v s)\<lparr>lc_collector := Received e\<rparr>"
    by (auto simp: send_err_def split: if_splits)
  then show ?thesis using work_put [OF assms(2), of v] assms(4) by (simp add: work_def)
qed

lemma work_leave: "work (wg_Done s) = work s"
  by (simp add: wg_Done_def work_def)

lemma serve_goes_work:
  assumes "lifecycle_inv s" and "i < length (lc_servers s)" and "serve_goes i m s = Some s'"
  shows "work s' < work s"
proof -
  let ?v = "lc_servers s ! i"
  note put = work_put [OF assms(2)]
  show ?thesis
  proof (cases "rs_serve ?v")
    case Serving
    then obtain x where "s' = put_server i (?v\<lparr>rs_serve := x\<rparr>) s" "x = ServeLeaving None \<or> (\<exists>e. x = SendingServe e)"
      using assms(3) by (auto simp: serve_goes_def set_goroutine split: move.splits if_splits)
    then show ?thesis using put [of "?v\<lparr>rs_serve := x\<rparr>"] Serving by (auto simp: server_rank_def)
  next
    case (SendingServe e)
    then have "send_err e (put_server i (?v\<lparr>rs_serve := ServeLeaving (Some e)\<rparr>) s) s = Some s'"
      using assms(3) by (auto simp: serve_goes_def set_goroutine split: move.splits)
    then show ?thesis
      by (rule work_send [OF assms(1,2), rotated -1]) (use SendingServe in \<open>simp_all add: goroutines_def server_rank_def\<close>)
  next
    case (ServeLeaving r)
    then have "s' = wg_Done (put_server i (?v\<lparr>rs_serve := ServeEnded r\<rparr>) s)"
      using assms(3) by (auto simp: serve_goes_def set_goroutine split: move.splits)
    then show ?thesis using put [of "?v\<lparr>rs_serve := ServeEnded r\<rparr>"] ServeLeaving by (simp add: work_leave server_rank_def)
  qed (use assms(3) in \<open>auto simp: serve_goes_def split: move.splits\<close>)
qed

lemma shutdown_goes_work:
  assumes "lifecycle_inv s" and "i < length (lc_servers s)" and "shutdown_goes i m s = Some s'"
  shows "work s' < work s"
proof -
  let ?v = "lc_servers s ! i"
  note put = work_put [OF assms(2)]
  show ?thesis
  proof (cases "rs_shutdown ?v")
    case AwaitingDone
    then obtain d where "s' = put_server i (?v\<lparr>rs_shutdown := Stopping d\<rparr>) s"
      using assms(3) by (auto simp: shutdown_goes_def set_goroutine Let_def split: move.splits if_splits)
    then show ?thesis using put [of "?v\<lparr>rs_shutdown := Stopping d\<rparr>"] AwaitingDone by (simp add: server_rank_def)
  next
    case (Stopping d)
    then obtain x where "s' = put_server i (?v\<lparr>rs_shutdown := x\<rparr>) s" "x = ShutdownLeaving None \<or> (\<exists>e. x = SendingShutdown e)"
      using assms(3) by (auto simp: shutdown_goes_def set_goroutine split: move.splits if_splits)
    then show ?thesis using put [of "?v\<lparr>rs_shutdown := x\<rparr>"] Stopping by (auto simp: server_rank_def)
  next
    case (SendingShutdown e)
    then have "send_err e (put_server i (?v\<lparr>rs_shutdown := ShutdownLeaving (Some e)\<rparr>) s) s = Some s'"
      using assms(3) by (auto simp: shutdown_goes_def set_goroutine split: move.splits)
    then show ?thesis
      by (rule work_send [OF assms(1,2), rotated -1]) (use SendingShutdown in \<open>simp_all add: goroutines_def server_rank_def\<close>)
  next
    case (ShutdownLeaving r)
    then have "s' = wg_Done (put_server i (?v\<lparr>rs_shutdown := ShutdownEnded r\<rparr>) s)"
      using assms(3) by (auto simp: shutdown_goes_def set_goroutine split: move.splits)
    then show ?thesis using put [of "?v\<lparr>rs_shutdown := ShutdownEnded r\<rparr>"] ShutdownLeaving by (simp add: work_leave server_rank_def)
  qed (use assms(3) in \<open>auto simp: shutdown_goes_def split: move.splits\<close>)
qed

lemma collector_goes_work: "collector_goes m s = Some s' \<Longrightarrow> work s' < work s"
  by (cases "lc_collector s") (auto simp: collector_goes_def work_def split: if_splits move.splits)

lemma wait_goes_work: "lifecycle_inv s \<Longrightarrow> wait_goes s = Some s' \<Longrightarrow> work s' < work s"
  by (cases "lc_wait s") (auto simp: wait_goes_def work_def inv_defs split: if_splits)

lemma tick_work: "is_tick m \<Longrightarrow> lifecycle_step m s = Some s' \<Longrightarrow> work s' = work s"
  by (auto simp: is_tick_def lifecycle_step_def cleanup_goes_def work_def split: if_splits)

lemma step_work: "lifecycle_inv s \<Longrightarrow> lifecycle_step m s = Some s' \<Longrightarrow> \<not> is_tick m \<Longrightarrow> work s' < work s"
  by (cases m) (auto simp: lifecycle_step_def work_def dest: serve_goes_work shutdown_goes_work collector_goes_work wait_goes_work
      split: if_splits option.splits)

lemma run_work: "lifecycle_inv s \<Longrightarrow> lifecycle_run ms s = Some s' \<Longrightarrow> length (filter (\<lambda>m. \<not> is_tick m) ms) + work s' \<le> work s"
proof (induction ms arbitrary: s)
  case (Cons m ms)
  then obtain s1 where s1: "lifecycle_step m s = Some s1" "lifecycle_run ms s1 = Some s'" by (auto split: option.splits)
  with Cons.IH [OF step_inv [OF Cons.prems(1) s1(1)]] step_work [OF Cons.prems(1) s1(1)] tick_work [of m s s1] show ?case
    by (cases "is_tick m") auto
qed simp

section \<open>Nothing gets stuck\<close>

text \<open>The moves that a goroutine makes without waiting for the world: all but a signal, the tick of a timer, and the return of a \<open>Serve\<close>
  whose server is not being shut down.\<close>

definition due :: "move \<Rightarrow> lifecycle \<Rightarrow> bool" where
  "due m s \<longleftrightarrow>
     (case m of
        Signal \<Rightarrow> False
      | CleanupTick _ \<Rightarrow> False
      | ServeReturns i _ \<Rightarrow> i < length (lc_servers s) \<and> rs_shutdown (lc_servers s ! i) \<noteq> AwaitingDone
      | _ \<Rightarrow> True)"

definition quiescent :: "lifecycle \<Rightarrow> bool" where
  "quiescent s \<longleftrightarrow> (\<forall>m. due m s \<longrightarrow> lifecycle_step m s = None)"

definition returned :: "lifecycle \<Rightarrow> bool" where
  "returned s \<longleftrightarrow> (\<exists>r. lc_wait s = Returned r)"

text \<open>The process at work: every server serves, and \<open>Wait\<close> waits for the end of the context.\<close>

definition all_serving :: "lifecycle \<Rightarrow> bool" where
  "all_serving s \<longleftrightarrow> \<not> lc_ctxDone s \<and> lc_wait s = AwaitingCtx \<and>
     (\<forall>v \<in> set (lc_servers s). rs_serve v = Serving \<and> rs_shutdown v = AwaitingDone)"

lemma quiescent_wait:
  assumes "quiescent s" and "\<not> lc_panicked s"
  shows "wait_goes s = None" and "m \<in> {Cancel, Record, RangeEnds} \<Longrightarrow> collector_goes m s = None"
proof -
  have "lifecycle_step WaitGoes s = None" "m \<in> {Cancel, Record, RangeEnds} \<Longrightarrow> lifecycle_step m s = None"
    using assms(1) by (auto simp: quiescent_def due_def)
  then show "wait_goes s = None" "m \<in> {Cancel, Record, RangeEnds} \<Longrightarrow> collector_goes m s = None"
    using assms(2) by (auto simp: lifecycle_step_def)
qed

lemma quiescent_server:
  assumes "quiescent s" and "\<not> lc_panicked s" and "i < length (lc_servers s)" and "\<not> lc_errClosed s" and "lc_collector s = Ranging"
  shows "(\<exists>r. rs_serve (lc_servers s ! i) = ServeEnded r) \<or>
      rs_serve (lc_servers s ! i) = Serving \<and> rs_shutdown (lc_servers s ! i) = AwaitingDone"
    and "(\<exists>r. rs_shutdown (lc_servers s ! i) = ShutdownEnded r) \<or> rs_shutdown (lc_servers s ! i) = AwaitingDone \<and> \<not> lc_ctxDone s"
proof -
  have no: "due m s \<Longrightarrow> lifecycle_step m s = None" for m using assms(1) by (simp add: quiescent_def)
  have ret: "lifecycle_step (ServeReturns i (Some ErrServerClosed)) s = None" if "rs_shutdown (lc_servers s ! i) \<noteq> AwaitingDone"
    using no [of "ServeReturns i (Some ErrServerClosed)"] assms(3) that by (simp add: due_def)
  have moves: "lifecycle_step (SendServe i) s = None" "lifecycle_step (LeaveServe i) s = None" "lifecycle_step (SeeDone i) s = None"
    "lifecycle_step (ShutdownReturns i None) s = None" "lifecycle_step (SendShutdown i) s = None" "lifecycle_step (LeaveShutdown i) s = None"
    by (rule no, simp add: due_def)+
  show "(\<exists>r. rs_serve (lc_servers s ! i) = ServeEnded r) \<or>
      rs_serve (lc_servers s ! i) = Serving \<and> rs_shutdown (lc_servers s ! i) = AwaitingDone"
    using ret moves(1,2) assms(2-5)
    by (cases "rs_serve (lc_servers s ! i)")
      (auto simp: lifecycle_step_def serve_goes_def send_err_def serve_may_return_def reportable_def)
  show "(\<exists>r. rs_shutdown (lc_servers s ! i) = ShutdownEnded r) \<or> rs_shutdown (lc_servers s ! i) = AwaitingDone \<and> \<not> lc_ctxDone s"
    using moves(3-6) assms(2-5)
    by (cases "rs_shutdown (lc_servers s ! i)")
      (auto simp: lifecycle_step_def shutdown_goes_def serve_goes_def send_err_def reportable_def Let_def split: option.splits)
qed

lemma all_live_zero: "(\<And>v. v \<in> set vs \<Longrightarrow> goroutines v = 0) \<Longrightarrow> all_live vs = 0"
  by (auto simp: all_live_def)

lemma reported_in: "v \<in> set vs \<Longrightarrow> e \<in># reported v \<Longrightarrow> e \<in># all_reported vs"
  by (induction vs) (auto simp: all_reported_def)

lemma quiescent_ends:
  assumes inv: "lifecycle_inv s" and q: "quiescent s"
  shows "all_serving s \<or> returned s"
proof (rule disjCI)
  assume "\<not> returned s"
  have live: "\<not> lc_panicked s" and ph: "phases s" using inv by (simp_all add: lifecycle_inv_def)
  note stuck = quiescent_wait(1) [OF q live] and coll = quiescent_wait(2) [OF q live]
  have ranging: "lc_collector s = Ranging" "\<not> lc_errClosed s"
    and wait: "lc_wait s = AwaitingCtx \<and> \<not> lc_ctxDone s \<or> lc_wait s = AwaitingWg \<and> lc_ctxDone s \<and> lc_wg s \<noteq> 0"
    using stuck coll [of Cancel] coll [of Record] coll [of RangeEnds] ph \<open>\<not> returned s\<close>
    by (cases "lc_wait s"; cases "lc_collector s";
        auto simp: wait_goes_def collector_goes_def phases_def collecting_def returned_def split: if_splits)+
  note srv = quiescent_server [OF q live _ ranging(2,1)]
  show "all_serving s"
  proof (cases "lc_ctxDone s")
    case True
    have "goroutines v = 0" if "v \<in> set (lc_servers s)" for v
      using that srv True by (fastforce simp: in_set_conv_nth goroutines_def)
    then have "lc_wg s = 0" using inv all_live_zero by (simp add: lifecycle_inv_def counted_def)
    with wait True show ?thesis by simp
  next
    case False
    have "rs_serve v = Serving \<and> rs_shutdown v = AwaitingDone" if v: "v \<in> set (lc_servers s)" for v
    proof -
      have aw: "rs_shutdown v = AwaitingDone" using inv v False by (auto simp: lifecycle_inv_def server_ok_at_def)
      have "all_reported (lc_servers s) = {#}" using inv False ranging by (auto simp: lifecycle_inv_def accounted_def)
      then have "rs_serve v \<noteq> ServeEnded (Some e)" for e using reported_in [OF v, of e] by (auto simp: reported_def)
      moreover have "rs_serve v \<noteq> ServeEnded None" using inv v aw by (auto simp: lifecycle_inv_def server_ok_at_def)
      ultimately show ?thesis using srv(1) v aw by (metis in_set_conv_nth not_None_eq)
    qed
    with wait False show ?thesis by (simp add: all_serving_def)
  qed
qed

section \<open>What the process reports\<close>

lemma returned_accounts:
  assumes "lifecycle_inv s" and "lc_wait s = Returned r"
  shows "lc_wg s = 0 \<and> mset (lc_logged s) = all_reported (lc_servers s) \<and>
    r = (if lc_logged s = [] then None else Some (last (lc_logged s)))"
  using assms by (auto simp: lifecycle_inv_def phases_def accounted_def)

lemma all_ended:
  assumes "all_live vs = 0" and "v \<in> set vs"
  shows "(\<exists>r. rs_serve v = ServeEnded r) \<and> (\<exists>r. rs_shutdown v = ShutdownEnded r)"
proof -
  have "goroutines v = 0" using assms by (auto simp: all_live_def)
  then show ?thesis by (cases "rs_serve v"; cases "rs_shutdown v") (auto simp: goroutines_def)
qed

text \<open>The state after \<open>n\<close> limiters in memory and a number of calls of \<open>RunServer\<close>.\<close>

definition launched :: "nat \<Rightarrow> duration list \<Rightarrow> lifecycle" where
  "launched n ts = lifecycle_New\<lparr>lc_wg := 2 * length ts, lc_cleaners := replicate n 0,
     lc_servers := map (\<lambda>t. \<lparr>rs_serve = Serving, rs_shutdown = AwaitingDone, rs_shutdownTimeout = t\<rparr>) ts\<rparr>"

lemma launched_inv: "lifecycle_inv (launched n ts)"
proof -
  have "all_live (lc_servers (launched n ts)) = 2 * length ts" "all_reported (lc_servers (launched n ts)) = {#}"
    by (induction ts) (simp_all add: launched_def all_live_def all_reported_def goroutines_def reported_def)
  then show ?thesis
    by (auto simp: lifecycle_inv_def counted_def accounted_def phases_def server_ok_at_def launched_def lifecycle_New_def)
qed

lemma launched_work: "work (launched n ts) = 11 * length ts + 8"
proof -
  have "servers_rank (lc_servers (launched n ts)) = 11 * length ts"
    by (induction ts) (simp_all add: launched_def servers_rank_def server_rank_def)
  then show ?thesis by (simp add: work_def) (simp add: launched_def lifecycle_New_def)
qed

lemma RunServer_launched:
  "RunServer listen port t (launched n ts) w = (Inr lc, w') \<Longrightarrow> lc = launched n (ts @ [t])"
  by (auto simp: RunServer_def bindE_Inr returnE_def launched_def)

lemma cleaners_launched: "(go_startCleanup ^^ k) (launched n ts) = launched (n + k) ts"
proof (induction k)
  case (Suc k)
  have "replicate (Suc j) (0::nat) = replicate j 0 @ [0]" for j by (simp add: replicate_append_same)
  with Suc show ?case by (simp add: go_startCleanup_def launched_def)
qed simp

lemma New_launched: "lifecycle_New = launched 0 []"
  by (simp add: launched_def lifecycle_New_def)

end
