(* ===== verification/Application.thy ===== *)
theory Application
  imports Router AuthApp TaskApp TeamApp StatsApp TaskCacheRuns RateLimitRuns LifecycleRuns
begin

text \<open>
  \<open>internal/application/application.go\<close> with \<open>internal/repository/db.go\<close> and \<open>internal/infra/redis\<close>: how the
  program is put together at start. The state of theory \<open>World\<close> is extended by what the process
  keeps in memory: the three limiters and the log.
\<close>

record app_world = world +
  mem_login :: memoryLimiter
  mem_refresh :: memoryLimiter
  mem_user :: memoryLimiter
  log_lines :: "logEntry list"

text \<open>A limiter in memory, given where it is kept.\<close>

definition memory_limiter ::
    "('x world_scheme \<Rightarrow> memoryLimiter) \<Rightarrow> ((memoryLimiter \<Rightarrow> memoryLimiter) \<Rightarrow> 'x world_scheme \<Rightarrow> 'x world_scheme)
     \<Rightarrow> 'x world_scheme Limiter" where
  "memory_limiter get upd key w =
     (case memory_Allow (now w) key (get w) of (res, m) \<Rightarrow> (res, upd (\<lambda>_. m) w))"

section \<open>Libraries and connections\<close>

record 'w appLibs =
  al_config :: configLibs
  al_json :: jsonlib
  al_idem :: idemLibs
  al_crypto :: crypto
  al_sha1 :: "string \<Rightarrow> string"
  al_Sscan :: "string \<Rightarrow> int option"
  al_lower :: "string \<Rightarrow> string"
  al_chi :: "'w chiLib"
  al_breaker :: "breakerSettings \<Rightarrow> 'w CircuitBreaker"
  al_httpClient :: "duration \<Rightarrow> 'w httpClient"
  al_sqlOpen :: "string \<Rightarrow> unit result"
  al_ping :: "RedisConfig \<Rightarrow> ('w, unit) comp"
  al_listen :: "string \<Rightarrow> string \<Rightarrow> ('w, unit) comp"

text \<open>\<open>repository.NewMySQL\<close>: the data source name and the limits of the pool.\<close>

record dbPool =
  pool_dsn :: string
  pool_maxOpen :: "int option"
  pool_maxIdle :: "int option"
  pool_maxLifetime :: duration

definition repository_NewMySQL :: "(string \<Rightarrow> unit result) \<Rightarrow> MySQLConfig \<Rightarrow> dbPool result" where
  "repository_NewMySQL sqlOpen cfg =
     (let dsn = MySQL_User cfg @ '':'' @ MySQL_Password cfg @ ''@tcp('' @ MySQL_Host cfg @ '':'' @ FormatInt (MySQL_Port cfg)
            @ '')/'' @ MySQL_DBName cfg @ ''?parseTime=true&multiStatements=true''
      in case sqlOpen dsn of
           Inl e \<Rightarrow> Inl e
         | Inr _ \<Rightarrow> Inr
             \<lparr>pool_dsn = dsn,
              pool_maxOpen = (if MySQL_MaxOpenConns cfg > 0 then Some (MySQL_MaxOpenConns cfg) else None),
              pool_maxIdle = (if MySQL_MaxIdleConns cfg > 0 then Some (MySQL_MaxIdleConns cfg) else None),
              pool_maxLifetime = (if MySQL_MaxLifetime cfg > 0 then MySQL_MaxLifetime cfg else 30 * minute)\<rparr>)"

text \<open>\<open>(*Client).Ping\<close>: whether Redis answered.\<close>

definition Client_Ping :: "(RedisConfig \<Rightarrow> ('w, unit) comp) \<Rightarrow> RedisConfig \<Rightarrow> 'w \<Rightarrow> bool \<times> 'w" where
  "Client_Ping ping cfg w = (case ping cfg w of (Inl _, w1) \<Rightarrow> (False, w1) | (Inr _, w1) \<Rightarrow> (True, w1))"

section \<open>The application\<close>

text \<open>\<open>NewLogger\<close>: the level from which on lines are written.\<close>

datatype slogLevel = LevelDebug | LevelInfo | LevelWarn | LevelError

definition NewLogger :: "string \<Rightarrow> slogLevel" where
  "NewLogger level =
     (if level = ''debug'' then LevelDebug
      else if level = ''warn'' then LevelWarn
      else if level = ''error'' then LevelError
      else LevelInfo)"

record 'w Application =
  a_cfg :: Config
  a_logger :: slogLevel
  a_pool :: dbPool
  a_metrics :: "'w Metrics option"
  a_redis :: "'w redisClient option"
  a_loginLimiter :: "'w Limiter"
  a_refreshLimiter :: "'w Limiter"
  a_userLimiter :: "'w Limiter"
  a_taskCache :: "'w TaskCache"
  a_statsCache :: "'w StatsCache"
  a_lockout :: "'w Lockout"
  a_idemStore :: "'w Store"
  a_locker :: "'w Locker"
  a_auth :: "'w AuthService option"
  a_teamSvc :: "'w TeamService option"
  a_taskSvc :: "'w TaskService option"
  a_statsSvc :: "'w StatsService option"
  a_router :: "'w handler option"
  a_life :: lifecycle
  a_ready :: bool

text \<open>\<open>New()\<close>: only the channel is made, with the wait group and \<open>ready\<close> at their zero values. The other fields, nil in the code, are the ones of the
  argument: \<open>Start\<close> sets each of them before it reads it.\<close>

definition application_New :: "'w Application \<Rightarrow> 'w Application" where
  "application_New zero = zero\<lparr>a_life := lifecycle_New, a_ready := False\<rparr>"

definition Ready :: "'w Application \<Rightarrow> bool" where
  "Ready a = a_ready a"

definition redis_limiter_of ::
    "'x app_world_scheme redisClient \<Rightarrow> 'x app_world_scheme Metrics option \<Rightarrow> int \<Rightarrow> duration
     \<Rightarrow> 'x app_world_scheme Limiter \<Rightarrow> 'x app_world_scheme Limiter" where
  "redis_limiter_of client metrics limit window fallback =
     redis_Allow \<lparr>rl_client = Some client, rl_limit = limit, rl_window = window, rl_fallback = fallback,
       rl_metrics = metrics, rl_errCount = (\<lambda>w. w), rl_now = now\<rparr>"

text \<open>The window of the limiters.\<close>

definition limiter_window :: "Config \<Rightarrow> duration" where
  "limiter_window cfg =
     (let window = wrap64 (RateLimit_WindowSeconds (cfg_RateLimit cfg) * second)
      in if window \<le> 0 then 60 * second else window)"

text \<open>\<open>initRedis\<close>, in its two steps: the limiters, of which the ones in memory start empty, each with its goroutine, then the
  caches, the lockout, the store for idempotency and the lock. Where limiting is off, the limiters of the fallback are made as well:
  nothing can call them, and their goroutines run.\<close>

definition initLimiters ::
    "'x app_world_scheme Application \<Rightarrow> 'x app_world_scheme \<Rightarrow> 'x app_world_scheme Application \<times> 'x app_world_scheme" where
  "initLimiters b w =
     (let a = b\<lparr>a_life := (go_startCleanup ^^ 3) (a_life b)\<rparr>; cfg = a_cfg a; window = limiter_window cfg;
          login = Auth_LoginPerMin (cfg_Auth cfg); refresh = Auth_RefreshPerMin (cfg_Auth cfg);
          user = RateLimit_UserPerMin (cfg_RateLimit cfg);
          fallbackLogin = memory_limiter mem_login mem_login_update;
          fallbackRefresh = memory_limiter mem_refresh mem_refresh_update;
          fallbackUser = memory_limiter mem_user mem_user_update
      in if \<not> RateLimit_Enabled (cfg_RateLimit cfg) then
           (a\<lparr>a_loginLimiter := fallbackLogin, a_refreshLimiter := fallbackRefresh, a_userLimiter := fallbackUser,
              a_life := (go_startCleanup ^^ 3) (a_life a)\<rparr>,
            w\<lparr>mem_login := NewMemory 0 window, mem_refresh := NewMemory 0 window, mem_user := NewMemory 0 window\<rparr>)
         else
           ((case a_redis a of
               Some c \<Rightarrow>
                 a\<lparr>a_loginLimiter := redis_limiter_of c (a_metrics a) login window fallbackLogin,
                   a_refreshLimiter := redis_limiter_of c (a_metrics a) refresh window fallbackRefresh,
                   a_userLimiter := redis_limiter_of c (a_metrics a) user window fallbackUser\<rparr>
             | None \<Rightarrow>
                 a\<lparr>a_loginLimiter := fallbackLogin, a_refreshLimiter := fallbackRefresh, a_userLimiter := fallbackUser\<rparr>),
            w\<lparr>mem_login := NewMemory login window, mem_refresh := NewMemory refresh window,
              mem_user := NewMemory user window\<rparr>))"

definition initRedis ::
    "'x app_world_scheme appLibs \<Rightarrow> 'x app_world_scheme Application
     \<Rightarrow> 'x app_world_scheme \<Rightarrow> 'x app_world_scheme Application \<times> 'x app_world_scheme" where
  "initRedis l a w =
     (case Client_Ping (al_ping l) (cfg_Redis (a_cfg a)) w of (ok, w1) \<Rightarrow>
        case initLimiters (a\<lparr>a_redis := (if ok then Some redis_client else None)\<rparr>) w1 of (a1, w2) \<Rightarrow>
          let cfg = a_cfg a1; lo = Auth_Lockout (cfg_Auth cfg)
          in (a1\<lparr>
                a_taskCache := NewTaskCache (a_redis a1) (Cache_TaskCacheTTL (cfg_Cache cfg)) (Cache_Enabled (cfg_Cache cfg))
                  (a_metrics a1) (al_sha1 l) (al_Sscan l),
                a_statsCache := NewStatsCache (a_redis a1) (Cache_StatsTTL (cfg_Cache cfg)) (Cache_Enabled (cfg_Cache cfg))
                  (a_metrics a1) (al_json l),
                a_lockout := \<lparr>lockout_client = a_redis a1, lockout_maxAttempts = Lockout_MaxAttempts lo,
                  lockout_lockTTL = Lockout_LockTTL lo, lockout_keyMaxLen = Lockout_KeyMaxLen lo,
                  lockout_metrics = a_metrics a1, lockout_lower = al_lower l\<rparr>,
                a_idemStore := NewStore (a_redis a1) (al_idem l),
                a_locker := \<lparr>locker_client = a_redis a1, locker_metrics = a_metrics a1, locker_uuid = NewString\<rparr>\<rparr>,
              w2))"

definition initServices ::
    "'x app_world_scheme appLibs \<Rightarrow> 'x app_world_scheme Application \<Rightarrow> 'x app_world_scheme Application result" where
  "initServices l a =
     (let cfg = a_cfg a; bl = \<lparr>blacklist_client = a_redis a\<rparr>;
          sender = NewBreakerSender (al_breaker l)
            (Some (HTTPSender_SendInvite (NewHTTPSender (al_httpClient l) (cfg_Email cfg)))) (cfg_Circuit cfg) (a_metrics a)
      in case NewAuthService NewUserRepository NewSessionRepository cfg (a_metrics a)
             (Some \<lparr>TokenBlacklist_IsRevoked = IsRevoked bl, TokenBlacklist_Revoke = Blacklist_Revoke bl\<rparr>)
             (app_libs (al_crypto l)) of
           Inl e \<Rightarrow> Inl e
         | Inr auth \<Rightarrow> Inr (a\<lparr>
             a_auth := Some auth,
             a_teamSvc := Some (NewTeamService NewMySQL NewTeamStore NewTeamMemberStore
               \<lparr>userStore_GetByEmail = UserRepository_GetByEmail\<rparr>
               (Some \<lparr>EmailSender_SendInvite = BreakerSender_SendInvite sender\<rparr>)
               (Some \<lparr>InviteLocker_Acquire = Acquire (a_locker a), InviteLocker_Release = Release (a_locker a)\<rparr>)
               (Idem_LockTTL (cfg_Idem cfg)) (a_metrics a)),
             a_taskSvc := Some (NewTaskService (Some NewMySQL) NewTaskRepository NewTeamRepository
               NewTeamMemberRepository NewTaskCommentRepository (Some NewTaskHistoryRepository)),
             a_statsSvc := Some (NewStatsService NewAnalyticsRepository (Some (StatsCache_iface (a_statsCache a)))
               (Admin_UserIDs (cfg_Admin cfg)))\<rparr>))"

definition parsePort :: "string \<Rightarrow> string result" where
  "parsePort addr =
     (if take 1 addr = '':'' then Inr (drop 1 addr)
      else case SplitHostPort addr of
        None \<Rightarrow> Inl (OtherError ''invalid http addr'')
      | Some (_, port) \<Rightarrow> Inr port)"

definition router_of ::
    "'x app_world_scheme appLibs \<Rightarrow> 'x app_world_scheme Application \<Rightarrow> 'x app_world_scheme AuthService
     \<Rightarrow> 'x app_world_scheme TeamService \<Rightarrow> 'x app_world_scheme TaskService \<Rightarrow> 'x app_world_scheme StatsService
     \<Rightarrow> 'x app_world_scheme routerDeps" where
  "router_of l a auth tm tk st =
     \<lparr>rd_cfg = a_cfg a, rd_auth = auth, rd_teams = tm, rd_tasks = tk, rd_stats = st,
      rd_taskCache = Some (TaskCache_iface (a_taskCache a)), rd_loginLimiter = a_loginLimiter a,
      rd_refreshLimiter = a_refreshLimiter a, rd_userLimiter = Some (a_userLimiter a), rd_lockout = Some (a_lockout a),
      rd_idemStore = a_idemStore a, rd_locker = a_locker a, rd_metrics = a_metrics a, rd_json = al_json l,
      rd_now = now, rd_log = (\<lambda>x w. w\<lparr>log_lines := x # log_lines w\<rparr>), rd_chi = al_chi l\<rparr>"

definition initPublicRouter ::
    "'x app_world_scheme appLibs \<Rightarrow> 'x app_world_scheme Application
     \<Rightarrow> ('x app_world_scheme, 'x app_world_scheme Application) comp" where
  "initPublicRouter l a =
     (case a_auth a of
        None \<Rightarrow> raiseE (OtherError ''auth service is nil'')
      | Some auth \<Rightarrow>
          (case (a_teamSvc a, a_taskSvc a) of
             (Some tm, Some tk) \<Rightarrow>
               (case a_statsSvc a of
                  None \<Rightarrow> raiseE (OtherError ''stats service is nil'')
                | Some st \<Rightarrow>
                    (case parsePort (HTTP_Addr (cfg_HTTP (a_cfg a))) of
                       Inl e \<Rightarrow> raiseE e
                     | Inr port \<Rightarrow> bindE (RunServer (al_listen l) port (HTTP_ShutdownTimeout (cfg_HTTP (a_cfg a))) (a_life a)) (\<lambda>lc.
                         returnE (a\<lparr>a_router := Some (Router_New (router_of l a auth tm tk st)), a_life := lc\<rparr>))))
           | _ \<Rightarrow> raiseE (OtherError ''services are nil'')))"

definition initMetricsServer ::
    "'x app_world_scheme appLibs \<Rightarrow> 'x app_world_scheme Application
     \<Rightarrow> ('x app_world_scheme, 'x app_world_scheme Application) comp" where
  "initMetricsServer l a =
     (if \<not> MetricsCfg_Enabled (cfg_Metrics (a_cfg a)) \<or> a_metrics a = None then returnE a
      else case parsePort (MetricsCfg_Addr (cfg_Metrics (a_cfg a))) of
        Inl e \<Rightarrow> raiseE e
      | Inr port \<Rightarrow>
          bindE (RunServer (al_listen l) port (HTTP_ShutdownTimeout (cfg_HTTP (a_cfg a))) (a_life a)) (\<lambda>lc.
          returnE (a\<lparr>a_life := lc\<rparr>)))"

definition initCoreComponents ::
    "'x app_world_scheme appLibs \<Rightarrow> 'x app_world_scheme Application
     \<Rightarrow> ('x app_world_scheme, 'x app_world_scheme Application) comp" where
  "initCoreComponents l a w =
     (case config_New (al_config l) of
        Inl e \<Rightarrow> (Inl e, w)
      | Inr cfg \<Rightarrow>
          (case repository_NewMySQL (al_sqlOpen l) (cfg_MySQL cfg) of
             Inl e \<Rightarrow> (Inl e, w)
           | Inr pool \<Rightarrow>
               (case initRedis l (a\<lparr>a_cfg := cfg, a_logger := NewLogger (Log_LevelStr (cfg_Log cfg)), a_pool := pool,
                    a_metrics := (if MetricsCfg_Enabled (cfg_Metrics cfg) then Some app_metrics else None)\<rparr>) w of
                  (a1, w1) \<Rightarrow> (initServices l a1, w1))))"

definition Start ::
    "'x app_world_scheme appLibs \<Rightarrow> 'x app_world_scheme Application
     \<Rightarrow> ('x app_world_scheme, 'x app_world_scheme Application) comp" where
  "Start l a =
     bindE (initCoreComponents l a) (\<lambda>a1.
     bindE (initPublicRouter l a1) (\<lambda>a2.
     bindE (initMetricsServer l a2) (\<lambda>a3.
     returnE (a3\<lparr>a_ready := True\<rparr>))))"


section \<open>The program that a start leaves running\<close>

text \<open>The router over the services that the other theories prove things about.\<close>

definition app_deps :: "'x app_world_scheme appLibs \<Rightarrow> Config \<Rightarrow> 'x app_world_scheme routerDeps" where
  "app_deps l cfg =
     \<lparr>rd_cfg = cfg, rd_auth = app_auth (al_crypto l) cfg,
      rd_teams = app_team (Email_BaseURL (cfg_Email cfg)) (Idem_LockTTL (cfg_Idem cfg)),
      rd_tasks = app_task_service,
      rd_stats = app_stats (Cache_StatsTTL (cfg_Cache cfg)) (al_json l) (Admin_UserIDs (cfg_Admin cfg)),
      rd_taskCache = Some (TaskCache_iface (app_task_cache (Cache_TaskCacheTTL (cfg_Cache cfg)) (al_sha1 l) (al_Sscan l))),
      rd_loginLimiter = redis_Allow (NewRedis (Auth_LoginPerMin (cfg_Auth cfg)) (limiter_window cfg)
        (memory_limiter mem_login mem_login_update)),
      rd_refreshLimiter = redis_Allow (NewRedis (Auth_RefreshPerMin (cfg_Auth cfg)) (limiter_window cfg)
        (memory_limiter mem_refresh mem_refresh_update)),
      rd_userLimiter = Some (redis_Allow (NewRedis (RateLimit_UserPerMin (cfg_RateLimit cfg)) (limiter_window cfg)
        (memory_limiter mem_user mem_user_update))),
      rd_lockout = Some (NewLockout (Lockout_MaxAttempts (Auth_Lockout (cfg_Auth cfg)))
        (Lockout_LockTTL (Auth_Lockout (cfg_Auth cfg))) (Lockout_KeyMaxLen (Auth_Lockout (cfg_Auth cfg))) (al_lower l)),
      rd_idemStore = NewStore (Some redis_client) (al_idem l), rd_locker = app_locker, rd_metrics = Some app_metrics,
      rd_json = al_json l, rd_now = now, rd_log = (\<lambda>x w. w\<lparr>log_lines := x # log_lines w\<rparr>), rd_chi = al_chi l\<rparr>"

text \<open>The mail service and the circuit breaker are the ones of theory \<open>World\<close>.\<close>

definition world_mail :: "'x app_world_scheme appLibs \<Rightarrow> bool" where
  "world_mail l \<longleftrightarrow> al_breaker l = (\<lambda>_. world_breaker) \<and> al_httpClient l = (\<lambda>_. world_http)"

lemma initRedis_up:
  assumes "al_ping l (cfg_Redis (a_cfg a)) w = (Inr (), w1)" and "RateLimit_Enabled (cfg_RateLimit (a_cfg a))"
    and "Cache_Enabled (cfg_Cache (a_cfg a))" and "a_metrics a = Some app_metrics" and "initRedis l a w = (a', w')"
    and "world_mail l"
  shows "a_cfg a' = a_cfg a" "initServices l a' = Inr b \<Longrightarrow>
     a_auth b = Some (app_auth (al_crypto l) (a_cfg a)) \<and>
     a_teamSvc b = Some (app_team (Email_BaseURL (cfg_Email (a_cfg a))) (Idem_LockTTL (cfg_Idem (a_cfg a)))) \<and>
     a_taskSvc b = Some app_task_service \<and>
     a_statsSvc b = Some (app_stats (Cache_StatsTTL (cfg_Cache (a_cfg a))) (al_json l) (Admin_UserIDs (cfg_Admin (a_cfg a)))) \<and>
     (\<forall>auth tm tk st. router_of l b auth tm tk st =
        (app_deps l (a_cfg a))\<lparr>rd_auth := auth, rd_teams := tm, rd_tasks := tk, rd_stats := st\<rparr>)"
proof -
  let ?lo = "Auth_Lockout (cfg_Auth (a_cfg a))"
  have lk: "app_locker = \<lparr>locker_client = Some redis_client, locker_metrics = Some app_metrics, locker_uuid = NewString\<rparr>"
    by (simp add: app_locker_def)
  have a': "a' = a\<lparr>a_redis := Some redis_client,
      a_loginLimiter := rd_loginLimiter (app_deps l (a_cfg a)),
      a_refreshLimiter := rd_refreshLimiter (app_deps l (a_cfg a)),
      a_userLimiter := the (rd_userLimiter (app_deps l (a_cfg a))),
      a_taskCache := app_task_cache (Cache_TaskCacheTTL (cfg_Cache (a_cfg a))) (al_sha1 l) (al_Sscan l),
      a_statsCache := app_stats_cache (Cache_StatsTTL (cfg_Cache (a_cfg a))) (al_json l),
      a_lockout := NewLockout (Lockout_MaxAttempts ?lo) (Lockout_LockTTL ?lo) (Lockout_KeyMaxLen ?lo) (al_lower l),
      a_idemStore := NewStore (Some redis_client) (al_idem l), a_locker := app_locker,
      a_life := (go_startCleanup ^^ 3) (a_life a)\<rparr>"
    using assms(1-5)
    by (auto simp: initRedis_def Client_Ping_def initLimiters_def Let_def redis_limiter_of_def app_deps_def NewRedis_def
        app_task_cache_def app_stats_cache_def NewLockout_def app_locker_def)
  then show "a_cfg a' = a_cfg a" by simp
  have sender: "NewBreakerSender (al_breaker l)
      (Some (HTTPSender_SendInvite (NewHTTPSender (al_httpClient l) (cfg_Email (a_cfg a))))) (cfg_Circuit (a_cfg a)) (Some app_metrics)
      = app_sender (Email_BaseURL (cfg_Email (a_cfg a)))"
    using assms(6) by (simp add: NewBreakerSender_def NewHTTPSender_def world_mail_def app_sender_def app_http_sender_def)
  have bl: "\<lparr>TokenBlacklist_IsRevoked = IsRevoked \<lparr>blacklist_client = Some redis_client\<rparr>,
      TokenBlacklist_Revoke = Blacklist_Revoke \<lparr>blacklist_client = Some redis_client\<rparr>\<rparr> = app_blacklist"
    by (simp add: app_blacklist_def NewJWTBlacklist_def)
  show "a_auth b = Some (app_auth (al_crypto l) (a_cfg a)) \<and>
     a_teamSvc b = Some (app_team (Email_BaseURL (cfg_Email (a_cfg a))) (Idem_LockTTL (cfg_Idem (a_cfg a)))) \<and>
     a_taskSvc b = Some app_task_service \<and>
     a_statsSvc b = Some (app_stats (Cache_StatsTTL (cfg_Cache (a_cfg a))) (al_json l) (Admin_UserIDs (cfg_Admin (a_cfg a)))) \<and>
     (\<forall>auth tm tk st. router_of l b auth tm tk st =
        (app_deps l (a_cfg a))\<lparr>rd_auth := auth, rd_teams := tm, rd_tasks := tk, rd_stats := st\<rparr>)"
    if "initServices l a' = Inr b"
  proof -
    from that obtain auth where auth: "NewAuthService NewUserRepository NewSessionRepository (a_cfg a) (Some app_metrics)
        (Some app_blacklist) (app_libs (al_crypto l)) = Inr auth"
      and b: "a_auth b = Some auth" "a_teamSvc b = Some (app_team (Email_BaseURL (cfg_Email (a_cfg a))) (Idem_LockTTL (cfg_Idem (a_cfg a))))"
        "a_taskSvc b = Some app_task_service"
        "a_statsSvc b = Some (app_stats (Cache_StatsTTL (cfg_Cache (a_cfg a))) (al_json l) (Admin_UserIDs (cfg_Admin (a_cfg a))))"
        "a_cfg b = a_cfg a'" "a_taskCache b = a_taskCache a'" "a_loginLimiter b = a_loginLimiter a'"
        "a_refreshLimiter b = a_refreshLimiter a'" "a_userLimiter b = a_userLimiter a'" "a_lockout b = a_lockout a'"
        "a_idemStore b = a_idemStore a'" "a_locker b = a_locker a'" "a_metrics b = a_metrics a'"
      using assms(4)
      by (auto simp: initServices_def Let_def a' bl sender app_team_def app_task_service_def app_stats_def split: sum.splits)
    then show ?thesis using app_auth_built [OF auth] assms(4)
      by (simp add: router_of_def app_deps_def a')
  qed
qed

text \<open>C31. A start that succeeds while Redis answers leaves a program that is ready and serves the routes of
  theory \<open>Router\<close> over the very services, caches, limiters and lock of the other theories, built from
  the loaded configuration.\<close>

theorem Start_wires:
  assumes "Start l a w = (Inr a', w')" and "sets_initial_only (cfg_defaults (al_config l))" and "world_mail l"
    and "\<And>c v. fst (al_ping l c v) = Inr ()"
  shows "\<exists>cfg. config_New (al_config l) = Inr cfg \<and> Ready a' \<and> a_router a' = Some (Router_New (app_deps l cfg))"
proof -
  from assms(1) obtain a1 w1 a2 w2 where core: "initCoreComponents l a w = (Inr a1, w1)"
      and router: "initPublicRouter l a1 w1 = (Inr a2, w2)" and ready: "a_router a' = a_router a2" "a_ready a'"
    by (auto simp: Start_def bindE_Inr returnE_def raiseE_def initMetricsServer_def split: if_splits sum.splits)
  from core obtain cfg pool a0 where cfg: "config_New (al_config l) = Inr cfg"
    and redis: "initRedis l (a\<lparr>a_cfg := cfg, a_logger := NewLogger (Log_LevelStr (cfg_Log cfg)), a_pool := pool,
        a_metrics := (if MetricsCfg_Enabled (cfg_Metrics cfg) then Some app_metrics else None)\<rparr>) w = (a0, w1)"
    and svc: "initServices l a0 = Inr a1"
    by (auto simp: initCoreComponents_def split: sum.splits prod.splits)
  have "\<exists>path. Load (al_config l) path = Inr cfg"
    using cfg by (auto simp: config_New_def LoadFromEnv_def Let_def)
  then have on: "\<not> any_switch_off cfg" using loaded_switches [OF assms(2)] by blast
  let ?a = "a\<lparr>a_cfg := cfg, a_logger := NewLogger (Log_LevelStr (cfg_Log cfg)), a_pool := pool,
        a_metrics := (if MetricsCfg_Enabled (cfg_Metrics cfg) then Some app_metrics else None)\<rparr>"
  obtain v where ping: "al_ping l (cfg_Redis (a_cfg ?a)) w = (Inr (), v)"
    using assms(4) [of "cfg_Redis (a_cfg ?a)" w] by (metis prod.collapse)
  from initRedis_up [OF ping _ _ _ redis assms(3)] on svc
  have a1: "a_auth a1 = Some (app_auth (al_crypto l) cfg)"
     "a_teamSvc a1 = Some (app_team (Email_BaseURL (cfg_Email cfg)) (Idem_LockTTL (cfg_Idem cfg)))"
     "a_taskSvc a1 = Some app_task_service"
     "a_statsSvc a1 = Some (app_stats (Cache_StatsTTL (cfg_Cache cfg)) (al_json l) (Admin_UserIDs (cfg_Admin cfg)))"
     "\<And>auth tm tk st. router_of l a1 auth tm tk st =
        (app_deps l cfg)\<lparr>rd_auth := auth, rd_teams := tm, rd_tasks := tk, rd_stats := st\<rparr>"
    by (simp_all add: any_switch_off_def)
  have "a_router a2 = Some (Router_New (app_deps l cfg))"
    using router a1 by (auto simp: initPublicRouter_def bindE_Inr returnE_def raiseE_def app_deps_def split: sum.splits)
  with cfg ready show ?thesis by (simp add: Ready_def)
qed

end
