(* ===== verification/Frames.thy ===== *)
theory Frames
  imports Application
begin

text \<open>
  What an operation keeps: \<open>preserves P m\<close> says that \<open>P\<close> holds after \<open>m\<close> whenever it held before. The rules
  follow the structure of the definitions, so a service or a handler preserves what its
  statements and commands preserve. \<open>P\<close> may be an invariant, or say that some part of the state
  has a certain value, which then does not change.
\<close>

definition preserves :: "('w \<Rightarrow> bool) \<Rightarrow> ('w \<Rightarrow> 'a \<times> 'w) \<Rightarrow> bool" where
  "preserves P m \<longleftrightarrow> (\<forall>w. P w \<longrightarrow> P (snd (m w)))"

named_theorems preserves_rules

lemma preservesD: "preserves P m \<Longrightarrow> P w \<Longrightarrow> P (snd (m w))"
  by (simp add: preserves_def)

lemma preserves_run: "preserves P m \<Longrightarrow> m w = (r, w') \<Longrightarrow> P w \<Longrightarrow> P w'"
  by (metis preservesD snd_conv)

lemma preserves_value: "(\<And>x. preserves (\<lambda>w. v w = x) m) \<Longrightarrow> v (snd (m w)) = v w"
  by (simp add: preserves_def)

lemma preserves_basic [preserves_rules]: "preserves P (returnE a)" "preserves P (raiseE e)" "preserves P (reply r)"
  by (simp_all add: preserves_def returnE_def raiseE_def reply_def)

lemma preserves_bindR [preserves_rules]: "preserves P m \<Longrightarrow> (\<And>a. preserves P (k a)) \<Longrightarrow> preserves P (bindR m k)"
  by (simp add: preserves_def bindR_def)

lemma preserves_sum [preserves_rules]:
  "(\<And>e. preserves P (f e)) \<Longrightarrow> (\<And>a. preserves P (g a)) \<Longrightarrow> preserves P (case x of Inl e \<Rightarrow> f e | Inr a \<Rightarrow> g a)"
  by (cases x) simp_all

lemma preserves_option [preserves_rules]:
  "preserves P f \<Longrightarrow> (\<And>a. preserves P (g a)) \<Longrightarrow> preserves P (case x of None \<Rightarrow> f | Some a \<Rightarrow> g a)"
  by (cases x) simp_all

lemma preserves_prod [preserves_rules]: "(\<And>a b. preserves P (f a b)) \<Longrightarrow> preserves P (case x of (a, b) \<Rightarrow> f a b)"
  by (cases x) simp

lemma preserves_if [preserves_rules]: "preserves P f \<Longrightarrow> preserves P g \<Longrightarrow> preserves P (if b then f else g)"
  by simp

lemma preserves_Let [preserves_rules]: "(\<And>a. preserves P (f a)) \<Longrightarrow> preserves P (let a = x in f a)"
  by simp

lemma preserves_bindE [preserves_rules]: "preserves P m \<Longrightarrow> (\<And>a. preserves P (k a)) \<Longrightarrow> preserves P (bindE m k)"
  unfolding bindE_def by (intro preserves_rules)

lemma preserves_mapE [preserves_rules]: "(\<And>x. preserves P (f x)) \<Longrightarrow> preserves P (mapE f xs)"
  by (induction xs) (auto intro!: preserves_rules)

lemma preserves_answer [preserves_rules]: "preserves P m \<Longrightarrow> (\<And>a. preserves P (k a)) \<Longrightarrow> preserves P (answer L m k)"
  unfolding answer_def by (intro preserves_bindR preserves_sum) (simp_all add: preserves_def)

lemma preserves_with_user [preserves_rules]: "(\<And>u. preserves P (k u)) \<Longrightarrow> preserves P (with_user L r k)"
  unfolding with_user_def by (intro preserves_rules)

lemma preserves_with_id [preserves_rules]: "(\<And>i. preserves P (k i)) \<Longrightarrow> preserves P (with_id L r k)"
  unfolding with_id_def by (intro preserves_rules)

section \<open>Statements and transactions\<close>

text \<open>A property that does not speak of the database.\<close>

definition aside :: "('x dbw_scheme \<Rightarrow> bool) \<Rightarrow> bool" where
  "aside P \<longleftrightarrow> (\<forall>w s fs. P (w\<lparr>srv := s\<rparr>) = P w \<and> P (w\<lparr>faults := fs\<rparr>) = P w)"

lemma preserves_run_stmt [preserves_rules]: "aside P \<Longrightarrow> preserves P (run_stmt f)"
  by (simp add: preserves_def aside_def run_stmt_def split: list.splits option.splits)

lemma aside_Rollback: "aside P \<Longrightarrow> P (mysql_Rollback w) = P w"
  by (simp add: mysql_Rollback_def aside_def)

lemma preserves_Commit [preserves_rules]:
  fixes P :: "'x dbw_scheme \<Rightarrow> bool"
  assumes "aside P"
  shows "preserves P mysql_Commit"
proof (unfold preserves_def, intro allI impI)
  fix w :: "'x dbw_scheme" assume "P w"
  obtain r w1 where run: "run_stmt commit_tx w = (r, w1)" by (cases "run_stmt commit_tx w")
  then show "P (snd (mysql_Commit w))"
    using preserves_run [OF preserves_run_stmt [OF assms] run \<open>P w\<close>] aside_Rollback [OF assms]
    by (cases r) (simp_all add: mysql_Commit_def)
qed

lemma preserves_deferRollback [preserves_rules]:
  fixes P :: "'x dbw_scheme \<Rightarrow> bool"
  assumes "aside P" and "preserves P m"
  shows "preserves P (deferRollback NewMySQL m)"
proof (unfold preserves_def, intro allI impI)
  fix w :: "'x dbw_scheme" assume "P w"
  obtain r w1 where run: "m w = (r, w1)" by (cases "m w")
  then show "P (snd (deferRollback NewMySQL m w))"
    using preserves_run [OF assms(2) run \<open>P w\<close>]
    by (cases r) (simp_all add: deferRollback_def repo_records aside_Rollback [OF assms(1)] split_beta)
qed

lemma preserves_deferTxRollback [preserves_rules]:
  assumes "aside P" and "preserves P m"
  shows "preserves P (deferTxRollback NewMySQL m)"
  unfolding preserves_def deferTxRollback_def
  using preservesD [OF assms(2)] by (simp add: repo_records aside_Rollback [OF assms(1)])

lemma batch_aside: "aside P \<Longrightarrow> preserves P (TaskHistoryRepository_CreateBatchTx es)"
  by (induction es) (auto intro!: preserves_rules)

lemma stores_aside [preserves_rules]:
  assumes "aside P"
  shows "preserves P (taskRepo_Create NewTaskRepository x)" "preserves P (taskRepo_GetByID NewTaskRepository t)"
    "preserves P (taskRepo_GetByIDForUpdateTx NewTaskRepository t)" "preserves P (taskRepo_List NewTaskRepository q)"
    "preserves P (taskRepo_UpdateTx NewTaskRepository t us)" "preserves P (taskRepo_DeleteTx NewTaskRepository t)"
    "preserves P (teamMemberRepo_GetRole NewTeamMemberRepository t u)"
    "preserves P (teamMemberRepo_IsMember NewTeamMemberRepository t u)"
    "preserves P (teamRepo_GetByID NewTeamRepository t)" "preserves P (taskCommentRepo_Create NewTaskCommentRepository t u body)"
    "preserves P (taskCommentRepo_ListByTask NewTaskCommentRepository t)"
    "preserves P (taskCommentRepo_GetByID NewTaskCommentRepository c)"
    "preserves P (taskCommentRepo_Update NewTaskCommentRepository c body)"
    "preserves P (taskCommentRepo_Delete NewTaskCommentRepository c)"
    "preserves P (taskHistoryRepo_CreateBatchTx NewTaskHistoryRepository es)"
    "preserves P (taskHistoryRepo_ListByTask NewTaskHistoryRepository t n off)"
    "preserves P (db_BeginTxx NewMySQL)" "preserves P (tx_Commit NewMySQL)"
    "preserves P (teamStore_CreateTx NewTeamStore nm u)" "preserves P (teamStore_GetByID NewTeamStore t)"
    "preserves P (teamStore_ListByUser NewTeamStore u)" "preserves P (teamMemberStore_AddTx NewTeamMemberStore t u ro)"
    "preserves P (teamMemberStore_GetRole NewTeamMemberStore t u)" "preserves P (teamMemberStore_IsMember NewTeamMemberStore t u)"
    "preserves P (teamMemberStore_Add NewTeamMemberStore t u ro)" "preserves P (UserRepository_GetByEmail email)"
    "preserves P (AnalyticsRepository_GetTeamDoneStats u fr un)" "preserves P (AnalyticsRepository_GetTopCreatorsByTeam u fr un n)"
    "preserves P AnalyticsRepository_FindTasksWithAssigneeNotMember"
  by (auto simp: repo_records repo_methods TaskRepository_List_def TaskHistoryRepository_ListByTask_def
      AnalyticsRepository_GetTeamDoneStats_def AnalyticsRepository_GetTopCreatorsByTeam_def
      AnalyticsRepository_FindTasksWithAssigneeNotMember_def intro!: preserves_rules assms batch_aside)

section \<open>The task service\<close>

lemmas task_ops = CreateTask_def GetTask_def ListTasks_def updateTaskBody_def UpdateTask_def deleteTaskBody_def DeleteTask_def
  CreateComment_def ListComments_def UpdateComment_def DeleteComment_def GetTaskHistory_def parseTaskPatch_def parseField_def

lemma tasks_aside [preserves_rules]:
  assumes "aside P"
  shows "preserves P (CreateTask app_task_service u inp)" "preserves P (GetTask app_task_service u t)"
    "preserves P (ListTasks app_task_service u q)" "preserves P (UpdateTask app_task_service u t raw)"
    "preserves P (DeleteTask app_task_service u t)" "preserves P (CreateComment app_task_service u t body)"
    "preserves P (ListComments app_task_service u t)" "preserves P (UpdateComment app_task_service u c body)"
    "preserves P (DeleteComment app_task_service u c)" "preserves P (GetTaskHistory app_task_service u t n off)"
  unfolding task_ops app_task_service_sel prod.case option.case
  by (intro preserves_rules assms)+

section \<open>Commands to Redis\<close>

text \<open>A property that holds on whatever happens to Redis, the counters, the random tokens and the mail.\<close>

definition steady :: "('x world_scheme \<Rightarrow> bool) \<Rightarrow> bool" where
  "steady P \<longleftrightarrow> (\<forall>w. P w \<longrightarrow>
     P (w\<lparr>redis_faults := tl (redis_faults w)\<rparr>) \<and> (\<forall>s. P (w\<lparr>redis := s\<rparr>)) \<and> (\<forall>c. P (w\<lparr>counters := c\<rparr>)) \<and>
     (\<forall>g. P (w\<lparr>gauges := g\<rparr>)) \<and> (\<forall>n. P (w\<lparr>uuid_next := n\<rparr>)) \<and> (\<forall>rs. P (w\<lparr>mail_replies := rs\<rparr>)) \<and>
     (\<forall>rs. P (w\<lparr>breaker_rejects := rs\<rparr>)))"

lemma steady_views: "steady redis_up" "steady (\<lambda>w. srv w = x)" "steady (\<lambda>w. now w = t)"
proof -
  have "list_all P fs \<Longrightarrow> list_all P (tl fs)" for P and fs :: "err option list" by (cases fs) auto
  then show "steady redis_up" by (simp add: steady_def redis_up_def)
qed (simp_all add: steady_def)

lemma aside_views: "aside (redis_up :: 'x world_scheme \<Rightarrow> bool)" "aside (\<lambda>w :: 'x world_scheme. now w = t)"
    "aside (\<lambda>w :: 'x world_scheme. redis w = s)"
  by (simp_all add: aside_def redis_up_def)

lemma preserves_run_redis [preserves_rules]:
  assumes "steady P"
  shows "preserves P (run_redis p)"
proof (unfold preserves_def, intro allI impI)
  fix w assume P: "P w"
  let ?v = "w\<lparr>redis := snd (p (redis w))\<rparr>"
  have "P ?v" using assms P by (simp add: steady_def)
  then have "P (?v\<lparr>redis_faults := tl (redis_faults ?v)\<rparr>)" using assms unfolding steady_def by blast
  moreover have "P (w\<lparr>redis_faults := tl (redis_faults w)\<rparr>)" using assms P unfolding steady_def by blast
  ultimately show "P (snd (run_redis p w))" by (auto simp: run_redis_def split: list.splits option.splits)
qed

lemma steady_inc: "steady P \<Longrightarrow> P w \<Longrightarrow> P (inc (Some app_metrics) c ls w)"
  by (simp add: steady_def inc_def app_metrics_def)

lemma preserves_inc [preserves_rules]: "steady P \<Longrightarrow> preserves P (\<lambda>w. (r, inc (Some app_metrics) c ls w))"
  by (simp add: preserves_def steady_inc)

lemma preserves_client [preserves_rules]:
  assumes "steady P"
  shows "preserves P (redis_Get redis_client k)" "preserves P (redis_Set redis_client k v ttl)"
    "preserves P (redis_SetNX redis_client k v ttl)" "preserves P (redis_Del redis_client ks)"
    "preserves P (redis_Exists redis_client k)" "preserves P (redis_Incr redis_client k)"
    "preserves P (redis_Expire redis_client k d)" "preserves P (redis_TTL redis_client k)"
    "preserves P (redis_Run redis_client p)"
  by (simp_all add: redis_client_def preserves_run_redis [OF assms])

lemma preserves_Acquire [preserves_rules]:
  assumes "steady P"
  shows "preserves P (Acquire app_locker k ttl)"
proof (unfold preserves_def, intro allI impI)
  fix w assume P: "P w"
  let ?ttl = "if ttl \<le> 0 then 15 * second else ttl"
  obtain t w1 where u: "NewString w = (t, w1)" by (cases "NewString w")
  have w1: "P w1" using assms P u by (auto simp: NewString_def steady_def)
  obtain r w2 where nx: "redis_SetNX redis_client k t ?ttl w1 = (r, w2)" by (cases "redis_SetNX redis_client k t ?ttl w1")
  have "P w2" by (rule preserves_run [OF preserves_client(3) [OF assms] nx w1])
  with P u nx steady_inc [OF assms] show "P (snd (Acquire app_locker k ttl w))"
    by (cases r) (auto simp: Acquire_def app_locker_def Locker_onRedisError_def Let_def)
qed

lemma preserves_Release [preserves_rules]:
  assumes "steady P"
  shows "preserves P (Release app_locker k tok)"
proof (unfold preserves_def, intro allI impI)
  fix w assume P: "P w"
  obtain r w1 where run: "redis_Run redis_client (releaseScript k tok) w = (r, w1)"
    by (cases "redis_Run redis_client (releaseScript k tok) w")
  have "P w1" by (rule preserves_run [OF preserves_client(9) [OF assms] run P])
  with P run steady_inc [OF assms] show "P (snd (Release app_locker k tok w))"
    by (cases r) (auto simp: Release_def app_locker_def Locker_onRedisError_def)
qed


lemma preserves_getVersion [preserves_rules]:
  assumes "steady P"
  shows "preserves P (getVersion (app_task_cache ttl sha1 sscan) redis_client team)"
  unfolding preserves_def getVersion_def
  by (auto simp: TaskCache_onRedisError_def split: prod.splits sum.splits option.splits
      intro: steady_inc [OF assms] preservesD [OF preserves_client(3) [OF assms]]
      dest: preserves_run [OF preserves_client(1) [OF assms]])

lemma preserves_task_cache [preserves_rules]:
  assumes "steady P"
  shows "preserves P (GetList (app_task_cache ttl sha1 sscan) team f)"
    "preserves P (SetList (app_task_cache ttl sha1 sscan) team f v)"
    "preserves P (InvalidateTeam (app_task_cache ttl sha1 sscan) team)"
  unfolding preserves_def GetList_def SetList_def InvalidateTeam_def
  by (auto simp: TaskCache_onRedisError_def bindE_apply bindR_apply split: prod.splits sum.splits
      intro: steady_inc [OF assms] preservesD [OF preserves_getVersion [OF assms]] preservesD [OF preserves_client(1) [OF assms]]
      dest: preserves_run [OF preserves_client(2) [OF assms]] preserves_run [OF preserves_client(6) [OF assms]]
        preserves_run [OF preserves_getVersion [OF assms]])

lemma preserves_stats_cache [preserves_rules]:
  assumes "steady P"
  shows "preserves P (StatsCache_get (app_stats_cache ttl L) f k)" "preserves P (StatsCache_set (app_stats_cache ttl L) k v)"
  unfolding preserves_def StatsCache_get_def StatsCache_set_def
  by (auto simp: StatsCache_onRedisError_def split: prod.splits sum.splits option.splits
      intro: steady_inc [OF assms]
      dest: preserves_run [OF preserves_client(1) [OF assms]] preserves_run [OF preserves_client(2) [OF assms]])

lemma preserves_redis_Allow [preserves_rules]:
  assumes "steady P" and "\<And>k. preserves P (fb k)"
  shows "preserves P (redis_Allow (NewRedis limit window fb) k)"
proof (unfold preserves_def, intro allI impI)
  fix w assume P: "P w"
  have err: "P (inc (Some app_metrics) c ls v)" if "P v" for c ls v by (rule steady_inc [OF assms(1) that])
  have ttl: "P (snd (case redis_TTL redis_client k v of
        (Inl e, w3) \<Rightarrow> ((False, f w3), inc (Some app_metrics) c ls w3)
      | (Inr t, w3) \<Rightarrow> if t \<le> 0 then ((False, g w3), w3) else ((False, ceilDuration t), w3)))" if "P v" for v f g c ls
    using preserves_run [OF preserves_client(8) [OF assms(1)] _ that, of k] err by (auto split: prod.split sum.split)
  have expire: "P (case redis_Expire redis_client k window v of (Inl e, w') \<Rightarrow> inc (Some app_metrics) c ls w' | (Inr _, w') \<Rightarrow> w')"
    if "P v" for v c ls
    using preserves_run [OF preserves_client(7) [OF assms(1)] _ that, of k window] err by (auto split: prod.split sum.split)
  obtain r w1 where run: "redis_Incr redis_client k w = (r, w1)" by (cases "redis_Incr redis_client k w")
  have w1: "P w1" by (rule preserves_run [OF preserves_client(6) [OF assms(1)] run P])
  show "P (snd (redis_Allow (NewRedis limit window fb) k w))"
    unfolding redis_Allow_def NewRedis_def redisLimiter.select_convs redisLimiter_onRedisError_def option.case Let_def run prod.case
    by (cases r; simp only: sum.case if_cancel; split if_split; intro conjI impI)
      (simp only: snd_conv P preservesD [OF assms(2) err [OF w1]] if_split ttl [OF expire [OF w1]] ttl [OF w1] expire [OF w1] w1
        split: if_split | blast)+
qed

section \<open>Mail, teams and statistics\<close>

lemma preserves_mail [preserves_rules]:
  assumes "steady P"
  shows "preserves P (EmailSender_SendInvite \<lparr>EmailSender_SendInvite = BreakerSender_SendInvite (app_sender url)\<rparr> email nm)"
proof (unfold preserves_def, intro allI impI)
  fix w assume P: "P w"
  let ?m = "HTTPSender_SendInvite (app_http_sender url) email nm"
  have m: "preserves P ?m"
    unfolding HTTPSender_SendInvite_def
    by (intro preserves_rules) (use assms in \<open>auto simp: preserves_def app_http_sender_def world_http_def steady_def split: list.splits\<close>)
  obtain r w1 where run: "cb_Execute world_breaker ?m w = (r, w1)" by (cases "cb_Execute world_breaker ?m w")
  have "P (w\<lparr>breaker_rejects := rs\<rparr>)" for rs using assms P by (simp add: steady_def)
  then have w1: "P w1"
    using run preserves_run [OF m] by (auto simp: world_breaker_def split: list.splits option.splits)
  have set: "P (metrics_Set app_metrics g n v)" if "P v" for g n v
    using assms that by (simp add: steady_def app_metrics_def)
  have "P (observeState (app_sender url) w1)"
    using w1 set by (auto simp: observeState_def app_sender_def split: cbState.split)
  then show "P (snd (EmailSender_SendInvite \<lparr>EmailSender_SendInvite = BreakerSender_SendInvite (app_sender url)\<rparr> email nm w))"
    using run steady_inc [OF assms] by (cases r) (auto simp: BreakerSender_SendInvite_def app_sender_def Let_def)
qed

lemma preserves_deferRelease [preserves_rules]:
  assumes "steady P" and "preserves P m"
  shows "preserves P (deferRelease (app_team url ttl)
    \<lparr>InviteLocker_Acquire = Acquire app_locker, InviteLocker_Release = Release app_locker\<rparr> k tok m)"
proof (unfold preserves_def, intro allI impI)
  fix w assume "P w"
  obtain r w1 where m: "m w = (r, w1)" by (cases "m w")
  obtain x w2 where rel: "Release app_locker k tok w1 = (x, w2)" by (cases "Release app_locker k tok w1")
  have "P w2" by (rule preserves_run [OF preserves_Release [OF assms(1)] rel preserves_run [OF assms(2) m \<open>P w\<close>]])
  with m rel steady_inc [OF assms(1)] show "P (snd (deferRelease (app_team url ttl)
      \<lparr>InviteLocker_Acquire = Acquire app_locker, InviteLocker_Release = Release app_locker\<rparr> k tok m w))"
    by (cases x) (auto simp: deferRelease_def IncLockReleaseError_def)
qed

lemma teams_preserve [preserves_rules]:
  assumes "aside P" and "steady P"
  shows "preserves P (CreateTeam (app_team url ttl) u nm)" "preserves P (ListTeams (app_team url ttl) u)"
    "preserves P (EnsureMemberRole (app_team url ttl) t u)" "preserves P (InviteByEmail (app_team url ttl) u t email ro)"
  unfolding CreateTeam_def ListTeams_def EnsureMemberRole_def InviteByEmail_def addInvited_def app_team_sel option.case
    InviteLocker.select_convs userStore.select_convs
  by (intro preserves_rules assms)+

lemma stats_preserve [preserves_rules]:
  assumes "aside P" and "steady P"
  shows "preserves P (GetTeamDoneStats (app_stats ttl L admins) u fr un)"
    "preserves P (GetTopCreatorsByTeam (app_stats ttl L admins) u fr un n)"
    "preserves P (FindTasksWithAssigneeNotMember (app_stats ttl L admins) u)"
  unfolding GetTeamDoneStats_def GetTopCreatorsByTeam_def FindTasksWithAssigneeNotMember_def app_stats_sel option.case
    NewAnalyticsRepository_def analyticsStore.select_convs StatsCache_iface_def statsCache.select_convs on_miss_def ignoring_def
    StatsCache_GetDone_def StatsCache_SetDone_def StatsCache_GetTop_def StatsCache_SetTop_def
  by (intro preserves_rules assms)+

section \<open>Handlers\<close>

lemma preserves_cached [preserves_rules]:
  assumes "steady P"
  shows "preserves P (taskCache_GetList (TaskCache_iface (app_task_cache ttl sha1 sscan)) team f)"
    "preserves P (taskCache_SetList (TaskCache_iface (app_task_cache ttl sha1 sscan)) team f v)"
    "preserves P (taskCache_InvalidateTeam (TaskCache_iface (app_task_cache ttl sha1 sscan)) team)"
  by (simp_all add: TaskCache_iface_def preserves_task_cache [OF assms])

lemma preserves_then [preserves_rules]: "preserves P m \<Longrightarrow> preserves P (\<lambda>w. (r, snd (m w)))"
  by (simp add: preserves_def)

lemma preserves_invalidate_then:
  "preserves P (taskCache_InvalidateTeam c team) \<Longrightarrow> th_cache h = Some c \<Longrightarrow> preserves P (invalidate_then h team resp)"
  by (simp add: preserves_def invalidate_then_def)

text \<open>What the services keep, operation by operation; the handlers keep it as well.\<close>

definition tasks_keep :: "('x world_scheme \<Rightarrow> bool) \<Rightarrow> bool" where
  "tasks_keep P \<longleftrightarrow>
     (\<forall>u inp. preserves P (CreateTask app_task_service u inp)) \<and> (\<forall>u t. preserves P (GetTask app_task_service u t)) \<and>
     (\<forall>u q. preserves P (ListTasks app_task_service u q)) \<and> (\<forall>u t raw. preserves P (UpdateTask app_task_service u t raw)) \<and>
     (\<forall>u t. preserves P (DeleteTask app_task_service u t)) \<and> (\<forall>u t n off. preserves P (GetTaskHistory app_task_service u t n off))"

definition comments_keep :: "('x world_scheme \<Rightarrow> bool) \<Rightarrow> bool" where
  "comments_keep P \<longleftrightarrow>
     (\<forall>u t body. preserves P (CreateComment app_task_service u t body)) \<and> (\<forall>u t. preserves P (ListComments app_task_service u t)) \<and>
     (\<forall>u c body. preserves P (UpdateComment app_task_service u c body)) \<and> (\<forall>u c. preserves P (DeleteComment app_task_service u c))"

definition teams_keep :: "('x world_scheme \<Rightarrow> bool) \<Rightarrow> bool" where
  "teams_keep P \<longleftrightarrow> (\<forall>url ttl.
     (\<forall>u nm. preserves P (CreateTeam (app_team url ttl) u nm)) \<and> (\<forall>u. preserves P (ListTeams (app_team url ttl) u)) \<and>
     (\<forall>t u. preserves P (EnsureMemberRole (app_team url ttl) t u)) \<and>
     (\<forall>u t email ro. preserves P (InviteByEmail (app_team url ttl) u t email ro)))"

definition stats_keep :: "('x world_scheme \<Rightarrow> bool) \<Rightarrow> bool" where
  "stats_keep P \<longleftrightarrow> (\<forall>ttl L admins.
     (\<forall>u fr un. preserves P (GetTeamDoneStats (app_stats ttl L admins) u fr un)) \<and>
     (\<forall>u fr un n. preserves P (GetTopCreatorsByTeam (app_stats ttl L admins) u fr un n)) \<and>
     (\<forall>u. preserves P (FindTasksWithAssigneeNotMember (app_stats ttl L admins) u)))"

definition services_keep :: "('x world_scheme \<Rightarrow> bool) \<Rightarrow> bool" where
  "services_keep P \<longleftrightarrow> steady P \<and> tasks_keep P \<and> comments_keep P \<and> teams_keep P \<and> stats_keep P"

lemma services_aside: "aside P \<Longrightarrow> steady P \<Longrightarrow> services_keep P"
  by (simp add: services_keep_def tasks_keep_def comments_keep_def teams_keep_def stats_keep_def tasks_aside teams_preserve stats_preserve)

lemmas keep_defs = tasks_keep_def comments_keep_def teams_keep_def stats_keep_def

lemma services_keepD:
  assumes "services_keep P"
  shows "preserves P (CreateTask app_task_service u inp)" "preserves P (GetTask app_task_service u t)"
    "preserves P (ListTasks app_task_service u q)" "preserves P (UpdateTask app_task_service u t raw)"
    "preserves P (DeleteTask app_task_service u t)" "preserves P (GetTaskHistory app_task_service u t n off)"
    "preserves P (CreateComment app_task_service u t body)" "preserves P (ListComments app_task_service u t)"
    "preserves P (UpdateComment app_task_service u c body)" "preserves P (DeleteComment app_task_service u c)"
    "preserves P (CreateTeam (app_team url lt) u nm)" "preserves P (ListTeams (app_team url lt) u)"
    "preserves P (EnsureMemberRole (app_team url lt) t u)" "preserves P (InviteByEmail (app_team url lt) u t email ro)"
    "preserves P (GetTeamDoneStats (app_stats ttl L admins) u fr un)"
    "preserves P (GetTopCreatorsByTeam (app_stats ttl L admins) u fr un lim)"
    "preserves P (FindTasksWithAssigneeNotMember (app_stats ttl L admins) u)" "steady P"
  using assms by (simp_all add: services_keep_def keep_defs)

lemmas control_rules = preserves_basic preserves_bindR preserves_sum preserves_option preserves_prod preserves_if preserves_Let
  preserves_bindE preserves_mapE preserves_answer preserves_with_user preserves_with_id preserves_then preserves_inc

lemma task_handlers_preserve:
  fixes l ttl sha1 sscan url lt L
  defines "h \<equiv> NewTaskHandler app_task_service (app_team url lt) (Some (TaskCache_iface (app_task_cache ttl sha1 sscan))) L"
  assumes keep: "services_keep P"
  shows "preserves P (TaskHandler_Create h r)" "preserves P (TaskHandler_List h r)" "preserves P (TaskHandler_Get h r)"
    "preserves P (TaskHandler_Update h r)" "preserves P (TaskHandler_Delete h r)" "preserves P (TaskHandler_History h r)"
proof -
  have sel: "th_tasks h = app_task_service" "th_teams h = app_team url lt" "th_json h = L"
    and cache: "th_cache h = Some (TaskCache_iface (app_task_cache ttl sha1 sscan))"
    by (simp_all add: h_def NewTaskHandler_def)
  note rules = control_rules services_keepD [OF keep] preserves_cached [OF services_keepD(18) [OF keep]]
  note inv = preserves_invalidate_then [OF preserves_cached(3) [OF services_keepD(18) [OF keep]] cache]
  have store: "preserves P (storeList h t n off f res)" for t n off f res
    using preservesD [OF preserves_cached(2) [OF services_keepD(18) [OF keep]]]
    by (auto simp: preserves_def storeList_def cache Let_def split: prod.split)
  have unc: "preserves P (listUncached h u t n off f r)" for u t n off f
    unfolding listUncached_def sel cache Let_def option.case
    by (intro rules store)
  show "preserves P (TaskHandler_Create h r)" "preserves P (TaskHandler_List h r)" "preserves P (TaskHandler_Get h r)"
    "preserves P (TaskHandler_Update h r)" "preserves P (TaskHandler_Delete h r)" "preserves P (TaskHandler_History h r)"
    unfolding TaskHandler_Create_def TaskHandler_List_def TaskHandler_Get_def TaskHandler_Update_def TaskHandler_Delete_def
      TaskHandler_History_def sel cache Let_def option.case
    by (intro rules inv unc)+
qed

lemma other_handlers_preserve:
  assumes "services_keep P"
  shows "preserves P (CommentHandler_Create (NewCommentHandler app_task_service L) r)"
    "preserves P (CommentHandler_ListByTask (NewCommentHandler app_task_service L) r)"
    "preserves P (CommentHandler_Update (NewCommentHandler app_task_service L) r)"
    "preserves P (CommentHandler_Delete (NewCommentHandler app_task_service L) r)"
    "preserves P (TeamHandler_Create (NewTeamHandler (app_team url lt) L) r)"
    "preserves P (TeamHandler_List (NewTeamHandler (app_team url lt) L) r)"
    "preserves P (TeamHandler_Invite (NewTeamHandler (app_team url lt) L) r)"
    "preserves P (StatsHandler_TeamDoneStats (NewStatsHandler (app_stats ttl L admins) L) r)"
    "preserves P (StatsHandler_TopCreators (NewStatsHandler (app_stats ttl L admins) L) r)"
    "preserves P (StatsHandler_IntegrityTasks (NewStatsHandler (app_stats ttl L admins) L) r)"
  unfolding CommentHandler_Create_def CommentHandler_ListByTask_def CommentHandler_Update_def CommentHandler_Delete_def
    TeamHandler_Create_def TeamHandler_List_def TeamHandler_Invite_def StatsHandler_TeamDoneStats_def
    StatsHandler_TopCreators_def StatsHandler_IntegrityTasks_def NewCommentHandler_def NewTeamHandler_def NewStatsHandler_def
    CommentHandler.select_convs TeamHandler.select_convs StatsHandler.select_convs Let_def
  by (intro control_rules services_keepD [OF assms])+

text \<open>Every handler behind the access tokens, as the application builds it.\<close>

lemma group_routes_keep:
  assumes "services_keep P" and "(rt, h) \<in> set (group_routes (app_deps l cfg))"
  shows "preserves P (h r)"
proof -
  have "h \<in> set (map snd (group_routes (app_deps l cfg)))" using assms(2) by force
  then show ?thesis
    unfolding group_routes_def app_deps_def Let_def routerDeps.select_convs
    by (simp only: list.map list.set snd_conv)
      (elim insertE emptyE; simp only: task_handlers_preserve [OF assms(1)] other_handlers_preserve [OF assms(1)])
qed

lemmas group_routes_preserve = group_routes_keep [OF services_aside]

lemma preserves_UserRateLimit:
  assumes "\<And>k. preserves P (allow k)" and "preserves P (nxt r)"
  shows "preserves P (UserRateLimit L (Some allow) n tm nxt r)"
proof (unfold preserves_def, intro allI impI)
  fix w assume P: "P w"
  show "P (snd (UserRateLimit L (Some allow) n tm nxt r w))"
  proof (cases "UserIDFromContext r")
    case (Some u)
    obtain ok retry w1 where run: "allow (userRateLimitKey u n (tm w)) w = ((ok, retry), w1)"
      by (cases "allow (userRateLimitKey u n (tm w)) w") auto
    have "P w1" by (rule preserves_run [OF assms(1) run P])
    then show ?thesis using Some run P preservesD [OF assms(2)] by (simp add: UserRateLimit_def)
  qed (use P preservesD [OF assms(2)] in \<open>simp add: UserRateLimit_def\<close>)
qed

lemma redis_up_memory: "preserves redis_up (memory_limiter mem_user mem_user_update k)"
  by (simp add: preserves_def memory_limiter_def redis_up_def split_beta)

text \<open>A handler behind the limit per user, as the application builds it.\<close>

definition limited :: "'x app_world_scheme appLibs \<Rightarrow> Config \<Rightarrow> 'x app_world_scheme handler \<Rightarrow> 'x app_world_scheme handler" where
  "limited l cfg h = UserRateLimit (al_json l) (rd_userLimiter (app_deps l cfg)) (RateLimit_WindowSeconds (cfg_RateLimit cfg)) now h"

lemma limited_redis_up:
  assumes "(rt, h) \<in> set (group_routes (app_deps l cfg))"
  shows "preserves redis_up (limited l cfg h r)"
proof -
  have lim: "rd_userLimiter (app_deps l cfg) = Some (redis_Allow (NewRedis (RateLimit_UserPerMin (cfg_RateLimit cfg)) (limiter_window cfg)
        (memory_limiter mem_user mem_user_update)))" by (simp add: app_deps_def)
  show ?thesis
    unfolding limited_def lim
    by (rule preserves_UserRateLimit preserves_redis_Allow steady_views redis_up_memory group_routes_preserve aside_views assms)+
qed

end
