(* ===== verification/SampleApp.thy ===== *)
theory SampleApp
  imports SampleJson Frames AuthProperties
begin

text \<open>
  The running program on the sample database: libraries that are simple functions,
  and a matcher of paths that compares segments.
\<close>

definition text_idem :: idemLibs where
  "text_idem = \<lparr>idem_json = text_json, idem_base64 = (\<lambda>s. s), idem_unbase64 = Some, idem_sha256 = (\<lambda>s. s),
     idem_lower = (\<lambda>s. s), idem_upper = (\<lambda>s. s)\<rparr>"

fun match_segments :: "string list \<Rightarrow> string list \<Rightarrow> string option" where
  "match_segments [] [] = Some []"
| "match_segments (p # ps) (x # xs) =
     (if p = ''*'' then Some []
      else case match_segments ps xs of
        None \<Rightarrow> None
      | Some i \<Rightarrow> if p = ''{id}'' then Some x else if p = x then Some i else None)"
| "match_segments _ _ = None"

fun match_routes :: "route list \<Rightarrow> string \<Rightarrow> string \<Rightarrow> (route \<times> string) option" where
  "match_routes [] m path = None"
| "match_routes ((m', p) # ts) m path =
     (if m' = m \<or> m' = ''*'' then
        case match_segments (Split CHR ''/'' p) (Split CHR ''/'' path) of
          Some i \<Rightarrow> Some ((m', p), i)
        | None \<Rightarrow> match_routes ts m path
      else match_routes ts m path)"

definition sample_chi :: "'w chiLib" where
  "sample_chi = \<lparr>chi_Match = match_routes,
     chi_NoRoute = (\<lambda>_ _ _. ([], \<lparr>resp_Status = 404, resp_Header = [], resp_Body = ''404 page not found''\<rparr>)),
     chi_FileServer = (\<lambda>r. reply \<lparr>resp_Status = 200, resp_Header = [], resp_Body = []\<rparr>),
     chi_Swagger = (\<lambda>r. reply \<lparr>resp_Status = 200, resp_Header = [], resp_Body = []\<rparr>)\<rparr>"

lemma sample_chi_matches: "matches_table sample_chi"
proof -
  have "match_routes ts m p = Some (rt, i) \<Longrightarrow> rt \<in> set ts \<and> (fst rt = m \<or> fst rt = ''*'')" for ts m p rt i
    by (induction ts m p rule: match_routes.induct) (auto split: if_splits option.splits)
  then show ?thesis by (simp add: matches_table_def sample_chi_def)
qed

definition sample_libs :: "app_world appLibs" where
  "sample_libs =
     \<lparr>al_config = sample_os, al_json = text_json, al_idem = text_idem, al_crypto = sample_crypto,
      al_sha1 = (\<lambda>s. s), al_Sscan = (\<lambda>_. None), al_lower = (\<lambda>s. s), al_chi = sample_chi,
      al_breaker = (\<lambda>_. world_breaker), al_httpClient = (\<lambda>_. world_http), al_sqlOpen = (\<lambda>_. Inr ()),
      al_ping = (\<lambda>_. returnE ()), al_listen = (\<lambda>_ _. returnE ())\<rparr>"

definition sample_app :: app_world where
  "sample_app = world.extend sample_world
     \<lparr>mem_login = NewMemory 5 minute, mem_refresh = NewMemory 20 minute, mem_user = NewMemory 100 minute, log_lines = []\<rparr>"

text \<open>A request as it arrives, with a token or without.\<close>

definition request :: "string \<Rightarrow> string \<Rightarrow> (string \<times> string) list \<Rightarrow> string \<Rightarrow> http_request" where
  "request m path hs body =
     \<lparr>req_Method = m, req_Path = path, req_Route = [], req_ID = [], req_Query = [],
      req_Header = (\<lambda>k. case map_of hs k of None \<Rightarrow> [] | Some v \<Rightarrow> v), req_RemoteAddr = ''10.0.0.1:999'',
      req_Body = body, req_User = None\<rparr>"

abbreviation serve :: "app_world handler" where
  "serve \<equiv> Router_New (app_deps sample_libs default_config)"

lemma sample_config: "config_New sample_os = Inr default_config"
  by (simp add: config_New_def LoadFromEnv_def Load_def sample_os_def config_defaults_defs sample_defaults_def fail_closed_def
      default_config_def)

lemma sample_ports: "parsePort '':8080'' = Inr ''8080''" "parsePort '':9090'' = Inr ''9090''"
  by (simp_all add: parsePort_def)

lemma sample_Start:
  "\<exists>a' w'. Start sample_libs a sample_app = (Inr a', w') \<and>
     (a_life a = lifecycle_New \<longrightarrow> a_life a' = launched 3 [10 * second, 10 * second])"
proof -
  have sel: "al_config sample_libs = sample_os" "al_sqlOpen sample_libs = (\<lambda>_. Inr ())"
    "al_ping sample_libs = (\<lambda>_. returnE ())" "al_listen sample_libs = (\<lambda>_ _. returnE ())"
    by (simp_all add: sample_libs_def)
  have cfg: "\<not> length (JWT_Secret (cfg_JWT default_config)) < 32" "Auth_BcryptCost (cfg_Auth default_config) = 12"
    "MetricsCfg_Enabled (cfg_Metrics default_config)" "MetricsCfg_Addr (cfg_Metrics default_config) = '':9090''"
    "HTTP_Addr (cfg_HTTP default_config) = '':8080''" "RateLimit_Enabled (cfg_RateLimit default_config)"
    "HTTP_ShutdownTimeout (cfg_HTTP default_config) = 10 * second"
    by (simp_all add: default_config_def)
  obtain pool where pool: "repository_NewMySQL (\<lambda>_. Inr ()) (cfg_MySQL default_config) = Inr pool"
    by (simp add: repository_NewMySQL_def Let_def)
  show ?thesis
    by (simp add: Start_def initCoreComponents_def sel sample_config pool initRedis_def Client_Ping_def initLimiters_def
        initServices_def NewAuthService_def cfg initPublicRouter_def RunServer_def initMetricsServer_def sample_ports bindE_apply
        returnE_def Let_def launched_def lifecycle_New_def go_startCleanup_def numeral_3_eq_3)
qed

theorem Start_wires_witness:
  "\<forall>a. \<exists>a' w'. Start sample_libs a sample_app = (Inr a', w') \<and> Ready a' \<and>
     (\<exists>cfg. a_router a' = Some (Router_New (app_deps sample_libs cfg)))"
proof
  fix a :: "app_world Application"
  obtain a' w' where run: "Start sample_libs a sample_app = (Inr a', w')" using sample_Start by blast
  have laws: "sets_initial_only (cfg_defaults (al_config sample_libs))" "world_mail sample_libs"
      "\<And>c v. fst (al_ping sample_libs c v) = Inr ()"
    by (simp_all add: sample_libs_def sample_os_def sample_defaults_ok world_mail_def returnE_def)
  from Start_wires [OF run laws] run show "\<exists>a' w'. Start sample_libs a sample_app = (Inr a', w') \<and> Ready a' \<and>
     (\<exists>cfg. a_router a' = Some (Router_New (app_deps sample_libs cfg)))" by blast
qed

end
