(* ===== verification/AppLifecycle.thy ===== *)
theory AppLifecycle
  imports SampleApp
begin

text \<open>
  The process from its start to its exit: what \<open>Start\<close> leaves running, under every scheduler of theory
  \<open>Lifecycle\<close>.
\<close>

section \<open>What a start launches\<close>

text \<open>Three limiters in memory, or six where limiting is off.\<close>

lemma core_life:
  assumes "initCoreComponents l (application_New z) w = (Inr a', w')"
  obtains n where "a_life a' = launched n []" "3 \<le> n"
proof -
  have "(go_startCleanup ^^ 3) lifecycle_New = launched 3 []" "(go_startCleanup ^^ 3) (launched 3 []) = launched 6 []"
    by (simp_all add: New_launched cleaners_launched)
  with assms have "a_life a' = launched 3 [] \<or> a_life a' = launched 6 []"
    by (auto simp: initCoreComponents_def initRedis_def initLimiters_def initServices_def application_New_def Let_def
        split: sum.splits prod.splits if_splits option.splits)
  then show ?thesis using that by fastforce
qed

lemma Start_launches:
  assumes "Start l (application_New z) w = (Inr a', w')"
  obtains n ts where "a_life a' = launched n ts" "3 \<le> n" "length ts \<le> 2" "ts \<noteq> []"
proof -
  from assms obtain a1 w1 a2 w2 a3 where core: "initCoreComponents l (application_New z) w = (Inr a1, w1)"
      and router: "initPublicRouter l a1 w1 = (Inr a2, w2)" and mt: "initMetricsServer l a2 w2 = (Inr a3, w')" and a': "a_life a' = a_life a3"
    by (auto simp: Start_def bindE_Inr returnE_def)
  obtain n where "a_life a1 = launched n []" and n: "3 \<le> n" by (rule core_life [OF core])
  then obtain t where t: "a_life a2 = launched n [t]"
    using router by (auto simp: initPublicRouter_def bindE_Inr returnE_def raiseE_def dest!: RunServer_launched split: option.splits sum.splits)
  show ?thesis
  proof (cases "a_life a3 = a_life a2")
    case True
    then show ?thesis using that [of n "[t]"] a' t n by simp
  next
    case False
    then obtain u where "a_life a3 = launched n [t, u]"
      using mt t by (auto simp: initMetricsServer_def bindE_Inr returnE_def raiseE_def dest!: RunServer_launched split: if_splits sum.splits)
    then show ?thesis using that [of n "[t, u]"] a' n by simp
  qed
qed

lemma started_inv: "Start l (application_New z) w = (Inr a', w') \<Longrightarrow> lifecycle_inv (a_life a')"
  by (metis Start_launches launched_inv)

section \<open>Properties of the running process\<close>

text \<open>Goroutines that can still move on their own do.\<close>

lemma comes_to_rest: "lifecycle_inv s \<Longrightarrow> \<exists>ms s'. lifecycle_run ms s = Some s' \<and> \<not> list_ex is_tick ms \<and> quiescent s'"
proof (induction "work s" arbitrary: s rule: less_induct)
  case less
  show ?case
  proof (cases "quiescent s")
    case True
    moreover have "lifecycle_run [] s = Some s" "\<not> list_ex is_tick []" by simp_all
    ultimately show ?thesis by blast
  next
    case False
    then obtain m s1 where "due m s" and "lifecycle_step m s = Some s1" by (auto simp: quiescent_def)
    then have m: "lifecycle_step m s = Some s1" "\<not> is_tick m" by (auto simp: due_def is_tick_def)
    from less.hyps [OF step_work [OF less.prems m] step_inv [OF less.prems m(1)]]
    obtain ms s' where "lifecycle_run (m # ms) s = Some s'" "\<not> list_ex is_tick (m # ms)" "quiescent s'" using m by auto
    then show ?thesis by blast
  qed
qed

text \<open>C12. Under every scheduler the process makes at most 30 moves after its start, not counting the rounds of the goroutines that sweep the limiters in
  memory, and from every state that it reaches there is a run without such rounds to a state in which no other goroutine can move on its own. The sweeping goroutines, at
  least three of them, never stop: in every state each of them can make its next round. So the servers and \<open>Wait\<close> come to rest, and the process as a whole ends
  only by its exit.\<close>

theorem process_settles:
  assumes "Start l (application_New z) w = (Inr a', w')" and "lifecycle_run ms (a_life a') = Some s"
  shows "length (filter (\<lambda>m. \<not> is_tick m) ms) \<le> 30 \<and>
    (\<exists>ms' s'. lifecycle_run ms' s = Some s' \<and> \<not> list_ex is_tick ms' \<and> quiescent s') \<and>
    3 \<le> length (lc_cleaners s) \<and> (\<forall>i < length (lc_cleaners s). lifecycle_step (CleanupTick i) s \<noteq> None)"
proof -
  obtain n ts where ts: "a_life a' = launched n ts" "3 \<le> n" "length ts \<le> 2" by (rule Start_launches [OF assms(1)])
  have "length (filter (\<lambda>m. \<not> is_tick m) ms) + work s \<le> 11 * length ts + 8"
    using run_work [OF launched_inv] assms(2) launched_work [of n ts] ts(1) by metis
  with ts(3) have "length (filter (\<lambda>m. \<not> is_tick m) ms) \<le> 30" by linarith
  moreover have inv: "lifecycle_inv s" using run_inv [OF started_inv] assms by blast
  moreover have "length (lc_cleaners s) = n" using run_cleaners [OF assms(2)] ts(1) by (simp add: launched_def)
  ultimately show ?thesis using comes_to_rest [OF inv] tick_goes [OF inv] ts(2) by auto
qed

text \<open>C11. No deadlock and no goroutine left behind: when no goroutine can move on its own, either the process is at work (nothing has
  been cancelled and every server serves), or \<open>Wait\<close> has returned. So once a signal has come or a server has failed, nothing but the return of
  \<open>Wait\<close> can be the end.\<close>

theorem process_not_stuck:
  assumes "Start l (application_New z) w = (Inr a', w')" and "lifecycle_run ms (a_life a') = Some s" and "quiescent s"
  shows "if lc_ctxDone s then returned s else all_serving s \<or> returned s"
  using quiescent_ends [OF run_inv [OF started_inv [OF assms(1)] assms(2)] assms(3)] by (auto simp: all_serving_def)

text \<open>C13. When \<open>Wait\<close> returns, every goroutine that it waits for has ended, the two of each server and the one that collects the errors, and nothing has
  panicked (no send on the closed channel, no wait group below zero); every error that a server reported was logged once, and the process exits with 1 exactly
  when there was one. It does not wait for the goroutines that sweep the limiters, which run on until the exit, nor for the handlers that were still at
  work when a \<open>Shutdown\<close> ran out of time.\<close>

theorem process_reports_errors:
  assumes "Start l (application_New z) w = (Inr a', w')" and "lifecycle_run ms (a_life a') = Some s"
    and "lc_wait s = Returned r"
  shows "\<not> lc_panicked s \<and> lc_storesClosed s \<and> lc_collector s = CollectorEnded \<and>
    (\<forall>v \<in> set (lc_servers s). (\<exists>x. rs_serve v = ServeEnded x) \<and> (\<exists>x. rs_shutdown v = ShutdownEnded x)) \<and>
    mset (lc_logged s) = all_reported (lc_servers s) \<and>
    api_main (fst (Start l (application_New z) w)) r = (if all_reported (lc_servers s) = {#} then 0 else 1)"
proof -
  have inv: "lifecycle_inv s" by (rule run_inv [OF started_inv [OF assms(1)] assms(2)])
  then have "\<not> lc_panicked s" "lc_storesClosed s" "lc_collector s = CollectorEnded" "all_live (lc_servers s) = 0"
    using assms(3) by (auto simp: lifecycle_inv_def phases_def counted_def)
  moreover have "api_main (fst (Start l (application_New z) w)) r = (if all_reported (lc_servers s) = {#} then 0 else 1)"
    using returned_accounts [OF inv assms(3)] assms(1) by (auto simp: api_main_def)
  ultimately show ?thesis using all_ended returned_accounts [OF inv assms(3)] by blast
qed

section \<open>A server that fails\<close>

text \<open>The listener of the second server breaks; the other server is shut down, and the process ends.\<close>

definition sample_schedule :: "move list" where
  "sample_schedule =
     [WaitGoes, CleanupTick 2, ServeReturns 1 (Some (OtherError ''accept'')), SendServe 1, LeaveServe 1, Cancel, SeeDone 0, Record, WaitGoes,
      SeeDone 1, ServeReturns 0 (Some ErrServerClosed), ShutdownReturns 1 None, ShutdownReturns 0 None, LeaveServe 0,
      LeaveShutdown 0, LeaveShutdown 1, WaitGoes, WaitGoes, RangeEnds, WaitGoes]"

lemma sample_schedule_runs:
  "case lifecycle_run sample_schedule (launched 3 [10 * second, 10 * second]) of None \<Rightarrow> False
   | Some s \<Rightarrow> lc_wait s = Returned (Some (OtherError ''accept'')) \<and> lc_logged s = [OtherError ''accept'']"
  by code_simp

lemma sample_launched:
  obtains a' w' s where "Start sample_libs (application_New z) sample_app = (Inr a', w')" "lifecycle_run sample_schedule (a_life a') = Some s"
    "lc_wait s = Returned (Some (OtherError ''accept''))" "lc_logged s = [OtherError ''accept'']"
proof -
  obtain a' w' where run: "Start sample_libs (application_New z) sample_app = (Inr a', w')" "a_life a' = launched 3 [10 * second, 10 * second]"
    using sample_Start [of "application_New z"] by (auto simp: application_New_def)
  with sample_schedule_runs that show ?thesis by (cases "lifecycle_run sample_schedule (a_life a')") auto
qed

lemma ended_quiescent:
  assumes "lifecycle_inv s" and "lc_wait s = Returned r"
  shows "quiescent s"
proof -
  have "lc_collector s = CollectorEnded" "all_live (lc_servers s) = 0"
    using assms by (auto simp: lifecycle_inv_def phases_def counted_def)
  moreover have "(\<exists>x. rs_serve (lc_servers s ! i) = ServeEnded x) \<and> (\<exists>x. rs_shutdown (lc_servers s ! i) = ShutdownEnded x)"
    if "i < length (lc_servers s)" for i using all_ended [OF calculation(2)] that by simp
  ultimately have "lifecycle_step m s = None" if "m \<noteq> Signal" "\<not> is_tick m" for m
    using that assms(2)
    by (cases m) (fastforce simp: lifecycle_step_def serve_goes_def shutdown_goes_def collector_goes_def wait_goes_def)+
  moreover have "m \<noteq> Signal \<and> \<not> is_tick m" if "due m s" for m using that by (auto simp: due_def is_tick_def)
  ultimately show ?thesis by (simp add: quiescent_def)
qed

theorem process_settles_witness:
  "\<forall>z. \<exists>s. lifecycle_run sample_schedule (a_life (projr (fst (Start sample_libs (application_New z) sample_app)))) = Some s \<and>
     length (filter (\<lambda>m. \<not> is_tick m) sample_schedule) \<le> 30 \<and> 3 \<le> length (lc_cleaners s) \<and>
     (\<exists>ms' s'. lifecycle_run ms' s = Some s' \<and> quiescent s')"
proof
  fix z :: "app_world Application"
  obtain a' w' s where "Start sample_libs (application_New z) sample_app = (Inr a', w')" "lifecycle_run sample_schedule (a_life a') = Some s"
    by (rule sample_launched)
  with process_settles [OF this] show "\<exists>s. lifecycle_run sample_schedule (a_life (projr (fst (Start sample_libs (application_New z) sample_app)))) = Some s \<and>
     length (filter (\<lambda>m. \<not> is_tick m) sample_schedule) \<le> 30 \<and> 3 \<le> length (lc_cleaners s) \<and>
     (\<exists>ms' s'. lifecycle_run ms' s = Some s' \<and> quiescent s')" by auto
qed

theorem process_not_stuck_witness:
  "\<forall>z. \<exists>s. lifecycle_run sample_schedule (a_life (projr (fst (Start sample_libs (application_New z) sample_app)))) = Some s \<and>
     (if lc_ctxDone s then returned s else all_serving s \<or> returned s)"
proof
  fix z :: "app_world Application"
  obtain a' w' s where run: "Start sample_libs (application_New z) sample_app = (Inr a', w')" "lifecycle_run sample_schedule (a_life a') = Some s"
    "lc_wait s = Returned (Some (OtherError ''accept''))" by (rule sample_launched)
  have "quiescent s" using ended_quiescent [OF run_inv [OF started_inv [OF run(1)] run(2)] run(3)] .
  from process_not_stuck [OF run(1,2) this] run(1,2)
  show "\<exists>s. lifecycle_run sample_schedule (a_life (projr (fst (Start sample_libs (application_New z) sample_app)))) = Some s \<and>
     (if lc_ctxDone s then returned s else all_serving s \<or> returned s)" by simp
qed

theorem process_reports_errors_witness:
  "\<forall>z. \<exists>s. lifecycle_run sample_schedule (a_life (projr (fst (Start sample_libs (application_New z) sample_app)))) = Some s \<and>
     all_reported (lc_servers s) = {#OtherError ''accept''#} \<and>
     api_main (fst (Start sample_libs (application_New z) sample_app)) (lc_appErr s) = 1"
proof
  fix z :: "app_world Application"
  obtain a' w' s where run: "Start sample_libs (application_New z) sample_app = (Inr a', w')" "lifecycle_run sample_schedule (a_life a') = Some s"
    "lc_wait s = Returned (Some (OtherError ''accept''))" "lc_logged s = [OtherError ''accept'']" by (rule sample_launched)
  have "lc_appErr s = Some (OtherError ''accept'')"
    using run_inv [OF started_inv [OF run(1)] run(2)] run(3) by (simp add: lifecycle_inv_def phases_def)
  with process_reports_errors [OF run(1-3)] run
  show "\<exists>s. lifecycle_run sample_schedule (a_life (projr (fst (Start sample_libs (application_New z) sample_app)))) = Some s \<and>
     all_reported (lc_servers s) = {#OtherError ''accept''#} \<and>
     api_main (fst (Start sample_libs (application_New z) sample_app)) (lc_appErr s) = 1" by (auto split: if_splits)
qed

end
