(* ===== verification/Migrator.thy ===== *)
theory Migrator
  imports AppLifecycle
begin

text \<open>
  \<open>cmd/migrator\<close>: the command that brings the schema of theory \<open>Schema\<close> into the database. The migrations
  are run by a library, which is a parameter: what it does to the world, and the two errors that the
  command tells apart. The command ends with an exit code and what it printed.
\<close>

record 'w migrateLib =
  mg_New :: "string \<Rightarrow> string \<Rightarrow> ('w, unit) comp"
  mg_Up :: "('w, unit) comp"
  mg_Down :: "('w, unit) comp"
  mg_Steps :: "int \<Rightarrow> ('w, unit) comp"
  mg_Force :: "int \<Rightarrow> ('w, unit) comp"
  mg_Version :: "('w, int \<times> bool) comp"
  mg_ErrNoChange :: err
  mg_ErrNilVersion :: err
  mg_message :: "err \<Rightarrow> string"

record migrateFlags =
  fl_cmd :: string
  fl_step :: int
  fl_ver :: int

type_synonym exit = "int \<times> string"

text \<open>\<open>fatalf\<close>: the message, and exit code 1.\<close>

definition fatalf :: "string \<Rightarrow> 'w \<Rightarrow> exit \<times> 'w" where
  "fatalf msg w = ((1, msg @ [CHR 0x0A]), w)"

definition migrate_dsn :: "MySQLConfig \<Rightarrow> string" where
  "migrate_dsn my =
     MySQL_User my @ '':'' @ MySQL_Password my @ ''@tcp('' @ MySQL_Host my @ '':'' @ FormatInt (MySQL_Port my)
       @ '')/'' @ MySQL_DBName my @ ''?parseTime=true&multiStatements=true''"

text \<open>The switch over the command: nothing when it ended the process, else the error of the migration.\<close>

definition migrate_switch :: "'w migrateLib \<Rightarrow> migrateFlags \<Rightarrow> 'w \<Rightarrow> (exit + err option) \<times> 'w" where
  "migrate_switch m f w =
     (let run = (\<lambda>c. case c w of (Inl e, w1) \<Rightarrow> (Inr (Some e), w1) | (Inr _, w1) \<Rightarrow> (Inr None, w1));
          fatal = (\<lambda>msg v. case fatalf msg v of (x, v') \<Rightarrow> (Inl x, v'))
      in if fl_cmd f = ''up'' then run (mg_Up m)
         else if fl_cmd f = ''down'' then run (mg_Down m)
         else if fl_cmd f = ''steps'' then
           if fl_step f = 0 then fatal ''-step required for cmd=steps'' w else run (mg_Steps m (fl_step f))
         else if fl_cmd f = ''force'' then
           if fl_ver f = 0 then fatal ''-ver required for cmd=force'' w else run (mg_Force m (fl_ver f))
         else if fl_cmd f = ''version'' then
           (case mg_Version m w of
              (Inl e, w1) \<Rightarrow>
                if e = mg_ErrNilVersion m then (Inl (0, ''version: none'' @ [CHR 0x0A]), w1)
                else fatal (''version: '' @ mg_message m e) w1
            | (Inr (v, dirty), w1) \<Rightarrow>
                (Inl (0, ''version: '' @ FormatInt v @ '' dirty='' @ (if dirty then ''true'' else ''false'') @ [CHR 0x0A]), w1))
         else fatal (''unknown cmd: '' @ fl_cmd f) w)"

definition migrator_main :: "configLibs \<Rightarrow> 'w migrateLib \<Rightarrow> migrateFlags \<Rightarrow> 'w \<Rightarrow> exit \<times> 'w" where
  "migrator_main os m f w =
     (case config_New os of
        Inl e \<Rightarrow> fatalf (''load config: '' @ mg_message m e) w
      | Inr cfg \<Rightarrow>
          (case mg_New m ''file://migrations'' (''mysql://'' @ migrate_dsn (cfg_MySQL cfg)) w of
             (Inl e, w1) \<Rightarrow> fatalf (''migrate.New: '' @ mg_message m e) w1
           | (Inr _, w1) \<Rightarrow>
               (case migrate_switch m f w1 of
                  (Inl x, w2) \<Rightarrow> (x, w2)
                | (Inr r, w2) \<Rightarrow>
                    (case r of
                       Some e \<Rightarrow>
                         if e \<noteq> mg_ErrNoChange m then fatalf (''migrate '' @ fl_cmd f @ '': '' @ mg_message m e) w2
                         else ((0, ''migrate '' @ fl_cmd f @ '': ok'' @ [CHR 0x0A]), w2)
                     | None \<Rightarrow> ((0, ''migrate '' @ fl_cmd f @ '': ok'' @ [CHR 0x0A]), w2)))))"

section \<open>What the exit code says\<close>

text \<open>The flags name something to do.\<close>

definition flags_ok :: "migrateFlags \<Rightarrow> bool" where
  "flags_ok f \<longleftrightarrow> fl_cmd f \<in> {''up'', ''down'', ''version''} \<or> fl_cmd f = ''steps'' \<and> fl_step f \<noteq> 0 \<or> fl_cmd f = ''force'' \<and> fl_ver f \<noteq> 0"

text \<open>The call of the library that the flags ask for.\<close>

definition requested :: "'w migrateLib \<Rightarrow> migrateFlags \<Rightarrow> ('w, unit) comp" where
  "requested m f =
     (if fl_cmd f = ''up'' then mg_Up m
      else if fl_cmd f = ''down'' then mg_Down m
      else if fl_cmd f = ''steps'' then mg_Steps m (fl_step f)
      else if fl_cmd f = ''force'' then mg_Force m (fl_ver f)
      else bindE (mg_Version m) (\<lambda>_. returnE ()))"

definition harmless :: "'w migrateLib \<Rightarrow> migrateFlags \<Rightarrow> err" where
  "harmless m f = (if fl_cmd f = ''version'' then mg_ErrNilVersion m else mg_ErrNoChange m)"

lemma switch_refuses: "\<not> flags_ok f \<Longrightarrow> \<exists>msg. migrate_switch m f w = (Inl (1, msg), w)"
  by (auto simp: migrate_switch_def flags_ok_def fatalf_def Let_def)

lemma switch_runs:
  assumes "flags_ok f" and "requested m f w = (x, w1)"
  shows "snd (migrate_switch m f w) = w1 \<and>
    (case fst (migrate_switch m f w) of
       Inl (code, _) \<Rightarrow> fl_cmd f = ''version'' \<and> (code = 0 \<longleftrightarrow> x = Inr () \<or> x = Inl (harmless m f))
     | Inr r \<Rightarrow> fl_cmd f \<noteq> ''version'' \<and> r = (case x of Inl e \<Rightarrow> Some e | Inr _ \<Rightarrow> None))"
proof -
  obtain y w2 where y: "mg_Version m w = (y, w2)" by (cases "mg_Version m w")
  consider "fl_cmd f = ''up''" | "fl_cmd f = ''down''" | "fl_cmd f = ''version''" | "fl_cmd f = ''steps''" "fl_step f \<noteq> 0"
    | "fl_cmd f = ''force''" "fl_ver f \<noteq> 0" using assms(1) by (auto simp: flags_ok_def)
  then show ?thesis
  proof cases
    case 3
    then show ?thesis
      using assms(2) y
      by (cases y) (auto simp: migrate_switch_def requested_def harmless_def fatalf_def Let_def bindE_apply returnE_def)
  qed (use assms(2) in \<open>auto simp: migrate_switch_def requested_def Let_def split: sum.split\<close>)
qed

text \<open>The migrator: a run whose flags name nothing to do exits with 1 and changes nothing but what opening the
  database changed; any other run makes the one call of the migration library that the flags ask for, on the database that the server
  opens, and exits with 0 exactly when that call succeeded or found nothing to do.\<close>

theorem migrator_exit:
  assumes "config_New os = Inr cfg" and "mg_New m ''file://migrations'' (''mysql://'' @ migrate_dsn (cfg_MySQL cfg)) w = (Inr (), w1)"
    and "repository_NewMySQL sqlOpen (cfg_MySQL cfg) = Inr pool"
  shows "migrate_dsn (cfg_MySQL cfg) = pool_dsn pool \<and>
    (if flags_ok f
     then snd (migrator_main os m f w) = snd (requested m f w1) \<and>
       (fst (fst (migrator_main os m f w)) = 0 \<longleftrightarrow> fst (requested m f w1) \<in> {Inr (), Inl (harmless m f)})
     else fst (fst (migrator_main os m f w)) = 1 \<and> snd (migrator_main os m f w) = w1)"
proof -
  have dsn: "migrate_dsn (cfg_MySQL cfg) = pool_dsn pool"
    using assms(3) by (auto simp: repository_NewMySQL_def migrate_dsn_def Let_def split: sum.splits)
  show ?thesis
  proof (cases "flags_ok f")
    case False
    then obtain msg where "migrate_switch m f w1 = (Inl (1, msg), w1)" using switch_refuses [of f m w1] by auto
    then show ?thesis using assms(1,2) dsn False by (simp add: migrator_main_def)
  next
    case True
    obtain x w2 where req: "requested m f w1 = (x, w2)" by (cases "requested m f w1")
    obtain y where sw: "migrate_switch m f w1 = (y, w2)" using switch_runs [OF True req] by (cases "migrate_switch m f w1") auto
    have main: "migrator_main os m f w =
        (case y of Inl z \<Rightarrow> (z, w2)
         | Inr r \<Rightarrow> (if r = None \<or> r = Some (mg_ErrNoChange m) then ((0, ''migrate '' @ fl_cmd f @ '': ok'' @ [CHR 0x0A]), w2)
             else fatalf (''migrate '' @ fl_cmd f @ '': '' @ mg_message m (the r)) w2))"
      using assms(1,2) sw by (auto simp: migrator_main_def split: sum.split option.split)
    have "snd (migrator_main os m f w) = w2 \<and> (fst (fst (migrator_main os m f w)) = 0 \<longleftrightarrow> x = Inr () \<or> x = Inl (harmless m f))"
    proof (cases y)
      case (Inl z)
      then show ?thesis using switch_runs [OF True req] unfolding main sw by (cases z) simp
    next
      case (Inr r)
      then have "fl_cmd f \<noteq> ''version''" "r = (case x of Inl e \<Rightarrow> Some e | Inr _ \<Rightarrow> None)"
        using switch_runs [OF True req] unfolding sw by simp_all
      then show ?thesis using Inr unfolding main harmless_def by (cases x) (simp_all add: fatalf_def)
    qed
    then show ?thesis using dsn True req by simp
  qed
qed

text \<open>A library that counts migrations up to three: a second \<open>up\<close> finds nothing to do.\<close>

definition count_lib :: "nat migrateLib" where
  "count_lib = \<lparr>mg_New = (\<lambda>_ _. returnE ()),
     mg_Up = (\<lambda>n. if n = 3 then (Inl (OtherError ''no change''), n) else (Inr (), 3)),
     mg_Down = (\<lambda>n. (Inr (), 0)), mg_Steps = (\<lambda>k n. (Inr (), nat (int n + k))), mg_Force = (\<lambda>k n. (Inr (), nat k)),
     mg_Version = (\<lambda>n. if n = 0 then (Inl (OtherError ''no migration''), n) else (Inr (int n, False), n)),
     mg_ErrNoChange = OtherError ''no change'', mg_ErrNilVersion = OtherError ''no migration'', mg_message = (\<lambda>_. [])\<rparr>"

theorem migrator_exit_witness:
  "fst (fst (migrator_main sample_os count_lib \<lparr>fl_cmd = ''up'', fl_step = 0, fl_ver = 0\<rparr> 3)) = 0 \<and>
   snd (migrator_main sample_os count_lib \<lparr>fl_cmd = ''up'', fl_step = 0, fl_ver = 0\<rparr> 3) = 3 \<and>
   fst (fst (migrator_main sample_os count_lib \<lparr>fl_cmd = ''steps'', fl_step = 0, fl_ver = 0\<rparr> 3)) = 1"
proof -
  have new: "mg_New count_lib ''file://migrations'' (''mysql://'' @ migrate_dsn (cfg_MySQL default_config)) 3 = (Inr (), 3)"
    by (simp add: count_lib_def returnE_def)
  obtain pool where pool: "repository_NewMySQL (\<lambda>_. Inr ()) (cfg_MySQL default_config) = Inr pool"
    by (simp add: repository_NewMySQL_def Let_def)
  note * = migrator_exit [OF sample_config new pool]
  from * [of "\<lparr>fl_cmd = ''up'', fl_step = 0, fl_ver = 0\<rparr>"] * [of "\<lparr>fl_cmd = ''steps'', fl_step = 0, fl_ver = 0\<rparr>"]
  show ?thesis by (simp add: flags_ok_def requested_def harmless_def count_lib_def)
qed

end
