(* ===== verification/IdempotencyRuns.thy ===== *)
theory IdempotencyRuns
  imports SampleApp
begin

text \<open>
  What a client may expect from an \<open>Idempotency-Key\<close>: a retry within the time to live gets the
  stored answer and runs nothing; and what the key does not distinguish.
\<close>

section \<open>A stored response is read back\<close>

lemma stored_round_trip:
  assumes "\<And>b. b \<noteq> [] \<Longrightarrow> idem_unbase64 I (idem_base64 I b) = Some b"
    and "int64 (stored_Status v)" and "int64 (stored_CreatedAt v)" and "distinct (map fst (stored_Headers v))"
  shows "stored_of_json I (stored_json I v) = Some v"
proof -
  have put: "put_members (map (\<lambda>(k, x). (k, JStr x)) hs) acc = Some (acc @ hs)"
    if "distinct (map fst (acc @ hs))" for hs acc
    using that
  proof (induction hs arbitrary: acc)
    case (Cons h hs)
    obtain k x where h: "h = (k, x)" by (cases h)
    have "filter (\<lambda>(j, _). j \<noteq> k) acc = acc" using Cons.prems by (force simp: h filter_id_conv)
    with Cons.IH [of "acc @ [(k, x)]"] Cons.prems show ?case by (simp add: h)
  qed simp
  show ?thesis
    using assms put [of "[]" "stored_Headers v"]
    by (simp add: stored_of_json_def stored_json_def struct_members_def field_of_def ParseInt_FormatInt int64_def)
qed


section \<open>The middleware while Redis answers\<close>

text \<open>A request that the middleware looks at, for a user, a route and a key; and its hash.\<close>

definition keyed :: "http_request \<Rightarrow> int \<Rightarrow> string \<Rightarrow> string \<Rightarrow> bool" where
  "keyed r u route key \<longleftrightarrow> isMutatingMethod (req_Method r) \<and> TrimSpace (req_Header r ''Idempotency-Key'') = key \<and>
     key \<noteq> [] \<and> req_User r = Some u \<and> routePatternFromRequest r = route \<and> route \<noteq> []"

definition request_hash :: "idemLibs \<Rightarrow> http_request \<Rightarrow> string" where
  "request_hash I r = BuildRequestHash I (req_Method r) (routePatternFromRequest r) (req_Header r ''Content-Type'')
     (req_Query r) (req_Body r)"

text \<open>What is stored for a response.\<close>

definition stored_for :: "idemLibs \<Rightarrow> http_request \<Rightarrow> http_response \<Rightarrow> time \<Rightarrow> StoredResponse" where
  "stored_for I r resp t =
     \<lparr>stored_Status = resp_Status resp, stored_Body = resp_Body resp,
      stored_ContentType = header_Get resp ''Content-Type'', stored_Headers = extractReplayHeaders resp,
      stored_RequestHash = request_hash I r, stored_CreatedAt = Unix t\<rparr>"

lemma idem_keys_apart [simp]: "idemLockKey I u route k \<noteq> responseKey I v route' k'" "responseKey I v route' k' \<noteq> idemLockKey I u route k"
  by (simp_all add: idemLockKey_def responseKey_def)

lemma idemLockKey_nonempty [simp]: "idemLockKey I u route k \<noteq> []"
  by (simp add: idemLockKey_def)

locale idempotency = lock_service ks up c l
  for ks :: "'w \<Rightarrow> keyspace" and up :: "'w \<Rightarrow> bool" and c :: "'w redisClient" and l :: "'w Locker" +
  fixes m :: "'w IdempotencyMiddleware" and st :: "'w Store"
  assumes enabled: "im_enabled m"
    and store: "im_store m = Some \<lparr>idemStore_Get = Store_Get st, idemStore_Set = Store_Set st\<rparr>"
      "store_client st = Some c" "store_libs st = im_libs m"
    and locker: "im_locker m = Some \<lparr>distLocker_Acquire = Acquire l, distLocker_Release = Release l\<rparr>"
    and metrics: "uncounted ks (im_metrics m)" "uncounted up (im_metrics m)"
begin

lemma Store_Get_up:
  assumes "up w"
  shows "\<exists>w1. up w1 \<and> ks w1 = ks w \<and> Store_Get st key w =
     ((case value_at (ks w) key of None \<Rightarrow> Inr None
       | Some t \<Rightarrow> (case Option.bind (json_Unmarshal (idem_json (im_libs m)) t) (stored_of_json (im_libs m)) of
            None \<Rightarrow> Inl (OtherError ''json'') | Some v \<Rightarrow> Inr (Some v))), w1)"
proof -
  obtain w1 where "redis_Get c key w = (Inr (value_at (ks w) key), w1)" "up w1" "ks w1 = ks w"
    using get_up [OF assms] by blast
  then show ?thesis
    by (auto simp: Store_Get_def store bindE_apply returnE_def raiseE_def split: option.splits)
qed

lemma Acquire_up:
  assumes "up w" and "key \<noteq> []"
  shows "\<exists>w1. up w1 \<and> Acquire l key ttl w =
     (Inr (if live (ks w) key = None then (fst (locker_uuid l w), True) else ([], False)), w1) \<and>
     (\<forall>k. k \<noteq> key \<longrightarrow> live (ks w1) k = live (ks w) k) \<and> redis_time (ks w1) = redis_time (ks w)"
proof -
  obtain t w0 where u: "locker_uuid l w = (t, w0)" by (cases "locker_uuid l w")
  have w0: "up w0" "ks w0 = ks w" using uuid_ks [of w] uuid_up [of w] u assms(1) by auto
  define ttl' where "ttl' = (if ttl \<le> 0 then 15 * second else ttl)"
  from executes_healthy [OF redis_setnx w0(1), of key t ttl']
  show ?thesis using w0(2) assms(2)
    by (cases "redis_SetNX c key t ttl' w0")
      (auto simp: Acquire_def client u ttl'_def [symmetric] cmd_setnx_def Let_def split: if_splits)
qed

lemma Release_up:
  assumes "up w"
  shows "\<exists>w1. up w1 \<and> Release l key token w = (Inr (), w1) \<and> (\<forall>k. k \<noteq> key \<longrightarrow> live (ks w1) k = live (ks w) k) \<and>
     redis_time (ks w1) = redis_time (ks w)"
proof -
  obtain r w1 where rel: "Release l key token w = (r, w1)" by (cases "Release l key token w")
  obtain a b where run: "redis_Run c (releaseScript key token) w = (a, b)" by (cases "redis_Run c (releaseScript key token) w")
  have b: "up b" "(a, ks b) = releaseScript key token (ks w)"
    using executes_healthy [OF redis_run assms, of "releaseScript key token"] run by auto
  have "\<exists>n. fst (releaseScript key token (ks w)) = Inr n" by (auto simp: releaseScript_def cmd_del_def split_beta)
  then obtain n where "a = Inr n" using b(2) by (metis fst_conv)
  then have "up w1 \<and> r = Inr ()" using rel run b(1) assms by (auto simp: Release_def client split: if_splits)
  with rel Release_other [OF rel] Release_time [OF rel] show ?thesis by blast
qed

text \<open>A response in the store is replayed, and nothing runs.\<close>

lemma Handler_stored:
  assumes "up w" and "keyed r u route key" and "live (ks w) (responseKey (im_libs m) u route key) = Some (t, e)"
    and "Option.bind (json_Unmarshal (idem_json (im_libs m)) t) (stored_of_json (im_libs m)) = Some v"
  shows "\<exists>w1. up w1 \<and> ks w1 = ks w \<and> Store_Get st (responseKey (im_libs m) u route key) w = (Inr (Some v), w1) \<and>
     Idempotency_Handler m nxt r w =
       (if stored_RequestHash v \<noteq> request_hash (im_libs m) r
        then (response_Error (idem_json (im_libs m)) 409 ''idempotency key reused with different payload'',
              inc (im_metrics m) ''IdempotencyConflict'' [] w1)
        else (replayStoredResponse v, inc (im_metrics m) ''IdempotencyHits'' [] w1))"
proof -
  obtain w1 where "up w1" "ks w1 = ks w" "Store_Get st (responseKey (im_libs m) u route key) w = (Inr (Some v), w1)"
    using Store_Get_up [OF assms(1), of "responseKey (im_libs m) u route key"] assms(3,4) by (auto simp: value_at_def)
  with assms(2) enabled store(1) locker show ?thesis
    by (auto simp: Idempotency_Handler_def keyed_def UserIDFromContext_def request_hash_def Let_def)
qed

text \<open>The first request with a key runs the handler under the lock and stores its answer.\<close>

lemma Handler_first:
  assumes "up w" and "keyed r u route key" and "live (ks w) (responseKey (im_libs m) u route key) = None"
    and "live (ks w) (idemLockKey (im_libs m) u route key) = None" and "\<And>v. up v \<Longrightarrow> up (snd (nxt r v))"
  shows "\<exists>w2 w3 w4. nxt r w2 = (fst (Idempotency_Handler m nxt r w), w3) \<and> up w2 \<and> up w3 \<and> up w4 \<and>
     (\<forall>k. k \<noteq> idemLockKey (im_libs m) u route key \<longrightarrow> live (ks w2) k = live (ks w) k) \<and>
     snd (Idempotency_Handler m nxt r w) = w4 \<and>
     (\<exists>tok hash. w4 = releaseLock m \<lparr>distLocker_Acquire = Acquire l, distLocker_Release = Release l\<rparr>
        (idemLockKey (im_libs m) u route key) tok
        (recordResponse m \<lparr>idemStore_Get = Store_Get st, idemStore_Set = Store_Set st\<rparr>
          (responseKey (im_libs m) u route key) hash (fst (Idempotency_Handler m nxt r w)) w3)) \<and>
     (IsCacheableStatus (resp_Status (fst (Idempotency_Handler m nxt r w))) \<longrightarrow>
        redis_time (ks w4) = redis_time (ks w3) \<and>
        live (ks w4) (responseKey (im_libs m) u route key) =
          live (put (responseKey (im_libs m) u route key) (json_Encode (idem_json (im_libs m)) (stored_json (im_libs m)
            (stored_for (im_libs m) r (fst (Idempotency_Handler m nxt r w)) (im_now m w3))),
              expiry (ks w3) (im_responseTTL m)) (ks w3)) (responseKey (im_libs m) u route key))"
proof -
  let ?rk = "responseKey (im_libs m) u route key" and ?lk = "idemLockKey (im_libs m) u route key"
  obtain w1 where w1: "up w1" "ks w1 = ks w" "Store_Get st ?rk w = (Inr None, w1)"
    using Store_Get_up [OF assms(1), of ?rk] assms(3) by (auto simp: value_at_def)
  obtain w2 where w2: "up w2" "Acquire l ?lk (im_lockTTL m) w1 = (Inr (fst (locker_uuid l w1), True), w2)"
      "\<And>k. k \<noteq> ?lk \<Longrightarrow> live (ks w2) k = live (ks w) k"
    using Acquire_up [OF w1(1), of ?lk "im_lockTTL m"] assms(4) w1(2) by auto
  obtain resp w3 where w3: "nxt r w2 = (resp, w3)" by (cases "nxt r w2")
  have up3: "up w3" using assms(5) [OF w2(1)] w3 by simp
  let ?v = "stored_for (im_libs m) r resp (im_now m w3)"
  obtain w5 where w5: "recordResponse m \<lparr>idemStore_Get = Store_Get st, idemStore_Set = Store_Set st\<rparr> ?rk
        (request_hash (im_libs m) r) resp w3 = w5" "up w5"
      "IsCacheableStatus (resp_Status resp) \<Longrightarrow> ks w5 = put ?rk (json_Encode (idem_json (im_libs m)) (stored_json (im_libs m) ?v),
          expiry (ks w3) (im_responseTTL m)) (ks w3)"
  proof (cases "IsCacheableStatus (resp_Status resp)")
    case True
    obtain w5 where "redis_Set c ?rk (json_Encode (idem_json (im_libs m)) (stored_json (im_libs m) ?v)) (im_responseTTL m) w3
        = (Inr (), w5)" "up w5"
      "ks w5 = put ?rk (json_Encode (idem_json (im_libs m)) (stored_json (im_libs m) ?v), expiry (ks w3) (im_responseTTL m)) (ks w3)"
      using set_up [OF up3] by blast
    with True that show ?thesis by (simp add: recordResponse_def Store_Set_def store stored_for_def)
  qed (use that up3 in \<open>auto simp: recordResponse_def\<close>)
  obtain w4 where w4: "up w4" "Release l ?lk (fst (locker_uuid l w1)) w5 = (Inr (), w4)" "live (ks w4) ?rk = live (ks w5) ?rk"
      "redis_time (ks w4) = redis_time (ks w5)"
    using Release_up [OF w5(2), of ?lk "fst (locker_uuid l w1)"] by auto
  have rel: "releaseLock m \<lparr>distLocker_Acquire = Acquire l, distLocker_Release = Release l\<rparr> ?lk (fst (locker_uuid l w1)) w5 = w4"
    using w4(2) by (simp add: releaseLock_def)
  have run: "Idempotency_Handler m nxt r w = (resp, w4)"
    using assms(2) enabled store(1) locker w1(3) w2(2) w3 w5(1) w4(2)
    by (auto simp: Idempotency_Handler_def runUnderLock_def keyed_def UserIDFromContext_def request_hash_def releaseLock_def Let_def)
  show ?thesis
    by (rule exI [of _ w2], rule exI [of _ w3], rule exI [of _ w4]) (use run w2 w3 up3 w4 w5 rel in auto)
qed

text \<open>While another request holds the lock, the answer is a conflict.\<close>

lemma Handler_busy:
  assumes "up w" and "keyed r u route key" and "live (ks w) (responseKey (im_libs m) u route key) = None"
    and "live (ks w) (idemLockKey (im_libs m) u route key) \<noteq> None"
  shows "\<exists>w1. Idempotency_Handler m nxt r w =
      (response_Error (idem_json (im_libs m)) 409 ''request already in progress'', w1) \<and> up w1"
proof -
  let ?rk = "responseKey (im_libs m) u route key" and ?lk = "idemLockKey (im_libs m) u route key"
  obtain w1 where w1: "up w1" "ks w1 = ks w" "Store_Get st ?rk w = (Inr None, w1)"
    using Store_Get_up [OF assms(1), of ?rk] assms(3) by (auto simp: value_at_def)
  obtain w2 where "up w2" "Acquire l ?lk (im_lockTTL m) w1 = (Inr ([], False), w2)"
    using Acquire_up [OF w1(1), of ?lk "im_lockTTL m"] assms(4) w1(2) by auto
  with assms(2) enabled store(1) locker w1(3) show ?thesis
    by (auto simp: Idempotency_Handler_def runUnderLock_def keyed_def UserIDFromContext_def Let_def)
qed

end

section \<open>Replayed responses\<close>

definition base64_law :: "idemLibs \<Rightarrow> bool" where
  "base64_law I \<longleftrightarrow> (\<forall>b. idem_unbase64 I (idem_base64 I b) = Some b)"

definition same_answer :: "http_response \<Rightarrow> http_response \<Rightarrow> bool" where
  "same_answer a b \<longleftrightarrow> resp_Status a = resp_Status b \<and> resp_Body a = resp_Body b \<and>
     header_Get a ''Content-Type'' = header_Get b ''Content-Type'' \<and> header_Get a ''Location'' = header_Get b ''Location''"

lemma replay_same: "same_answer (replayStoredResponse (stored_for I r resp t)) resp"
  by (simp add: same_answer_def replayStoredResponse_def stored_for_def extractReplayHeaders_def header_Set_def header_Get_def Let_def)

lemma stored_for_read:
  assumes "base64_law I" and "int64 (resp_Status resp)" and "int64 (Unix t)"
  shows "stored_of_json I (stored_json I (stored_for I r resp t)) = Some (stored_for I r resp t)"
  by (rule stored_round_trip) (use assms in \<open>simp_all add: base64_law_def stored_for_def extractReplayHeaders_def Let_def\<close>)

section \<open>On the application's Redis\<close>

definition app_idem :: "duration \<Rightarrow> duration \<Rightarrow> idemLibs \<Rightarrow> 'x world_scheme IdempotencyMiddleware" where
  "app_idem lockTTL responseTTL I = NewIdempotencyMiddleware True (NewStore (Some redis_client) I) app_locker lockTTL responseTTL
     (Some app_metrics) I now"

lemma app_idem_sel [simp]:
  "im_libs (app_idem lt rt I) = I" "im_responseTTL (app_idem lt rt I) = rt" "im_now (app_idem lt rt I) = now"
  "im_metrics (app_idem lt rt I) = Some app_metrics"
  by (simp_all add: app_idem_def NewIdempotencyMiddleware_def)

interpretation app_idem: idempotency redis redis_up redis_client app_locker "app_idem lt rt I" "NewStore (Some redis_client) I"
  by unfold_locales (simp_all add: app_idem_def NewIdempotencyMiddleware_def NewStore_def)

lemma Store_Get_srv: "srv (snd (Store_Get (NewStore (Some redis_client) I) k (w :: 'x world_scheme))) = srv w"
  by (auto simp: Store_Get_def NewStore_def bindE_apply redis_client_def split: sum.splits option.splits)


lemma recorded_now:
  fixes w :: "'x world_scheme"
  shows "now (releaseLock (app_idem lt rt I) \<lparr>distLocker_Acquire = Acquire app_locker, distLocker_Release = Release app_locker\<rparr> k tok
     (recordResponse (app_idem lt rt I) \<lparr>idemStore_Get = Store_Get (NewStore (Some redis_client) I),
        idemStore_Set = Store_Set (NewStore (Some redis_client) I)\<rparr> rk hash resp w)) = now w"
proof -
  have rel: "now (releaseLock (app_idem lt rt I) \<lparr>distLocker_Acquire = Acquire app_locker, distLocker_Release = Release app_locker\<rparr> k tok v)
      = now v" for v :: "'x world_scheme"
    by (auto simp: releaseLock_def Release_def app_locker_def redis_client_def Locker_onRedisError_def
        split: sum.splits prod.splits dest!: arg_cong [where f = "\<lambda>x. now (snd x)"])
  have rec: "now (recordResponse (app_idem lt rt I) \<lparr>idemStore_Get = Store_Get (NewStore (Some redis_client) I),
        idemStore_Set = Store_Set (NewStore (Some redis_client) I)\<rparr> rk hash resp w) = now w"
    by (auto simp: recordResponse_def Store_Set_def NewStore_def redis_client_def onRedisUnavailable_def
        split: sum.splits prod.splits dest!: arg_cong [where f = "\<lambda>x. now (snd x)"])
  show ?thesis by (simp only: rel rec)
qed

lemma live_wait_until: "live s k = Some (v, Some e) \<Longrightarrow> redis_time s + d < e \<Longrightarrow> live (wait d s) k = Some (v, Some e)"
  by (auto simp: live_def wait_def split: option.splits if_splits)

text \<open>After the first request with a key its answer is found under the key until the time to live ends.\<close>

lemma stored_after_first:
  fixes w :: "'x world_scheme"
  assumes "Idempotency_Handler (app_idem lt rt I) nxt r w = (resp, w')" and "redis_up w" and "keyed r u route key"
    and "live (redis w) (responseKey I u route key) = None" and "live (redis w) (idemLockKey I u route key) = None"
    and "\<And>v. redis_up v \<Longrightarrow> redis_up (snd (nxt r v))" and "IsCacheableStatus (resp_Status resp)" and "0 \<le> d" and "d < rt"
  shows "redis_up (pass d w')"
    "\<exists>e. live (redis (pass d w')) (responseKey I u route key) =
       Some (json_Encode (idem_json I) (stored_json I (stored_for I r resp (now w'))), e)"
proof -
  from app_idem.Handler_first [where w = w and r = r and u = u and route = route and key = key and I = I and lt = lt and rt = rt and nxt = nxt] assms
  obtain w3 tok hash where up: "redis_up w'" and w': "w' = releaseLock (app_idem lt rt I)
      \<lparr>distLocker_Acquire = Acquire app_locker, distLocker_Release = Release app_locker\<rparr> (idemLockKey I u route key) tok
      (recordResponse (app_idem lt rt I) \<lparr>idemStore_Get = Store_Get (NewStore (Some redis_client) I),
        idemStore_Set = Store_Set (NewStore (Some redis_client) I)\<rparr> (responseKey I u route key) hash resp w3)"
    and time: "redis_time (redis w') = redis_time (redis w3)"
    and live: "live (redis w') (responseKey I u route key) =
          live (put (responseKey I u route key) (json_Encode (idem_json I) (stored_json I
            (stored_for I r resp (now w3))), expiry (redis w3) rt) (redis w3)) (responseKey I u route key)"
    by auto
  have "now w' = now w3" unfolding w' by (rule recorded_now)
  with live assms(8,9) have "live (redis w') (responseKey I u route key) =
      Some (json_Encode (idem_json I) (stored_json I (stored_for I r resp (now w'))), Some (redis_time (redis w3) + rt))"
    by (simp add: expiry_def)
  from live_wait_until [OF this, of d] time assms(9) show "\<exists>e. live (redis (pass d w')) (responseKey I u route key) =
       Some (json_Encode (idem_json I) (stored_json I (stored_for I r resp (now w'))), e)"
    by simp
  show "redis_up (pass d w')" using up by simp
qed

text \<open>The middleware in front of a handler of the application.\<close>

definition keyed_handler :: "'x app_world_scheme appLibs \<Rightarrow> Config \<Rightarrow> 'x app_world_scheme handler \<Rightarrow> 'x app_world_scheme handler" where
  "keyed_handler l cfg h =
     Idempotency_Handler (app_idem (Idem_LockTTL (cfg_Idem cfg)) (Idem_ResponseTTL (cfg_Idem cfg)) (al_idem l)) (limited l cfg h)"

lemma group_middleware_app:
  "Idem_Enabled (cfg_Idem cfg) \<Longrightarrow>
   group_middleware (app_deps l cfg) h = AuthMiddleware (al_json l) (app_auth (al_crypto l) cfg) (keyed_handler l cfg h)"
  by (simp add: group_middleware_def keyed_handler_def limited_def app_deps_def app_idem_def NewStore_def)

text \<open>What the next request with a key in use is answered, while the response is stored.\<close>

lemma keyed_again:
  fixes w :: "'x app_world_scheme"
  assumes "keyed_handler l cfg h r w = (resp, w')" and "(rt, h) \<in> set (group_routes (app_deps l cfg))"
    and "redis_up w" and "keyed r u route key"
    and "live (redis w) (responseKey (al_idem l) u route key) = None" and "live (redis w) (idemLockKey (al_idem l) u route key) = None"
    and "IsCacheableStatus (resp_Status resp)" and "0 \<le> d" and "d < Idem_ResponseTTL (cfg_Idem cfg)"
    and "keyed r' u route key" and "base64_law (al_idem l)"
    and "json_faithful (idem_json (al_idem l)) (stored_json (al_idem l) (stored_for (al_idem l) r resp (now w')))"
    and "int64 (Unix (now w'))"
  shows "srv (snd (keyed_handler l cfg h' r' (pass d w'))) = srv (pass d w')"
    "request_hash (al_idem l) r' = request_hash (al_idem l) r \<Longrightarrow> same_answer (fst (keyed_handler l cfg h' r' (pass d w'))) resp"
    "request_hash (al_idem l) r' \<noteq> request_hash (al_idem l) r \<Longrightarrow> resp_Status (fst (keyed_handler l cfg h' r' (pass d w'))) = 409"
proof -
  let ?I = "al_idem l" and ?lt = "Idem_LockTTL (cfg_Idem cfg)" and ?rt = "Idem_ResponseTTL (cfg_Idem cfg)"
  have first: "Idempotency_Handler (app_idem ?lt ?rt ?I) (limited l cfg h) r w = (resp, w')"
    using assms(1) by (simp add: keyed_handler_def)
  note stored = stored_after_first [OF first assms(3-6) preservesD [OF limited_redis_up [OF assms(2)]] assms(7-9)]
  let ?v = "stored_for ?I r resp (now w')"
  obtain e where live: "live (redis (pass d w')) (responseKey ?I u route key) = Some (json_Encode (idem_json ?I) (stored_json ?I ?v), e)"
    using stored(2) by blast
  have "int64 (resp_Status resp)"
    using assms(7) by (auto simp: IsCacheableStatus_def int64_def int64_min_def int64_max_def)
  with assms(11-13) have dec: "Option.bind (json_Unmarshal (idem_json ?I) (json_Encode (idem_json ?I) (stored_json ?I ?v))) (stored_of_json ?I) = Some ?v"
    by (simp add: json_faithful_def stored_for_read)
  from app_idem.Handler_stored [where lt = ?lt and rt = ?rt and I = ?I and nxt = "limited l cfg h'", unfolded app_idem_sel,
      OF stored(1) assms(10) live dec]
  obtain w1 where get: "Store_Get (NewStore (Some redis_client) ?I) (responseKey ?I u route key) (pass d w') = (Inr (Some ?v), w1)"
    and run: "keyed_handler l cfg h' r' (pass d w') =
      (if stored_RequestHash ?v \<noteq> request_hash ?I r' then (response_Error (idem_json ?I) 409 ''idempotency key reused with different payload'',
         inc (Some app_metrics) ''IdempotencyConflict'' [] w1)
       else (replayStoredResponse ?v, inc (Some app_metrics) ''IdempotencyHits'' [] w1))"
    by (auto simp: keyed_handler_def)
  have "srv w1 = srv (pass d w')" using Store_Get_srv [of ?I "responseKey ?I u route key" "pass d w'"] get by simp
  with run show "srv (snd (keyed_handler l cfg h' r' (pass d w'))) = srv (pass d w')" by simp
  have hash: "stored_RequestHash ?v = request_hash ?I r" by (simp add: stored_for_def)
  show "same_answer (fst (keyed_handler l cfg h' r' (pass d w'))) resp" if "request_hash ?I r' = request_hash ?I r"
    using run replay_same [of ?I r resp "now w'"] that hash by simp
  show "resp_Status (fst (keyed_handler l cfg h' r' (pass d w'))) = 409" if "request_hash ?I r' \<noteq> request_hash ?I r"
    using run that hash by simp
qed

text \<open>C10. A retry is safe: after a request with an idempotency key was answered with a cacheable status, a request
  with the same key, user and route and the same hash, within the time to live, gets the same status, body,
  content type and location, and runs nothing: the database is as before. Redis answers in between; the
  JSON and base64 libraries read back what they wrote.\<close>

theorem idempotent_replay:
  assumes "keyed_handler l cfg h r w = (resp, w')" and "(rt, h) \<in> set (group_routes (app_deps l cfg))"
    and "redis_up w" and "keyed r u route key"
    and "live (redis w) (responseKey (al_idem l) u route key) = None" and "live (redis w) (idemLockKey (al_idem l) u route key) = None"
    and "IsCacheableStatus (resp_Status resp)" and "0 \<le> d" and "d < Idem_ResponseTTL (cfg_Idem cfg)"
    and "keyed r' u route key" and "request_hash (al_idem l) r' = request_hash (al_idem l) r" and "base64_law (al_idem l)"
    and "json_faithful (idem_json (al_idem l)) (stored_json (al_idem l) (stored_for (al_idem l) r resp (now w')))"
    and "int64 (Unix (now w'))"
  shows "same_answer (fst (keyed_handler l cfg h' r' (pass d w'))) resp \<and>
    srv (snd (keyed_handler l cfg h' r' (pass d w'))) = srv (pass d w')"
  using keyed_again(1,2) [OF assms(1-10,12-14)] assms(11) by blast

text \<open>A key is bound to its request: while the answer is stored, a request with the same key, user and route but
  another hash is refused with 409 and runs nothing.\<close>

theorem key_reuse_refused:
  assumes "keyed_handler l cfg h r w = (resp, w')" and "(rt, h) \<in> set (group_routes (app_deps l cfg))"
    and "redis_up w" and "keyed r u route key"
    and "live (redis w) (responseKey (al_idem l) u route key) = None" and "live (redis w) (idemLockKey (al_idem l) u route key) = None"
    and "IsCacheableStatus (resp_Status resp)" and "0 \<le> d" and "d < Idem_ResponseTTL (cfg_Idem cfg)"
    and "keyed r' u route key" and "request_hash (al_idem l) r' \<noteq> request_hash (al_idem l) r" and "base64_law (al_idem l)"
    and "json_faithful (idem_json (al_idem l)) (stored_json (al_idem l) (stored_for (al_idem l) r resp (now w')))"
    and "int64 (Unix (now w'))"
  shows "resp_Status (fst (keyed_handler l cfg h' r' (pass d w'))) = 409 \<and>
    srv (snd (keyed_handler l cfg h' r' (pass d w'))) = srv (pass d w')"
  using keyed_again(1,3) [OF assms(1-10,12-14)] assms(11) by blast

text \<open>C20. The key confuses targets: the hash and the stored key name the pattern of the route, not the path, so the same
  key sent with another path of the same route is taken for a retry: the answer about the first
  target is replayed, and nothing happens to the second.\<close>

theorem idempotency_confuses_targets:
  assumes "keyed_handler l cfg h r w = (resp, w')" and "(rt, h) \<in> set (group_routes (app_deps l cfg))"
    and "redis_up w" and "keyed r u route key" and "req_Route r = route"
    and "live (redis w) (responseKey (al_idem l) u route key) = None" and "live (redis w) (idemLockKey (al_idem l) u route key) = None"
    and "IsCacheableStatus (resp_Status resp)" and "0 \<le> d" and "d < Idem_ResponseTTL (cfg_Idem cfg)"
    and "base64_law (al_idem l)"
    and "json_faithful (idem_json (al_idem l)) (stored_json (al_idem l) (stored_for (al_idem l) r resp (now w')))"
    and "int64 (Unix (now w'))"
  shows "same_answer (fst (keyed_handler l cfg h (r\<lparr>req_Path := path, req_ID := i\<rparr>) (pass d w'))) resp \<and>
    srv (snd (keyed_handler l cfg h (r\<lparr>req_Path := path, req_ID := i\<rparr>) (pass d w'))) = srv (pass d w')"
proof -
  have "keyed (r\<lparr>req_Path := path, req_ID := i\<rparr>) u route key"
    using assms(4,5) by (auto simp: keyed_def routePatternFromRequest_def split: if_splits)
  moreover have "request_hash (al_idem l) (r\<lparr>req_Path := path, req_ID := i\<rparr>) = request_hash (al_idem l) r"
    using assms(4,5) by (auto simp: request_hash_def keyed_def routePatternFromRequest_def)
  ultimately show ?thesis
    using keyed_again(1,2) [OF assms(1-4,6-10) _ assms(11-13), of "r\<lparr>req_Path := path, req_ID := i\<rparr>" h] by blast
qed


section \<open>On the sample\<close>

text \<open>A second task; the owner deletes tasks with the key \<open>k\<close>.\<close>

definition second_task :: Task where
  "second_task = \<lparr>Task_ID = 2, Task_TeamID = 1, Task_Title = ''code'', Task_Description = None, Task_Status = ''todo'',
     Task_Priority = ''low'', Task_AssigneeID = None, Task_CreatedBy = Some 1, Task_DueDate = None, Task_CreatedAt = 22,
     Task_UpdatedAt = 22\<rparr>"

definition sample_two :: app_world where
  "sample_two = sample_app\<lparr>srv := sample_server\<lparr>data := sample_tables\<lparr>tasks := tasks sample_tables @ [second_task]\<rparr>\<rparr>\<rparr>"

definition delete_handler :: "app_world handler" where
  "delete_handler = TaskHandler_Delete (NewTaskHandler (rd_tasks (app_deps sample_libs default_config))
     (rd_teams (app_deps sample_libs default_config)) (rd_taskCache (app_deps sample_libs default_config)) text_json)"

definition delete_request :: "string \<Rightarrow> string \<Rightarrow> http_request" where
  "delete_request i body = (request ''DELETE'' (''/api/v1/tasks/'' @ i) [(''Idempotency-Key'', ''k'')] body)
     \<lparr>req_Route := ''/api/v1/tasks/{id}'', req_ID := i, req_User := Some 1\<rparr>"

definition sample_deleted :: app_world where
  "sample_deleted = snd (keyed_handler sample_libs default_config delete_handler (delete_request ''1'' []) sample_two)"

lemma delete_handler_route: "((''DELETE'', ''/api/v1/tasks/{id}''), delete_handler) \<in> set (group_routes (app_deps sample_libs default_config))"
  by (simp add: group_routes_def delete_handler_def Let_def app_deps_def sample_libs_def)

lemma delete_keyed: "keyed (delete_request i body) 1 ''/api/v1/tasks/{id}'' ''k''"
  by (simp add: keyed_def delete_request_def request_def isMutatingMethod_def routePatternFromRequest_def) code_simp

lemma sample_laws: "base64_law (al_idem sample_libs)" "json_faithful (idem_json (al_idem sample_libs)) v"
  by (simp_all add: base64_law_def sample_libs_def text_idem_def text_json_faithful)

lemma sample_delete:
  "case keyed_handler sample_libs default_config delete_handler (delete_request ''1'' []) sample_two of
     (resp, w) \<Rightarrow> resp_Status resp = 200 \<and> now w = 100 \<and> map Task_ID (tasks (data (srv w))) = [2]"
  by code_simp

lemma sample_delete_run:
  obtains resp where "keyed_handler sample_libs default_config delete_handler (delete_request ''1'' []) sample_two = (resp, sample_deleted)"
    "resp_Status resp = 200" "now sample_deleted = 100" "map Task_ID (tasks (data (srv sample_deleted))) = [2]"
  using sample_delete that
  by (cases "keyed_handler sample_libs default_config delete_handler (delete_request ''1'' []) sample_two")
    (simp add: sample_deleted_def)

lemma sample_two_ready: "redis_up sample_two" "live (redis sample_two) k = None"
  by (simp_all add: sample_two_def sample_app_def world.defs sample_world_def dbw.defs redis_up_def live_def sample_def)

lemma sample_times: "(0 :: int) \<le> minute" "minute < Idem_ResponseTTL (cfg_Idem default_config)" "int64 (Unix 100)"
  "IsCacheableStatus 200"
  by (simp_all add: minute_def second_def default_config_def int64_def int64_min_def int64_max_def Unix_def IsCacheableStatus_def)

theorem idempotent_replay_witness:
  "resp_Status (fst (keyed_handler sample_libs default_config delete_handler (delete_request ''1'' []) (pass minute sample_deleted))) = 200 \<and>
   srv (snd (keyed_handler sample_libs default_config delete_handler (delete_request ''1'' []) (pass minute sample_deleted))) =
     srv (pass minute sample_deleted)"
proof -
  obtain resp where run: "keyed_handler sample_libs default_config delete_handler (delete_request ''1'' []) sample_two = (resp, sample_deleted)"
    "resp_Status resp = 200" "now sample_deleted = 100" by (rule sample_delete_run)
  from idempotent_replay [OF run(1) delete_handler_route sample_two_ready(1) delete_keyed sample_two_ready(2) sample_two_ready(2)
      _ sample_times(1,2) delete_keyed refl sample_laws(1) sample_laws(2)] run(2,3) sample_times(3,4)
  show ?thesis by (simp add: same_answer_def)
qed

theorem key_reuse_refused_witness:
  "resp_Status (fst (keyed_handler sample_libs default_config delete_handler (delete_request ''1'' ''x'') (pass minute sample_deleted))) = 409"
proof -
  obtain resp where run: "keyed_handler sample_libs default_config delete_handler (delete_request ''1'' []) sample_two = (resp, sample_deleted)"
    "resp_Status resp = 200" "now sample_deleted = 100" by (rule sample_delete_run)
  have "request_hash (al_idem sample_libs) (delete_request ''1'' ''x'') \<noteq> request_hash (al_idem sample_libs) (delete_request ''1'' [])"
    by code_simp
  from key_reuse_refused [OF run(1) delete_handler_route sample_two_ready(1) delete_keyed sample_two_ready(2) sample_two_ready(2)
      _ sample_times(1,2) delete_keyed this sample_laws(1) sample_laws(2)] run(2,3) sample_times(3,4)
  show ?thesis by simp
qed

text \<open>The second task was never deleted, and its owner was told that it was.\<close>

theorem idempotency_confuses_targets_witness:
  "resp_Status (fst (keyed_handler sample_libs default_config delete_handler (delete_request ''2'' []) (pass minute sample_deleted))) = 200 \<and>
   map Task_ID (tasks (data (srv (snd (keyed_handler sample_libs default_config delete_handler (delete_request ''2'' [])
     (pass minute sample_deleted)))))) = [2]"
proof -
  obtain resp where run: "keyed_handler sample_libs default_config delete_handler (delete_request ''1'' []) sample_two = (resp, sample_deleted)"
    "resp_Status resp = 200" "now sample_deleted = 100" "map Task_ID (tasks (data (srv sample_deleted))) = [2]"
    by (rule sample_delete_run)
  have other: "delete_request ''2'' [] = (delete_request ''1'' [])\<lparr>req_Path := ''/api/v1/tasks/2'', req_ID := ''2''\<rparr>"
    and route: "req_Route (delete_request ''1'' []) = ''/api/v1/tasks/{id}''"
    by (simp_all add: delete_request_def request_def)
  from idempotency_confuses_targets [OF run(1) delete_handler_route sample_two_ready(1) delete_keyed route sample_two_ready(2)
      sample_two_ready(2) _ sample_times(1,2) sample_laws(1) sample_laws(2), of "''2''" "''/api/v1/tasks/2''"] run(2-4) sample_times(3,4)
  show ?thesis by (simp add: same_answer_def other pass_def)
qed

end
