(* ===== verification/AppRoutes.thy ===== *)
theory AppRoutes
  imports IdempotencyRuns
begin

text \<open>
  Requests to the running program as a whole: who gets through the middleware, and how often.
\<close>

section \<open>Tokens\<close>

lemma token_check_gauge:
  fixes w :: "'a world_scheme"
  shows
  "fst (ParseAccessTokenCtx (app_auth G cfg) tok (metrics_Add app_metrics g n w)) = fst (ParseAccessTokenCtx (app_auth G cfg) tok w)"
proof -
  have rev: "fst (IsRevoked NewJWTBlacklist j (metrics_Add app_metrics g n w)) = fst (IsRevoked NewJWTBlacklist j w)" for j
    by (auto simp: IsRevoked_def NewJWTBlacklist_def bindE_apply redis_client_def run_redis_def app_metrics_def returnE_def raiseE_def
        split: list.splits option.splits sum.splits)
  have now: "now (metrics_Add app_metrics g n w) = now w" by (simp add: app_metrics_def)
  have "fst (parseToken (app_auth G cfg) tok TokenTypeAccess v) =
      (let jwt = cfg_JWT cfg in
       case crypto_parse G (JWT_Secret jwt) (JWT_ClockSkew jwt) (now v) tok of
         None \<Rightarrow> Inl ErrInvalidToken
       | Some c \<Rightarrow>
           if Claims_Type c \<noteq> TokenTypeAccess \<or> Claims_Issuer c \<noteq> JWT_Issuer jwt then Inl ErrInvalidToken
           else if Blacklist_Enabled (JWT_Blacklist jwt) \<and> Claims_ID c \<noteq> [] then
             (case fst (IsRevoked NewJWTBlacklist (Claims_ID c) v) of
                Inl e \<Rightarrow> if Blacklist_FailOpen (JWT_Blacklist jwt) then Inr c else Inl ErrInvalidToken
              | Inr b \<Rightarrow> if b then Inl ErrInvalidToken else Inr c)
           else Inr c)" for v :: "'a world_scheme"
    by (simp add: parseToken_def app_auth_def app_libs_def app_blacklist_def Let_def split: option.split prod.split sum.split)
  then have "fst (parseToken (app_auth G cfg) tok TokenTypeAccess (metrics_Add app_metrics g n w)) =
      fst (parseToken (app_auth G cfg) tok TokenTypeAccess w)"
    by (simp only: rev now)
  then show ?thesis by (simp add: ParseAccessTokenCtx_def bindR_apply)
qed


text \<open>The user that a request authenticates as, if any.\<close>

definition authenticated :: "crypto \<Rightarrow> Config \<Rightarrow> http_request \<Rightarrow> 'x world_scheme \<Rightarrow> int option" where
  "authenticated G cfg r w =
     (case bearer_token r of
        None \<Rightarrow> None
      | Some tok \<Rightarrow> (case fst (ParseAccessTokenCtx (app_auth G cfg) tok w) of Inl _ \<Rightarrow> None | Inr u \<Rightarrow> Some u))"

lemma ParseAccessTokenCtx_srv: "srv (snd (ParseAccessTokenCtx (app_auth G cfg) tok w)) = srv w"
  using app_auth.parseToken_db [of G cfg tok TokenTypeAccess w] by (simp add: ParseAccessTokenCtx_def bindR_apply)

lemma AuthMiddleware_refuses:
  assumes "authenticated G cfg r w = None"
  shows "fst (AuthMiddleware L (app_auth G cfg) nxt r w) = unauthorized L \<and>
    srv (snd (AuthMiddleware L (app_auth G cfg) nxt r w)) = srv w"
proof (cases "bearer_token r")
  case (Some tok)
  obtain x w1 where run: "ParseAccessTokenCtx (app_auth G cfg) tok w = (x, w1)" by (cases "ParseAccessTokenCtx (app_auth G cfg) tok w")
  have "srv w1 = srv w" using ParseAccessTokenCtx_srv [of G cfg tok w] run by simp
  moreover obtain e where "x = Inl e" using assms Some run by (auto simp: authenticated_def split: sum.splits)
  ultimately show ?thesis using Some run by (simp add: AuthMiddleware_cases)
qed (simp add: AuthMiddleware_cases)

text \<open>The state in which the routed handler starts: one more request is in flight.\<close>

abbreviation in_flight :: "'x world_scheme \<Rightarrow> 'x world_scheme" where
  "in_flight w \<equiv> metrics_Add app_metrics ''HTTPInFlight'' 1 w"

lemma Router_New_app:
  fixes w :: "'x app_world_scheme"
  shows "fst (Router_New (app_deps l cfg) r w) =
      fst (dispatch (app_deps l cfg) (r\<lparr>req_Route := matched_pattern (app_deps l cfg) r, req_User := None\<rparr>) (in_flight w))"
    "srv (snd (Router_New (app_deps l cfg) r w)) =
      srv (snd (dispatch (app_deps l cfg) (r\<lparr>req_Route := matched_pattern (app_deps l cfg) r, req_User := None\<rparr>) (in_flight w)))"
proof -
  have sel: "rd_metrics (app_deps l cfg) = Some app_metrics" "rd_now (app_deps l cfg) = now"
      "\<And>x u. srv (rd_log (app_deps l cfg) x u) = srv u" by (simp_all add: app_deps_def)
  show "fst (Router_New (app_deps l cfg) r w) =
      fst (dispatch (app_deps l cfg) (r\<lparr>req_Route := matched_pattern (app_deps l cfg) r, req_User := None\<rparr>) (in_flight w))"
    by (simp add: Router_New_def Logger_response Metrics_response sel)
  show "srv (snd (Router_New (app_deps l cfg) r w)) =
      srv (snd (dispatch (app_deps l cfg) (r\<lparr>req_Route := matched_pattern (app_deps l cfg) r, req_User := None\<rparr>) (in_flight w)))"
    using Metrics_frame [of srv "Some app_metrics" now "dispatch (app_deps l cfg)"
        "r\<lparr>req_Route := matched_pattern (app_deps l cfg) r, req_User := None\<rparr>" w]
    by (simp add: Router_New_def Logger_frame sel)
qed

text \<open>C6. No token, no access: a request to any of the sixteen protected routes that does not carry a bearer token which the auth
  service accepts is answered 401, and the database is not touched, whatever the request says.\<close>

theorem protected_needs_token:
  fixes w :: "'x app_world_scheme"
  assumes "chi_Match (al_chi l) (public @ protected) (req_Method r) (req_Path r) = Some (rt, i)" and "rt \<in> set protected"
    and "authenticated (al_crypto l) cfg r w = None"
  shows "resp_Status (fst (Router_New (app_deps l cfg) r w)) = 401 \<and> srv (snd (Router_New (app_deps l cfg) r w)) = srv w"
proof -
  let ?r = "r\<lparr>req_Route := matched_pattern (app_deps l cfg) r, req_User := None\<rparr>"
  have chi: "rd_chi (app_deps l cfg) = al_chi l" "rd_json (app_deps l cfg) = al_json l"
    "rd_auth (app_deps l cfg) = app_auth (al_crypto l) cfg" by (simp_all add: app_deps_def)
  obtain h where h: "dispatch (app_deps l cfg) ?r (in_flight w) = group_middleware (app_deps l cfg) h (?r\<lparr>req_ID := i\<rparr>) (in_flight w)"
    using dispatch_protected [of "app_deps l cfg" ?r rt i "in_flight w"] assms(1,2) by (auto simp: chi route_table_fst)
  have tok: "bearer_token (?r\<lparr>req_ID := i\<rparr>) = bearer_token r" by (simp add: bearer_token_def)
  have no: "authenticated (al_crypto l) cfg (?r\<lparr>req_ID := i\<rparr>) (in_flight w) = None"
    using assms(3) by (simp only: authenticated_def tok token_check_gauge)
  have srv: "srv (in_flight w) = srv w" by (rule uncounted_Some) simp
  show ?thesis
    using AuthMiddleware_refuses [OF no] srv unfolding Router_New_app h group_middleware_def chi by (simp add: unauthorized_def)
qed


text \<open>A request for a task with a scheme that is not \<open>Bearer\<close>.\<close>

theorem protected_needs_token_witness:
  "resp_Status (fst (serve (request ''DELETE'' ''/api/v1/tasks/1'' [(''Authorization'', ''Basic A0'')] []) sample_app)) = 401 \<and>
   srv (snd (serve (request ''DELETE'' ''/api/v1/tasks/1'' [(''Authorization'', ''Basic A0'')] []) sample_app)) = sample_server"
proof -
  let ?r = "request ''DELETE'' ''/api/v1/tasks/1'' [(''Authorization'', ''Basic A0'')] []"
  have match: "chi_Match (al_chi sample_libs) (public @ protected) (req_Method ?r) (req_Path ?r) =
      Some ((''DELETE'', ''/api/v1/tasks/{id}''), ''1'')" by code_simp
  have prot: "(''DELETE'', ''/api/v1/tasks/{id}'') \<in> set protected" by (simp add: protected_def)
  have none: "authenticated (al_crypto sample_libs) default_config ?r sample_app = None" by code_simp
  have srv: "srv sample_app = sample_server" by (simp add: sample_app_def world.defs)
  show ?thesis using protected_needs_token [OF match prot none] unfolding srv .
qed

section \<open>The limit per user\<close>

lemma srv_memory: "preserves (\<lambda>w. srv w = x) (memory_limiter mem_user mem_user_update k)"
  by (simp add: preserves_def memory_limiter_def split_beta)

definition user_key :: "Config \<Rightarrow> int \<Rightarrow> 'x world_scheme \<Rightarrow> string" where
  "user_key cfg u w = userRateLimitKey u (RateLimit_WindowSeconds (cfg_RateLimit cfg)) (now w)"

text \<open>C29. The limit per user: while Redis answers, a request of a user whose counter for the current window has not
  reached the limit goes on to the handler and is counted; any other one is answered 429 and
  the database is not touched.\<close>

theorem user_limit_enforced:
  fixes w :: "'x app_world_scheme"
  assumes "redis_up w" and "req_User r = Some u" and "req_Path r \<noteq> ''/health''" and "req_Path r \<noteq> ''/ready''"
    and "0 < RateLimit_WindowSeconds (cfg_RateLimit cfg)" and "0 < RateLimit_UserPerMin (cfg_RateLimit cfg)"
    and "counts (redis w) (user_key cfg u w) n e" and "n < int64_max"
  shows "if n < RateLimit_UserPerMin (cfg_RateLimit cfg)
    then \<exists>w1. limited l cfg h r w = h r w1 \<and> srv w1 = srv w \<and> redis_up w1 \<and>
      live (redis w1) (user_key cfg u w) \<noteq> None \<and> value_at (redis w1) (user_key cfg u w) = Some (FormatInt (n + 1))
    else resp_Status (fst (limited l cfg h r w)) = 429 \<and> srv (snd (limited l cfg h r w)) = srv w"
proof -
  let ?lim = "RateLimit_UserPerMin (cfg_RateLimit cfg)" and ?fb = "memory_limiter mem_user mem_user_update"
  let ?l = "NewRedis ?lim (limiter_window cfg) ?fb"
  have window: "0 < limiter_window cfg" using assms(5) by (simp add: limiter_window_def Let_def second_def)
  have key: "user_key cfg u w \<noteq> []" by (simp add: user_key_def userRateLimitKey_def)
  have sel: "rl_limit ?l = ?lim" "rl_window ?l = limiter_window cfg" by (simp_all add: NewRedis_def)
  obtain ok retry w1 where run: "redis_Allow ?l (user_key cfg u w) w = ((ok, retry), w1)" by (cases "redis_Allow ?l (user_key cfg u w) w") auto
  note allow = app_limiter.Allow_healthy [of w "user_key cfg u w" n e ?lim "limiter_window cfg" ?fb, OF assms(1,7,8) key]
  have ok: "ok \<longleftrightarrow> n < ?lim" and up: "redis_up w1" and ks: "redis w1 = put (user_key cfg u w) (FormatInt (n + 1),
        if n = 0 then Some (redis_time (redis w) + whole_ttl (limiter_window cfg)) else e) (redis w)"
    using allow run window assms(6) by (auto simp: sel)
  have srv: "srv w1 = srv w"
    using preserves_value [of srv "redis_Allow ?l (user_key cfg u w)" w] run
    by (simp add: preserves_redis_Allow steady_views srv_memory)
  have pos: "0 < whole_ttl (limiter_window cfg)"
    using window by (auto simp: whole_ttl_def second_def quot_nonneg pos_imp_zdiv_pos_iff)
  have alive: "case e of Some t \<Rightarrow> redis_time (redis w) < t | None \<Rightarrow> True" if "n \<noteq> 0"
    using assms(7) that by (auto simp: counts_def live_def split: option.splits if_splits)
  have val: "live (redis w1) (user_key cfg u w) \<noteq> None" "value_at (redis w1) (user_key cfg u w) = Some (FormatInt (n + 1))"
    using ks pos alive by (cases "n = 0"; cases e; simp add: value_at_def)+
  have eq: "limited l cfg h r w = (if \<not> ok then (setRetryAfterHeader retry (response_Error (al_json l) 429 ''too many requests''), w1) else h r w1)"
    using assms(2-5) run by (simp add: limited_def app_deps_def UserRateLimit_def UserIDFromContext_def user_key_def)
  have "resp_Status (setRetryAfterHeader retry (response_Error (al_json l) 429 ''too many requests'')) = 429"
    by (simp add: setRetryAfterHeader_def header_Set_def Let_def)
  with eq ok up srv val show ?thesis by auto
qed

text \<open>The user's hundredth request of the minute has been counted: the next one is refused.\<close>

definition busy_app :: app_world where
  "busy_app = sample_app\<lparr>redis := put (user_key default_config 1 sample_app) (''100'', Some (90 * second)) (redis sample_app)\<rparr>"

theorem user_limit_enforced_witness:
  "resp_Status (fst (limited sample_libs default_config delete_handler (delete_request ''1'' []) busy_app)) = 429 \<and>
   srv (snd (limited sample_libs default_config delete_handler (delete_request ''1'' []) busy_app)) = sample_server"
proof -
  have key: "user_key default_config 1 busy_app = user_key default_config 1 sample_app"
    by (simp add: user_key_def busy_app_def)
  have cnt: "counts (redis busy_app) (user_key default_config 1 busy_app) 100 (Some (90 * second))"
    unfolding key by (simp add: counts_def busy_app_def live_def put_def sample_app_def world.defs sample_world_def dbw.defs second_def)
      code_simp
  have up: "redis_up busy_app"
    by (simp add: busy_app_def redis_up_def sample_app_def world.defs sample_world_def dbw.defs)
  have srv: "srv busy_app = sample_server" by (simp add: busy_app_def sample_app_def world.defs)
  have req: "req_User (delete_request ''1'' []) = Some 1" "req_Path (delete_request ''1'' []) \<noteq> ''/health''"
    "req_Path (delete_request ''1'' []) \<noteq> ''/ready''"
    by (simp_all add: delete_request_def request_def)
  have cfg: "0 < RateLimit_WindowSeconds (cfg_RateLimit default_config)" "0 < RateLimit_UserPerMin (cfg_RateLimit default_config)"
    "RateLimit_UserPerMin (cfg_RateLimit default_config) = 100"
    by (simp_all add: default_config_def)
  have max: "100 < int64_max" by (simp add: int64_max_def)
  show ?thesis
    using user_limit_enforced [OF up req cfg(1,2) cnt max, of sample_libs delete_handler] by (simp add: srv cfg(3))
qed

end
