(* ===== verification/IdempotencyRace.thy ===== *)
theory IdempotencyRace
  imports AppRoutes
begin

text \<open>
  Two requests with the same \<open>Idempotency-Key\<close> at once. The look-up of the stored answer and the lock are two commands to Redis, and the answer is
  not looked up again under the lock: a request whose look-up came before the first request was done, and whose attempt at the lock comes after, runs the
  handler a second time.
\<close>

text \<open>What is left of a request after its look-up has found nothing.\<close>

definition keyed_rest ::
    "'x app_world_scheme appLibs \<Rightarrow> Config \<Rightarrow> 'x app_world_scheme handler \<Rightarrow> int \<Rightarrow> string \<Rightarrow> string \<Rightarrow> 'x app_world_scheme handler" where
  "keyed_rest l cfg h u route key r =
     runUnderLock (app_idem (Idem_LockTTL (cfg_Idem cfg)) (Idem_ResponseTTL (cfg_Idem cfg)) (al_idem l))
       \<lparr>idemStore_Get = Store_Get (NewStore (Some redis_client) (al_idem l)), idemStore_Set = Store_Set (NewStore (Some redis_client) (al_idem l))\<rparr>
       \<lparr>distLocker_Acquire = Acquire app_locker, distLocker_Release = Release app_locker\<rparr> (limited l cfg h) r u route key"

definition look_up :: "'x app_world_scheme appLibs \<Rightarrow> int \<Rightarrow> string \<Rightarrow> string \<Rightarrow> 'x app_world_scheme \<Rightarrow> StoredResponse option result \<times> 'x app_world_scheme" where
  "look_up l u route key = Store_Get (NewStore (Some redis_client) (al_idem l)) (responseKey (al_idem l) u route key)"

text \<open>The middleware is the look-up and the rest.\<close>

lemma keyed_two_steps:
  assumes "keyed r u route key" and "look_up l u route key w = (Inr None, w1)"
  shows "keyed_handler l cfg h r w = keyed_rest l cfg h u route key r w1"
  using assms
  by (simp add: keyed_handler_def keyed_rest_def look_up_def Idempotency_Handler_def app_idem_def NewIdempotencyMiddleware_def keyed_def
      UserIDFromContext_def Let_def)

lemma look_up_miss:
  assumes "redis_up w" and "live (redis w) (responseKey (al_idem l) u route key) = None"
  obtains w1 where "look_up l u route key w = (Inr None, w1)" "redis_up w1" "redis w1 = redis w" "srv w1 = srv w"
proof -
  obtain w1 where "redis_up w1" "redis w1 = redis w" "look_up l u route key w = (Inr None, w1)"
    using app_idem.Store_Get_up [OF assms(1), where I = "al_idem l" and key = "responseKey (al_idem l) u route key"] assms(2)
    by (auto simp: look_up_def value_at_def)
  moreover have "srv w1 = srv w"
    using Store_Get_srv [of "al_idem l" "responseKey (al_idem l) u route key" w] calculation(3) by (simp add: look_up_def)
  ultimately show thesis using that by blast
qed

lemma recorded_srv:
  fixes w :: "'x world_scheme"
  shows "srv (releaseLock (app_idem lt rt I) \<lparr>distLocker_Acquire = Acquire app_locker, distLocker_Release = Release app_locker\<rparr> k tok
     (recordResponse (app_idem lt rt I) \<lparr>idemStore_Get = Store_Get (NewStore (Some redis_client) I),
        idemStore_Set = Store_Set (NewStore (Some redis_client) I)\<rparr> rk hash resp w)) = srv w"
proof -
  have rel: "srv (releaseLock (app_idem lt rt I) \<lparr>distLocker_Acquire = Acquire app_locker, distLocker_Release = Release app_locker\<rparr> k tok v)
      = srv v" for v :: "'x world_scheme"
    by (auto simp: releaseLock_def Release_def app_locker_def redis_client_def Locker_onRedisError_def
        split: sum.splits prod.splits dest!: run_redis_srv)
  have rec: "srv (recordResponse (app_idem lt rt I) \<lparr>idemStore_Get = Store_Get (NewStore (Some redis_client) I),
        idemStore_Set = Store_Set (NewStore (Some redis_client) I)\<rparr> rk hash resp w) = srv w"
    by (auto simp: recordResponse_def Store_Set_def NewStore_def redis_client_def onRedisUnavailable_def
        split: sum.splits prod.splits dest!: run_redis_srv)
  show ?thesis by (simp only: rel rec)
qed

lemma app_idem_lock: "im_lockTTL (app_idem lt rt I) = lt"
  by (simp add: app_idem_def NewIdempotencyMiddleware_def)

lemma rest_runs:
  fixes w :: "'x app_world_scheme"
  assumes "redis_up w" and "live (redis w) (idemLockKey (al_idem l) u route key) = None"
  obtains v where "srv v = srv w" "fst (keyed_rest l cfg h u route key r w) = fst (limited l cfg h r v)"
    "srv (snd (keyed_rest l cfg h u route key r w)) = srv (snd (limited l cfg h r v))"
proof -
  let ?lk = "idemLockKey (al_idem l) u route key" and ?ttl = "Idem_LockTTL (cfg_Idem cfg)"
  obtain tok v where acq: "Acquire app_locker ?lk ?ttl w = (Inr (tok, True), v)"
    using app_idem.Acquire_up [OF assms(1), of ?lk ?ttl] assms(2) by auto
  have "srv v = srv w"
    using preserves_value [of srv "Acquire app_locker ?lk ?ttl" w, OF preserves_Acquire [OF steady_views(2)]] acq by simp
  moreover obtain resp v1 where "limited l cfg h r v = (resp, v1)" by (cases "limited l cfg h r v")
  ultimately show thesis
    using acq by (intro that [of v]) (simp_all add: keyed_rest_def runUnderLock_def Let_def recorded_srv app_idem_lock)
qed

lemma pass_0: "pass 0 w = w"
  by (simp add: pass_def wait_def)

text \<open>C21. The stored answer is not looked up again under the lock: a request whose look-up found nothing, and which gets to the lock only after
  another request with the same key, user and route was answered with a cacheable status, runs the handler once more on the database that the first one
  left, although the answer of the first one is stored under its key.\<close>

theorem idempotency_race:
  fixes w :: "'x app_world_scheme"
  assumes "look_up l u route key w = (found, w0)" and "keyed_handler l cfg h r w0 = (resp, w1)" and "(rt, h) \<in> set (group_routes (app_deps l cfg))"
    and "redis_up w" and "keyed r u route key"
    and "live (redis w) (responseKey (al_idem l) u route key) = None" and "live (redis w) (idemLockKey (al_idem l) u route key) = None"
    and "IsCacheableStatus (resp_Status resp)" and "0 < Idem_ResponseTTL (cfg_Idem cfg)"
    and "live (redis w1) (idemLockKey (al_idem l) u route key) = None"
  shows "found = Inr None \<and>
    (\<exists>e. live (redis w1) (responseKey (al_idem l) u route key) =
      Some (json_Encode (idem_json (al_idem l)) (stored_json (al_idem l) (stored_for (al_idem l) r resp (now w1))), e)) \<and>
    (\<exists>v. srv v = srv w1 \<and> fst (keyed_rest l cfg h u route key r w1) = fst (limited l cfg h r v) \<and>
      srv (snd (keyed_rest l cfg h u route key r w1)) = srv (snd (limited l cfg h r v)))"
proof -
  have found: "found = Inr None" and up: "redis_up w0" and same: "redis w0 = redis w"
    using look_up_miss [OF assms(4,6)] assms(1) by auto
  have first: "Idempotency_Handler (app_idem (Idem_LockTTL (cfg_Idem cfg)) (Idem_ResponseTTL (cfg_Idem cfg)) (al_idem l)) (limited l cfg h) r w0
      = (resp, w1)"
    using assms(2) by (simp add: keyed_handler_def)
  note stored = stored_after_first [OF first up assms(5) assms(6,7) [folded same] preservesD [OF limited_redis_up [OF assms(3)]] assms(8) order_refl assms(9),
      unfolded pass_0]
  obtain v where "srv v = srv w1" "fst (keyed_rest l cfg h u route key r w1) = fst (limited l cfg h r v)"
    "srv (snd (keyed_rest l cfg h u route key r w1)) = srv (snd (limited l cfg h r v))"
    using rest_runs [OF stored(1) assms(10)] by blast
  with found stored(2) show ?thesis by blast
qed

text \<open>On the sample: two requests with one key delete a task at once; the second one runs again and is told that there is no such task.\<close>

definition race_first :: "http_response \<times> app_world" where
  "race_first = keyed_handler sample_libs default_config delete_handler (delete_request ''1'' [])
     (snd (look_up sample_libs 1 ''/api/v1/tasks/{id}'' ''k'' sample_two))"

lemma sample_race:
  "case race_first of (resp, w1) \<Rightarrow>
     resp_Status resp = 200 \<and> live (redis w1) (idemLockKey (al_idem sample_libs) 1 ''/api/v1/tasks/{id}'' ''k'') = None \<and>
     resp_Status (fst (keyed_rest sample_libs default_config delete_handler 1 ''/api/v1/tasks/{id}'' ''k'' (delete_request ''1'' []) w1)) = 404"
  by code_simp

theorem idempotency_race_witness:
  "resp_Status (fst race_first) = 200 \<and>
   live (redis (snd race_first)) (responseKey (al_idem sample_libs) 1 ''/api/v1/tasks/{id}'' ''k'') \<noteq> None \<and>
   (\<exists>v. srv v = srv (snd race_first) \<and>
     resp_Status (fst (limited sample_libs default_config delete_handler (delete_request ''1'' []) v)) = 404)"
proof -
  obtain f w0 resp w1 where run: "look_up sample_libs 1 ''/api/v1/tasks/{id}'' ''k'' sample_two = (f, w0)"
    "keyed_handler sample_libs default_config delete_handler (delete_request ''1'' []) w0 = (resp, w1)" by (metis prod.exhaust)
  then have race: "race_first = (resp, w1)" by (simp add: race_first_def)
  have facts: "resp_Status resp = 200"
    "live (redis w1) (idemLockKey (al_idem sample_libs) 1 ''/api/v1/tasks/{id}'' ''k'') = None"
    "resp_Status (fst (keyed_rest sample_libs default_config delete_handler 1 ''/api/v1/tasks/{id}'' ''k'' (delete_request ''1'' []) w1)) = 404"
    using sample_race [unfolded race prod.case] by blast+
  have "IsCacheableStatus (resp_Status resp)" "0 < Idem_ResponseTTL (cfg_Idem default_config)"
    using facts(1) sample_times by simp_all
  from idempotency_race [OF run delete_handler_route sample_two_ready(1) delete_keyed sample_two_ready(2) sample_two_ready(2) this facts(2)]
  obtain v where "live (redis w1) (responseKey (al_idem sample_libs) 1 ''/api/v1/tasks/{id}'' ''k'') \<noteq> None" "srv v = srv w1"
    "resp_Status (fst (limited sample_libs default_config delete_handler (delete_request ''1'' []) v)) = 404"
    using facts(3) by auto
  with facts(1) show ?thesis unfolding race fst_conv snd_conv by blast
qed

end
