(* ===== verification/Recorders.thy ===== *)
theory Recorders
  imports Middleware
begin

text \<open>
  The response writers of \<open>internal/api/middleware\<close>: \<open>statusWriter\<close> of the access log, \<open>responseRecorder\<close> of the metrics and
  \<open>idempotencyResponseRecorder\<close>, each around the writer below it, down to the connection of \<open>net/http\<close>. The handlers of theory \<open>Http\<close> return their
  response as a value; here it is shown that writing it through the writers sends that response to the client, and that what the writers record
  of it is what \<open>Logger\<close>, \<open>Metrics_middleware\<close> and \<open>recordResponse\<close> read off the value.
\<close>

section \<open>The connection\<close>

text \<open>
  The first \<open>WriteHeader\<close> fixes the status and the headers, later ones are ignored; \<open>Write\<close> sends the status 200 when none was sent, and refuses a body
  where the status has none. Informational statuses are not used.
\<close>

record 'u ResponseWriter =
  rw_Header :: "'u \<Rightarrow> (string \<times> string) list"
  rw_Set :: "string \<Rightarrow> string \<Rightarrow> 'u \<Rightarrow> 'u"
  rw_WriteHeader :: "int \<Rightarrow> 'u \<Rightarrow> 'u"
  rw_Write :: "string \<Rightarrow> 'u \<Rightarrow> int \<times> 'u"

record http_conn =
  conn_header :: "(string \<times> string) list"
  conn_status :: "int option"
  conn_sent :: "(string \<times> string) list"
  conn_body :: string

definition conn_WriteHeader :: "int \<Rightarrow> http_conn \<Rightarrow> http_conn" where
  "conn_WriteHeader code c =
     (if conn_status c = None then c\<lparr>conn_status := Some code, conn_sent := conn_header c\<rparr> else c)"

definition conn_Write :: "string \<Rightarrow> http_conn \<Rightarrow> int \<times> http_conn" where
  "conn_Write b c =
     (let c' = conn_WriteHeader 200 c in
      if conn_status c' \<in> {Some 204, Some 304} then (0, c')
      else (int (length b), c'\<lparr>conn_body := conn_body c' @ b\<rparr>))"

definition conn_writer :: "http_conn ResponseWriter" where
  "conn_writer = \<lparr>rw_Header = conn_header,
     rw_Set = (\<lambda>k v c. c\<lparr>conn_header := (k, v) # filter (\<lambda>(k', _). k' \<noteq> k) (conn_header c)\<rparr>),
     rw_WriteHeader = conn_WriteHeader, rw_Write = conn_Write\<rparr>"

section \<open>The writers around it\<close>

record 'u statusWriter =
  sw_writer :: 'u
  sw_status :: int
  sw_bytes :: int

definition statusWriter_WriteHeader :: "'u ResponseWriter \<Rightarrow> int \<Rightarrow> 'u statusWriter \<Rightarrow> 'u statusWriter" where
  "statusWriter_WriteHeader W code s = s\<lparr>sw_status := code, sw_writer := rw_WriteHeader W code (sw_writer s)\<rparr>"

definition statusWriter_Write :: "'u ResponseWriter \<Rightarrow> string \<Rightarrow> 'u statusWriter \<Rightarrow> int \<times> 'u statusWriter" where
  "statusWriter_Write W b s =
     (let s1 = (if sw_status s = 0 then s\<lparr>sw_status := 200\<rparr> else s) in
      case rw_Write W b (sw_writer s1) of (m, u) \<Rightarrow> (m, s1\<lparr>sw_writer := u, sw_bytes := sw_bytes s1 + m\<rparr>))"

definition status_writer :: "'u ResponseWriter \<Rightarrow> 'u statusWriter ResponseWriter" where
  "status_writer W = \<lparr>rw_Header = rw_Header W \<circ> sw_writer,
     rw_Set = (\<lambda>k v s. s\<lparr>sw_writer := rw_Set W k v (sw_writer s)\<rparr>),
     rw_WriteHeader = statusWriter_WriteHeader W, rw_Write = statusWriter_Write W\<rparr>"

record 'u responseRecorder =
  rr_writer :: 'u
  rr_status :: int

definition responseRecorder_WriteHeader :: "'u ResponseWriter \<Rightarrow> int \<Rightarrow> 'u responseRecorder \<Rightarrow> 'u responseRecorder" where
  "responseRecorder_WriteHeader W code s = s\<lparr>rr_status := code, rr_writer := rw_WriteHeader W code (rr_writer s)\<rparr>"

definition recorder_writer :: "'u ResponseWriter \<Rightarrow> 'u responseRecorder ResponseWriter" where
  "recorder_writer W = \<lparr>rw_Header = rw_Header W \<circ> rr_writer,
     rw_Set = (\<lambda>k v s. s\<lparr>rr_writer := rw_Set W k v (rr_writer s)\<rparr>),
     rw_WriteHeader = responseRecorder_WriteHeader W,
     rw_Write = (\<lambda>b s. case rw_Write W b (rr_writer s) of (m, u) \<Rightarrow> (m, s\<lparr>rr_writer := u\<rparr>))\<rparr>"

record 'u idempotencyResponseRecorder =
  ir_writer :: 'u
  ir_status :: int
  ir_body :: string
  ir_headers :: "(string \<times> string) list"
  ir_wroteHeader :: bool
  ir_contentType :: string

definition headers_Get :: "(string \<times> string) list \<Rightarrow> string \<Rightarrow> string" where
  "headers_Get hs k = (case map_of hs k of None \<Rightarrow> [] | Some v \<Rightarrow> v)"

definition idemRecorder_WriteHeader ::
    "'u ResponseWriter \<Rightarrow> int \<Rightarrow> 'u idempotencyResponseRecorder \<Rightarrow> 'u idempotencyResponseRecorder" where
  "idemRecorder_WriteHeader W code s =
     (if ir_wroteHeader s then s
      else s\<lparr>ir_status := code, ir_wroteHeader := True, ir_contentType := headers_Get (rw_Header W (ir_writer s)) ''Content-Type'',
             ir_headers := rw_Header W (ir_writer s), ir_writer := rw_WriteHeader W code (ir_writer s)\<rparr>)"

definition idemRecorder_Write ::
    "'u ResponseWriter \<Rightarrow> string \<Rightarrow> 'u idempotencyResponseRecorder \<Rightarrow> int \<times> 'u idempotencyResponseRecorder" where
  "idemRecorder_Write W p s =
     (let s1 = (if \<not> ir_wroteHeader s then idemRecorder_WriteHeader W 200 s else s) in
      case rw_Write W p (ir_writer s1) of (m, u) \<Rightarrow> (m, s1\<lparr>ir_body := ir_body s1 @ p, ir_writer := u\<rparr>))"

definition idem_writer :: "'u ResponseWriter \<Rightarrow> 'u idempotencyResponseRecorder ResponseWriter" where
  "idem_writer W = \<lparr>rw_Header = rw_Header W \<circ> ir_writer,
     rw_Set = (\<lambda>k v s. s\<lparr>ir_writer := rw_Set W k v (ir_writer s)\<rparr>),
     rw_WriteHeader = idemRecorder_WriteHeader W, rw_Write = idemRecorder_Write W\<rparr>"

lemmas writer_defs = conn_writer_def status_writer_def recorder_writer_def idem_writer_def statusWriter_WriteHeader_def
  statusWriter_Write_def responseRecorder_WriteHeader_def idemRecorder_WriteHeader_def idemRecorder_Write_def

section \<open>Writing a response\<close>

text \<open>What \<open>response.JSON\<close>, \<open>writeJSONBytes\<close>, \<open>replayStoredResponse\<close> and the health check do with a writer: headers, status, then the body if there is one.\<close>

definition set_headers :: "'u ResponseWriter \<Rightarrow> (string \<times> string) list \<Rightarrow> 'u \<Rightarrow> 'u" where
  "set_headers W hs = fold (\<lambda>(k, v). rw_Set W k v) (rev hs)"

definition write_response :: "'u ResponseWriter \<Rightarrow> http_response \<Rightarrow> 'u \<Rightarrow> 'u" where
  "write_response W resp u =
     (let u1 = rw_WriteHeader W (resp_Status resp) (set_headers W (resp_Header resp) u) in
      if resp_Body resp = [] then u1 else snd (rw_Write W (resp_Body resp) u1))"

text \<open>A writer is transparent when everything written to it reaches the connection as it is.\<close>

locale response_writer =
  fixes W :: "'u ResponseWriter" and line :: "'u \<Rightarrow> http_conn" and good :: "'u \<Rightarrow> bool"
  assumes header: "good u \<Longrightarrow> rw_Header W u = conn_header (line u)"
    and set_good: "good u \<Longrightarrow> good (rw_Set W k v u)"
    and set_line: "good u \<Longrightarrow> line (rw_Set W k v u) = rw_Set conn_writer k v (line u)"
    and write_header_good: "good u \<Longrightarrow> good (rw_WriteHeader W code u)"
    and write_header_line: "good u \<Longrightarrow> line (rw_WriteHeader W code u) = conn_WriteHeader code (line u)"
    and write_good: "good u \<Longrightarrow> good (snd (rw_Write W b u))"
    and write_line: "good u \<Longrightarrow> line (snd (rw_Write W b u)) = snd (conn_Write b (line u))"
    and write_count: "good u \<Longrightarrow> fst (rw_Write W b u) = fst (conn_Write b (line u))"
begin

lemmas laws = header set_good set_line write_header_good write_header_line write_good write_line write_count

lemma set_headers_line:
  "good u \<Longrightarrow> good (set_headers W hs u) \<and> line (set_headers W hs u) = set_headers conn_writer hs (line u)"
  by (induction hs arbitrary: u rule: rev_induct) (auto simp: set_headers_def laws)

lemma write_response_line:
  "good u \<Longrightarrow> good (write_response W resp u) \<and> line (write_response W resp u) = write_response conn_writer resp (line u)"
  using set_headers_line [of u "resp_Header resp"]
  by (auto simp: write_response_def Let_def laws conn_writer_def)

text \<open>So are the writers around it.\<close>

lemma status_writer_transparent: "response_writer (status_writer W) (line \<circ> sw_writer) (good \<circ> sw_writer)"
  by unfold_locales (auto simp: status_writer_def statusWriter_WriteHeader_def statusWriter_Write_def Let_def split_beta laws)

lemma recorder_writer_transparent: "response_writer (recorder_writer W) (line \<circ> rr_writer) (good \<circ> rr_writer)"
  by unfold_locales (auto simp: recorder_writer_def responseRecorder_WriteHeader_def split_beta laws)

lemma idem_writer_transparent:
  "response_writer (idem_writer W) (line \<circ> ir_writer)
     (\<lambda>s. good (ir_writer s) \<and> (ir_wroteHeader s \<longrightarrow> conn_status (line (ir_writer s)) \<noteq> None))"
  by unfold_locales
    (auto simp: idem_writer_def idemRecorder_WriteHeader_def idemRecorder_Write_def Let_def split_beta laws conn_WriteHeader_def
      conn_Write_def conn_writer_def)

end

interpretation conn: response_writer conn_writer id "\<lambda>_. True"
  by unfold_locales (simp_all add: conn_writer_def)

section \<open>What the writers record\<close>

lemma set_headers_around:
  "set_headers (status_writer W) hs s = s\<lparr>sw_writer := set_headers W hs (sw_writer s)\<rparr>"
  "set_headers (recorder_writer W) hs r = r\<lparr>rr_writer := set_headers W hs (rr_writer r)\<rparr>"
  "set_headers (idem_writer W) hs i = i\<lparr>ir_writer := set_headers W hs (ir_writer i)\<rparr>"
proof -
  show "set_headers (status_writer W) hs s = s\<lparr>sw_writer := set_headers W hs (sw_writer s)\<rparr>"
    by (induction hs arbitrary: s rule: rev_induct) (auto simp: set_headers_def status_writer_def)
  show "set_headers (recorder_writer W) hs r = r\<lparr>rr_writer := set_headers W hs (rr_writer r)\<rparr>"
    by (induction hs arbitrary: r rule: rev_induct) (auto simp: set_headers_def recorder_writer_def)
  show "set_headers (idem_writer W) hs i = i\<lparr>ir_writer := set_headers W hs (ir_writer i)\<rparr>"
    by (induction hs arbitrary: i rule: rev_induct) (auto simp: set_headers_def idem_writer_def)
qed

lemma set_headers_conn:
  "distinct (map fst hs) \<Longrightarrow> conn_header c = [] \<Longrightarrow> set_headers conn_writer hs c = c\<lparr>conn_header := hs\<rparr>"
proof (induction hs)
  case (Cons h hs)
  obtain k v where h: "h = (k, v)" by (cases h)
  have "filter (\<lambda>(k', _). k' \<noteq> k) hs = hs" using Cons.prems(1) by (force simp: h filter_id_conv)
  with Cons show ?case by (simp add: h set_headers_def conn_writer_def)
qed (simp add: set_headers_def)

definition fresh_conn :: http_conn where
  "fresh_conn = \<lparr>conn_header = [], conn_status = None, conn_sent = [], conn_body = []\<rparr>"

definition writers :: "http_conn statusWriter responseRecorder idempotencyResponseRecorder ResponseWriter" where
  "writers = idem_writer (recorder_writer (status_writer conn_writer))"

definition fresh_writers :: "http_conn statusWriter responseRecorder idempotencyResponseRecorder" where
  "fresh_writers = \<lparr>ir_writer = \<lparr>rr_writer = \<lparr>sw_writer = fresh_conn, sw_status = 0, sw_bytes = 0\<rparr>, rr_status = 200\<rparr>,
     ir_status = 200, ir_body = [], ir_headers = [], ir_wroteHeader = False, ir_contentType = []\<rparr>"

text \<open>
  The stack of writers in the order of the router. A response with a body status is sent as it is, and the three recorders hold its status, its length, its
  body and its headers. The \<open>Location\<close> that \<open>extractReplayHeaders\<close> looks for is looked up in the recorded headers.
\<close>

lemma recorders_see_the_answer:
  assumes "resp_Status resp \<notin> {0, 204, 304}" and "distinct (map fst (resp_Header resp))"
  shows "write_response writers resp fresh_writers =
    \<lparr>ir_writer = \<lparr>rr_writer = \<lparr>sw_writer = \<lparr>conn_header = resp_Header resp, conn_status = Some (resp_Status resp), conn_sent = resp_Header resp,
           conn_body = resp_Body resp\<rparr>,
         sw_status = resp_Status resp, sw_bytes = int (length (resp_Body resp))\<rparr>,
       rr_status = resp_Status resp\<rparr>,
     ir_status = resp_Status resp, ir_body = resp_Body resp, ir_headers = resp_Header resp, ir_wroteHeader = True,
     ir_contentType = header_Get resp ''Content-Type''\<rparr>"
  using assms
  by (simp add: write_response_def writers_def set_headers_around set_headers_conn fresh_writers_def fresh_conn_def Let_def)
    (simp add: writer_defs conn_WriteHeader_def conn_Write_def Let_def header_Get_def headers_Get_def)

text \<open>Every handler's writes reach the connection, whatever the response: the stack is transparent.\<close>

lemma writers_transparent:
  "response_writer writers (\<lambda>s. sw_writer (rr_writer (ir_writer s)))
     (\<lambda>s. ir_wroteHeader s \<longrightarrow> conn_status (sw_writer (rr_writer (ir_writer s))) \<noteq> None)"
  using response_writer.idem_writer_transparent [OF response_writer.recorder_writer_transparent [OF conn.status_writer_transparent]]
  by (simp add: writers_def comp_def)

interpretation writers: response_writer writers "\<lambda>s. sw_writer (rr_writer (ir_writer s))"
  "\<lambda>s. ir_wroteHeader s \<longrightarrow> conn_status (sw_writer (rr_writer (ir_writer s))) \<noteq> None"
  by (rule writers_transparent)

end
