(* ===== verification/TaskCalls.thy ===== *)
theory TaskCalls
  imports TaskProperties
begin

text \<open>
  The task service as one interface: its ten operations as calls, a history of calls, and what holds of every call.
\<close>

datatype task_call =
    DoCreate int CreateTaskInput
  | DoGet int int
  | DoList int TaskListInput
  | DoUpdate int int "(string \<times> json) list"
  | DoDelete int int
  | DoComment int int string
  | DoComments int int
  | DoEditComment int int string
  | DoDropComment int int
  | DoHistory int int int int

datatype task_reply =
    AnId int | ATask Task | SomeTasks "Task list" int | SomeComments "TaskComment list" | SomeHistory "TaskHistory list" int | Done

fun task_do :: "'w TaskService \<Rightarrow> task_call \<Rightarrow> ('w, task_reply) comp" where
  "task_do s (DoCreate u inp) = bindE (CreateTask s u inp) (\<lambda>i. returnE (AnId i))"
| "task_do s (DoGet u i) = bindE (GetTask s u i) (\<lambda>t. returnE (ATask t))"
| "task_do s (DoList u q) = bindE (ListTasks s u q) (\<lambda>(ts, n). returnE (SomeTasks ts n))"
| "task_do s (DoUpdate u i raw) = bindE (UpdateTask s u i raw) (\<lambda>t. returnE (AnId t))"
| "task_do s (DoDelete u i) = bindE (DeleteTask s u i) (\<lambda>t. returnE (AnId t))"
| "task_do s (DoComment u i b) = bindE (CreateComment s u i b) (\<lambda>c. returnE (AnId c))"
| "task_do s (DoComments u i) = bindE (ListComments s u i) (\<lambda>cs. returnE (SomeComments cs))"
| "task_do s (DoEditComment u c b) = bindE (UpdateComment s u c b) (\<lambda>_. returnE Done)"
| "task_do s (DoDropComment u c) = bindE (DeleteComment s u c) (\<lambda>_. returnE Done)"
| "task_do s (DoHistory u i n off) = bindE (GetTaskHistory s u i n off) (\<lambda>(hs, m). returnE (SomeHistory hs m))"

fun task_trace :: "'w TaskService \<Rightarrow> task_call list \<Rightarrow> 'w \<Rightarrow> task_reply result list \<times> 'w" where
  "task_trace s [] w = ([], w)"
| "task_trace s (c # cs) w =
     (case task_do s c w of (r, w1) \<Rightarrow> case task_trace s cs w1 of (rs, w2) \<Rightarrow> (r # rs, w2))"

section \<open>Who may do what\<close>

text \<open>The team that a call is about, and the user that makes it.\<close>

fun caller :: "task_call \<Rightarrow> int" where
  "caller (DoCreate u _) = u" | "caller (DoGet u _) = u" | "caller (DoList u _) = u" | "caller (DoUpdate u _ _) = u"
| "caller (DoDelete u _) = u" | "caller (DoComment u _ _) = u" | "caller (DoComments u _) = u" | "caller (DoEditComment u _ _) = u"
| "caller (DoDropComment u _) = u" | "caller (DoHistory u _ _ _) = u"

definition team_of_task :: "tables \<Rightarrow> int \<Rightarrow> int option" where
  "team_of_task d i = map_option Task_TeamID (task_by_id i d)"

definition team_of_comment :: "tables \<Rightarrow> int \<Rightarrow> int option" where
  "team_of_comment d c = Option.bind (comment_by_id c d) (\<lambda>x. team_of_task d (TaskComment_TaskID x))"

fun about_team :: "tables \<Rightarrow> task_call \<Rightarrow> int option" where
  "about_team d (DoCreate _ inp) = Some (CTI_TeamID inp)"
| "about_team d (DoGet _ i) = team_of_task d i"
| "about_team d (DoList _ q) = Some (TLI_TeamID q)"
| "about_team d (DoUpdate _ i _) = team_of_task d i"
| "about_team d (DoDelete _ i) = team_of_task d i"
| "about_team d (DoComment _ i _) = team_of_task d i"
| "about_team d (DoComments _ i) = team_of_task d i"
| "about_team d (DoEditComment _ c _) = team_of_comment d c"
| "about_team d (DoDropComment _ c) = team_of_comment d c"
| "about_team d (DoHistory _ i _ _) = team_of_task d i"

lemma role_member: "role_of t u d = Some r \<Longrightarrow> is_member t u d"
  by (auto simp: role_of_def is_member_def split: option.splits)

lemma may_edit_member: "may_edit u c d \<Longrightarrow> \<exists>t. team_of_comment d c = Some t \<and> is_member t u d"
  by (auto simp: may_edit_def team_of_comment_def team_of_task_def dest: role_member)

text \<open>A call that returns a value was made by a member of the team that it is about.\<close>

lemma call_by_member:
  assumes "task_do app_task_service c w = (Inr x, w')" and "server_ok (srv w)" and "open_tx (srv w) = None"
  shows "\<exists>t. about_team (data (srv w)) c = Some t \<and> is_member t (caller c) (data (srv w))"
proof (cases c)
  case (DoUpdate u i raw)
  with assms app_tasks.UpdateTask_Inr [OF _ assms(2,3)] show ?thesis
    by (fastforce simp: bindE_Inr returnE_def team_of_task_def admissible_def dest: role_member)
next
  case (DoDelete u i)
  with assms show ?thesis by (fastforce simp: bindE_Inr returnE_def team_of_task_def dest!: app_tasks.DeleteTask_Inr dest: role_member)
qed (use assms(1) in \<open>auto simp: bindE_Inr returnE_def team_of_task_def split: prod.splits
       dest: app_tasks.CreateTask_Inr app_tasks.GetTask_Inr(1,2) app_tasks.ListTasks_Inr(1) app_tasks.CreateComment_Inr(1)
         app_tasks.ListComments_Inr(1) app_tasks.UpdateComment_Inr(1) [THEN may_edit_member]
         app_tasks.DeleteComment_Inr(1) [THEN may_edit_member] app_tasks.GetTaskHistory_Inr(1)\<close>)

lemma reads_stmts:
  "keeps (\<lambda>s. s = x) (select f)" "keeps (\<lambda>s. s = x) (list_tasks g)" "keeps (\<lambda>s. s = x) (list_history i n off)"
  by (auto simp: keeps_def select_def list_tasks_def list_history_def)

lemma reads_keep:
  "keeps (\<lambda>w. srv w = x) (GetTask app_task_service u i)" "keeps (\<lambda>w. srv w = x) (ListTasks app_task_service u q)"
  "keeps (\<lambda>w. srv w = x) (ListComments app_task_service u i)" "keeps (\<lambda>w. srv w = x) (GetTaskHistory app_task_service u i n off)"
proof -
  note stores = app_tasks.queries_keep [unfolded app_task_service_sel] executes_keeps [OF app_tasks.task_list] executes_keeps [OF app_tasks.comment_list]
    executes_keeps [OF mysql_history.history_list]
  show "keeps (\<lambda>w. srv w = x) (GetTask app_task_service u i)" "keeps (\<lambda>w. srv w = x) (ListTasks app_task_service u q)"
    "keeps (\<lambda>w. srv w = x) (ListComments app_task_service u i)" "keeps (\<lambda>w. srv w = x) (GetTaskHistory app_task_service u i n off)"
    unfolding GetTask_def ListTasks_def ListComments_def GetTaskHistory_def app_task_service_sel prod.case option.case
    by (intro keeps_intros stores [unfolded app_task_service_sel] reads_stmts)+
qed

lemma fails_same: "(\<And>x. fails_to (\<lambda>w. srv w = x) (\<lambda>w. srv w = x) m) \<Longrightarrow> m w = (Inl e, w') \<Longrightarrow> srv w' = srv w"
  unfolding fails_to_def by blast

lemma keeps_same: "(\<And>x. keeps (\<lambda>w. srv w = x) m) \<Longrightarrow> m w = (r, w') \<Longrightarrow> srv w' = srv w"
  unfolding keeps_def by (metis snd_conv)

lemma call_fails_clean:
  assumes "task_do app_task_service c w = (Inl e, w')" and "open_tx (srv w) = None"
  shows "data (srv w') = data (srv w) \<and> open_tx (srv w') = None"
proof (cases "(\<exists>u i raw. c = DoUpdate u i raw) \<or> (\<exists>u i. c = DoDelete u i)")
  case True
  with assms show ?thesis
    by (auto simp: bindE_Inl returnE_def dest: app_tasks.UpdateTask_atomic app_tasks.DeleteTask_atomic)
next
  case False
  have "srv w' = srv w"
    using assms(1) False
    by (cases c)
      (auto simp: bindE_Inl returnE_def split: prod.splits
        dest: fails_same [OF app_tasks.writes_fail(1)] fails_same [OF app_tasks.writes_fail(2)] fails_same [OF app_tasks.writes_fail(3)]
          fails_same [OF app_tasks.writes_fail(4)] keeps_same [OF reads_keep(1)] keeps_same [OF reads_keep(2)]
          keeps_same [OF reads_keep(3)] keeps_same [OF reads_keep(4)])
  with assms(2) show ?thesis by simp
qed

text \<open>C5. Teams are closed: a call by someone who is not a member of the team that it is about (the team of the task, or of the task of the
  comment) gets no answer but an error and changes no table, for all ten operations of the task service and whatever fails on the way.\<close>

theorem outsiders_get_nothing:
  assumes "server_ok (srv w)" and "open_tx (srv w) = None"
    and "\<And>t. about_team (data (srv w)) c = Some t \<Longrightarrow> \<not> is_member t (caller c) (data (srv w))"
  shows "\<exists>e w'. task_do app_task_service c w = (Inl e, w') \<and> data (srv w') = data (srv w) \<and> open_tx (srv w') = None"
proof -
  obtain r w' where run: "task_do app_task_service c w = (r, w')" by (cases "task_do app_task_service c w")
  with assms call_by_member have "r \<noteq> Inr x" for x by blast
  then obtain e where "r = Inl e" by (cases r) auto
  with run call_fails_clean assms(2) show ?thesis by blast
qed

text \<open>A user who is in no team asks for the task.\<close>

theorem outsiders_get_nothing_witness:
  "\<exists>e w'. task_do app_task_service (DoGet 4 1) sample = (Inl e, w') \<and> data (srv w') = sample_tables \<and> open_tx (srv w') = None"
proof -
  have "about_team (data (srv sample)) (DoGet 4 1) = Some 1" "\<not> is_member 1 4 (data (srv sample))"
    by (simp_all add: sample_tables_def team_of_task_def task_by_id_def is_member_def member_row_def)
  then show ?thesis using outsiders_get_nothing [of sample "DoGet 4 1"] sample_ok by auto
qed

section \<open>Comments\<close>

text \<open>C39. A comment is changed or removed only by its author, while a member, or by an owner or admin of the team; the change touches that
  comment alone.\<close>

theorem comments_guarded:
  "(case UpdateComment app_task_service u j b w of
      (Inl _, w') \<Rightarrow> srv w' = srv w
    | (Inr _, w') \<Rightarrow> may_edit u j (data (srv w)) \<and> srv w' = on_data (\<lambda>d. d\<lparr>task_comments :=
        map (\<lambda>c. if TaskComment_ID c = j \<and> TaskComment_Body c \<noteq> b
               then c\<lparr>TaskComment_Body := b, TaskComment_UpdatedAt := clock (srv w)\<rparr> else c) (task_comments d)\<rparr>) (srv w)) \<and>
   (case DeleteComment app_task_service u j w of
      (Inl _, w') \<Rightarrow> srv w' = srv w
    | (Inr _, w') \<Rightarrow> may_edit u j (data (srv w)) \<and> srv w' = on_data (\<lambda>d. d\<lparr>task_comments :=
        filter (\<lambda>c. TaskComment_ID c \<noteq> j) (task_comments d)\<rparr>) (srv w))"
proof
  obtain r w1 where up: "UpdateComment app_task_service u j b w = (r, w1)" by (cases "UpdateComment app_task_service u j b w")
  then show "case UpdateComment app_task_service u j b w of
      (Inl _, w') \<Rightarrow> srv w' = srv w
    | (Inr _, w') \<Rightarrow> may_edit u j (data (srv w)) \<and> srv w' = on_data (\<lambda>d. d\<lparr>task_comments :=
        map (\<lambda>c. if TaskComment_ID c = j \<and> TaskComment_Body c \<noteq> b
               then c\<lparr>TaskComment_Body := b, TaskComment_UpdatedAt := clock (srv w)\<rparr> else c) (task_comments d)\<rparr>) (srv w)"
    using fails_same [OF app_tasks.writes_fail(3), of u j b w] app_tasks.UpdateComment_Inr [of u j b w] by (cases r) (auto simp: update_comment_def)
next
  obtain r w1 where del: "DeleteComment app_task_service u j w = (r, w1)" by (cases "DeleteComment app_task_service u j w")
  then show "case DeleteComment app_task_service u j w of
      (Inl _, w') \<Rightarrow> srv w' = srv w
    | (Inr _, w') \<Rightarrow> may_edit u j (data (srv w)) \<and> srv w' = on_data (\<lambda>d. d\<lparr>task_comments :=
        filter (\<lambda>c. TaskComment_ID c \<noteq> j) (task_comments d)\<rparr>) (srv w)"
    using fails_same [OF app_tasks.writes_fail(4), of u j w] app_tasks.DeleteComment_Inr [of u j w] by (cases r) (auto simp: delete_comment_def)
qed

section \<open>Types of patches\<close>

text \<open>C40. The values that a patch decodes to have the types and domains of their columns: each field is known and typed, a status or priority is one of
  the enumeration, an assignee is a member of the team, a date is a date; no field is lost or added, and applying them keeps the enumerations of
  the row.\<close>

theorem patch_values_typed:
  assumes "parseTaskPatch app_task_service team raw w = (Inr ps, w')" and "task_enums_ok t"
  shows "list_all typed ps \<and> list_all (acceptable (data (srv w)) team) ps \<and> map fst ps = map fst raw \<and> srv w' = srv w \<and>
    task_enums_ok (patched t ps)"
proof -
  note parsed = app_tasks.parseTaskPatch_Inr [OF assms(1)]
  have "list_all typed ps" using parsed(3) acceptable_typed by (fastforce simp: list_all_iff)
  moreover have "task_enums_ok (patched t ps)"
    using fold_put_enums [OF list_all_changes [OF parsed(3)] assms(2)] by (simp add: patched_def)
  ultimately show ?thesis using parsed by simp
qed

theorem patch_values_typed_witness:
  "\<exists>ps. fst (parseTaskPatch app_task_service 1 [(''status'', JStr ''done''), (''assignee_id'', JNull)] sample) = Inr ps \<and>
     list_all typed ps \<and> map fst ps = [''status'', ''assignee_id''] \<and> task_enums_ok (patched (hd (tasks sample_tables)) ps)"
proof -
  have "\<not> isl (fst (parseTaskPatch app_task_service 1 [(''status'', JStr ''done''), (''assignee_id'', JNull)] sample))" by code_simp
  then obtain ps w' where run: "parseTaskPatch app_task_service 1 [(''status'', JStr ''done''), (''assignee_id'', JNull)] sample = (Inr ps, w')"
    by (metis prod.collapse sum.collapse(2))
  have "task_enums_ok (hd (tasks sample_tables))" by code_simp
  from patch_values_typed [OF run this] run show ?thesis by auto
qed

end
