(* ===== verification/Invariants.thy ===== *)
theory Invariants
  imports AppRoutes TaskCalls
begin

text \<open>
  Invariants of the whole program. A predicate on the state of the world that depends on the database alone and that every operation of the services
  keeps holds after every request, whatever fails: the handlers and the middleware keep it by the rules of theory \<open>Frames\<close>. The locale states what the services
  have to provide; each invariant of the program is one interpretation.
\<close>

section \<open>Reads, and what is not in the database\<close>

lemma reads_stmt: "(\<And>s. snd (f s) = s) \<Longrightarrow> preserves (\<lambda>w. Q (srv w)) (run_stmt f)"
  by (simp add: preserves_def run_stmt_def split_beta split: list.splits option.splits)

lemma reads_srv: "snd (select q s) = s" "snd (list_tasks f s) = s" "snd (list_history t n k s) = s"
  by (simp_all add: select_def list_tasks_def list_history_def)

lemma reads_stores:
  "preserves (\<lambda>w. Q (srv w)) (taskRepo_GetByID NewTaskRepository t)" "preserves (\<lambda>w. Q (srv w)) (taskRepo_List NewTaskRepository q)"
  "preserves (\<lambda>w. Q (srv w)) (teamMemberRepo_IsMember NewTeamMemberRepository t u)"
  "preserves (\<lambda>w. Q (srv w)) (teamRepo_GetByID NewTeamRepository t)"
  "preserves (\<lambda>w. Q (srv w)) (taskCommentRepo_ListByTask NewTaskCommentRepository t)"
  "preserves (\<lambda>w. Q (srv w)) (taskHistoryRepo_ListByTask NewTaskHistoryRepository t n off)"
  "preserves (\<lambda>w. Q (srv w)) (teamStore_GetByID NewTeamStore t)" "preserves (\<lambda>w. Q (srv w)) (teamStore_ListByUser NewTeamStore u)"
  "preserves (\<lambda>w. Q (srv w)) (teamMemberStore_GetRole NewTeamMemberStore t u)"
  "preserves (\<lambda>w. Q (srv w)) (teamMemberStore_IsMember NewTeamMemberStore t u)"
  "preserves (\<lambda>w. Q (srv w)) (AnalyticsRepository_GetTeamDoneStats u fr un)"
  "preserves (\<lambda>w. Q (srv w)) (AnalyticsRepository_GetTopCreatorsByTeam u fr un n)"
  "preserves (\<lambda>w. Q (srv w)) AnalyticsRepository_FindTasksWithAssigneeNotMember"
  by (auto simp: repo_records repo_methods TaskRepository_List_def TaskHistoryRepository_ListByTask_def
      AnalyticsRepository_GetTeamDoneStats_def AnalyticsRepository_GetTopCreatorsByTeam_def
      AnalyticsRepository_FindTasksWithAssigneeNotMember_def intro!: control_rules reads_stmt reads_srv)

lemma steady_srv: "steady (\<lambda>w :: 'x world_scheme. Q (srv w))"
  by (simp add: steady_def)

text \<open>So a fact about the database has to be checked for the operations that write only.\<close>

lemma services_keepI:
  fixes Q :: "server \<Rightarrow> bool"
  defines "P \<equiv> (\<lambda>w :: 'x world_scheme. Q (srv w))"
  assumes "\<And>u inp. preserves P (CreateTask app_task_service u inp)" and "\<And>u i raw. preserves P (UpdateTask app_task_service u i raw)"
    and "\<And>u i. preserves P (DeleteTask app_task_service u i)" and "\<And>u i b. preserves P (CreateComment app_task_service u i b)"
    and "\<And>u j b. preserves P (UpdateComment app_task_service u j b)" and "\<And>u j. preserves P (DeleteComment app_task_service u j)"
    and "\<And>url lt u nm. preserves P (CreateTeam (app_team url lt) u nm)"
    and "\<And>url lt u t em ro. preserves P (InviteByEmail (app_team url lt) u t em ro)"
  shows "services_keep P"
proof -
  have st: "steady P" unfolding P_def by (rule steady_srv)
  have tasks: "preserves P (GetTask app_task_service u i)"
    "preserves P (ListTasks app_task_service u q)"
    "preserves P (GetTaskHistory app_task_service u i n off)"
    "preserves P (ListComments app_task_service u i)" for u i q n off
    unfolding P_def GetTask_def ListTasks_def GetTaskHistory_def ListComments_def app_task_service_sel prod.case option.case
    by (intro control_rules reads_stores)+
  have teams: "preserves P (ListTeams (app_team url lt) u)"
    "preserves P (EnsureMemberRole (app_team url lt) i u)" for url lt u i
    unfolding P_def ListTeams_def EnsureMemberRole_def app_team_sel by (intro control_rules reads_stores)+
  have stats: "preserves P (GetTeamDoneStats (app_stats ttl L admins) u fr un)"
    "preserves P (GetTopCreatorsByTeam (app_stats ttl L admins) u fr un n)"
    "preserves P (FindTasksWithAssigneeNotMember (app_stats ttl L admins) u)" for ttl L admins u fr un n
    unfolding P_def GetTeamDoneStats_def GetTopCreatorsByTeam_def FindTasksWithAssigneeNotMember_def app_stats_sel option.case
      NewAnalyticsRepository_def analyticsStore.select_convs StatsCache_iface_def statsCache.select_convs on_miss_def ignoring_def
      StatsCache_GetDone_def StatsCache_SetDone_def StatsCache_GetTop_def StatsCache_SetTop_def
    by (intro control_rules reads_stores preserves_stats_cache steady_srv)+
  show ?thesis by (simp add: services_keep_def keep_defs st tasks teams stats assms(2-9))
qed

section \<open>Lockout, limiters and the idempotency middleware\<close>

lemma preserves_lockout:
  assumes "steady P"
  shows "preserves P (IsLocked (NewLockout m t k lw) n)" "preserves P (OnSuccess (NewLockout m t k lw) n)"
  unfolding preserves_def IsLocked_def OnSuccess_def
  by (auto simp: NewLockout_def Lockout_onRedisError_def Let_def split: prod.splits sum.splits
      intro: steady_inc [OF assms]
      dest: preserves_run [OF preserves_client(8) [OF assms]] preserves_run [OF preserves_client(4) [OF assms]])

lemma preserves_OnFailure:
  fixes P :: "'x world_scheme \<Rightarrow> bool"
  assumes "steady P"
  shows "preserves P (OnFailure (NewLockout m t k lw) n)"
proof (unfold preserves_def, intro allI impI)
  fix w :: "'x world_scheme" assume P: "P w"
  let ?l = "NewLockout m t k lw" and ?c = "redis_client :: 'x world_scheme redisClient"
  have onerr: "P (Lockout_onRedisError ?l v)" "P (inc (lockout_metrics ?l) ''LoginLockouts'' [] v)" if "P v" for v
    using steady_inc [OF assms that] by (simp_all add: Lockout_onRedisError_def NewLockout_def)
  obtain r w1 where run: "redis_Incr ?c (failKey n) w = (r, w1)" by (cases "redis_Incr ?c (failKey n) w")
  have w1: "P w1" by (rule preserves_run [OF preserves_client(6) [OF assms] run P])
  have w2: "P (case redis_Expire ?c (failKey n) t w1 of (Inl e, w') \<Rightarrow> Lockout_onRedisError ?l w' | (Inr _, w') \<Rightarrow> w')"
    using preserves_run [OF preserves_client(7) [OF assms] _ w1] onerr(1) by (auto split: prod.split sum.split)
  have w3: "P (snd (case redis_Set ?c (lockKey n) ''1'' t v of (Inl e, w3) \<Rightarrow> (Inl e, Lockout_onRedisError ?l w3)
      | (Inr _, w3) \<Rightarrow> (Inr (True, t), inc (lockout_metrics ?l) ''LoginLockouts'' [] w3)))" if "P v" for v
    using preserves_run [OF preserves_client(2) [OF assms] _ that] onerr by (auto split: prod.split sum.split)
  have sel: "lockout_client ?l = Some ?c" "lockout_maxAttempts ?l = m" "lockout_lockTTL ?l = t" by (simp_all add: NewLockout_def)
  show "P (snd (OnFailure ?l n w))"
    unfolding OnFailure_def sel option.case run prod.case Let_def
    using P onerr(1) [OF w1] w1 w2 w3 [OF w1] w3 [OF w2] by (cases r) simp_all
qed

lemma preserves_allow:
  assumes "preserves P (allow k)" and "\<And>ok retry. preserves P (f ok retry)"
  shows "preserves P (\<lambda>w. case allow k w of ((ok, retry), w1) \<Rightarrow> f ok retry w1)"
  using assms by (auto simp: preserves_def split: prod.split)

lemma preserves_refuse: "preserves P f \<Longrightarrow> preserves P (\<lambda>w. if \<not> ok then (a, w) else f w)"
  by (simp add: preserves_def)

lemma preserves_store:
  assumes "steady P"
  shows "preserves P (Store_Get (NewStore (Some redis_client) I) key)" "preserves P (Store_Set (NewStore (Some redis_client) I) key ttl v)"
  unfolding Store_Get_def Store_Set_def NewStore_def Store.select_convs option.case
  by (intro control_rules preserves_client [OF assms])+

lemma preserves_Idempotency:
  fixes P :: "'x world_scheme \<Rightarrow> bool"
  assumes st: "steady P" and nxt: "preserves P (nxt r)"
  shows "preserves P (Idempotency_Handler (NewIdempotencyMiddleware en (NewStore (Some redis_client) I) app_locker lt rt (Some app_metrics) J tm) nxt r)"
proof (unfold preserves_def, intro allI impI)
  fix w :: "'x world_scheme" assume P: "P w"
  let ?m = "NewIdempotencyMiddleware en (NewStore (Some redis_client) I) app_locker lt rt (Some app_metrics) J tm :: 'x world_scheme IdempotencyMiddleware"
  let ?st = "NewStore (Some redis_client) I :: 'x world_scheme Store"
  have sel: "im_metrics ?m = Some app_metrics" "im_store ?m = Some \<lparr>idemStore_Get = Store_Get ?st, idemStore_Set = Store_Set ?st\<rparr>"
    "im_locker ?m = Some \<lparr>distLocker_Acquire = Acquire app_locker, distLocker_Release = Release app_locker\<rparr>"
    by (simp_all add: NewIdempotencyMiddleware_def)
  have inc: "P v \<Longrightarrow> P (inc (Some app_metrics) c ls v)" for v c ls by (rule steady_inc [OF st])
  have una: "P v \<Longrightarrow> P (onRedisUnavailable ?m reason v)" for v reason by (simp add: onRedisUnavailable_def sel inc)
  have rec: "P v \<Longrightarrow> P (recordResponse ?m \<lparr>idemStore_Get = Store_Get ?st, idemStore_Set = Store_Set ?st\<rparr> key hash resp v)" for v key hash resp
    using una preserves_run [OF preserves_store(2) [OF st]] by (auto simp: recordResponse_def split: prod.split sum.split)
  have rel: "P v \<Longrightarrow> P (releaseLock ?m \<lparr>distLocker_Acquire = Acquire app_locker, distLocker_Release = Release app_locker\<rparr> key tok v)" for v key tok
    using inc preserves_run [OF preserves_Release [OF st]] by (auto simp: releaseLock_def sel split: prod.split sum.split)
  have go: "P v \<Longrightarrow> P (snd (nxt r v))" for v by (rule preservesD [OF nxt])
  have libs: "im_libs ?m = J" "im_lockTTL ?m = lt" by (simp_all add: NewIdempotencyMiddleware_def)
  show "P (snd (Idempotency_Handler ?m nxt r w))"
  proof (cases "UserIDFromContext r")
    case None
    then show ?thesis using go [OF P] by (simp add: Idempotency_Handler_def Let_def)
  next
    case (Some u)
    let ?route = "routePatternFromRequest r" and ?k = "TrimSpace (req_Header r ''Idempotency-Key'')"
    obtain y w1 where get: "Store_Get ?st (responseKey J u ?route ?k) w = (y, w1)" by (cases "Store_Get ?st (responseKey J u ?route ?k) w")
    have w1: "P w1" by (rule preserves_run [OF preserves_store(1) [OF st] get P])
    obtain x w2 where acq: "Acquire app_locker (idemLockKey J u ?route ?k) lt w1 = (x, w2)"
      by (cases "Acquire app_locker (idemLockKey J u ?route ?k) lt w1")
    have w2: "P w2" by (rule preserves_run [OF preserves_Acquire [OF st] acq w1])
    obtain resp w3 where run: "nxt r w2 = (resp, w3)" by (cases "nxt r w2")
    have w3: "P w3" by (rule preserves_run [OF nxt run w2])
    note facts = go [OF P] go [OF inc [OF P]] go [OF una [OF w1]] inc [OF w1] go [OF una [OF w2]] w2 rel [OF rec [OF w3]]
    note defs = Idempotency_Handler_def runUnderLock_def Let_def sel libs Some get acq run
    show ?thesis
    proof (cases y)
      case (Inl e)
      then show ?thesis using facts by (simp add: defs)
    next
      case (Inr c)
      then show ?thesis using facts by (cases c; cases x) (auto simp: defs)
    qed
  qed
qed

section \<open>The router\<close>

text \<open>The handlers of files and of the documentation, which come with libraries, do not touch the database.\<close>

definition static_aside :: "'x dbw_scheme chiLib \<Rightarrow> bool" where
  "static_aside chi \<longleftrightarrow> (\<forall>r w. srv (snd (chi_FileServer chi r w)) = srv w \<and> srv (snd (chi_Swagger chi r w)) = srv w)"

text \<open>Whatever the program can come to: requests arrive in any order, and between them everything outside the tables
  may change (Redis may lose its keys, connections may break, time passes).\<close>

inductive served :: "'x app_world_scheme appLibs \<Rightarrow> Config \<Rightarrow> 'x app_world_scheme \<Rightarrow> 'x app_world_scheme \<Rightarrow> bool" for l cfg w0 where
  start: "served l cfg w0 w0"
| request: "served l cfg w0 w \<Longrightarrow> served l cfg w0 (snd (Router_New (app_deps l cfg) r w))"
| elapse: "served l cfg w0 w \<Longrightarrow> srv w' = (srv w)\<lparr>clock := t\<rparr> \<Longrightarrow> served l cfg w0 w'"

section \<open>From the services to the program\<close>

locale program_invariant =
  fixes P :: "'x app_world_scheme \<Rightarrow> bool"
  assumes frame: "P w \<Longrightarrow> srv w' = (srv w)\<lparr>clock := t\<rparr> \<Longrightarrow> P w'"
    and services: "services_keep P"
    and register: "preserves P (Register (app_auth G cfg) em un pw)"
    and login: "preserves P (Login (app_auth G cfg) lg pw ip ua)"
    and refresh: "preserves P (Refresh (app_auth G cfg) tok ip ua)"
begin

lemmas steady = services_keepD(18) [OF services]

lemma same_srv: "P w \<Longrightarrow> srv w' = srv w \<Longrightarrow> P w'"
  using frame [of w w' "clock (srv w)"] by simp

lemma parse_keep:
  "preserves P (ParseAccessTokenCtx (app_auth G cfg) tok)" "preserves P (ParseRefreshTokenUserID (app_auth G cfg) tok)"
  unfolding preserves_def
  by (auto simp: ParseAccessTokenCtx_def ParseRefreshTokenUserID_def bindR_apply app_auth.parseToken_db intro: same_srv)

lemma login_guard_keep:
  "preserves P (IsLocked (NewLockout m t k lw) n)" "preserves P (OnFailure (NewLockout m t k lw) n)"
  "preserves P (OnSuccess (NewLockout m t k lw) n)"
  by (rule preserves_lockout preserves_OnFailure steady)+

lemma auth_handlers_keep:
  fixes h :: "'x app_world_scheme AuthHandler"
  assumes h: "h = NewAuthHandler (app_auth G cfg) login refresh (Some (NewLockout m t k lw)) L"
    and lim: "\<And>k. preserves P (login k)" "\<And>k. preserves P (refresh k)"
  shows "preserves P (AuthHandler_Register h r)" "preserves P (AuthHandler_Login h r)"
    "preserves P (AuthHandler_Refresh h r)"
proof -
  have sel: "ah_auth h = app_auth G cfg" "ah_loginLimiter h = login" "ah_refreshLimiter h = refresh"
    "ah_lockout h = Some (NewLockout m t k lw)" "ah_json h = L" by (simp_all add: h NewAuthHandler_def)
  note rules = control_rules login_guard_keep register login refresh parse_keep
  show "preserves P (AuthHandler_Register h r)"
    unfolding AuthHandler_Register_def sel Let_def by (intro rules)
  have attempt: "preserves P (loginAttempt h r ip name pw)" for ip name pw
    unfolding loginAttempt_def sel Let_def option.case
    by (intro rules) (auto simp: preserves_def reply_def split: bool.split)
  have guarded: "preserves P (bindR (IsLocked (NewLockout m t k lw) n) (\<lambda>x.
      case x of Inr (True, retry) \<Rightarrow> reply (tooManyRequests L retry) | _ \<Rightarrow> loginAttempt h r ip n pw))" for n ip pw
    by (rule preserves_bindR [OF login_guard_keep(1)])
      (auto simp: preserves_basic(3) attempt split: sum.split prod.split bool.split)
  show "preserves P (AuthHandler_Login h r)"
  proof (unfold preserves_def, intro allI impI)
    fix w :: "'x app_world_scheme" assume w: "P w"
    obtain ok retry w1 where run: "login (clientIP r) w = ((ok, retry), w1)" by (cases "login (clientIP r) w") auto
    have "P w1" by (rule preserves_run [OF lim(1) run w])
    then show "P (snd (AuthHandler_Login h r w))"
      using preservesD [OF guarded] by (auto simp: AuthHandler_Login_def sel run Let_def split: option.split sum.split)
  qed
  have refreshed: "preserves P (bindR (Refresh (app_auth G cfg) tok ip ua) (\<lambda>res.
      case res of Inl _ \<Rightarrow> reply (response_Error L 401 ''invalid token'') | Inr pair \<Rightarrow> reply (response_JSON L 200 (tokenResponse pair))))"
    for tok ip ua by (intro rules)
  have limited: "preserves P (\<lambda>w. case refresh key w of ((ok, retry), w1) \<Rightarrow>
      if \<not> ok then (tooManyRequests L retry, w1)
      else bindR (Refresh (app_auth G cfg) tok ip ua) (\<lambda>res.
        case res of Inl _ \<Rightarrow> reply (response_Error L 401 ''invalid token'')
        | Inr pair \<Rightarrow> reply (response_JSON L 200 (tokenResponse pair))) w1)" for key tok ip ua
    by (rule preserves_allow [OF lim(2)], rule preserves_refuse, rule refreshed)
  show "preserves P (AuthHandler_Refresh h r)"
    unfolding AuthHandler_Refresh_def sel Let_def by (intro control_rules parse_keep limited)
qed

lemma memory_keep: "preserves P (memory_limiter mem_login mem_login_update k)"
  "preserves P (memory_limiter mem_refresh mem_refresh_update k)" "preserves P (memory_limiter mem_user mem_user_update k)"
  unfolding preserves_def memory_limiter_def by (auto simp: split_beta intro: same_srv)

lemma group_keep:
  assumes "(rt, h) \<in> set (group_routes (app_deps l cfg))"
  shows "preserves P (group_middleware (app_deps l cfg) h r)"
proof -
  have sel: "rd_json (app_deps l cfg) = al_json l" "rd_auth (app_deps l cfg) = app_auth (al_crypto l) cfg"
    "rd_idemStore (app_deps l cfg) = NewStore (Some redis_client) (al_idem l)" "rd_locker (app_deps l cfg) = app_locker"
    "rd_metrics (app_deps l cfg) = Some app_metrics"
    "rd_userLimiter (app_deps l cfg) = Some (redis_Allow (NewRedis (RateLimit_UserPerMin (cfg_RateLimit cfg)) (limiter_window cfg)
        (memory_limiter mem_user mem_user_update)))" by (simp_all add: app_deps_def)
  show ?thesis
    unfolding group_middleware_def AuthMiddleware_def sel Let_def
    by (intro control_rules parse_keep preserves_Idempotency preserves_UserRateLimit preserves_redis_Allow steady
        memory_keep group_routes_keep [OF services assms])
qed

lemma public_keep:
  assumes "static_aside (al_chi l)" and "(rt, h) \<in> set (public_routes (app_deps l cfg))"
  shows "preserves P (h r)"
proof -
  have "preserves P (health r)" "preserves P (chi_FileServer (al_chi l) r)" "preserves P (chi_Swagger (al_chi l) r)"
    using assms(1) by (auto simp: preserves_def health_def reply_def static_aside_def intro: same_srv)
  moreover note auth_handlers_keep [OF refl preserves_redis_Allow [OF steady memory_keep(1)] preserves_redis_Allow [OF steady memory_keep(2)]]
  ultimately show ?thesis
    using assms(2) unfolding public_routes_def app_deps_def Let_def routerDeps.select_convs by auto
qed

lemma dispatch_keep:
  assumes "static_aside (al_chi l)"
  shows "preserves P (dispatch (app_deps l cfg) r)"
proof -
  have "preserves P (h q)" if found: "map_of (route_table (app_deps l cfg)) rt = Some h" for rt h q
  proof -
    consider "(rt, h) \<in> set (public_routes (app_deps l cfg))"
      | g where "(rt, g) \<in> set (group_routes (app_deps l cfg))" "h = group_middleware (app_deps l cfg) g"
      using map_of_SomeD [OF found] by (auto simp: route_table_def)
    then show ?thesis by cases (simp_all add: public_keep [OF assms] group_keep)
  qed
  then show ?thesis unfolding dispatch_def preserves_def by (auto split: option.split)
qed

lemma request_keep:
  assumes "static_aside (al_chi l)" and "P w"
  shows "P (snd (Router_New (app_deps l cfg) r w))"
proof -
  have "srv (in_flight w) = srv w" by (rule uncounted_Some) simp
  then have "P (in_flight w)" by (rule same_srv [OF assms(2)])
  then have "P (snd (dispatch (app_deps l cfg) q (in_flight w)))" for q by (rule preservesD [OF dispatch_keep [OF assms(1)]])
  then show ?thesis by (rule same_srv) (simp only: Router_New_app)
qed

lemma served_keep:
  assumes "served l cfg w0 w" and "static_aside (al_chi l)" and "P w0"
  shows "P w"
  using assms
proof induction
  case (elapse w w' t)
  then show ?case using frame by blast
qed (simp_all add: request_keep)

end

end
