(* ===== verification/Soundness.thy ===== *)
theory Soundness
  imports Invariants
begin

text \<open>
  An invariant of the whole program. Beyond the constraints that MySQL enforces, the services keep two facts that no
  constraint of the schema states: every team has exactly one owner, and the assignee of a task is a member of its
  team. The invariant is proved for every operation of the services, carried through the handlers and the
  middleware with the rules of theory \<open>Frames\<close>, and so holds after every request, whatever fails.
\<close>

section \<open>The invariant\<close>

definition one_owner :: "tables \<Rightarrow> bool" where
  "one_owner d \<longleftrightarrow> list_all (\<lambda>t. length (owners (Team_ID t) d) = 1) (teams d)"

definition assignees_are_members :: "tables \<Rightarrow> bool" where
  "assignees_are_members d \<longleftrightarrow>
     list_all (\<lambda>t. case Task_AssigneeID t of None \<Rightarrow> True | Some a \<Rightarrow> is_member (Task_TeamID t) a d) (tasks d)"

definition sound :: "server \<Rightarrow> bool" where
  "sound s \<longleftrightarrow> server_ok s \<and> open_tx s = None \<and> one_owner (data s) \<and> assignees_are_members (data s)"

lemma is_member_cong: "team_members d' = team_members d \<Longrightarrow> is_member t u d' = is_member t u d"
  by (simp add: is_member_def member_row_def)

lemma owners_cong: "team_members d' = team_members d \<Longrightarrow> owners t d' = owners t d"
  by (simp add: owners_def)

text \<open>A change that leaves teams, members and the assignees alone.\<close>

lemma sound_other:
  assumes "sound s" and "server_ok s'" and "open_tx s' = None" and "teams (data s') = teams (data s)"
    and "team_members (data s') = team_members (data s)"
    and "\<And>t. t \<in> set (tasks (data s')) \<Longrightarrow> Task_AssigneeID t = None \<or>
      (\<exists>u \<in> set (tasks (data s)). Task_AssigneeID t = Task_AssigneeID u \<and> Task_TeamID t = Task_TeamID u) \<or>
      is_member (Task_TeamID t) (the (Task_AssigneeID t)) (data s)"
  shows "sound s'"
proof -
  have "one_owner (data s')" using assms(1,4,5) by (simp add: sound_def one_owner_def owners_cong [OF assms(5)])
  moreover have "assignees_are_members (data s')"
    using assms(1,6) by (fastforce simp: sound_def assignees_are_members_def list_all_iff is_member_cong [OF assms(5)] split: option.splits)
  ultimately show ?thesis using assms(2,3) by (simp add: sound_def)
qed

lemma sound_same: "sound s \<Longrightarrow> server_ok s' \<Longrightarrow> open_tx s' = None \<Longrightarrow> data s' = data s \<Longrightarrow> sound s'"
  by (simp add: sound_def)

section \<open>The task service\<close>

abbreviation sound_at :: "'x dbw_scheme \<Rightarrow> bool" where
  "sound_at w \<equiv> sound (srv w)"

lemma keeps_ok_at: "keeps (\<lambda>w. server_ok (srv w)) m \<Longrightarrow> m w = (r, w') \<Longrightarrow> server_ok (srv w) \<Longrightarrow> server_ok (srv w')"
  by (metis keepsE)

lemma preserves_by_cases:
  fixes m :: "('x dbw_scheme, 'a) comp"
  assumes ok: "keeps (\<lambda>w. server_ok (srv w)) m"
    and err: "\<And>w e w'. m w = (Inl e, w') \<Longrightarrow> sound_at w \<Longrightarrow> data (srv w') = data (srv w) \<and> open_tx (srv w') = None"
    and ret: "\<And>w a w'. m w = (Inr a, w') \<Longrightarrow> sound_at w \<Longrightarrow> server_ok (srv w') \<Longrightarrow> sound_at w'"
  shows "preserves sound_at m"
proof (unfold preserves_def, intro allI impI)
  fix w :: "'x dbw_scheme" assume w: "sound_at w"
  obtain r w' where run: "m w = (r, w')" by (cases "m w")
  have "server_ok (srv w')" using keeps_ok_at [OF ok run] w by (simp add: sound_def)
  with err ret w run show "sound_at (snd (m w))" by (cases r) (auto intro: sound_same)
qed

lemma insert_task_tables:
  "insert_task x s = (Inr i, s') \<Longrightarrow> \<exists>y. tasks (data s') = tasks (data s) @ [y] \<and> Task_AssigneeID y = Task_AssigneeID x \<and>
     Task_TeamID y = Task_TeamID x \<and> teams (data s') = teams (data s) \<and> team_members (data s') = team_members (data s) \<and> open_tx s' = open_tx s"
  by (auto simp: insert_task_def Let_def split: if_split_asm)

text \<open>A single statement on other tables.\<close>

definition same_rows :: "server \<Rightarrow> server \<Rightarrow> bool" where
  "same_rows s s' \<longleftrightarrow> tasks (data s') = tasks (data s) \<and> teams (data s') = teams (data s) \<and>
     team_members (data s') = team_members (data s) \<and> open_tx s' = open_tx s"

lemma sound_same_rows: "sound s \<Longrightarrow> server_ok s' \<Longrightarrow> same_rows s s' \<Longrightarrow> sound s'"
  by (rule sound_other) (auto simp: same_rows_def sound_def)

lemma comment_rows:
  "insert_comment t u b s = (Inr i, s') \<Longrightarrow> same_rows s s'"
  "update_comment c b s = (Inr x, s') \<Longrightarrow> same_rows s s'" "delete_comment c s = (Inr x, s') \<Longrightarrow> same_rows s s'"
  by (auto simp: same_rows_def insert_comment_def update_comment_def delete_comment_def Let_def on_data_def split: if_split_asm option.splits)

lemma single_write_sound:
  fixes m :: "('x dbw_scheme, 'a) comp"
  assumes "keeps (\<lambda>w. server_ok (srv w)) m" and "\<And>w e w'. m w = (Inl e, w') \<Longrightarrow> srv w' = srv w"
    and "\<And>w a w'. m w = (Inr a, w') \<Longrightarrow> same_rows (srv w) (srv w')"
  shows "preserves sound_at m"
proof (rule preserves_by_cases [OF assms(1)])
  fix w e w' assume run: "m w = (Inl e, w')" and "sound_at w"
  then show "data (srv w') = data (srv w) \<and> open_tx (srv w') = None"
    using assms(2) [OF run] by (simp add: sound_def)
next
  fix w a w' assume "m w = (Inr a, w')" "sound_at w" "server_ok (srv w')"
  then show "sound_at w'" using sound_same_rows assms(3) by blast
qed

lemma CreateTask_sound: "preserves sound_at (CreateTask app_task_service u inp)"
proof (rule preserves_by_cases)
  fix w e w' assume run: "CreateTask app_task_service u inp w = (Inl e, w')" and "sound_at w"
  then show "data (srv w') = data (srv w) \<and> open_tx (srv w') = None"
    using fails_same [OF app_tasks.writes_fail(1) run] by (simp add: sound_def)
next
  fix w i w' assume run: "CreateTask app_task_service u inp w = (Inr i, w')" and w: "sound_at w" "server_ok (srv w')"
  note made = app_tasks.CreateTask_Inr [OF run]
  from insert_task_tables [OF made [THEN conjunct2, THEN conjunct2]] obtain y where
    "tasks (data (srv w')) = tasks (data (srv w)) @ [y]" "Task_AssigneeID y = CTI_AssigneeID inp" "Task_TeamID y = CTI_TeamID inp"
    "teams (data (srv w')) = teams (data (srv w))" "team_members (data (srv w')) = team_members (data (srv w))"
    "open_tx (srv w') = open_tx (srv w)" by auto
  moreover have "\<forall>a. CTI_AssigneeID inp = Some a \<longrightarrow> is_member (CTI_TeamID inp) a (data (srv w))" using made by blast
  ultimately show "sound_at w'" by (intro sound_other [OF w]) (use w in \<open>cases "CTI_AssigneeID inp"; auto simp: sound_def\<close>)+
qed (rule app_tasks.writes_ok)

lemma comments_sound:
  "preserves sound_at (CreateComment app_task_service u i b)" "preserves sound_at (UpdateComment app_task_service u j b)"
  "preserves sound_at (DeleteComment app_task_service u j)"
  by (rule single_write_sound [OF app_tasks.writes_ok(4) fails_same [OF app_tasks.writes_fail(2)] comment_rows(1) [OF app_tasks.CreateComment_Inr(2)]]
      single_write_sound [OF app_tasks.writes_ok(5) fails_same [OF app_tasks.writes_fail(3)] comment_rows(2) [OF app_tasks.UpdateComment_Inr(2)]]
      single_write_sound [OF app_tasks.writes_ok(6) fails_same [OF app_tasks.writes_fail(4)] comment_rows(3) [OF app_tasks.DeleteComment_Inr(2)]];
      assumption)+

lemma DeleteTask_sound: "preserves sound_at (DeleteTask app_task_service u i)"
proof (rule preserves_by_cases)
  fix w e w' assume "DeleteTask app_task_service u i w = (Inl e, w')" "sound_at w"
  then show "data (srv w') = data (srv w) \<and> open_tx (srv w') = None"
    using app_tasks.DeleteTask_atomic by (metis sound_def)
next
  fix w t w' assume run: "DeleteTask app_task_service u i w = (Inr t, w')" and w: "sound_at w" "server_ok (srv w')"
  from app_tasks.DeleteTask_Inr [OF run] show "sound_at w'"
    by (intro sound_other [OF w]) (auto simp: drop_task_def)
qed (rule app_tasks.writes_ok)

lemma put_field_assignee:
  assumes "acceptable d team kp" and "case Task_AssigneeID t of None \<Rightarrow> True | Some a \<Rightarrow> is_member team a d"
  shows "case Task_AssigneeID (put_field kp t) of None \<Rightarrow> True | Some a \<Rightarrow> is_member team a d"
  using assms by (cases "(d, team, kp)" rule: acceptable.cases) auto

lemma patched_assignee:
  assumes "list_all (acceptable d (Task_TeamID t)) ps" and "case Task_AssigneeID t of None \<Rightarrow> True | Some a \<Rightarrow> is_member (Task_TeamID t) a d"
  shows "case Task_AssigneeID (patched t ps) of None \<Rightarrow> True | Some a \<Rightarrow> is_member (Task_TeamID t) a d"
proof -
  have "case Task_AssigneeID (fold put_field qs x) of None \<Rightarrow> True | Some a \<Rightarrow> is_member (Task_TeamID t) a d"
    if "list_all (acceptable d (Task_TeamID t)) qs" "case Task_AssigneeID x of None \<Rightarrow> True | Some a \<Rightarrow> is_member (Task_TeamID t) a d" for qs x
    using that by (induction qs arbitrary: x) (simp_all add: put_field_assignee)
  then show ?thesis using list_all_changes [OF assms(1)] assms(2) by (simp add: patched_def)
qed

lemma UpdateTask_sound: "preserves sound_at (UpdateTask app_task_service u i raw)"
proof (rule preserves_by_cases)
  fix w e w' assume "UpdateTask app_task_service u i raw w = (Inl e, w')" "sound_at w"
  then show "data (srv w') = data (srv w) \<and> open_tx (srv w') = None"
    using app_tasks.UpdateTask_atomic by (metis sound_def)
next
  fix w team w' assume run: "UpdateTask app_task_service u i raw w = (Inr team, w')" and w: "sound_at w" "server_ok (srv w')"
  have "server_ok (srv w)" "open_tx (srv w) = None" using w by (simp_all add: sound_def)
  from app_tasks.UpdateTask_Inr [OF run this] obtain t ps where t: "task_by_id i (data (srv w)) = Some t"
    and ps: "list_all (acceptable (data (srv w)) (Task_TeamID t)) ps"
    and w': "data (srv w') = apply_patch t u ps (srv w)" "open_tx (srv w') = None" by (auto simp: admissible_def)
  have "t \<in> set (tasks (data (srv w)))" using t by (auto simp: task_by_id_def dest: find_SomeD)
  then have "case Task_AssigneeID t of None \<Rightarrow> True | Some a \<Rightarrow> is_member (Task_TeamID t) a (data (srv w))"
    using w by (auto simp: sound_def assignees_are_members_def list_all_iff)
  from patched_assignee [OF ps this]
  have new: "case Task_AssigneeID (touch tm t (patched t ps)) of None \<Rightarrow> True | Some a \<Rightarrow> is_member (Task_TeamID t) a (data (srv w))" for tm
    by (auto simp: touch_def)
  have team: "Task_TeamID (touch tm t (patched t ps)) = Task_TeamID t" for tm by (simp add: touch_def)
  show "sound_at w'"
  proof (rule sound_other [OF w])
    fix x assume "x \<in> set (tasks (data (srv w')))"
    then have "x = touch (clock (srv w)) t (patched t ps) \<or> x \<in> set (tasks (data (srv w)))"
      using w' by (auto simp: apply_patch_def replace_task_def split: if_splits)
    then show "Task_AssigneeID x = None \<or>
      (\<exists>u \<in> set (tasks (data (srv w))). Task_AssigneeID x = Task_AssigneeID u \<and> Task_TeamID x = Task_TeamID u) \<or>
      is_member (Task_TeamID x) (the (Task_AssigneeID x)) (data (srv w))"
    proof
      assume x: "x = touch (clock (srv w)) t (patched t ps)"
      show ?thesis using new [of "clock (srv w)"] unfolding x team by (auto split: option.splits)
    qed blast
  qed (use w' in \<open>simp_all add: apply_patch_def\<close>)
qed (rule app_tasks.writes_ok)

lemma same_server_sound: "(\<And>w. srv (snd (m w)) = srv w) \<Longrightarrow> preserves sound_at m"
  by (simp add: preserves_def)

section \<open>The team service\<close>

lemma CreateTeam_sound: "preserves sound_at (CreateTeam (app_team url ttl) u n)"
proof (rule preserves_by_cases)
  fix w e w' assume run: "CreateTeam (app_team url ttl) u n w = (Inl e, w')" and "sound_at w"
  then show "data (srv w') = data (srv w) \<and> open_tx (srv w') = None"
    using app_teams.CreateTeam_atomic [OF run] by (simp add: sound_def)
next
  fix w i w' assume run: "CreateTeam (app_team url ttl) u n w = (Inr i, w')" and w: "sound_at w" "server_ok (srv w')"
  from app_teams.CreateTeam_Inr [OF run] obtain s1 s2 where
    t: "insert_team n u ((srv w)\<lparr>open_tx := Some (data (srv w))\<rparr>) = (Inr i, s1)" and m: "insert_member i u RoleOwner s1 = (Inr (), s2)"
    and w': "srv w' = s2\<lparr>open_tx := None\<rparr>" by blast
  let ?d = "data (srv w)" and ?d' = "data (srv w')"
  have d': "teams ?d' = teams ?d @ [\<lparr>Team_ID = i, Team_Name = n, Team_CreatedBy = Some u, Team_CreatedAt = clock (srv w)\<rparr>]"
    "team_members ?d' = team_members ?d @ [\<lparr>TeamMember_TeamID = i, TeamMember_UserID = u, TeamMember_Role = RoleOwner, TeamMember_CreatedAt = clock s1\<rparr>]"
    "tasks ?d' = tasks ?d"
    using insert_team_Inr [OF t] insert_member_Inr [OF m] by (simp_all add: w')
  have "i = auto_inc (srv w) TTeams" using insert_team_Inr(1) [OF t] by simp
  then have fresh: "owners i ?d = []" "\<And>x. x \<in> set (teams ?d) \<Longrightarrow> Team_ID x \<noteq> i"
    using no_members_of_new_team(2) [of "srv w"] server_okD(2) [of "srv w"] w
    by (force simp: sound_def ids_below_def team_ids_def)+
  have "owners (Team_ID x) ?d' = owners (Team_ID x) ?d" if "x \<in> set (teams ?d)" for x
    using fresh(2) [OF that] d'(2) by (simp add: owners_def)
  moreover have "owners i ?d' = [u]" using fresh(1) d'(2) by (simp add: owners_def)
  ultimately have "one_owner ?d'" using w d'(1) by (auto simp: sound_def one_owner_def list_all_iff)
  moreover have "assignees_are_members ?d'"
    using w d'(2,3) by (auto simp: sound_def assignees_are_members_def list_all_iff is_member_def member_row_def find_append split: option.splits)
  ultimately show "sound_at w'" using w w' by (simp add: sound_def)
qed (rule app_teams.team_writes_ok)

lemma insert_member_open: "insert_member t u r s = (Inr x, s') \<Longrightarrow> open_tx s' = open_tx s"
  by (auto simp: insert_member_def Let_def split: if_split_asm)

lemma Invite_sound: "preserves sound_at (InviteByEmail (app_team url ttl) inviter team email role)"
proof (rule preserves_by_cases)
  fix w e w' assume run: "InviteByEmail (app_team url ttl) inviter team email role w = (Inl e, w')" and "sound_at w"
  then show "data (srv w') = data (srv w) \<and> open_tx (srv w') = None"
    using app_teams.InviteByEmail_cases [OF run] by (simp add: sound_def)
next
  fix w x w' assume run: "InviteByEmail (app_team url ttl) inviter team email role w = (Inr x, w')" and w: "sound_at w" "server_ok (srv w')"
  from app_teams.InviteByEmail_cases [OF run] obtain ir u where inv: "canInvite ir role"
    and m: "insert_member team u role (srv w) = (Inr (), srv w')" by auto
  have role: "role \<noteq> RoleOwner" using canInvite_roles [OF inv] by auto
  let ?d = "data (srv w)" and ?d' = "data (srv w')"
  note d' = insert_member_Inr [OF m]
  have "open_tx (srv w') = open_tx (srv w)" by (rule insert_member_open [OF m])
  moreover have "owners i ?d' = owners i ?d" for i using role by (simp add: d' owners_def)
  moreover have "assignees_are_members ?d'"
    using w by (auto simp: d' sound_def assignees_are_members_def list_all_iff is_member_def member_row_def find_append split: option.splits)
  ultimately show "sound_at w'" using w by (simp add: sound_def one_owner_def d')
qed (rule app_teams.team_writes_ok)

section \<open>Authentication\<close>

lemma session_rows:
  "insert_user em un h s = (Inr i, s') \<Longrightarrow> same_rows s s'" "insert_session x s = (Inr i, s') \<Longrightarrow> same_rows s s'"
  "revoke_session tok t s = (Inr y, s') \<Longrightarrow> same_rows s s'"
  by (auto simp: same_rows_def insert_user_def insert_session_def revoke_session_def map_sessions_def Let_def on_data_def split: if_split_asm option.splits)

lemma Login_sound: "preserves sound_at (Login (app_auth G cfg) lg pw ip ua)"
proof (rule single_write_sound)
  show "keeps (\<lambda>w. server_ok (srv w)) (Login (app_auth G cfg) lg pw ip ua)" by (rule keepsI) (rule app_auth.writes_ok)
  show "same_rows (srv w) (srv w')" if "Login (app_auth G cfg) lg pw ip ua w = (Inr a, w')" for w a w'
    using app_auth.Login_Inr [OF that] session_rows(2) by blast
qed (rule app_auth.Login_Inl)

lemma create_user_sound: "preserves sound_at (UserStore_Create NewUserRepository em un h)"
  by (rule single_write_sound [OF executes_keeps [OF mysql_users.user_create keeps_insert_user]
        executes_clean [OF mysql_users.user_create fails_clean_stmts(2)] session_rows(1) [OF executes_Inr [OF mysql_users.user_create]]])

lemma Register_sound:
  fixes G cfg
  shows "preserves sound_at (Register (app_auth G cfg) em un pw)"
proof -
  have libs: "preserves sound_at (lift x)" "preserves sound_at (bcrypt_Generate (app_libs G) p c)" for x :: "'c result" and p c
    by (simp_all add: preserves_def lift_def app_libs_def NewString_def)
  show ?thesis
    unfolding Register_def app_auth_def AuthService.select_convs by (intro preserves_bindE create_user_sound libs)
qed

lemma Refresh_sound: "preserves sound_at (Refresh (app_auth G cfg) tok ip ua)"
proof (rule preserves_by_cases)
  show "keeps (\<lambda>w. server_ok (srv w)) (Refresh (app_auth G cfg) tok ip ua)" by (rule keepsI) (rule app_auth.writes_ok)
next
  fix w e w' assume run: "Refresh (app_auth G cfg) tok ip ua w = (Inl e, w')" and "sound_at w"
  then show "data (srv w') = data (srv w) \<and> open_tx (srv w') = None"
    using app_auth.Refresh_atomic [OF run] by (simp add: sound_def)
next
  fix w a w' assume run: "Refresh (app_auth G cfg) tok ip ua w = (Inr a, w')" and w: "sound_at w" "server_ok (srv w')"
  from app_auth.Refresh_Inr [OF run] obtain h t y s1 s2 i where
    "revoke_session h t ((srv w)\<lparr>open_tx := Some (data (srv w))\<rparr>) = (Inr (), s1)" "insert_session y s1 = (Inr i, s2)"
    "srv w' = s2\<lparr>open_tx := None\<rparr>" by blast
  with session_rows(2,3) have "same_rows ((srv w)\<lparr>open_tx := Some (data (srv w))\<rparr>) s1" "same_rows s1 s2" by blast+
  then show "sound_at w'"
    using \<open>srv w' = s2\<lparr>open_tx := None\<rparr>\<close> by (intro sound_other [OF w]) (auto simp: same_rows_def)
qed

section \<open>The program\<close>

lemma sound_clock: "sound s \<Longrightarrow> s' = s\<lparr>clock := t\<rparr> \<Longrightarrow> sound s'"
  by (simp add: sound_def server_ok_def)

interpretation sound: program_invariant "sound_at :: 'x app_world_scheme \<Rightarrow> bool"
proof unfold_locales
  show "services_keep (sound_at :: 'x app_world_scheme \<Rightarrow> bool)"
    by (rule services_keepI [of sound, OF CreateTask_sound UpdateTask_sound DeleteTask_sound comments_sound CreateTeam_sound Invite_sound])
qed (rule Register_sound Login_sound Refresh_sound sound_clock; assumption)+

text \<open>C1. The invariant of the program: after any sequence of requests, whatever their contents and whatever fails on the way to MySQL and
  Redis, every constraint of the schema holds, no transaction is left open, every team has exactly one owner, and every
  assignee is a member of the team of the task, so that the integrity report which the service offers to administrators is empty.\<close>

theorem requests_keep_sound:
  assumes "served l cfg w0 w" and "static_aside (al_chi l)" and "sound (srv w0)"
  shows "sound (srv w) \<and> integrityIssuesSQL (data (srv w)) = [] \<and>
    (\<forall>t \<in> set (teams (data (srv w))). \<exists>u. owners (Team_ID t) (data (srv w)) = [u])"
proof -
  note ok = sound.served_keep [OF assms]
  then have "integrityIssuesSQL (data (srv w)) = []"
    by (auto simp: sound_def assignees_are_members_def list_all_iff integrityIssuesSQL_def split: option.splits)
  moreover have "\<exists>u. owners (Team_ID t) (data (srv w)) = [u]" if "t \<in> set (teams (data (srv w)))" for t
    using ok that by (auto simp: sound_def one_owner_def list_all_iff length_Suc_conv)
  ultimately show ?thesis using ok by blast
qed

lemma sample_sound: "sound sample_server"
  using sample_ok by (simp add: sound_def) (simp add: sample_tables_def one_owner_def owners_def assignees_are_members_def is_member_def member_row_def)

lemma sample_app_sound: "sound (srv sample_app)"
  using sample_sound by (simp add: sample_app_def world.defs)

lemma sample_static: "static_aside (al_chi sample_libs)"
  by (simp add: sample_libs_def sample_chi_def static_aside_def reply_def)

theorem requests_keep_sound_witness:
  "sound (srv (snd (serve (request ''DELETE'' ''/api/v1/tasks/1'' [(''Authorization'', ''Bearer A0'')] []) sample_app)))"
  using requests_keep_sound [OF served.request [OF served.start] sample_static sample_app_sound] by blast

end
