(* ===== verification/LoginRoutes.thy ===== *)
theory LoginRoutes
  imports Soundness
begin

text \<open>
  The login route as the application builds it, where the limiter, the lockout and the auth service meet on one Redis database.
\<close>

definition app_lockout_of :: "'x app_world_scheme appLibs \<Rightarrow> Config \<Rightarrow> 'x app_world_scheme Lockout" where
  "app_lockout_of l cfg = NewLockout (Lockout_MaxAttempts (Auth_Lockout (cfg_Auth cfg))) (Lockout_LockTTL (Auth_Lockout (cfg_Auth cfg)))
     (Lockout_KeyMaxLen (Auth_Lockout (cfg_Auth cfg))) (al_lower l)"

definition auth_handler :: "'x app_world_scheme appLibs \<Rightarrow> Config \<Rightarrow> 'x app_world_scheme AuthHandler" where
  "auth_handler l cfg = NewAuthHandler (rd_auth (app_deps l cfg)) (rd_loginLimiter (app_deps l cfg))
     (rd_refreshLimiter (app_deps l cfg)) (rd_lockout (app_deps l cfg)) (rd_json (app_deps l cfg))"

abbreviation login_handler :: "'x app_world_scheme appLibs \<Rightarrow> Config \<Rightarrow> 'x app_world_scheme handler" where
  "login_handler l cfg \<equiv> AuthHandler_Login (auth_handler l cfg)"

lemma login_handler_routed: "((''POST'', ''/api/v1/login''), login_handler l cfg) \<in> set (public_routes (app_deps l cfg))"
  by (simp add: public_routes_def auth_handler_def Let_def)

definition login_limiter :: "Config \<Rightarrow> 'x app_world_scheme Limiter" where
  "login_limiter cfg = redis_Allow (NewRedis (Auth_LoginPerMin (cfg_Auth cfg)) (limiter_window cfg) (memory_limiter mem_login mem_login_update))"

lemma auth_handler_sel:
  "ah_json (auth_handler l cfg) = al_json l" "ah_loginLimiter (auth_handler l cfg) = login_limiter cfg"
  "ah_lockout (auth_handler l cfg) = Some (app_lockout_of l cfg)" "ah_auth (auth_handler l cfg) = app_auth (al_crypto l) cfg"
  by (simp_all add: auth_handler_def NewAuthHandler_def app_deps_def login_limiter_def app_lockout_of_def)

lemmas login_handler_eq = AuthHandler_Login_def [of "auth_handler l cfg" for l cfg, unfolded auth_handler_sel Let_def option.case]

lemma limiter_window_pos: "0 < limiter_window cfg" "second \<le> whole_ttl (limiter_window cfg)"
proof -
  show pos: "0 < limiter_window cfg" by (simp add: limiter_window_def Let_def second_def)
  show "second \<le> whole_ttl (limiter_window cfg)"
  proof (cases "limiter_window cfg < second")
    case False
    have "0 < second" by (simp add: second_def)
    with False have "1 \<le> limiter_window cfg div second" by (simp add: pos_imp_zdiv_pos_iff int_one_le_iff_zero_less)
    then have "second * 1 \<le> second * (limiter_window cfg div second)" using \<open>0 < second\<close> by (intro mult_left_mono) auto
    moreover have "quot (limiter_window cfg) second = limiter_window cfg div second" using pos \<open>0 < second\<close> by (simp add: quot_nonneg)
    ultimately show ?thesis using False by (simp add: whole_ttl_def mult.commute)
  qed (use pos in \<open>simp add: whole_ttl_def\<close>)
qed

lemma tooManyRequests_status: "resp_Status (tooManyRequests L d) = 429"
  by (simp add: tooManyRequests_def setRetryAfter_def header_Set_def response_Error_def response_JSON_def Let_def)

text \<open>The limiter writes its own key only.\<close>

lemma login_limiter_up:
  assumes "redis_up w" and "counts (redis w) key n e" and "n < int64_max" and "key \<noteq> []" and "0 < Auth_LoginPerMin (cfg_Auth cfg)"
  obtains ok retry w1 where "login_limiter cfg key w = ((ok, retry), w1)" "redis_up w1" "srv w1 = srv w" "ok \<longleftrightarrow> n < Auth_LoginPerMin (cfg_Auth cfg)"
    "redis w1 = put key (FormatInt (n + 1), if n = 0 then Some (redis_time (redis w) + whole_ttl (limiter_window cfg)) else e) (redis w)"
proof -
  obtain ok retry w1 where run: "login_limiter cfg key w = ((ok, retry), w1)" by (cases "login_limiter cfg key w") auto
  have sel: "rl_limit (NewRedis (Auth_LoginPerMin (cfg_Auth cfg)) (limiter_window cfg) (memory_limiter mem_login mem_login_update)) = Auth_LoginPerMin (cfg_Auth cfg)"
    "rl_window (NewRedis (Auth_LoginPerMin (cfg_Auth cfg)) (limiter_window cfg) (memory_limiter mem_login mem_login_update)) = limiter_window cfg"
    by (simp_all add: NewRedis_def)
  note allow = app_limiter.Allow_healthy [OF assms(1-4), of "Auth_LoginPerMin (cfg_Auth cfg)" "limiter_window cfg" "memory_limiter mem_login mem_login_update",
      unfolded sel, OF assms(5) limiter_window_pos(1), folded login_limiter_def, unfolded run]
  have frame: "preserves (\<lambda>w. srv w = x) (login_limiter cfg key)" for x
    unfolding login_limiter_def by (rule preserves_redis_Allow [OF steady_views(2)]) (simp add: preserves_def memory_limiter_def split_beta)
  have "srv w1 = srv w" using preserves_value [OF frame, of w] run by simp
  then show thesis using allow by (intro that [OF run]) auto
qed

lemma IsLocked_srv: "srv (snd (IsLocked (app_lockout_of l cfg) n w)) = srv w"
  unfolding app_lockout_of_def by (rule preserves_value) (rule preserves_lockout(1) [OF steady_views(2)])

text \<open>A lock that has at least half a second to live.\<close>

definition locked_now :: "keyspace \<Rightarrow> string \<Rightarrow> bool" where
  "locked_now s name \<longleftrightarrow> (\<exists>v e. live s (lockKey name) = Some (v, Some e) \<and> redis_time s + 500000000 \<le> e)"

text \<open>The limiter does not lift a lock, whatever address it counts and whatever that key holds.\<close>

lemma login_limiter_locked:
  fixes w :: "'x app_world_scheme"
  assumes "redis_up w" and "locked_now (redis w) name" and "login_limiter cfg key w = (r, w1)"
  shows "redis_up w1" "locked_now (redis w1) name" "srv w1 = srv w"
proof -
  let ?fb = "memory_limiter mem_login mem_login_update :: 'x app_world_scheme Limiter"
  let ?l = "NewRedis (Auth_LoginPerMin (cfg_Auth cfg)) (limiter_window cfg) ?fb"
  have fb: "redis (snd (rl_fallback ?l k v)) = redis v" "redis_up (snd (rl_fallback ?l k v)) = redis_up v" for k v
    by (simp_all add: NewRedis_def memory_limiter_def redis_up_def split_beta)
  have w1: "w1 = snd (redis_Allow ?l key w)" using assms(3) by (simp add: login_limiter_def)
  note keys = app_limiter.Allow_keyspace [OF assms(1) fb]
  show "redis_up w1" using keys(1) by (simp add: w1)
  have win: "rl_window ?l = limiter_window cfg" by (simp add: NewRedis_def)
  show "locked_now (redis w1) name"
    using keys(2) [of key] assms(2) limiter_window_pos(2) [of cfg] unfolding w1 win
    by (auto simp: locked_now_def second_def)
  have frame: "preserves (\<lambda>w. srv w = x) (login_limiter cfg key)" for x
    unfolding login_limiter_def by (rule preserves_redis_Allow [OF steady_views(2)]) (simp add: preserves_def memory_limiter_def split_beta)
  show "srv w1 = srv w" using preserves_value [OF frame, of w] assms(3) by simp
qed

lemma locked_login:
  assumes "redis_up w" and "locked_now (redis w) name" and "decodeLogin (al_json l) r = Some (login, password)"
    and "Normalize (app_lockout_of l cfg) (TrimSpace login) = Inr name"
    and "0 < Lockout_MaxAttempts (Auth_Lockout (cfg_Auth cfg))" and "0 < Lockout_LockTTL (Auth_Lockout (cfg_Auth cfg))"
  shows "resp_Status (fst (login_handler l cfg r w)) = 429 \<and> srv (snd (login_handler l cfg r w)) = srv w"
proof -
  obtain ok retry w1 where run: "login_limiter cfg (clientIP r) w = ((ok, retry), w1)" by (cases "login_limiter cfg (clientIP r) w") auto
  note lim = login_limiter_locked [OF assms(1,2) run]
  from lim(2) obtain v x where lock: "live (redis w1) (lockKey name) = Some (v, Some x)" "redis_time (redis w1) + 500000000 \<le> x"
    by (auto simp: locked_now_def)
  have "1 \<le> (x - redis_time (redis w1) + 500000000) div second" using lock(2) by (simp add: second_def)
  then have "0 < (x - redis_time (redis w1) + 500000000) div second * second" by (simp add: second_def)
  then obtain t where "fst (IsLocked (app_lockout_of l cfg) name w1) = Inr (True, t)"
    using app_lockout.IsLocked_up [OF lim(1), of "Lockout_MaxAttempts (Auth_Lockout (cfg_Auth cfg))" "Lockout_LockTTL (Auth_Lockout (cfg_Auth cfg))"
        "Lockout_KeyMaxLen (Auth_Lockout (cfg_Auth cfg))" "al_lower l" name] assms(5,6) lock(1)
    by (auto simp: app_lockout_of_def NewLockout_def Let_def)
  then show ?thesis
    using run lim(3) assms(3,4) IsLocked_srv [of l cfg name w1]
    by (simp add: login_handler_eq bindR_apply reply_def tooManyRequests_status split: if_split)
qed

text \<open>C25. A locked name stays out while Redis answers: as long as the lock of a name has at least half a second to live (\<open>TTL\<close> rounds to seconds), every login
  under that name is answered 429 from whatever address it comes, with the right password or a wrong one, and the database is not touched. The lockout is one of the
  configuration, with a positive number of attempts and time to live. When Redis does not answer, the lockout is bypassed; that is outside the claim.\<close>

theorem locked_login_refused:
  assumes "redis_up w" and "locked_now (redis w) name" and "decodeLogin (al_json l) r = Some (login, password)"
    and "Normalize (app_lockout_of l cfg) (TrimSpace login) = Inr name"
    and "0 < Lockout_MaxAttempts (Auth_Lockout (cfg_Auth cfg))" and "0 < Lockout_LockTTL (Auth_Lockout (cfg_Auth cfg))"
  shows "resp_Status (fst (login_handler l cfg r w)) = 429 \<and> srv (snd (login_handler l cfg r w)) = srv w"
  by (rule locked_login [OF assms])

section \<open>A forged address locks an account\<close>

text \<open>C26. The login limiter counts under the bare value of \<open>X-Forwarded-For\<close>, in the same Redis database as the locks. A request with the address
  \<open>auth:lock:name\<close> and no valid body therefore creates the key that locks \<open>name\<close>: the attacker needs neither an account nor a password, and the
  next login of the owner of the name, from an address of their own and with the right password, is answered 429.\<close>

theorem forged_address_locks:
  assumes "redis_up w" and "live (redis w) (lockKey name) = None"
    and "clientIP a = lockKey name" and "decodeLogin (al_json l) a = None"
    and "decodeLogin (al_json l) r = Some (login, password)" and "Normalize (app_lockout_of l cfg) (TrimSpace login) = Inr name"
    and "clientIP r \<noteq> lockKey name" and "clientIP r \<noteq> []" and "counts (redis w) (clientIP r) n e" and "n < int64_max"
    and "0 < Auth_LoginPerMin (cfg_Auth cfg)" and "0 < Lockout_MaxAttempts (Auth_Lockout (cfg_Auth cfg))"
    and "0 < Lockout_LockTTL (Auth_Lockout (cfg_Auth cfg))"
  shows "resp_Status (fst (login_handler l cfg a w)) = 400 \<and>
    resp_Status (fst (login_handler l cfg r (snd (login_handler l cfg a w)))) = 429"
proof -
  have zero: "counts (redis w) (clientIP a) 0 None" "(0::int) < int64_max" "clientIP a \<noteq> []"
    using assms(2,3) by (simp_all add: counts_def int64_max_def lockKey_def)
  obtain ok retry w1 where run: "login_limiter cfg (clientIP a) w = ((ok, retry), w1)" "redis_up w1"
    "ok \<longleftrightarrow> 0 < Auth_LoginPerMin (cfg_Auth cfg)"
    and ks: "redis w1 = put (lockKey name) (FormatInt 1, Some (redis_time (redis w) + whole_ttl (limiter_window cfg))) (redis w)"
    by (rule login_limiter_up [OF assms(1) zero assms(11)]) (simp add: assms(3))
  have att: "login_handler l cfg a w = (badRequest (al_json l), w1)"
    using run assms(4,11) by (simp add: login_handler_eq)
  have "locked_now (redis w1) name"
    using limiter_window_pos(2) [of cfg] by (auto simp: locked_now_def ks second_def)
  then have "resp_Status (fst (login_handler l cfg r w1)) = 429"
    using locked_login [OF run(2) _ assms(5,6,12,13)] by blast
  then show ?thesis by (simp add: att badRequest_def response_Error_def response_JSON_def)
qed

section \<open>On the sample\<close>

definition bob_login :: http_request where
  "bob_login = request ''POST'' ''/api/v1/login'' [] (json_Encode text_json (JObj [(''login'', JStr ''bob''), (''password'', JStr ''secret1234'')]))"

definition forged_login :: http_request where
  "forged_login = request ''POST'' ''/api/v1/login'' [(''X-Forwarded-For'', ''auth:lock:bob'')] ''x''"

lemma bob_login_facts:
  "decodeLogin (al_json sample_libs) bob_login = Some (''bob'', ''secret1234'')" "clientIP bob_login = ''10.0.0.1''"
  "Normalize (app_lockout_of sample_libs default_config) (TrimSpace ''bob'') = Inr ''bob''"
  "clientIP forged_login = lockKey ''bob''" "decodeLogin (al_json sample_libs) forged_login = None"
  by code_simp+

lemma login_config:
  "0 < Auth_LoginPerMin (cfg_Auth default_config)" "0 < Lockout_MaxAttempts (Auth_Lockout (cfg_Auth default_config))"
  "0 < Lockout_LockTTL (Auth_Lockout (cfg_Auth default_config))" "(0::int) < int64_max"
  by (simp_all add: default_config_def minute_def second_def int64_max_def)

lemma sample_app_redis: "redis_up sample_app" "live (redis sample_app) k = None" "counts (redis sample_app) k 0 None"
  by (simp_all add: sample_app_def world.defs sample_world_def dbw.defs redis_up_def live_def counts_def sample_def)

theorem forged_address_locks_witness:
  "resp_Status (fst (login_handler sample_libs default_config forged_login sample_app)) = 400 \<and>
   resp_Status (fst (login_handler sample_libs default_config bob_login (snd (login_handler sample_libs default_config forged_login sample_app)))) = 429"
proof -
  have addr: "clientIP bob_login \<noteq> lockKey ''bob''" "clientIP bob_login \<noteq> []" by (simp_all add: bob_login_facts(2) lockKey_def)
  show ?thesis
    by (rule forged_address_locks [OF sample_app_redis(1,2) bob_login_facts(4,5,1,3) addr sample_app_redis(3) login_config(4,1,2,3)])
qed

definition locked_app :: app_world where
  "locked_app = sample_app\<lparr>redis := put (lockKey ''bob'') (''1'', Some (10 * minute)) (redis sample_app)\<rparr>"

theorem locked_login_refused_witness:
  "resp_Status (fst (login_handler sample_libs default_config bob_login locked_app)) = 429 \<and>
   srv (snd (login_handler sample_libs default_config bob_login locked_app)) = srv locked_app"
proof -
  have up: "redis_up locked_app" using sample_app_redis(1) by (simp add: locked_app_def redis_up_def)
  have time: "redis_time (redis sample_app) = 100" by (simp add: sample_app_def world.defs sample_world_def dbw.defs)
  have lock: "locked_now (redis locked_app) ''bob''"
    by (simp add: locked_now_def locked_app_def time minute_def second_def)
  show ?thesis by (rule locked_login_refused [OF up lock bob_login_facts(1,3) login_config(2,3)])
qed

end
