(* ===== verification/TokenUse.thy ===== *)
theory TokenUse
  imports LoginRoutes
begin

text \<open>
  A refresh token is good for one pair of tokens in the whole life of the program: no request brings a revoked session back, so once \<open>/refresh\<close> has
  answered a token with a new pair, no later request with it does, whatever is served in between.
\<close>

section \<open>No request brings a session back\<close>

definition spent :: "string \<Rightarrow> server \<Rightarrow> bool" where
  "spent h s \<longleftrightarrow> sound s \<and> revoked_in h (data s)"

abbreviation spent_at :: "string \<Rightarrow> 'x dbw_scheme \<Rightarrow> bool" where
  "spent_at h w \<equiv> spent h (srv w)"

definition same_tokens :: "tables \<Rightarrow> tables \<Rightarrow> bool" where
  "same_tokens d d' \<longleftrightarrow> sessions d' = sessions d \<and> collation d' = collation d"

lemma revoked_in_same: "same_tokens d d' \<Longrightarrow> revoked_in h d' = revoked_in h d"
proof -
  assume same: "same_tokens d d'"
  then have "has_token h d' = has_token h d" by (simp add: fun_eq_iff has_token_def same_tokens_def)
  with same show ?thesis by (simp add: same_tokens_def revoked_in_def session_by_token_def)
qed

lemma spent_by_cases:
  fixes m :: "('x dbw_scheme, 'a) comp"
  assumes "preserves sound_at m" and "\<And>w e w'. m w = (Inl e, w') \<Longrightarrow> sound_at w \<Longrightarrow> data (srv w') = data (srv w)"
    and "\<And>w a w'. m w = (Inr a, w') \<Longrightarrow> sound_at w \<Longrightarrow> revoked_in h (data (srv w)) \<Longrightarrow> revoked_in h (data (srv w'))"
  shows "preserves (spent_at h) m"
proof (unfold preserves_def, intro allI impI)
  fix w :: "'x dbw_scheme" assume w: "spent_at h w"
  obtain r w' where run: "m w = (r, w')" by (cases "m w")
  have "sound_at w'" using preserves_run [OF assms(1) run] w by (simp add: spent_def)
  moreover have "revoked_in h (data (srv w'))"
    using assms(2) [of w _ w'] assms(3) [of w _ w'] run w by (cases r) (auto simp: spent_def)
  ultimately show "spent_at h (snd (m w))" using run by (simp add: spent_def)
qed

lemma stmt_tokens:
  "insert_task x s = (Inr i, s') \<Longrightarrow> same_tokens (data s) (data s')" "insert_comment t u b s = (Inr i, s') \<Longrightarrow> same_tokens (data s) (data s')"
  "update_comment c b s = (Inr x1, s') \<Longrightarrow> same_tokens (data s) (data s')" "delete_comment c s = (Inr x1, s') \<Longrightarrow> same_tokens (data s) (data s')"
  "insert_team n u s = (Inr i, s') \<Longrightarrow> same_tokens (data s) (data s')" "insert_member t u ro s = (Inr x1, s') \<Longrightarrow> same_tokens (data s) (data s')"
  "insert_user em un h s = (Inr i, s') \<Longrightarrow> same_tokens (data s) (data s')"
  by (auto simp: same_tokens_def insert_task_def insert_comment_def update_comment_def delete_comment_def insert_team_def insert_member_def
      insert_user_def Let_def on_data_def split: if_split_asm option.splits)

lemma revoked_in_stmts:
  "revoke_session k t s = (Inr u, s') \<Longrightarrow> revoked_in h (data s) \<Longrightarrow> revoked_in h (data s')"
  "insert_session y s = (Inr i, s') \<Longrightarrow> revoked_in h (data s) \<Longrightarrow> revoked_in h (data s')"
  by (auto simp: revoked_in_def session_revoke session_insert(1) split: option.splits)

lemma tasks_spent:
  "preserves (spent_at h) (CreateTask app_task_service u inp)" "preserves (spent_at h) (UpdateTask app_task_service u i raw)"
  "preserves (spent_at h) (DeleteTask app_task_service u i)"
proof -
  show "preserves (spent_at h) (CreateTask app_task_service u inp)"
  proof (rule spent_by_cases [OF CreateTask_sound])
    fix w i w' assume run: "CreateTask app_task_service u inp w = (Inr i, w')" and "revoked_in h (data (srv w))"
    then show "revoked_in h (data (srv w'))"
      using revoked_in_same [OF stmt_tokens(1)] app_tasks.CreateTask_Inr [OF run] by blast
  qed (simp add: fails_same [OF app_tasks.writes_fail(1)])
  show "preserves (spent_at h) (UpdateTask app_task_service u i raw)"
  proof (rule spent_by_cases [OF UpdateTask_sound])
    fix w t w' assume run: "UpdateTask app_task_service u i raw w = (Inr t, w')" and w: "sound_at w" "revoked_in h (data (srv w))"
    have "server_ok (srv w)" "open_tx (srv w) = None" using w by (simp_all add: sound_def)
    from app_tasks.UpdateTask_Inr [OF run this] show "revoked_in h (data (srv w'))"
      using w revoked_in_same [of "data (srv w)" "data (srv w')"] by (auto simp: same_tokens_def apply_patch_def replace_task_def)
  qed (metis app_tasks.UpdateTask_atomic sound_def)
  show "preserves (spent_at h) (DeleteTask app_task_service u i)"
  proof (rule spent_by_cases [OF DeleteTask_sound])
    fix w t w' assume "DeleteTask app_task_service u i w = (Inr t, w')" "revoked_in h (data (srv w))"
    then show "revoked_in h (data (srv w'))"
      using app_tasks.DeleteTask_Inr [of u i w t w'] revoked_in_same [of "data (srv w)" "data (srv w')"]
      by (auto simp: same_tokens_def drop_task_def)
  qed (metis app_tasks.DeleteTask_atomic sound_def)
qed

lemma comments_spent:
  "preserves (spent_at h) (CreateComment app_task_service u i b)" "preserves (spent_at h) (UpdateComment app_task_service u j b)"
  "preserves (spent_at h) (DeleteComment app_task_service u j)"
  by (rule spent_by_cases [OF comments_sound(1)] spent_by_cases [OF comments_sound(2)] spent_by_cases [OF comments_sound(3)];
      simp add: fails_same [OF app_tasks.writes_fail(2)] fails_same [OF app_tasks.writes_fail(3)] fails_same [OF app_tasks.writes_fail(4)]
        revoked_in_same [OF stmt_tokens(2) [OF app_tasks.CreateComment_Inr(2)]] revoked_in_same [OF stmt_tokens(3) [OF app_tasks.UpdateComment_Inr(2)]]
        revoked_in_same [OF stmt_tokens(4) [OF app_tasks.DeleteComment_Inr(2)]])+

lemma teams_spent:
  "preserves (spent_at h) (CreateTeam (app_team url ttl) u n)"
  "preserves (spent_at h) (InviteByEmail (app_team url ttl) inviter team email role)"
proof -
  show "preserves (spent_at h) (CreateTeam (app_team url ttl) u n)"
  proof (rule spent_by_cases [OF CreateTeam_sound])
    fix w i w' assume run: "CreateTeam (app_team url ttl) u n w = (Inr i, w')" and "revoked_in h (data (srv w))"
    then show "revoked_in h (data (srv w'))"
      using app_teams.CreateTeam_Inr [OF run] revoked_in_same [OF stmt_tokens(5)] revoked_in_same [OF stmt_tokens(6)] by fastforce
  qed (metis app_teams.CreateTeam_atomic sound_def)
  show "preserves (spent_at h) (InviteByEmail (app_team url ttl) inviter team email role)"
  proof (rule spent_by_cases [OF Invite_sound])
    fix w x w' assume run: "InviteByEmail (app_team url ttl) inviter team email role w = (Inr x, w')" and "revoked_in h (data (srv w))"
    then show "revoked_in h (data (srv w'))"
      using app_teams.InviteByEmail_cases [OF run] revoked_in_same [OF stmt_tokens(6)] by auto
  next
    fix w e w' assume run: "InviteByEmail (app_team url ttl) inviter team email role w = (Inl e, w')"
    show "data (srv w') = data (srv w)" using app_teams.InviteByEmail_cases [OF run] by simp
  qed
qed

lemma Login_spent: "preserves (spent_at h) (Login (app_auth G cfg) lg pw ip ua)"
proof (rule spent_by_cases [OF Login_sound])
  fix w a w' assume run: "Login (app_auth G cfg) lg pw ip ua w = (Inr a, w')" and "revoked_in h (data (srv w))"
  then show "revoked_in h (data (srv w'))" using app_auth.Login_Inr [OF run] revoked_in_stmts(2) by blast
qed (simp add: app_auth.Login_Inl)

lemma Refresh_spent: "preserves (spent_at h) (Refresh (app_auth G cfg) tok ip ua)"
proof (rule spent_by_cases [OF Refresh_sound])
  fix w a w' assume run: "Refresh (app_auth G cfg) tok ip ua w = (Inr a, w')" and w: "revoked_in h (data (srv w))"
  from app_auth.Refresh_Inr [OF run] obtain k t y s1 s2 i where
    "revoke_session k t ((srv w)\<lparr>open_tx := Some (data (srv w))\<rparr>) = (Inr (), s1)" "insert_session y s1 = (Inr i, s2)"
    "srv w' = s2\<lparr>open_tx := None\<rparr>" by blast
  with w revoked_in_stmts(2) [of y s1 i s2 h] revoked_in_stmts(1) [of k t _ "()" s1 h] show "revoked_in h (data (srv w'))" by simp
next
  fix w e w' assume run: "Refresh (app_auth G cfg) tok ip ua w = (Inl e, w')" and "sound_at w"
  then show "data (srv w') = data (srv w)" using app_auth.Refresh_atomic [OF run] by (simp add: sound_def)
qed

lemma Register_spent:
  fixes G cfg
  shows "preserves (spent_at h) (Register (app_auth G cfg) em un pw)"
proof -
  have create: "preserves (spent_at h) (UserStore_Create NewUserRepository em un p)" for p
  proof (rule spent_by_cases [OF create_user_sound])
    fix w i w' assume "UserStore_Create NewUserRepository em un p w = (Inr i, w')" "revoked_in h (data (srv w))"
    then show "revoked_in h (data (srv w'))" using revoked_in_same [OF stmt_tokens(7) [OF executes_Inr [OF mysql_users.user_create]]] by blast
  qed (simp add: executes_clean [OF mysql_users.user_create fails_clean_stmts(2)])
  have libs: "preserves (spent_at h) (lift x)" "preserves (spent_at h) (bcrypt_Generate (app_libs G) p c)" for x :: "'c result" and p c
    by (simp_all add: preserves_def lift_def app_libs_def NewString_def)
  show ?thesis
    unfolding Register_def app_auth_def AuthService.select_convs by (intro preserves_bindE create libs)
qed

interpretation spent: program_invariant "spent_at h :: 'x app_world_scheme \<Rightarrow> bool" for h
proof unfold_locales
  show "services_keep (spent_at h :: 'x app_world_scheme \<Rightarrow> bool)"
    by (rule services_keepI [of "spent h", OF tasks_spent comments_spent teams_spent])
  show "spent_at h w'" if "spent_at h w" "srv w' = (srv w)\<lparr>clock := t\<rparr>" for w w' :: "'x app_world_scheme" and t
    using that sound_clock [OF _ that(2)] by (simp add: spent_def)
qed (rule Register_spent Login_spent Refresh_spent)+

section \<open>The route\<close>

abbreviation refresh_handler :: "'x app_world_scheme appLibs \<Rightarrow> Config \<Rightarrow> 'x app_world_scheme handler" where
  "refresh_handler l cfg \<equiv> AuthHandler_Refresh (auth_handler l cfg)"

lemma refresh_handler_routed: "((''POST'', ''/api/v1/refresh''), refresh_handler l cfg) \<in> set (public_routes (app_deps l cfg))"
  by (simp add: public_routes_def auth_handler_def Let_def)

lemma refresh_limiter_srv: "srv (snd (ah_refreshLimiter (auth_handler l cfg) k w)) = srv w"
proof -
  have "preserves (\<lambda>w. srv w = x) (ah_refreshLimiter (auth_handler l cfg) k)" for x
    unfolding auth_handler_def NewAuthHandler_def app_deps_def AuthHandler.select_convs routerDeps.select_convs
    by (rule preserves_redis_Allow [OF steady_views(2)]) (simp add: preserves_def memory_limiter_def split_beta)
  then show ?thesis by (rule preserves_value)
qed

text \<open>A request to the route either calls \<open>Refresh\<close> with its token, on the same database, or is refused before.\<close>

lemma refresh_handler_cases [consumes 1]:
  assumes "decodeRefresh (al_json l) r = Some tok"
  obtains (refused) w' resp where "refresh_handler l cfg r w = (resp, w')" "srv w' = srv w" "resp_Status resp \<in> {400, 401, 429}"
      "TrimSpace tok \<noteq> [] \<Longrightarrow> resp_Status resp \<noteq> 400"
    | (called) w1 x w2 resp where "srv w1 = srv w" "Refresh (app_auth (al_crypto l) cfg) tok (clientIP r) (req_Header r ''User-Agent'') w1 = (x, w2)"
      "refresh_handler l cfg r w = (resp, w2)" "resp_Status resp = (case x of Inl _ \<Rightarrow> 401 | Inr _ \<Rightarrow> 200)" "TrimSpace tok \<noteq> []"
proof -
  let ?A = "app_auth (al_crypto l) cfg"
  note eq = AuthHandler_Refresh_def [of "auth_handler l cfg" r, unfolded auth_handler_sel Let_def assms option.case]
  note status = tooManyRequests_status badRequest_def response_Error_def response_JSON_def
  show thesis
  proof (cases "TrimSpace tok = []")
    case True
    then show thesis using refused [of "badRequest (al_json l)" w] by (simp add: eq reply_def status)
  next
    case False
    obtain y v where parse: "ParseRefreshTokenUserID ?A tok w = (y, v)" by (cases "ParseRefreshTokenUserID ?A tok w")
    have v: "srv v = srv w"
      using parse app_auth.parseToken_db [of "al_crypto l" cfg tok _ w] by (auto simp: ParseRefreshTokenUserID_def bindR_apply split: prod.splits)
    show thesis
    proof (cases y)
      case (Inl e)
      then show thesis using refused [of "response_Error (al_json l) 401 ''invalid token''" v] False parse v
        by (simp add: eq reply_def bindR_apply status)
    next
      case (Inr u)
      obtain ok retry w1 where lim: "ah_refreshLimiter (auth_handler l cfg) (FormatInt u) v = ((ok, retry), w1)"
        by (cases "ah_refreshLimiter (auth_handler l cfg) (FormatInt u) v") auto
      have w1: "srv w1 = srv w" using refresh_limiter_srv [of l cfg "FormatInt u" v] lim v by simp
      obtain x w2 where run: "Refresh ?A tok (clientIP r) (req_Header r ''User-Agent'') w1 = (x, w2)"
        by (cases "Refresh ?A tok (clientIP r) (req_Header r ''User-Agent'') w1")
      show thesis
      proof (cases ok)
        case True
        then show thesis using called [OF w1 run] False parse Inr lim run
          by (cases x) (simp_all add: eq reply_def bindR_apply status)
      next
        case no: False
        then show thesis using refused [of "tooManyRequests (al_json l) retry" w1] False parse Inr lim w1
          by (simp add: eq bindR_apply status)
      qed
    qed
  qed
qed

text \<open>C8. A refresh token buys one pair of tokens, ever: after \<open>POST /api/v1/refresh\<close> was answered 200 with a token, and whatever requests, failures
  and delays follow, no request with the same token is answered with a pair again; it is answered 401, or 429 by the limiter, and the tables
  stay as they are.\<close>

theorem refresh_token_single_use:
  fixes w :: "'x app_world_scheme"
  assumes "sound (srv w)" and "static_aside (al_chi l)"
    and "decodeRefresh (al_json l) r = Some tok" and "resp_Status (fst (refresh_handler l cfg r w)) = 200"
    and "served l cfg (snd (refresh_handler l cfg r w)) w'" and "decodeRefresh (al_json l) r' = Some tok"
  shows "resp_Status (fst (refresh_handler l cfg r' w')) \<in> {401, 429} \<and> data (srv (snd (refresh_handler l cfg r' w'))) = data (srv w')"
proof -
  let ?h = "crypto_sha256 (al_crypto l) tok"
  obtain w1 pair w2 where first: "srv w1 = srv w" "refresh_handler l cfg r w = (fst (refresh_handler l cfg r w), w2)"
      "Refresh (app_auth (al_crypto l) cfg) tok (clientIP r) (req_Header r ''User-Agent'') w1 = (Inr pair, w2)" and tok: "TrimSpace tok \<noteq> []"
    using assms(3,4) by (cases rule: refresh_handler_cases [where cfg = cfg and w = w]) (auto split: sum.splits)
  have "sound (srv w2)" using preserves_run [OF Refresh_sound first(3)] assms(1) first(1) by simp
  then have "spent_at ?h w2" using Refresh_spends [OF first(3)] by (simp add: spent_def)
  then have spent: "spent_at ?h w'" using spent.served_keep [OF assms(5,2)] first(2) by (metis snd_conv)
  show ?thesis using assms(6)
  proof (cases rule: refresh_handler_cases [where cfg = cfg and w = w'])
    case (refused v resp)
    then show ?thesis using tok by auto
  next
    case (called v1 x v2 resp)
    have "x \<noteq> Inr p" for p
      using never_again [of "al_crypto l" tok v1 cfg "clientIP r'" "req_Header r' ''User-Agent''" p] spent called(1,2) by (simp add: spent_def)
    then obtain e where e: "x = Inl e" by (cases x) auto
    have "open_tx (srv v1) = None" using spent called(1) by (simp add: spent_def sound_def)
    then have "data (srv v2) = data (srv w')" using app_auth.Refresh_atomic [of _ cfg] called(1,2) unfolding e by metis
    then show ?thesis using called(3,4) e by simp
  qed
qed

section \<open>On the sample\<close>

definition ann_login :: http_request where
  "ann_login = request ''POST'' ''/api/v1/login'' [] (json_Encode text_json (JObj [(''login'', JStr ''ann''), (''password'', JStr ''h1'')]))"

definition ann_refresh :: http_request where
  "ann_refresh = request ''POST'' ''/api/v1/refresh'' [] (json_Encode text_json (JObj [(''refresh_token'', JStr ''R1'')]))"

definition ann_in :: app_world where
  "ann_in = snd (login_handler sample_libs default_config ann_login sample_app)"

lemma ann_refresh_token: "decodeRefresh (al_json sample_libs) ann_refresh = Some ''R1''"
  by code_simp

lemma ann_refreshed: "resp_Status (fst (refresh_handler sample_libs default_config ann_refresh ann_in)) = 200"
  unfolding ann_in_def by code_simp

lemma ann_in_sound: "sound (srv ann_in)"
proof -
  have "static_aside (al_chi sample_libs)" by (rule sample_static)
  from sound.public_keep [OF this login_handler_routed] show ?thesis
    using sample_app_sound by (auto simp: ann_in_def preserves_def)
qed

theorem refresh_token_single_use_witness:
  "resp_Status (fst (refresh_handler sample_libs default_config ann_refresh ann_in)) = 200 \<and>
   resp_Status (fst (refresh_handler sample_libs default_config ann_refresh
     (pass minute (snd (refresh_handler sample_libs default_config ann_refresh ann_in))))) \<in> {401, 429}"
proof -
  have "served sample_libs default_config (snd (refresh_handler sample_libs default_config ann_refresh ann_in))
      (pass minute (snd (refresh_handler sample_libs default_config ann_refresh ann_in)))"
    by (rule served.elapse [OF served.start]) (simp add: pass_def)
  from refresh_token_single_use [OF ann_in_sound sample_static ann_refresh_token ann_refreshed this ann_refresh_token] ann_refreshed
  show ?thesis by blast
qed

end
