(* ===== verification/ListRace.thy ===== *)
theory ListRace
  imports LoginRoutes
begin

text \<open>
  The list of a team's tasks read while a task is deleted. \<open>List\<close> reads the page from the database and then stores it in the cache, and \<open>SetList\<close> looks up
  the version of the team only then: a page that was read before a deletion and is stored after its invalidation gets the new version.
\<close>

definition task_handler :: "'x app_world_scheme appLibs \<Rightarrow> Config \<Rightarrow> 'x app_world_scheme TaskHandler" where
  "task_handler l cfg = NewTaskHandler (rd_tasks (app_deps l cfg)) (rd_teams (app_deps l cfg)) (rd_taskCache (app_deps l cfg)) (rd_json (app_deps l cfg))"

lemma task_handler_routed:
  "((''GET'', ''/api/v1/tasks''), TaskHandler_List (task_handler l cfg)) \<in> set (group_routes (app_deps l cfg))"
  "((''DELETE'', ''/api/v1/tasks/{id}''), TaskHandler_Delete (task_handler l cfg)) \<in> set (group_routes (app_deps l cfg))"
  by (simp_all add: group_routes_def task_handler_def Let_def)

definition list_cache_of :: "'x app_world_scheme appLibs \<Rightarrow> Config \<Rightarrow> 'x app_world_scheme TaskCache" where
  "list_cache_of l cfg = app_task_cache (Cache_TaskCacheTTL (cfg_Cache cfg)) (al_sha1 l) (al_Sscan l)"

lemma task_handler_sel [simp]:
  "th_tasks (task_handler l cfg) = app_task_service" "th_json (task_handler l cfg) = al_json l"
  "th_cache (task_handler l cfg) = Some (TaskCache_iface (list_cache_of l cfg))"
  "th_teams (task_handler l cfg) = rd_teams (app_deps l cfg)"
  by (simp_all add: task_handler_def NewTaskHandler_def app_deps_def list_cache_of_def)

text \<open>The page that a request asks for.\<close>

definition page_limit :: "http_request \<Rightarrow> int" where
  "page_limit r = (let n = parseQueryInt (query_Get r ''limit'') 20 in if n > 100 then 100 else n)"

definition page_offset :: "http_request \<Rightarrow> int" where
  "page_offset r = parseQueryInt (query_Get r ''offset'') 0"

definition page_filters :: "http_request \<Rightarrow> (string \<times> string) list" where
  "page_filters r = listFilters r (page_limit r) (page_offset r)"

text \<open>Behind the cache, \<open>List\<close> is the read and the rest.\<close>

lemma list_two_steps:
  assumes "ListTasks (th_tasks h) u \<lparr>TLI_TeamID = team, TLI_Status = (let s = TrimSpace (query_Get r ''status'') in if s = [] then None else Some s),
      TLI_AssigneeID = None, TLI_Limit = limit, TLI_Offset = off\<rparr> w = (Inr res, w1)" and "TrimSpace (query_Get r ''assignee_id'') = []"
  shows "listUncached h u team limit off f r w = storeList h team limit off f res w1"
  using assms by (simp add: listUncached_def answer_def bindR_apply Let_def)

text \<open>A request whose page is cached is answered from the cache.\<close>

lemma list_hit:
  assumes "req_User r = Some v" and "ParseInt (query_Get r ''team_id'') = Some team" and "0 < team"
    and "EnsureMemberRole (rd_teams (app_deps l cfg)) team v w = (Inr ro, w1)"
    and "fst (GetList (list_cache_of l cfg) team (page_filters r) w1) = Inr (Some val)"
  shows "fst (TaskHandler_List (task_handler l cfg) r w) = writeJSONBytes 200 val"
proof -
  obtain w2 where "GetList (list_cache_of l cfg) team (page_filters r) w1 = (Inr (Some val), w2)"
    using assms(5) by (cases "GetList (list_cache_of l cfg) team (page_filters r) w1") auto
  with assms(1-4) show ?thesis
    by (simp add: TaskHandler_List_def with_user_def UserIDFromContext_def answer_def bindR_apply Let_def TaskCache_iface_def reply_def
        page_filters_def page_limit_def page_offset_def)
qed

text \<open>A deletion that is answered 200, with its invalidation.\<close>

lemma delete_run:
  assumes "TaskHandler_Delete (task_handler l cfg) r w = (resp, w')" and "resp_Status resp = 200" and "ParseInt (req_ID r) = Some i"
  obtains u team w1 where "DeleteTask app_task_service u i w = (Inr team, w1)" "w' = snd (InvalidateTeam (list_cache_of l cfg) team w1)"
proof -
  obtain u where u: "req_User r = Some u" and i: "0 < i"
    using assms by (cases "req_User r") (auto simp: TaskHandler_Delete_def with_user_def with_id_def UserIDFromContext_def reply_def unauthorized_def
        badRequest_def response_Error_def response_JSON_def Let_def split: if_splits)
  obtain x w1 where run: "DeleteTask app_task_service u i w = (x, w1)" by (cases "DeleteTask app_task_service u i w")
  have handler: "TaskHandler_Delete (task_handler l cfg) r w = (case x of Inl e \<Rightarrow> (mapServiceError (al_json l) e, w1)
      | Inr team \<Rightarrow> (response_JSON (al_json l) 200 statusOK, snd (InvalidateTeam (list_cache_of l cfg) team w1)))"
    using u i assms(3) run by (simp add: TaskHandler_Delete_def with_user_def with_id_def UserIDFromContext_def answer_def bindR_apply Let_def
        invalidate_then_def TaskCache_iface_def split: sum.split)
  have "resp_Status (mapServiceError (al_json l) e) \<noteq> 200" for e
    by (simp add: mapServiceError_def response_Error_def response_JSON_def)
  with assms(1,2) handler run that show thesis by (cases x) auto
qed

text \<open>An operation on the database leaves Redis alone.\<close>

lemma db_only:
  fixes m :: "('x app_world_scheme, 'a) comp"
  assumes "\<And>P. aside P \<Longrightarrow> preserves P m" and "m w = (r, w')"
  shows "redis w' = redis w" "redis_up w' = redis_up w"
proof -
  have "preserves (\<lambda>w. redis w = x) m" "preserves (\<lambda>w. redis_up w = b) m" for x b
    by (rule assms(1), simp add: aside_def redis_up_def)+
  from preserves_run [OF this(1) assms(2) refl] preserves_run [OF this(2) assms(2) refl] show "redis w' = redis w" "redis_up w' = redis_up w" by auto
qed

lemma member_aside: "aside P \<Longrightarrow> preserves P (EnsureMemberRole (rd_teams (app_deps l cfg)) team v)"
proof -
  assume P: "aside P"
  have sel: "rd_teams (app_deps l cfg) = app_team (Email_BaseURL (cfg_Email cfg)) (Idem_LockTTL (cfg_Idem cfg))" by (simp add: app_deps_def)
  show ?thesis unfolding EnsureMemberRole_def sel app_team_sel by (intro control_rules stores_aside P)
qed

lemma cache_frames:
  fixes w :: "'x app_world_scheme"
  shows "srv (snd (SetList (app_task_cache ttl sha1 sscan) team f val w)) = srv w" "srv (snd (InvalidateTeam (app_task_cache ttl sha1 sscan) team w)) = srv w"
    "redis_up w \<Longrightarrow> redis_up (snd (InvalidateTeam (app_task_cache ttl sha1 sscan) team w))"
proof -
  note rules = preserves_task_cache [of _ ttl sha1 sscan]
  show "srv (snd (SetList (app_task_cache ttl sha1 sscan) team f val w)) = srv w" "srv (snd (InvalidateTeam (app_task_cache ttl sha1 sscan) team w)) = srv w"
    by (rule preserves_value, rule rules [OF steady_views(2)])+
  show "redis_up w \<Longrightarrow> redis_up (snd (InvalidateTeam (app_task_cache ttl sha1 sscan) team w))"
    by (rule preservesD [OF rules(3) [OF steady_views(1)]])
qed

text \<open>C36. Invalidation loses a race: a request reads a page with a task, another one deletes the task and invalidates the pages of the team, and the first one then stores
  its page. It is stored under the new version, so for as long as it lives every member who asks for that page is shown the task
  that is gone.\<close>

theorem stale_page_served:
  fixes w :: "'x app_world_scheme"
  assumes "ListTasks app_task_service u inp w = (Inr (items, n), w1)" and "i \<in> Task_ID ` set items"
    and "TaskHandler_Delete (task_handler l cfg) dr w1 = (resp, w2)" and "resp_Status resp = 200" and "ParseInt (req_ID dr) = Some i"
    and "redis_up w1" and "versions_ok (list_cache_of l cfg) (redis w1)"
    and "storeList (task_handler l cfg) team (page_limit r) (page_offset r) (page_filters r) (items, n) w2 = (answered, w3)"
    and "0 \<le> d" and "d < Cache_TaskCacheTTL (cfg_Cache cfg)"
    and "req_User r = Some v" and "ParseInt (query_Get r ''team_id'') = Some team" and "0 < team"
    and "fst (EnsureMemberRole (rd_teams (app_deps l cfg)) team v (pass d w3)) = Inr ro"
  shows "task_by_id i (data (srv (pass d w3))) = None \<and> fst (TaskHandler_List (task_handler l cfg) r (pass d w3)) = answered \<and>
    answered = writeJSONBytes 200 (json_Encode (al_json l) (listTasksResponse items n (page_limit r) (page_offset r)))"
proof -
  let ?c = "list_cache_of l cfg" and ?val = "json_Encode (al_json l) (listTasksResponse items n (page_limit r) (page_offset r))"
  obtain u' team' v1 where del: "DeleteTask app_task_service u' i w1 = (Inr team', v1)" and w2: "w2 = snd (InvalidateTeam ?c team' v1)"
    by (rule delete_run [OF assms(3-5)])
  have w3: "answered = writeJSONBytes 200 ?val" "w3 = snd (SetList ?c team (page_filters r) ?val w2)"
    using assms(8) by (auto simp: storeList_def Let_def TaskCache_iface_def)
  have up: "redis_up w2" "versions_ok ?c (redis w2)"
    using cache_frames(3) db_only [OF tasks_aside(5) del] assms(6,7) app_list_cache.InvalidateTeam_ok [of "Cache_TaskCacheTTL (cfg_Cache cfg)" "al_sha1 l" "al_Sscan l" v1 team']
    by (simp_all add: w2 list_cache_of_def)
  obtain w4 where role: "EnsureMemberRole (rd_teams (app_deps l cfg)) team v (pass d w3) = (Inr ro, w4)"
    using assms(14) by (cases "EnsureMemberRole (rd_teams (app_deps l cfg)) team v (pass d w3)") auto
  have "redis_up w4" "redis w4 = wait d (redis w3)"
    using db_only [OF member_aside role] app_list_cache.SetList_up [OF up(1) up(2) [unfolded list_cache_of_def]] by (simp_all add: w3 list_cache_of_def)
  then have "fst (GetList ?c team (page_filters r) w4) = Inr (Some ?val)"
    using app_list_cache.page_kept [OF up(1) up(2) [unfolded list_cache_of_def] assms(9), of w4 team "page_filters r" ?val] assms(9,10)
    by (simp add: w3 list_cache_of_def)
  from list_hit [OF assms(11-13) role this] have "fst (TaskHandler_List (task_handler l cfg) r (pass d w3)) = answered" by (simp add: w3)
  moreover have "srv w3 = srv v1" by (simp add: w3 w2 list_cache_of_def cache_frames(1,2))
  then have "data (srv (pass d w3)) = drop_task i (data (srv w1))" using app_tasks.DeleteTask_Inr [OF del] by (auto simp: pass_def)
  then have "task_by_id i (data (srv (pass d w3))) = None" by (simp add: task_by_id_def drop_task_def find_None_iff)
  ultimately show ?thesis using w3(1) by blast
qed

section \<open>On the sample\<close>

text \<open>A member lists the tasks of the team while the owner deletes one.\<close>

definition list_request :: http_request where
  "list_request = (request ''GET'' ''/api/v1/tasks'' [] [])\<lparr>req_Query := [(''team_id'', [''1''])], req_User := Some 3\<rparr>"

definition list_input :: TaskListInput where
  "list_input = \<lparr>TLI_TeamID = 1, TLI_Status = None, TLI_AssigneeID = None, TLI_Limit = 20, TLI_Offset = 0\<rparr>"

definition missed_app :: app_world where
  "missed_app = snd (GetList (list_cache_of sample_libs default_config) 1 (page_filters list_request) sample_app)"

definition after_race :: "Task list \<times> int \<Rightarrow> app_world \<Rightarrow> app_world" where
  "after_race res w1 = snd (storeList (task_handler sample_libs default_config) 1 (page_limit list_request) (page_offset list_request)
     (page_filters list_request) res (snd (TaskHandler_Delete (task_handler sample_libs default_config) (delete_request ''1'' []) w1)))"

lemma sample_list_race:
  "case ListTasks app_task_service 3 list_input missed_app of
     (Inr (items, n), w1) \<Rightarrow> List.member (map Task_ID items) 1 \<and>
       (case TaskHandler_Delete (task_handler sample_libs default_config) (delete_request ''1'' []) w1 of (resp, w2) \<Rightarrow>
          resp_Status resp = 200 \<and> faults w2 = [] \<and> team_by_id 1 (data (srv w2)) \<noteq> None \<and> role_of 1 3 (data (srv w2)) = Some ''member'')
   | _ \<Rightarrow> False"
  unfolding missed_app_def by code_simp

lemma list_request_facts:
  "req_User list_request = Some 3" "ParseInt (query_Get list_request ''team_id'') = Some 1" "ParseInt (req_ID (delete_request ''1'' [])) = Some 1"
  by code_simp+

lemma stored_faults:
  fixes w :: "'x app_world_scheme"
  shows "faults (snd (storeList (task_handler l cfg) team n off f res w)) = faults w"
    "srv (snd (storeList (task_handler l cfg) team n off f res w)) = srv w"
proof -
  have "steady (\<lambda>w :: 'x app_world_scheme. faults w = x)" for x by (simp add: steady_def)
  from preserves_value [OF preserves_task_cache(2) [OF this]]
  show "faults (snd (storeList (task_handler l cfg) team n off f res w)) = faults w"
    by (cases res) (simp add: storeList_def Let_def TaskCache_iface_def list_cache_of_def)
  show "srv (snd (storeList (task_handler l cfg) team n off f res w)) = srv w"
    by (cases res) (simp add: storeList_def Let_def TaskCache_iface_def list_cache_of_def cache_frames)
qed

lemma member_answers:
  assumes "faults w = []" and "team_by_id team (data (srv w)) \<noteq> None" and "role_of team v (data (srv w)) = Some ro"
  shows "fst (EnsureMemberRole (rd_teams (app_deps l cfg)) team v w) = Inr ro"
  using assms by (auto simp: EnsureMemberRole_def app_deps_def repo_records repo_methods run_stmt_def bindE_apply select_def returnE_def
      split: option.splits)

lemma missed_ok: "redis_up missed_app" "versions_ok (list_cache_of sample_libs default_config) (redis missed_app)"
proof -
  let ?c = "list_cache_of sample_libs default_config"
  have "cache_run ?c sample_app" by (rule cache_run.start) (simp add: sample_app_def world.defs sample_world_def dbw.defs sample_def)
  then have "cache_run ?c missed_app" unfolding missed_app_def by (rule cache_run.read)
  then show "versions_ok ?c (redis missed_app)" unfolding list_cache_of_def by (rule cache_run_ok)
  show "redis_up missed_app"
    unfolding missed_app_def list_cache_of_def by (rule preservesD [OF preserves_task_cache(1) [OF steady_views(1)] sample_app_redis(1)])
qed

theorem stale_page_served_witness:
  "\<exists>items n w1. ListTasks app_task_service 3 list_input missed_app = (Inr (items, n), w1) \<and> 1 \<in> Task_ID ` set items \<and>
     task_by_id 1 (data (srv (pass second (after_race (items, n) w1)))) = None \<and>
     fst (TaskHandler_List (task_handler sample_libs default_config) list_request (pass second (after_race (items, n) w1))) =
       writeJSONBytes 200 (json_Encode text_json (listTasksResponse items n (page_limit list_request) (page_offset list_request)))"
proof -
  let ?h = "task_handler sample_libs default_config"
  obtain x w1 where first: "ListTasks app_task_service 3 list_input missed_app = (x, w1)" by (cases "ListTasks app_task_service 3 list_input missed_app")
  obtain items n where x: "x = Inr (items, n)" using sample_list_race [unfolded first] by (cases x) auto
  obtain resp w2 where del: "TaskHandler_Delete ?h (delete_request ''1'' []) w1 = (resp, w2)" by (cases "TaskHandler_Delete ?h (delete_request ''1'' []) w1")
  have facts: "1 \<in> Task_ID ` set items" "resp_Status resp = 200" "faults w2 = []" "team_by_id 1 (data (srv w2)) \<noteq> None"
    "role_of 1 3 (data (srv w2)) = Some ''member''"
    using sample_list_race [unfolded first x del prod.case sum.case] by auto
  obtain p w3 where st: "storeList ?h 1 (page_limit list_request) (page_offset list_request) (page_filters list_request) (items, n) w2 = (p, w3)"
    by (cases "storeList ?h 1 (page_limit list_request) (page_offset list_request) (page_filters list_request) (items, n) w2")
  have w3: "after_race (items, n) w1 = w3" by (simp add: after_race_def del st)
  have same: "faults w3 = faults w2" "srv w3 = srv w2" using stored_faults [of sample_libs default_config 1] st by (metis snd_conv)+
  have role: "fst (EnsureMemberRole (rd_teams (app_deps sample_libs default_config)) 1 3 (pass second w3)) = Inr ''member''"
    by (rule member_answers) (use facts same in \<open>simp_all add: pass_def\<close>)
  have ttl: "(0 :: int) \<le> second" "second < Cache_TaskCacheTTL (cfg_Cache default_config)" "(0 :: int) < 1"
    by (simp_all add: default_config_def second_def minute_def)
  have up: "redis_up w1" "versions_ok (list_cache_of sample_libs default_config) (redis w1)"
    using db_only [OF tasks_aside(3) first] missed_ok by simp_all
  have "al_json sample_libs = text_json" by (simp add: sample_libs_def)
  with stale_page_served [OF first [unfolded x] facts(1) del facts(2) list_request_facts(3) up st ttl(1,2) list_request_facts(1,2) ttl(3) role] w3 first x facts(1)
  show ?thesis by metis
qed

end
