(* ===== verification/TaskRoutes.thy ===== *)
theory TaskRoutes
  imports TokenUse ListRace
begin

text \<open>
  The answer to an update over HTTP, from the request to the status: the checks of the handler, the decoding of the patch, the decisions of the service and the
  mapping of its errors, as one table over the database.
\<close>

section \<open>Updating a task\<close>

definition update_status :: "int \<Rightarrow> int \<Rightarrow> (string \<times> json) list \<Rightarrow> tables \<Rightarrow> int" where
  "update_status u i raw d =
     (case task_by_id i d of None \<Rightarrow> 404 | Some t \<Rightarrow>
      case role_of (Task_TeamID t) u d of None \<Rightarrow> 403 | Some ro \<Rightarrow>
      case decode_patch d (Task_TeamID t) raw of None \<Rightarrow> 400 | Some ps \<Rightarrow>
      if ro = ''owner'' \<or> ro = ''admin'' \<or> fst ` set raw \<subseteq> {''status'', ''assignee_id''} then 200 else 403)"

lemma update_status_outcome:
  assumes "raw \<noteq> []"
  shows "(case update_outcome u i raw d of Inl e \<Rightarrow> resp_Status (mapServiceError L e) | Inr _ \<Rightarrow> 200) = update_status u i raw d"
  using assms
  by (simp add: update_outcome_def update_status_def may_change_def mapServiceError_def response_Error_def response_JSON_def
      split: option.split)

lemma update_handler_run:
  assumes "req_User r = Some u" and "ParseInt (req_ID r) = Some i" and "0 < i" and "decodePatch (al_json l) r = Some raw" and "raw \<noteq> []"
    and "UpdateTask app_task_service u i raw w = (x, w1)"
  shows "TaskHandler_Update (task_handler l cfg) r w = (case x of Inl e \<Rightarrow> (mapServiceError (al_json l) e, w1)
      | Inr team \<Rightarrow> (response_JSON (al_json l) 200 statusOK, snd (InvalidateTeam (list_cache_of l cfg) team w1)))"
  using assms by (simp add: TaskHandler_Update_def with_user_def with_id_def UserIDFromContext_def answer_def bindR_apply Let_def
      invalidate_then_def TaskCache_iface_def split: sum.split)

text \<open>C14. While no statement fails, the status of \<open>PUT /api/v1/tasks/{id}\<close> is a table over the request and the database: 400 for a body that is no object
  or names nothing, 404 without the task, 403 outside its team, 400 for a field that is unknown or does not decode, 200 for owners and admins
  and for members who name status and assignee only, 403 for other members. Unless it is 200, the tables are as before.\<close>

theorem update_request_outcome:
  fixes w :: "'x app_world_scheme"
  assumes "no_faults w" and "server_ok (srv w)" and "open_tx (srv w) = None"
    and "req_User r = Some u" and "ParseInt (req_ID r) = Some i" and "0 < i"
    and "TaskHandler_Update (task_handler l cfg) r w = (resp, w')"
  shows "resp_Status resp = (case decodePatch (al_json l) r of None \<Rightarrow> 400 | Some raw \<Rightarrow>
      if raw = [] then 400 else update_status u i raw (data (srv w))) \<and>
    (resp_Status resp = 200 \<or> data (srv w') = data (srv w))"
proof (cases "decodePatch (al_json l) r = None \<or> decodePatch (al_json l) r = Some []")
  case True
  then show ?thesis
    using assms(4-7) by (auto simp: TaskHandler_Update_def with_user_def with_id_def UserIDFromContext_def reply_def badRequest_def
        response_Error_def response_JSON_def Let_def)
next
  case False
  then obtain raw where raw: "decodePatch (al_json l) r = Some raw" "raw \<noteq> []" by auto
  obtain x w1 where run: "UpdateTask app_task_service u i raw w = (x, w1)" by (cases "UpdateTask app_task_service u i raw w")
  note handler = update_handler_run [OF assms(4-6) raw run, of cfg, unfolded assms(7)]
  have x: "x = map_sum id (\<lambda>(t, _). Task_TeamID t) (update_outcome u i raw (data (srv w)))"
    using UpdateTask_outcome [OF assms(1-3), of u i raw] run by simp
  have "resp_Status resp = update_status u i raw (data (srv w))"
    unfolding update_status_outcome [OF raw(2), where L = "al_json l", symmetric]
    using handler x by (cases "update_outcome u i raw (data (srv w))") (auto simp: response_JSON_def)
  moreover have "resp_Status resp = 200 \<or> data (srv w') = data (srv w)"
  proof (cases x)
    case (Inl e)
    then show ?thesis using handler app_tasks.UpdateTask_atomic [of u i raw w e w1] run assms(3) by simp
  qed (use handler in \<open>simp add: response_JSON_def\<close>)
  ultimately show ?thesis using raw by simp
qed

text \<open>On the sample: a member renames a task.\<close>

definition rename_request :: http_request where
  "rename_request = (request ''PUT'' ''/api/v1/tasks/1'' [] (json_Encode text_json (JObj [(''title'', JStr ''x'')])))\<lparr>req_ID := ''1'', req_User := Some 3\<rparr>"

lemma rename_facts: "req_User rename_request = Some 3" "ParseInt (req_ID rename_request) = Some 1"
  "decodePatch (al_json sample_libs) rename_request = Some [(''title'', JStr ''x'')]"
  "update_status 3 1 [(''title'', JStr ''x'')] sample_tables = 403"
  by code_simp+

theorem update_request_outcome_witness:
  "resp_Status (fst (TaskHandler_Update (task_handler sample_libs default_config) rename_request sample_app)) = 403 \<and>
   data (srv (snd (TaskHandler_Update (task_handler sample_libs default_config) rename_request sample_app))) = data (srv sample_app)"
proof -
  have ok: "no_faults sample_app" "server_ok (srv sample_app)" "open_tx (srv sample_app) = None" "data (srv sample_app) = sample_tables"
    using sample_app_sound by (simp_all add: sound_def) (simp_all add: sample_app_def world.defs sample_world_def dbw.defs no_faults_def sample_def)
  show ?thesis
    using update_request_outcome [OF ok(1-3) rename_facts(1,2) zero_less_one surjective_pairing, of sample_libs default_config] rename_facts(3,4) ok(4) by auto
qed

end
