(* ===== verification/TaskRefinement.thy ===== *)
theory TaskRefinement
  imports TaskCalls
begin

text \<open>
  The task service over MySQL against the specification of theory \<open>TaskOutcome\<close>: the same answers and the same tables, for every history
  of calls.
\<close>

fun spec_do :: "((string \<times> patchval) list \<Rightarrow> (string \<times> patchval) list) \<Rightarrow> task_call \<Rightarrow> task_reply stmt" where
  "spec_do ord (DoCreate u inp) s = map_prod (map_sum id AnId) id (spec_create u inp s)"
| "spec_do ord (DoGet u i) s = map_prod (map_sum id ATask) id (spec_get u i s)"
| "spec_do ord (DoList u q) s = map_prod (map_sum id (\<lambda>(ts, n). SomeTasks ts n)) id (spec_list u q s)"
| "spec_do ord (DoUpdate u i raw) s = map_prod (map_sum id AnId) id (spec_update ord u i raw s)"
| "spec_do ord (DoDelete u i) s = map_prod (map_sum id AnId) id (spec_delete u i s)"
| "spec_do ord (DoComment u i b) s = map_prod (map_sum id AnId) id (spec_comment u i b s)"
| "spec_do ord (DoComments u i) s = map_prod (map_sum id SomeComments) id (spec_comments u i s)"
| "spec_do ord (DoEditComment u c b) s = map_prod (map_sum id (\<lambda>_. Done)) id (spec_edit_comment u c b s)"
| "spec_do ord (DoDropComment u c) s = map_prod (map_sum id (\<lambda>_. Done)) id (spec_drop_comment u c s)"
| "spec_do ord (DoHistory u i n off) s = map_prod (map_sum id (\<lambda>(hs, m). SomeHistory hs m)) id (spec_history u i n off s)"

fun spec_trace ::
    "((string \<times> patchval) list \<Rightarrow> (string \<times> patchval) list) \<Rightarrow> task_call list \<Rightarrow> server \<Rightarrow> task_reply result list \<times> server" where
  "spec_trace ord [] s = ([], s)"
| "spec_trace ord (c # cs) s = (case spec_do ord c s of (r, s1) \<Rightarrow> case spec_trace ord cs s1 of (rs, s2) \<Rightarrow> (r # rs, s2))"

lemma bindE_return: "bindE m (\<lambda>a. returnE (f a)) s = map_prod (map_sum id f) id (m s)"
  by (cases "m s") (auto simp: bindE_apply returnE_apply split: sum.split)

lemma bindE_return_pair: "bindE m (\<lambda>(a, b). returnE (f a b)) s = map_prod (map_sum id (\<lambda>(a, b). f a b)) id (m s)"
  using bindE_return [of m "\<lambda>(a, b). f a b" s] by (simp add: case_prod_unfold)

text \<open>One call of the service over the bare statements.\<close>

lemma task_do_bare:
  assumes "server_ok s" and "open_tx s = None" and "\<And>ps. mset (ord ps) = mset ps"
  shows "task_do (bare_task_service ord) c s = spec_do ord c s"
  using assms
  by (cases c) (simp_all add: bindE_return bindE_return_pair CreateTask_bare UpdateTask_bare DeleteTask_bare reads_bare comments_bare)

lemma spec_do_idle: "open_tx s = None \<Longrightarrow> open_tx (snd (spec_do ord c s)) = None"
  by (cases c) (auto simp: spec_create_def spec_get_def spec_list_def spec_update_def spec_delete_def spec_comment_def spec_comments_def
      spec_edit_comment_def spec_drop_comment_def spec_history_def split: option.splits sum.splits)

text \<open>One call of the service over MySQL, and what it leaves for the next.\<close>

lemma task_do_refines:
  fixes w :: "'x dbw_scheme"
  assumes "no_faults w" and "server_ok (srv w)" and "open_tx (srv w) = None" and ord: "\<And>ps. mset (ord ps) = mset ps"
    and run: "task_do (app_task_service\<lparr>tasksvc_range := ord\<rparr>) c w = (r, w1)"
  shows "spec_do ord c (srv w) = (r, srv w1)" "no_faults w1" "server_ok (srv w1)" "open_tx (srv w1) = None"
proof -
  let ?s = "app_task_service\<lparr>tasksvc_range := ord\<rparr> :: 'x dbw_scheme TaskService"
  note tx = app_tasks_ordered [OF ord]
  have ref: "refines srv no_faults (task_do ?s c) (task_do (bare_task_service ord) c)"
    using task_service_tx.refines_ops [OF tx] by (cases c) (auto intro!: refines_intros)
  show spec: "spec_do ord c (srv w) = (r, srv w1)"
    using refinesD(1) [OF ref assms(1)] run task_do_bare [OF assms(2,3) ord] by simp
  show "no_faults w1" using refinesD(2) [OF ref assms(1)] run by simp
  show "open_tx (srv w1) = None" using spec_do_idle [OF assms(3), of ord c] spec by simp
  show "server_ok (srv w1)"
  proof (cases "srv w1 = srv w")
    case False
    then have "keeps (\<lambda>w. server_ok (srv w)) (task_do ?s c)"
      using spec task_service_tx.writes_ok [OF tx]
      by (cases c) (auto simp: spec_get_def spec_list_def spec_comments_def spec_history_def intro!: keeps_intros)
    then show ?thesis using run assms(2) by (metis keeps_def snd_conv)
  qed (simp add: assms(2))
qed

text \<open>C4. The task service over MySQL refines its specification. The specification is a table of decisions per operation, with the roles, the fields that members
  may change and the rules for comments written out, and the rows that an accepted call adds, changes or drops; it shares no code with the service. While no
  connection breaks, every history of calls to the ten operations, with its repositories, transactions and error handling, gives the answers of the
  specification, in the same order, and ends with its tables and counters. The order in which an update visits the patch is open, and the same on both sides.\<close>

theorem task_service_refines:
  assumes "no_faults w" and "server_ok (srv w)" and "open_tx (srv w) = None" and "\<And>ps. mset (ord ps) = mset ps"
  shows "(fst (task_trace (app_task_service\<lparr>tasksvc_range := ord\<rparr>) cs w), srv (snd (task_trace (app_task_service\<lparr>tasksvc_range := ord\<rparr>) cs w))) =
    spec_trace ord cs (srv w)"
  using assms(1-3)
proof (induction cs arbitrary: w)
  case (Cons c cs)
  obtain r w1 where run: "task_do (app_task_service\<lparr>tasksvc_range := ord\<rparr>) c w = (r, w1)"
    by (cases "task_do (app_task_service\<lparr>tasksvc_range := ord\<rparr>) c w")
  note step = task_do_refines [OF Cons.prems assms(4) run]
  show ?case by (simp add: run step(1) split_beta Cons.IH [OF step(2-4), symmetric])
qed simp

definition sample_calls :: "task_call list" where
  "sample_calls = [DoGet 3 1, DoComment 3 1 ''x'', DoDelete 3 1, DoDelete 1 1, DoGet 3 1]"

theorem task_service_refines_witness:
  "map isl (fst (task_trace (app_task_service\<lparr>tasksvc_range := rev\<rparr>) sample_calls sample)) = [False, False, True, False, True] \<and>
   map Task_ID (tasks (data (srv (snd (task_trace (app_task_service\<lparr>tasksvc_range := rev\<rparr>) sample_calls sample))))) = []"
proof -
  have "map isl (fst (spec_trace rev sample_calls sample_server)) = [False, False, True, False, True] \<and>
    map Task_ID (tasks (data (snd (spec_trace rev sample_calls sample_server)))) = []" by code_simp
  with task_service_refines [of sample rev sample_calls, OF sample_sel(2)] sample_ok show ?thesis
    by (metis fst_conv mset_rev sample_sel snd_conv)
qed

end
