(* ===== verification/Spec2Isabelle.thy ===== *)
theory Spec2Isabelle
  imports TaskProperties AuthProperties LoginGuardRuns RateLimitRuns LockRuns TeamApp StatsApp GoTime TaskCacheRuns
    AppLifecycle Migrator IdempotencyRace Recorders TaskRoutes TaskRefinement
begin

text \<open>
  A verification library for the MKK-Luna backend, a task manager for teams written in Go over MySQL and Redis.

  \<^bold>\<open>The program.\<close> \<open>cmd/api\<close> starts an \<open>Application\<close> (\<open>internal/application\<close>): it loads the configuration, opens MySQL and Redis, builds the
  repositories, the services, the caches, the limiters and the lock, and serves a chi router (\<open>internal/api\<close>). A request passes the middleware (metrics,
  access log, access token, idempotency key, limit per user), a handler decodes it and calls a service (\<open>internal/service\<close>), the service checks roles and
  calls the repositories (\<open>internal/repository\<close>), which send SQL statements, in a transaction where the code opens one. Redis holds the pages of the task
  cache, the statistics cache, the stored answers of the idempotency keys, the locks, the counters of the limiters and of the login lockout, and the
  blacklist of tokens; most of these degrade to a bypass when Redis does not answer. \<open>cmd/migrator\<close> brings the schema into the database.

  \<^bold>\<open>Ground.\<close> \<open>Prelude\<close>: computations \<open>('w, 'a) comp\<close> that thread a state and end in a value or an error (a Go function with result \<open>(T, error)\<close>), with
  the rules that carry the proofs. \<open>GoStd\<close>, \<open>GoTime\<close>, \<open>Http\<close>: what the code uses of \<open>strings\<close>, \<open>strconv\<close>, \<open>time\<close>, \<open>net/http\<close> and the JSON values it
  builds; \<open>int64\<close> is an \<open>int\<close> with its bounds written out where the code parses or counts. \<open>Schema\<close> and \<open>Constraints\<close>: the tables, the statements and
  the constraints of \<open>migrations/\<close>, and that every statement keeps them. \<open>Redis\<close>: the keyspace, its times to live and its commands. \<open>World\<close>: the one state of
  server, Redis, random source, counters and clock; a schedule of faults decides which statement or command is lost.

  \<^bold>\<open>Components.\<close> Each has a theory with the definitions of one Go file or package, named as there.
  \<^item> \<open>Interfaces\<close>, \<open>Repositories\<close>, \<open>Analytics\<close>: the interfaces of package \<open>service\<close> to the database and \<open>internal/repository\<close>.
  \<^item> \<open>TaskService\<close> (\<open>service/task.go\<close>), \<open>TeamService\<close> (\<open>team.go\<close>), \<open>AuthService\<close> (\<open>auth.go\<close>), \<open>Stats\<close> (\<open>stats.go\<close>, \<open>infra/cache/stats_cache.go\<close>).
  \<^item> \<open>RedisLock\<close>, \<open>RateLimit\<close>, \<open>LoginGuard\<close>, \<open>TaskCache\<close>, \<open>EmailSender\<close>, \<open>Metrics\<close>: the packages of \<open>internal/infra\<close>.
  \<^item> \<open>TaskHandlers\<close>, \<open>StatsAuthHandlers\<close>, \<open>Middleware\<close>, \<open>Idempotency\<close>, \<open>Router\<close>: \<open>internal/api\<close>, from the request to status, headers and body, with the
    response returned as a value; \<open>Recorders\<close>: the response writers of the middleware, which send that value and record it.
  \<^item> \<open>Config\<close>, \<open>Application\<close>, \<open>Lifecycle\<close>, \<open>Migrator\<close>: configuration, wiring, the goroutines of \<open>pkg/nethttp/runner\<close> and \<open>Wait\<close>, and the two commands.

  \<^bold>\<open>Interfaces.\<close> Where one component relies on another, a locale states what it relies on and its client's lemmas are proved once inside:
  the stores of the services (\<open>task_store\<close>, \<open>member_store\<close>, \<open>comment_store\<close>, \<open>history_store\<close>, \<open>user_store\<close>, \<open>session_store\<close>, \<open>tx_control\<close>), the services over
  them (\<open>task_service\<close>, \<open>task_service_tx\<close>, \<open>team_service\<close>, \<open>auth_service\<close>), the Redis client (\<open>redis_api\<close>) and what is built on it (\<open>lock_service\<close>,
  \<open>redis_limiter\<close>, \<open>login_lockout\<close>, \<open>list_cache\<close>, \<open>stats_cache\<close>, \<open>idempotency\<close>), the response writer below each recorder
  (\<open>response_writer\<close>), and what an invariant of the program needs of the services (\<open>program_invariant\<close>). All are interpreted on the model's own repositories, client and services.

  \<^bold>\<open>What is shown.\<close>
  \<^item> The whole program (\<open>Frames\<close>, \<open>AppRoutes\<close>, \<open>Invariants\<close>, \<open>Soundness\<close>, \<open>TokenUse\<close>): a predicate on the database that the operations of the services keep
    holds after every sequence of requests. After any requests and faults the schema holds, no transaction is open, every team has exactly
    one owner and every assignee is a member; a refresh token is
    answered with a new pair once, ever; protected routes need a token; the limit per user holds. \<open>Application\<close>: a successful start serves exactly these
    services.
  \<^item> Tasks (\<open>TaskPatch\<close>, \<open>TaskContracts\<close>, \<open>TaskTransactions\<close>, \<open>TaskSpec\<close>, \<open>TaskOutcome\<close>, \<open>TaskCalls\<close>, \<open>TaskProperties\<close>, \<open>TaskRefinement\<close>, \<open>TaskRoutes\<close>): updates and deletions are atomic and audited,
    outcomes follow a table of decisions up to the HTTP status, outsiders get nothing, comments are guarded. \<open>TaskOutcome\<close> holds the specification of the ten operations, tables of
    decisions and effects on the rows without any code of the service; \<open>TaskRefinement\<close> shows that every history of calls over MySQL gives its answers and its tables, by way of
    the service over bare statements (\<open>TaskSpec\<close>).
  \<^item> Teams (\<open>TeamContracts\<close>, \<open>TeamApp\<close>), accounts and tokens (\<open>AuthContracts\<close>, \<open>AuthApp\<close>, \<open>AuthProperties\<close>), statistics as counts and ranks (\<open>StatsApp\<close>).
  \<^item> Redis: mutual exclusion of the lock (\<open>LockRuns\<close>), limiters (\<open>RateLimit\<close>, \<open>RateLimitRuns\<close>), lockout and blacklist (\<open>LoginGuardRuns\<close>, \<open>LoginRoutes\<close>), versions of the task
    cache (\<open>TaskCacheRuns\<close>, \<open>ListRace\<close>), replay of stored answers (\<open>IdempotencyRuns\<close>, \<open>IdempotencyRace\<close>).
  \<^item> The process (\<open>LifecycleRuns\<close>, \<open>AppLifecycle\<close>): under every scheduler the servers and \<open>Wait\<close> come to rest within 30 moves, do not deadlock and report every error; only
    the goroutines that sweep the limiters in memory go on until the exit.
  \<^item> Some theorems state behaviour that the code does not mean to have: a forged address locks an account, a lost \<open>EXPIRE\<close> blocks a key for good, a sweep lets a call too many into
    a window, an idempotency key
    is confused between targets or run twice, the statistics cache confuses windows, a lost version keeps pages, a page that was read before a
    deletion is served after it, switches cannot be turned off.

  \<^bold>\<open>Bounds.\<close> No definition uses fuel: every loop of the code is a recursion over a list, but for the endless loop of \<open>startCleanup\<close>, whose rounds are moves of the
  process. Go does not fix the order in which a loop visits a map: a patch is a list in any order, and the order of the second loop over it is a field of the service
  (\<open>tasksvc_range\<close>), the identity except where a theorem quantifies over it. A request is one atomic step of the program; the interleavings of
  commands are explicit where they matter, in the runs of the lock, of the caches and of the goroutines, and between the two halves of the idempotency middleware and
  of the list of tasks.
  The clock moves between operations. Statements about all states of \<open>World\<close> cover every sequence of random tokens and every schedule of faults.

  \<^bold>\<open>Parameters.\<close> bcrypt, JWT, SHA-1, SHA-256, base64, the JSON codec, Unicode tables, chi's matching of paths with its static handlers, the HTTP client, the circuit
  breaker, the YAML, defaults and migration libraries, the opening of connections and the listeners. What a property needs of them is a named hypothesis, and its
  witness uses a concrete instance (\<open>Sample\<close>, \<open>SampleJson\<close>, \<open>SampleApp\<close>).

  \<^bold>\<open>Not modelled.\<close> Lost acknowledgements: a statement, a \<open>COMMIT\<close> or a Redis command that returns an error has had no effect, so what is said of errors leaves out
  the commit that the server carried out and the driver could not confirm. Handlers that are still at work when \<open>Shutdown\<close> runs out of time. The contents of log lines other than the access log; deadlines of contexts, except as faults; a request body whose reading fails; lengths of columns, except as faults;
  the recovery from panics, none of which the handlers raise; the generated API documentation (\<open>.static/swagger\<close>), which has no logic; the tests.
\<close>

end
